(* ===== verification/Prelude.thy ===== *)
theory Prelude
  imports Main "HOL-Library.Word" "HOL-Library.AList" "HOL-Library.Multiset"
    "HOL-Library.Signed_Division"
begin

section \<open>Shared types, Go maps, iteration orders and transition systems\<close>

text \<open>
  What every component of the development uses.
  \<^item> The types of Go values: an \<open>error\<close> is \<open>None\<close> for \<open>nil\<close> and \<open>Some\<close> of its text; a
    \<open>time.Duration\<close> is a 64-bit word of nanoseconds read as signed; a point in time is an
    \<open>int\<close> of nanoseconds; channels are numbered.
  \<^item> A Go map with string keys is an association list without duplicate keys
    (\<open>gwf\<close>). Its list order means nothing: where the program ranges over a map, the order is
    produced by \<open>pick_order\<close> from a list of numbers the environment chooses, and every
    permutation of the keys is one of its results (\<open>pick_order_complete\<close>).
  \<^item> The interface \<open>go_map\<close> with the laws of a map, and \<open>transition_system\<close> with the one proof
    that an invariant of a step relation holds in every reachable state; both are instantiated
    on the models of the program.
\<close>

named_theorems go_map_simps \<open>lookup and key-set equations of the map operations\<close>
named_theorems api_simps \<open>execution of one call of the state API\<close>

subsection \<open>Go values\<close>

type_synonym error = "string option"
type_synonym duration = "64 word"
type_synonym chan_id = nat

text \<open>\<open>time.Since\<close> saturates at the bounds of a duration, as the Go library documents.\<close>

definition max_duration :: int where
  "max_duration = 2 ^ 63 - 1"

definition since :: "int \<Rightarrow> int \<Rightarrow> duration" where
  "since now t = word_of_int (max (- max_duration - 1) (min max_duration (now - t)))"

text \<open>Division of durations truncates towards zero.\<close>

definition dur_div :: "duration \<Rightarrow> duration \<Rightarrow> duration" where
  "dur_div a b = word_of_int (sint a sdiv sint b)"

lemma sint_since: "sint (since now t) = max (- max_duration - 1) (min max_duration (now - t))"
  by (simp add: since_def max_duration_def signed_of_int signed_take_bit_int_eq_self)

subsection \<open>Map iteration orders\<close>

fun pick_order :: "nat list \<Rightarrow> 'a list \<Rightarrow> 'a list" where
  "pick_order ns [] = []"
| "pick_order [] (x # xs) = x # xs"
| "pick_order (n # ns) (x # xs) =
     (let i = n mod Suc (length xs)
      in (x # xs) ! i # pick_order ns (take i (x # xs) @ drop (Suc i) (x # xs)))"

lemma mset_take_nth_drop:
  "i < length xs \<Longrightarrow> mset xs = add_mset (xs ! i) (mset (take i xs @ drop (Suc i) xs))"
  by (subst id_take_nth_drop [of i xs]) simp_all

lemma mset_pick_order [simp]: "mset (pick_order ns xs) = mset xs"
proof (induction ns xs rule: pick_order.induct)
  case (3 n ns x xs)
  define i where "i = n mod Suc (length xs)"
  have "i < length (x # xs)"
    by (simp add: i_def)
  from mset_take_nth_drop [OF this] "3.IH" [OF i_def] show ?case
    by (simp add: i_def [symmetric] Let_def)
qed simp_all

lemma set_pick_order [simp]: "set (pick_order ns xs) = set xs"
  by (metis mset_pick_order set_mset_mset)

lemma length_pick_order [simp]: "length (pick_order ns xs) = length xs"
  by (metis mset_pick_order size_mset)

lemma distinct_pick_order [simp]: "distinct (pick_order ns xs) = distinct xs"
  by (metis mset_pick_order mset_eq_imp_distinct_iff)

text \<open>Every permutation is the iteration order of some choice of the environment.\<close>

lemma pick_order_complete: "mset ys = mset xs \<Longrightarrow> \<exists>ns. pick_order ns xs = ys"
proof (induction ys arbitrary: xs)
  case Nil
  then show ?case by simp
next
  case (Cons y ys)
  then have "y \<in> set xs"
    by (metis list.set_intros(1) set_mset_mset)
  then obtain i where i: "i < length xs" "xs ! i = y"
    by (meson in_set_conv_nth)
  obtain z zs where xs: "xs = z # zs"
    using i(1) by (cases xs) simp_all
  have "mset ys = mset (take i xs @ drop (Suc i) xs)"
    using Cons.prems mset_take_nth_drop [OF i(1)] i(2) by simp
  then obtain ns where "pick_order ns (take i xs @ drop (Suc i) xs) = ys"
    using Cons.IH by blast
  then have "pick_order (i # ns) xs = y # ys"
    using i xs by (simp add: Let_def)
  then show ?case ..
qed

subsection \<open>Go maps\<close>

type_synonym ('k, 'v) gomap = "('k \<times> 'v) list"

definition glook :: "('k, 'v) gomap \<Rightarrow> 'k \<Rightarrow> 'v option" where
  "glook m k = map_of m k"

definition gput :: "'k \<Rightarrow> 'v \<Rightarrow> ('k, 'v) gomap \<Rightarrow> ('k, 'v) gomap" where
  "gput k v m = AList.update k v m"

definition gdel :: "'k \<Rightarrow> ('k, 'v) gomap \<Rightarrow> ('k, 'v) gomap" where
  "gdel k m = AList.delete k m"

definition gkeys :: "('k, 'v) gomap \<Rightarrow> 'k list" where
  "gkeys m = map fst m"

definition gwf :: "('k, 'v) gomap \<Rightarrow> bool" where
  "gwf m \<longleftrightarrow> distinct (gkeys m)"

text \<open>\<open>if _, exists := m[k]; exists { m[k].field = ... }\<close>: an update of a present entry.\<close>

definition gmod :: "'k \<Rightarrow> ('v \<Rightarrow> 'v) \<Rightarrow> ('k, 'v) gomap \<Rightarrow> ('k, 'v) gomap" where
  "gmod k f m = (case glook m k of None \<Rightarrow> m | Some v \<Rightarrow> gput k (f v) m)"

text \<open>\<open>m[k]++\<close> on a map of counters: an absent key counts as 0.\<close>

definition gcount :: "('k, int) gomap \<Rightarrow> 'k \<Rightarrow> int" where
  "gcount m k = (case glook m k of None \<Rightarrow> 0 | Some n \<Rightarrow> n)"

definition ginc :: "'k \<Rightarrow> ('k, int) gomap \<Rightarrow> ('k, int) gomap" where
  "ginc k m = gput k (gcount m k + 1) m"

text \<open>The values a \<open>range\<close> loop visits, in the order the environment chooses.\<close>

definition gvalues :: "nat list \<Rightarrow> ('k, 'v) gomap \<Rightarrow> 'v list" where
  "gvalues ns m = map snd (pick_order ns m)"

definition grange :: "nat list \<Rightarrow> ('k, 'v) gomap \<Rightarrow> 'k list" where
  "grange ns m = pick_order ns (gkeys m)"

text \<open>
  The interface of a map: what its clients rely on. The client lemmas (facts about all entries
  of a map, and about its key set) are proved here once.
\<close>

locale go_map =
  fixes look :: "'m \<Rightarrow> 'k \<Rightarrow> 'v option"
    and put :: "'k \<Rightarrow> 'v \<Rightarrow> 'm \<Rightarrow> 'm"
    and del :: "'k \<Rightarrow> 'm \<Rightarrow> 'm"
    and keys :: "'m \<Rightarrow> 'k list"
    and emp :: "'m"
    and wf :: "'m \<Rightarrow> bool"
  assumes look_emp: "look emp = Map.empty"
    and look_put: "look (put k v m) = (look m)(k \<mapsto> v)"
    and look_del: "look (del k m) = (look m)(k := None)"
    and keys_dom: "set (keys m) = dom (look m)"
    and wf_emp: "wf emp"
    and wf_put: "wf m \<Longrightarrow> wf (put k v m)"
    and wf_del: "wf m \<Longrightarrow> wf (del k m)"
    and wf_distinct: "wf m \<Longrightarrow> distinct (keys m)"
begin

lemma all_put:
  "\<lbrakk>\<forall>k v. look m k = Some v \<longrightarrow> P k v; P a b\<rbrakk> \<Longrightarrow> \<forall>k v. look (put a b m) k = Some v \<longrightarrow> P k v"
  by (simp add: look_put)

lemma all_del:
  "\<forall>k v. look m k = Some v \<longrightarrow> P k v \<Longrightarrow> \<forall>k v. look (del a m) k = Some v \<longrightarrow> P k v"
  by (simp add: look_del)

lemma all_emp: "\<forall>k v. look emp k = Some v \<longrightarrow> P k v"
  by (simp add: look_emp)

lemma mem_keys: "k \<in> set (keys m) \<longleftrightarrow> look m k \<noteq> None"
  by (auto simp: keys_dom)

lemma keys_put: "set (keys (put k v m)) = insert k (set (keys m))"
  by (simp add: keys_dom look_put)

lemma keys_del: "set (keys (del k m)) = set (keys m) - {k}"
  by (auto simp: keys_dom look_del)

lemma length_keys: "wf m \<Longrightarrow> length (keys m) = card (dom (look m))"
  using distinct_card [OF wf_distinct] by (simp add: keys_dom)

lemma length_keys_put_new:
  assumes "wf m" and "look m k = None"
  shows "length (keys (put k v m)) = Suc (length (keys m))"
proof -
  have "length (keys (put k v m)) = card (insert k (set (keys m)))"
    using length_keys [OF wf_put [OF assms(1)], of k v] by (simp add: keys_dom look_put)
  also have "\<dots> = Suc (length (keys m))"
    using assms by (simp add: distinct_card [OF wf_distinct] mem_keys)
  finally show ?thesis .
qed

end

lemma gwf_gput: "gwf m \<Longrightarrow> gwf (gput k v m)"
  by (simp add: gwf_def gput_def gkeys_def AList.distinct_update)

lemma gwf_gdel: "gwf m \<Longrightarrow> gwf (gdel k m)"
  by (simp add: gwf_def gdel_def gkeys_def AList.distinct_delete)

lemma glook_map_of: "glook m = map_of m"
  by (rule ext) (simp add: glook_def)

lemma set_gkeys: "set (gkeys m) = dom (glook m)"
  by (simp add: gkeys_def glook_map_of dom_map_of_conv_image_fst)

interpretation gm: go_map glook gput gdel gkeys "[]" gwf
  by unfold_locales
    (simp_all add: set_gkeys gwf_gput gwf_gdel,
      simp_all add: glook_map_of gput_def gdel_def gwf_def gkeys_def update_conv' delete_conv')

declare gm.look_put [go_map_simps] gm.look_del [go_map_simps] gm.look_emp [go_map_simps]
declare gm.mem_keys [go_map_simps]

lemma gwf_Nil [simp]: "gwf []"
  by (rule gm.wf_emp)

lemma look_gmod [go_map_simps]: "glook (gmod k f m) = (glook m)(k := map_option f (glook m k))"
  by (auto simp: gmod_def go_map_simps split: option.splits)

lemma gwf_gmod: "gwf m \<Longrightarrow> gwf (gmod k f m)"
  by (simp add: gmod_def gwf_gput split: option.splits)

lemma gcount_ginc [go_map_simps]: "gcount (ginc k m) j = gcount m j + (if j = k then 1 else 0)"
  by (simp add: gcount_def ginc_def go_map_simps)

lemma set_grange [simp]: "set (grange ns m) = dom (glook m)"
  by (simp add: grange_def gm.keys_dom)

lemma length_grange [simp]: "length (grange ns m) = length m"
  by (simp add: grange_def gkeys_def)

lemma distinct_grange: "gwf m \<Longrightarrow> distinct (grange ns m)"
  by (simp add: grange_def gwf_def)

lemma mset_gvalues: "mset (gvalues ns m) = image_mset snd (mset m)"
  by (simp add: gvalues_def)

lemma gvalues_look: "glook m k = Some v \<Longrightarrow> v \<in> set (gvalues ns m)"
  by (force simp: gvalues_def glook_def dest: map_of_SomeD)

lemma length_gvalues [simp]: "length (gvalues ns m) = length m"
  by (simp add: gvalues_def)

lemma glook_iff: "gwf m \<Longrightarrow> glook m k = Some v \<longleftrightarrow> (k, v) \<in> set m"
  by (simp add: glook_def gwf_def gkeys_def)

lemma length_eq_card: "gwf m \<Longrightarrow> length m = card (dom (glook m))"
  using gm.length_keys [of m] by (simp add: gkeys_def)

subsection \<open>Transition systems\<close>

text \<open>
  A state machine of the program is an initial predicate and a step relation. An invariant that
  holds at the start and that every step keeps holds in every reachable state.
\<close>

locale transition_system =
  fixes start :: "'s \<Rightarrow> bool"
    and step :: "'s \<Rightarrow> 's \<Rightarrow> bool"
    and inv :: "'s \<Rightarrow> bool"
  assumes inv_start: "start s \<Longrightarrow> inv s"
    and inv_step: "step s t \<Longrightarrow> inv s \<Longrightarrow> inv t"
begin

lemma inv_steps: "step\<^sup>*\<^sup>* s t \<Longrightarrow> inv s \<Longrightarrow> inv t"
  by (induction rule: rtranclp_induct) (auto intro: inv_step)

lemma inv_reachable: "\<lbrakk>start s; step\<^sup>*\<^sup>* s t\<rbrakk> \<Longrightarrow> inv t"
  by (blast intro: inv_start inv_steps)

end

end
