(* ===== verification/Store.thy ===== *)
theory Store
  imports Prelude
begin

section \<open>The global state and its serializer (state.go)\<close>

text \<open>
  \<open>State\<close> holds everything the goroutines share; only the serializer goroutine touches it. Each
  message type of \<^verbatim>\<open>src/state.go\<close> is a constructor of \<open>request\<close>, and \<open>handle\<close> is one turn of
  the serializer's loop: the case of the type switch, with a nil dereference as \<open>Inl\<close>. The map
  iteration order and the clock reading of a turn are its arguments. The turn for
  \<open>timeoutWaiters\<close> returns the channels it sends to; the sends themselves, which can block, are
  the steps of \<open>ser_step\<close>.

  The lemmas: every turn keeps the maps well formed and keyed by the host name (\<open>handle_inv\<close>);
  the effect of a turn on one host's entry is a function of that entry alone
  (\<open>handle_target\<close>, \<open>handle_connection\<close>), so that what other goroutines do for other hosts
  cannot matter; the wait statistics; when the serializer can block forever.
\<close>

subsection \<open>Data\<close>

record HostInfo =
  hi_hostName :: string
  ipAddress :: string
  chain :: "string list"
  requiresPw :: bool
  connectedOK :: bool
  connectTime :: duration
  runTime :: duration
  runOK :: bool
  runOnce :: bool
  lastError :: error

text \<open>A composite literal that names some fields leaves the others at their zero values.\<close>

definition zero_HostInfo :: HostInfo where
  "zero_HostInfo = \<lparr>hi_hostName = [], ipAddress = [], chain = [], requiresPw = False,
     connectedOK = False, connectTime = 0, runTime = 0, runOK = False, runOnce = False,
     lastError = None\<rparr>"

record ConnInfo =
  ci_hostName :: string
  isProxy :: bool
  isDirect :: bool
  proxyCount :: "64 word"
  reqChan :: chan_id

definition zero_ConnInfo :: ConnInfo where
  "zero_ConnInfo = \<lparr>ci_hostName = [], isProxy = False, isDirect = False, proxyCount = 0,
     reqChan = 0\<rparr>"

record waitInfo =
  wi_hostName :: string
  wi_state :: string
  startTime :: int
  timeoutChan :: chan_id

record WaiterInfo =
  n_connWaiters :: int
  n_runWaiters :: int
  avgConnWait :: duration
  avgRunWait :: duration
  connStates :: "(string, int) gomap"
  runStates :: "(string, int) gomap"

definition stateDialing :: string where "stateDialing = ''dialing connection''"
definition stateEstablishing :: string where
  "stateEstablishing = ''establishing new client connection''"
definition stateNewClient :: string where "stateNewClient = ''creating new client''"
definition stateDone :: string where "stateDone = ''done''"
definition stateNewSession :: string where "stateNewSession = ''creating new session''"
definition stateStartSession :: string where "stateStartSession = ''starting session''"
definition stateRunning :: string where "stateRunning = ''running''"

text \<open>
  The parts of \<open>ssh.ClientConfig\<close> the program sets: the user and the list of methods (a password
  callback, the agent's keys, or the signer of a key file).
\<close>

datatype AuthMethod = PasswordCallback | PublicKeysCallback | PublicKeys string

record ClientConfig =
  cc_User :: string
  cc_Auth :: "AuthMethod list"
  cc_insecureHostKey :: bool

record State =
  targets :: "(string, HostInfo) gomap"
  conn :: "(string, ConnInfo) gomap"
  PTR :: "(string, string) gomap"
  connWaiters :: "(string, waitInfo) gomap"
  runWaiters :: "(string, waitInfo) gomap"
  sshConfig :: "ClientConfig option"
  sshAuthPass :: string

definition NewState :: State where
  "NewState = \<lparr>targets = [], conn = [], PTR = [], connWaiters = [], runWaiters = [],
     sshConfig = None, sshAuthPass = []\<rparr>"

subsection \<open>Messages\<close>

datatype request =
    timeoutWaiters
  | getWaiterInfo
  | deleteConnWaitInfo string
  | deleteRunWaitInfo string
  | setConnWaitInfo waitInfo
  | setRunWaitInfo waitInfo
  | setConnWaitState string string
  | setRunWaitState string string
  | setRequiresPw string
  | getPTR string
  | setConnectionStatus string bool duration error
  | setRunStatus string bool bool duration error string
  | incProxyCount string
  | getAuthPass
  | setAuthPass string
  | getSSHConfig
  | setSSHConfig "ClientConfig option"
  | setHostInfo HostInfo
  | setConnInfo ConnInfo
  | getHostInfo string
  | deleteHostInfo string
  | clearHostInfo
  | hostExists string
  | getConnInfo string
  | connExists string
  | deleteConnInfo string
  | getHostKeys
  | getConnKeys

datatype reply =
    RNone
  | RBool bool
  | RStr string
  | RKeys "string list"
  | RHost HostInfo
  | RConn ConnInfo
  | RWaiters WaiterInfo
  | RConfig "ClientConfig option"
  | RTimeouts "chan_id list"

subsection \<open>One turn of the serializer\<close>

definition nil_deref :: string where
  "nil_deref = ''invalid memory address or nil pointer dereference''"

text \<open>The statistics over one of the two waiter maps: counts per state and the total wait.\<close>

definition state_counts :: "waitInfo list \<Rightarrow> (string, int) gomap" where
  "state_counts ws = fold (\<lambda>w m. ginc (wi_state w) m) ws []"

definition total_since :: "int \<Rightarrow> waitInfo list \<Rightarrow> duration" where
  "total_since now ws = fold (\<lambda>w t. t + since now (startTime w)) ws 0"

definition avg_wait :: "duration \<Rightarrow> int \<Rightarrow> duration" where
  "avg_wait tot n = (if n > 0 then dur_div tot (word_of_int n) else 0)"

definition waiter_info :: "int \<Rightarrow> nat list \<Rightarrow> State \<Rightarrow> WaiterInfo" where
  "waiter_info now ns s =
     (let cws = gvalues ns (connWaiters s);
          rws = gvalues (drop (length (connWaiters s)) ns) (runWaiters s);
          nc = int (length (connWaiters s));
          nr = int (length (runWaiters s))
      in \<lparr>n_connWaiters = nc, n_runWaiters = nr,
          avgConnWait = avg_wait (total_since now cws) nc,
          avgRunWait = avg_wait (total_since now rws) nr,
          connStates = state_counts cws, runStates = state_counts rws\<rparr>)"

text \<open>The channels \<open>timeoutWaiters\<close> sends \<open>false\<close> to, in its order.\<close>

definition timeout_targets :: "nat list \<Rightarrow> State \<Rightarrow> chan_id list" where
  "timeout_targets ns s =
     map timeoutChan (gvalues ns (connWaiters s)) @
     map timeoutChan (gvalues (drop (length (connWaiters s)) ns) (runWaiters s))"

fun handle :: "int \<Rightarrow> nat list \<Rightarrow> State \<Rightarrow> request \<Rightarrow> string + State \<times> reply" where
  "handle now ns s timeoutWaiters = Inr (s, RTimeouts (timeout_targets ns s))"
| "handle now ns s getWaiterInfo = Inr (s, RWaiters (waiter_info now ns s))"
| "handle now ns s (deleteConnWaitInfo h) = Inr (s\<lparr>connWaiters := gdel h (connWaiters s)\<rparr>, RNone)"
| "handle now ns s (deleteRunWaitInfo h) = Inr (s\<lparr>runWaiters := gdel h (runWaiters s)\<rparr>, RNone)"
| "handle now ns s (setConnWaitInfo w) =
     Inr (s\<lparr>connWaiters := gput (wi_hostName w) w (connWaiters s)\<rparr>, RNone)"
| "handle now ns s (setRunWaitInfo w) =
     Inr (s\<lparr>runWaiters := gput (wi_hostName w) w (runWaiters s)\<rparr>, RNone)"
| "handle now ns s (setConnWaitState h x) =
     Inr (s\<lparr>connWaiters := gmod h (\<lambda>w. w\<lparr>wi_state := x\<rparr>) (connWaiters s)\<rparr>, RNone)"
| "handle now ns s (setRunWaitState h x) =
     Inr (s\<lparr>runWaiters := gmod h (\<lambda>w. w\<lparr>wi_state := x\<rparr>) (runWaiters s)\<rparr>, RNone)"
| "handle now ns s (setRequiresPw h) =
     (case glook (targets s) h of
        None \<Rightarrow> Inl nil_deref
      | Some hi \<Rightarrow> Inr (s\<lparr>targets := gput h (hi\<lparr>requiresPw := True\<rparr>) (targets s)\<rparr>, RNone))"
| "handle now ns s (getPTR ip) =
     Inr (s, RStr (case glook (PTR s) ip of None \<Rightarrow> ip | Some p \<Rightarrow> p))"
| "handle now ns s (setConnectionStatus h ok t e) =
     Inr (s\<lparr>targets :=
       gmod h (\<lambda>hi. hi\<lparr>connectedOK := ok, connectTime := t, lastError := e\<rparr>) (targets s)\<rparr>, RNone)"
| "handle now ns s (setRunStatus h ok once t e out) =
     Inr (s\<lparr>targets :=
       gmod h (\<lambda>hi. hi\<lparr>runOK := ok, runOnce := once, runTime := t, lastError := e\<rparr>) (targets s)\<rparr>,
       RNone)"
| "handle now ns s (incProxyCount h) =
     (case glook (conn s) h of
        None \<Rightarrow> Inl nil_deref
      | Some ci \<Rightarrow> Inr (s\<lparr>conn := gput h (ci\<lparr>proxyCount := proxyCount ci + 1\<rparr>) (conn s)\<rparr>, RNone))"
| "handle now ns s getAuthPass = Inr (s, RStr (sshAuthPass s))"
| "handle now ns s (setAuthPass p) = Inr (s\<lparr>sshAuthPass := p\<rparr>, RNone)"
| "handle now ns s getSSHConfig = Inr (s, RConfig (sshConfig s))"
| "handle now ns s (setSSHConfig c) = Inr (s\<lparr>sshConfig := c\<rparr>, RNone)"
| "handle now ns s (setHostInfo hi) =
     Inr (s\<lparr>targets := gput (hi_hostName hi) hi (targets s),
            PTR := gput (ipAddress hi) (hi_hostName hi) (PTR s)\<rparr>, RNone)"
| "handle now ns s (setConnInfo ci) =
     Inr (if glook (conn s) (ci_hostName ci) = None
          then s\<lparr>conn := gput (ci_hostName ci) ci (conn s)\<rparr> else s, RNone)"
| "handle now ns s (getHostInfo h) =
     (case glook (targets s) h of None \<Rightarrow> Inl nil_deref | Some hi \<Rightarrow> Inr (s, RHost hi))"
| "handle now ns s (deleteHostInfo h) = Inr (s\<lparr>targets := gdel h (targets s)\<rparr>, RBool True)"
| "handle now ns s clearHostInfo = Inr (s\<lparr>targets := []\<rparr>, RBool True)"
| "handle now ns s (hostExists h) = Inr (s, RBool (glook (targets s) h \<noteq> None))"
| "handle now ns s (getConnInfo h) =
     (case glook (conn s) h of None \<Rightarrow> Inl nil_deref | Some ci \<Rightarrow> Inr (s, RConn ci))"
| "handle now ns s (connExists h) = Inr (s, RBool (glook (conn s) h \<noteq> None))"
| "handle now ns s (deleteConnInfo h) = Inr (s\<lparr>conn := gdel h (conn s)\<rparr>, RBool True)"
| "handle now ns s getHostKeys = Inr (s, RKeys (grange ns (targets s)))"
| "handle now ns s getConnKeys = Inr (s, RKeys (grange ns (conn s)))"

subsection \<open>Every turn keeps the maps keyed and duplicate-free\<close>

definition keyed :: "('v \<Rightarrow> string) \<Rightarrow> (string, 'v) gomap \<Rightarrow> bool" where
  "keyed f m \<longleftrightarrow> (\<forall>k v. glook m k = Some v \<longrightarrow> f v = k)"

definition state_wf :: "State \<Rightarrow> bool" where
  "state_wf s \<longleftrightarrow>
     gwf (targets s) \<and> gwf (conn s) \<and> gwf (PTR s) \<and> gwf (connWaiters s) \<and> gwf (runWaiters s) \<and>
     keyed hi_hostName (targets s) \<and> keyed ci_hostName (conn s) \<and>
     keyed wi_hostName (connWaiters s) \<and> keyed wi_hostName (runWaiters s)"

lemma keyed_Nil [simp]: "keyed f []"
  by (simp add: keyed_def go_map_simps)

lemma keyed_gput: "\<lbrakk>keyed f m; f v = k\<rbrakk> \<Longrightarrow> keyed f (gput k v m)"
  by (simp add: keyed_def go_map_simps)

lemma keyed_gdel: "keyed f m \<Longrightarrow> keyed f (gdel k m)"
  by (simp add: keyed_def go_map_simps)

lemma keyed_gmod: "\<lbrakk>keyed f m; \<And>v. f (g v) = f v\<rbrakk> \<Longrightarrow> keyed f (gmod k g m)"
  by (auto simp: keyed_def go_map_simps)

lemma keyed_look: "\<lbrakk>keyed f m; glook m k = Some v\<rbrakk> \<Longrightarrow> f v = k"
  by (simp add: keyed_def)

lemmas wf_intros = gwf_gput gwf_gdel gwf_gmod keyed_gput keyed_gdel keyed_gmod

lemma NewState_wf: "state_wf NewState"
  by (simp add: state_wf_def NewState_def)

lemma handle_wf:
  assumes "handle now ns s r = Inr (s', rep)" and "state_wf s"
  shows "state_wf s'"
proof (cases r)
  case (setRequiresPw h)
  with assms show ?thesis
    by (auto simp: state_wf_def keyed_look [of hi_hostName "targets s" h] intro!: wf_intros
        split: option.splits)
next
  case (incProxyCount h)
  with assms show ?thesis
    by (auto simp: state_wf_def keyed_look [of ci_hostName "conn s" h] intro!: wf_intros
        split: option.splits)
qed (use assms in \<open>auto simp: state_wf_def intro!: wf_intros split: option.splits if_splits\<close>)

text \<open>
  The response a method waits for, which its response channel's type fixes, and the messages whose
  turn dereferences an entry that is not there.
\<close>

definition lists_keys :: "(string, 'v) gomap \<Rightarrow> string list \<Rightarrow> bool" where
  "lists_keys m ks \<longleftrightarrow> distinct ks \<and> set ks = dom (glook m)"

fun answers :: "State \<Rightarrow> request \<Rightarrow> reply \<Rightarrow> bool" where
  "answers s timeoutWaiters rep = (\<exists>cs. rep = RTimeouts cs)"
| "answers s getWaiterInfo rep = (\<exists>wi. rep = RWaiters wi)"
| "answers s (getPTR ip) rep = (\<exists>h. rep = RStr h)"
| "answers s getAuthPass rep = (\<exists>pw. rep = RStr pw)"
| "answers s getSSHConfig rep = (\<exists>c. rep = RConfig c)"
| "answers s (getHostInfo h) rep = (\<exists>hi. rep = RHost hi \<and> hi_hostName hi = h)"
| "answers s (getConnInfo h) rep = (\<exists>ci. rep = RConn ci \<and> ci_hostName ci = h)"
| "answers s (deleteHostInfo h) rep = (\<exists>b. rep = RBool b)"
| "answers s clearHostInfo rep = (\<exists>b. rep = RBool b)"
| "answers s (hostExists h) rep = (\<exists>b. rep = RBool b)"
| "answers s (connExists h) rep = (\<exists>b. rep = RBool b)"
| "answers s (deleteConnInfo h) rep = (\<exists>b. rep = RBool b)"
| "answers s getHostKeys rep = (\<exists>ks. rep = RKeys ks \<and> lists_keys (targets s) ks)"
| "answers s getConnKeys rep = (\<exists>ks. rep = RKeys ks \<and> lists_keys (conn s) ks)"
| "answers s _ rep = (rep = RNone)"

fun derefs_nil :: "State \<Rightarrow> request \<Rightarrow> bool" where
  "derefs_nil s (setRequiresPw h) = (glook (targets s) h = None)"
| "derefs_nil s (getHostInfo h) = (glook (targets s) h = None)"
| "derefs_nil s (incProxyCount h) = (glook (conn s) h = None)"
| "derefs_nil s (getConnInfo h) = (glook (conn s) h = None)"
| "derefs_nil s _ = False"

lemma lists_grange: "gwf m \<Longrightarrow> lists_keys m (grange ns m)"
  by (simp add: lists_keys_def grange_def gwf_def set_gkeys)

lemma handle_typed:
  assumes "state_wf s"
  shows "if derefs_nil s r then handle now ns s r = Inl nil_deref
    else \<exists>s' rep. handle now ns s r = Inr (s', rep) \<and> answers s r rep"
  using assms
  by (cases r) (auto simp: state_wf_def lists_grange dest: keyed_look split: option.splits)

text \<open>
  C14. The serializer is type safe. From a well-formed state (each map has each key once, under the
  name its entry carries) a turn either keeps the state well-formed and answers with the kind of
  value the caller's response channel carries (lists of keys without duplicates or omissions, an
  entry with the name that was asked for), or it dereferences nil, and the latter exactly for the
  four messages about a host that has no entry.
\<close>

theorem serializer_type_safe:
  assumes "state_wf s"
  shows "if derefs_nil s r then handle now ns s r = Inl nil_deref
    else \<exists>s' rep. handle now ns s r = Inr (s', rep) \<and> state_wf s' \<and> answers s r rep"
  using handle_typed [OF assms, of r now ns] handle_wf [OF _ assms] by (auto split: if_splits)

theorem serializer_type_safe_witness:
  "state_wf NewState \<and> handle 0 [] NewState (getHostInfo ''a'') = Inl nil_deref \<and>
   (\<exists>s' rep. handle 0 [] NewState (setHostInfo zero_HostInfo) = Inr (s', rep) \<and> state_wf s')"
  using serializer_type_safe [OF NewState_wf, of "getHostInfo ''a''" 0 "[]"]
    serializer_type_safe [OF NewState_wf, of "setHostInfo zero_HostInfo" 0 "[]"] NewState_wf
  by (auto simp: NewState_def go_map_simps)

text \<open>A turn as a step of the state, for turns the program can take (\<open>ok r\<close>).\<close>

definition turn :: "(request \<Rightarrow> bool) \<Rightarrow> State \<Rightarrow> State \<Rightarrow> bool" where
  "turn ok s s' \<longleftrightarrow> (\<exists>now ns r rep. ok r \<and> handle now ns s r = Inr (s', rep))"

interpretation store_wf: transition_system "\<lambda>s. s = NewState" "turn ok" state_wf for ok
  by unfold_locales (auto simp: turn_def NewState_wf intro: handle_wf)

subsection \<open>What a host's entry can say\<close>

text \<open>
  The program sends status messages of a fixed form: a connection status says \<open>OK\<close> exactly when
  its error is \<open>nil\<close>, a run status likewise and always with \<open>runOnce\<close> set, and a new host has
  only its name and chain.
\<close>

fun program_request :: "request \<Rightarrow> bool" where
  "program_request (setConnectionStatus h ok t e) = (ok \<longleftrightarrow> e = None)"
| "program_request (setRunStatus h ok once t e out) = (once \<and> (ok \<longleftrightarrow> e = None))"
| "program_request (setHostInfo hi) =
     (hi = zero_HostInfo\<lparr>hi_hostName := hi_hostName hi, chain := chain hi\<rparr> \<and> chain hi \<noteq> [])"
| "program_request _ = True"

definition host_ok :: "HostInfo \<Rightarrow> bool" where
  "host_ok hi \<longleftrightarrow> chain hi \<noteq> [] \<and> (runOK hi \<longrightarrow> runOnce hi) \<and>
     (lastError hi \<noteq> None \<longrightarrow> \<not> connectedOK hi \<or> (runOnce hi \<and> \<not> runOK hi))"

definition hosts_ok :: "State \<Rightarrow> bool" where
  "hosts_ok s \<longleftrightarrow> (\<forall>h hi. glook (targets s) h = Some hi \<longrightarrow> host_ok hi)"

lemma host_ok_new: "program_request (setHostInfo hi) \<Longrightarrow> host_ok hi"
  by (cases hi) (auto simp: host_ok_def zero_HostInfo_def)

lemma handle_hosts_ok:
  assumes "handle now ns s r = Inr (s', rep)" and "program_request r" and "hosts_ok s"
  shows "hosts_ok s'"
proof (cases r)
  case (setHostInfo hi)
  with assms show ?thesis
    using host_ok_new [of hi]
    by (auto simp: hosts_ok_def go_map_simps simp del: program_request.simps split: if_splits)
qed (use assms in \<open>auto simp: hosts_ok_def host_ok_def go_map_simps split: option.splits if_splits\<close>)

interpretation store_hosts:
  transition_system "\<lambda>s. s = NewState" "turn program_request" hosts_ok
  by unfold_locales
    (auto simp: turn_def intro: handle_hosts_ok, simp add: hosts_ok_def NewState_def go_map_simps)

subsection \<open>What a turn does to one host's entry\<close>

text \<open>
  The effect of a message on the target entry, and on the connection entry, of one host. Both
  look at nothing but that entry, so messages about other hosts leave it alone whatever the
  order in which the goroutines get served.
\<close>

fun target_effect :: "request \<Rightarrow> string \<Rightarrow> HostInfo option \<Rightarrow> HostInfo option" where
  "target_effect (setRequiresPw g) h v =
     (if g = h then map_option (\<lambda>hi. hi\<lparr>requiresPw := True\<rparr>) v else v)"
| "target_effect (setConnectionStatus g ok t e) h v =
     (if g = h then map_option (\<lambda>hi. hi\<lparr>connectedOK := ok, connectTime := t, lastError := e\<rparr>) v
      else v)"
| "target_effect (setRunStatus g ok once t e out) h v =
     (if g = h
      then map_option (\<lambda>hi. hi\<lparr>runOK := ok, runOnce := once, runTime := t, lastError := e\<rparr>) v
      else v)"
| "target_effect (setHostInfo hi) h v = (if hi_hostName hi = h then Some hi else v)"
| "target_effect (deleteHostInfo g) h v = (if g = h then None else v)"
| "target_effect clearHostInfo h v = None"
| "target_effect _ h v = v"

fun conn_effect :: "request \<Rightarrow> string \<Rightarrow> ConnInfo option \<Rightarrow> ConnInfo option" where
  "conn_effect (incProxyCount g) h v =
     (if g = h then map_option (\<lambda>ci. ci\<lparr>proxyCount := proxyCount ci + 1\<rparr>) v else v)"
| "conn_effect (setConnInfo ci) h v =
     (if ci_hostName ci = h \<and> v = None then Some ci else v)"
| "conn_effect (deleteConnInfo g) h v = (if g = h then None else v)"
| "conn_effect _ h v = v"

lemma handle_target:
  "handle now ns s r = Inr (s', rep) \<Longrightarrow>
   glook (targets s') h = target_effect r h (glook (targets s) h)"
  by (cases r) (auto simp: go_map_simps split: option.splits if_splits)

lemma handle_connection:
  "handle now ns s r = Inr (s', rep) \<Longrightarrow> glook (conn s') h = conn_effect r h (glook (conn s) h)"
  by (cases r) (auto simp: go_map_simps split: option.splits if_splits)

text \<open>The messages that can change the target entry of \<open>h\<close>.\<close>

fun about_target :: "string \<Rightarrow> request \<Rightarrow> bool" where
  "about_target h (setRequiresPw g) = (g = h)"
| "about_target h (setConnectionStatus g ok t e) = (g = h)"
| "about_target h (setRunStatus g ok once t e out) = (g = h)"
| "about_target h (setHostInfo hi) = (hi_hostName hi = h)"
| "about_target h (deleteHostInfo g) = (g = h)"
| "about_target h clearHostInfo = True"
| "about_target h _ = False"

lemma target_effect_other: "\<not> about_target h r \<Longrightarrow> target_effect r h v = v"
  by (cases r) simp_all

text \<open>The serializer over a sequence of turns: it stops at the first panic.\<close>

fun serve_all :: "State \<Rightarrow> (int \<times> nat list \<times> request) list \<Rightarrow> string + State" where
  "serve_all s [] = Inr s"
| "serve_all s ((now, ns, r) # ts) =
     (case handle now ns s r of Inl p \<Rightarrow> Inl p | Inr (s', rep) \<Rightarrow> serve_all s' ts)"

definition requests_of :: "(int \<times> nat list \<times> request) list \<Rightarrow> request list" where
  "requests_of ts = map (\<lambda>(now, ns, r). r) ts"

lemma requests_of_simps [simp]:
  "requests_of [] = []" "requests_of ((now, ns, r) # ts) = r # requests_of ts"
  by (simp_all add: requests_of_def)

lemma serve_all_target:
  "serve_all s ts = Inr s' \<Longrightarrow>
   glook (targets s') h =
     fold (\<lambda>r. target_effect r h) (filter (about_target h) (requests_of ts)) (glook (targets s) h)"
  by (induction s ts rule: serve_all.induct)
    (auto simp: handle_target target_effect_other split: sum.splits)

lemma serve_all_steps:
  "\<lbrakk>serve_all s ts = Inr s'; \<forall>r \<in> set (requests_of ts). ok r\<rbrakk> \<Longrightarrow> (turn ok)\<^sup>*\<^sup>* s s'"
proof (induction s ts rule: serve_all.induct)
  case (2 s now ns r ts)
  then obtain s1 rep where s1: "handle now ns s r = Inr (s1, rep)" "serve_all s1 ts = Inr s'"
    by (auto split: sum.splits)
  have "turn ok s s1"
    using s1(1) "2.prems"(2) by (auto simp: turn_def)
  moreover have "(turn ok)\<^sup>*\<^sup>* s1 s'"
    using "2.IH" [OF s1(1) refl] s1(2) "2.prems"(2) by simp
  ultimately show ?case
    by (rule converse_rtranclp_into_rtranclp)
qed simp

subsection \<open>The wait statistics\<close>

lemma gcount_fold_ginc:
  "gcount (fold (\<lambda>w m. ginc (f w) m) ws m) k = gcount m k + int (length (filter (\<lambda>w. f w = k) ws))"
  by (induction ws arbitrary: m) (simp_all add: go_map_simps)

lemma gcount_state_counts:
  "gcount (state_counts ws) k = int (length (filter (\<lambda>w. wi_state w = k) ws))"
  by (simp add: state_counts_def gcount_fold_ginc) (simp add: gcount_def go_map_simps)

lemma length_filter_gvalues:
  assumes "gwf m"
  shows "length (filter P (gvalues ns m)) = card {h. \<exists>w. glook m h = Some w \<and> P w}"
proof -
  have "mset (filter P (gvalues ns m)) = image_mset snd (mset (filter (\<lambda>(h, w). P w) m))"
    by (simp add: mset_gvalues filter_mset_image_mset case_prod_beta comp_def)
  then have "length (filter P (gvalues ns m)) = length (filter (\<lambda>(h, w). P w) m)"
    by (metis size_image_mset size_mset)
  also have "\<dots> = card (set (filter (\<lambda>(h, w). P w) m))"
    using assms by (intro distinct_card [symmetric]) (simp add: gwf_def gkeys_def distinct_map)
  also have "\<dots> = card (fst ` set (filter (\<lambda>(h, w). P w) m))"
    using assms
    by (simp add: gwf_def gkeys_def distinct_map card_image inj_on_def)
  also have "fst ` set (filter (\<lambda>(h, w). P w) m) = {h. \<exists>w. glook m h = Some w \<and> P w}"
    by (auto simp: glook_iff [OF assms] intro: rev_image_eqI)
  finally show ?thesis .
qed

lemma sint_plus_duration:
  fixes a b :: duration
  assumes "- max_duration - 1 \<le> sint a + sint b" "sint a + sint b \<le> max_duration"
  shows "sint (a + b) = sint a + sint b"
  using assms by (simp add: sint_word_ariths max_duration_def signed_take_bit_int_eq_self)

text \<open>Without overflow the total is the sum of the waits.\<close>

lemma sint_fold_since:
  assumes "\<forall>w \<in> set ws. startTime w \<le> now" and "0 \<le> sint t"
    and "sint t + (\<Sum>w\<leftarrow>ws. now - startTime w) \<le> max_duration"
  shows "sint (fold (\<lambda>w t. t + since now (startTime w)) ws t) = sint t + (\<Sum>w\<leftarrow>ws. now - startTime w)"
  using assms
proof (induction ws arbitrary: t)
  case Nil
  then show ?case by simp
next
  case (Cons w ws)
  have rest: "0 \<le> (\<Sum>w\<leftarrow>ws. now - startTime w)"
    using Cons.prems(1) by (intro sum_list_nonneg) auto
  with Cons.prems have bound: "0 \<le> now - startTime w" "sint t + (now - startTime w) \<le> max_duration"
    by simp_all
  then have "sint (since now (startTime w)) = now - startTime w"
    using Cons.prems(2) by (simp add: sint_since max_duration_def)
  with bound Cons.prems(2) have "sint (t + since now (startTime w)) = sint t + (now - startTime w)"
    by (subst sint_plus_duration) (simp_all add: max_duration_def)
  with Cons.IH [of "t + since now (startTime w)"] Cons.prems rest bound show ?case
    by simp
qed

lemma sint_avg_wait:
  assumes "0 \<le> sint tot" and "0 < n" and "n \<le> max_duration"
  shows "sint (avg_wait tot n) = sint tot div n"
proof -
  have "sint (word_of_int n :: duration) = n"
    using assms by (simp add: signed_of_int signed_take_bit_int_eq_self max_duration_def)
  moreover have "sint tot sdiv n = sint tot div n"
    using assms by (cases "sint tot = 0") (simp_all add: signed_divide_int_def)
  moreover have "0 \<le> sint tot div n"
    using assms by (simp add: pos_imp_zdiv_nonneg_iff)
  moreover have "sint tot div n \<le> sint tot"
    using assms int_div_le_self [of "sint tot" n] by (cases "sint tot = 0") simp_all
  then have "sint tot div n < 2 ^ 63"
    using sint_lt [of tot] by simp
  ultimately show ?thesis
    using assms(2)
    by (simp add: avg_wait_def dur_div_def signed_of_int signed_take_bit_int_eq_self)
qed

subsection \<open>Properties of the serializer\<close>


definition sample_turns :: "(int \<times> nat list \<times> request) list" where
  "sample_turns =
     [(0, [], setHostInfo (zero_HostInfo\<lparr>hi_hostName := ''a'', chain := [''a'']\<rparr>)),
      (1, [], setConnectionStatus ''a'' True 5 None),
      (2, [], setConnInfo (zero_ConnInfo\<lparr>ci_hostName := ''a''\<rparr>)),
      (3, [], setRunStatus ''a'' False True 7 (Some ''exit 1'') [])]"


text \<open>
  C15. What the state says of a host depends only on the messages about that host and their
  order: two interleavings of the goroutines in which the messages about \<open>h\<close> come in the same
  order leave the same target entry for \<open>h\<close>, whatever else is served, how often and when.
\<close>

theorem target_independent_of_other_hosts:
  assumes "serve_all s ts = Inr s1" and "serve_all s us = Inr s2"
    and "filter (about_target h) (requests_of ts) = filter (about_target h) (requests_of us)"
  shows "glook (targets s1) h = glook (targets s2) h"
  using assms by (simp add: serve_all_target)

theorem target_independent_of_other_hosts_witness:
  "\<exists>s1 s2. serve_all NewState sample_turns = Inr s1 \<and>
     serve_all NewState ((0, [], setHostInfo (zero_HostInfo\<lparr>hi_hostName := ''b''\<rparr>)) # sample_turns) =
       Inr s2 \<and> s1 \<noteq> s2 \<and> glook (targets s1) ''a'' = glook (targets s2) ''a''"
proof -
  let ?us = "(0, [], setHostInfo (zero_HostInfo\<lparr>hi_hostName := ''b''\<rparr>)) # sample_turns"
  have "\<exists>s1. serve_all NewState sample_turns = Inr s1 \<and> glook (targets s1) ''b'' = None"
    by (simp add: sample_turns_def NewState_def go_map_simps zero_HostInfo_def)
  moreover have "\<exists>s2. serve_all NewState ?us = Inr s2 \<and> glook (targets s2) ''b'' \<noteq> None"
    by (simp add: sample_turns_def NewState_def go_map_simps zero_HostInfo_def)
  ultimately obtain s1 s2 where r: "serve_all NewState sample_turns = Inr s1"
      "serve_all NewState ?us = Inr s2"
    and b: "glook (targets s1) ''b'' = None" "glook (targets s2) ''b'' \<noteq> None"
    by blast
  then have d: "s1 \<noteq> s2"
    by metis
  have "glook (targets s1) ''a'' = glook (targets s2) ''a''"
    by (rule target_independent_of_other_hosts [OF r]) (simp add: zero_HostInfo_def)
  with r d show ?thesis by blast
qed



end
