(* ===== verification/GoStrings.thy ===== *)
theory GoStrings
  imports Prelude
begin

section \<open>The parts of Go's strings package the program uses\<close>

text \<open>
  Strings are lists of bytes. \<open>split_on\<close> is \<open>strings.Split\<close> with a one-byte separator,
  \<open>join_with\<close> is \<open>strings.Join\<close>, \<open>fields\<close> is \<open>strings.Fields\<close> and \<open>to_lower\<close> is
  \<open>strings.ToLower\<close> (both on ASCII text), \<open>contains\<close> is \<open>strings.Contains\<close> and
  \<open>bytes.Contains\<close>, \<open>itoa\<close> the decimal form of an integer. The interface \<open>splitter\<close> states what
  the clients of splitting and joining rely on.
\<close>

fun split_on :: "char \<Rightarrow> string \<Rightarrow> string list" where
  "split_on c [] = [[]]"
| "split_on c (x # xs) =
     (if x = c then [] # split_on c xs
      else case split_on c xs of [] \<Rightarrow> [[x]] | y # ys \<Rightarrow> (x # y) # ys)"

fun join_with :: "string \<Rightarrow> string list \<Rightarrow> string" where
  "join_with sep [] = []"
| "join_with sep [x] = x"
| "join_with sep (x # y # ys) = x @ sep @ join_with sep (y # ys)"

definition is_space :: "char \<Rightarrow> bool" where
  "is_space c \<longleftrightarrow> c \<in> {CHR '' '', CHR 0x09, CHR 0x0A, CHR 0x0B, CHR 0x0C, CHR 0x0D}"

text \<open>\<open>fields_acc\<close> carries the field read so far.\<close>

fun fields_acc :: "string \<Rightarrow> string \<Rightarrow> string list" where
  "fields_acc acc [] = (if acc = [] then [] else [acc])"
| "fields_acc acc (c # cs) =
     (if is_space c then (if acc = [] then fields_acc [] cs else acc # fields_acc [] cs)
      else fields_acc (acc @ [c]) cs)"

definition fields :: "string \<Rightarrow> string list" where
  "fields s = fields_acc [] s"

definition lower_char :: "char \<Rightarrow> char" where
  "lower_char c = (if 65 \<le> (of_char c :: nat) \<and> (of_char c :: nat) \<le> 90
     then char_of ((of_char c :: nat) + 32) else c)"

definition to_lower :: "string \<Rightarrow> string" where
  "to_lower s = map lower_char s"

fun contains :: "string \<Rightarrow> string \<Rightarrow> bool" where
  "contains [] sub = (sub = [])"
| "contains (c # cs) sub = (take (length sub) (c # cs) = sub \<or> contains cs sub)"

fun digits :: "nat \<Rightarrow> string" where
  "digits n = (if n < 10 then [char_of (48 + n)] else digits (n div 10) @ [char_of (48 + n mod 10)])"

declare digits.simps [simp del]

definition itoa :: "int \<Rightarrow> string" where
  "itoa i = (if i < 0 then ''-'' @ digits (nat (- i)) else digits (nat i))"

text \<open>The verbs \<open>%x\<close> for a number, and \<open>%v\<close> for a truth value and a slice of strings.\<close>

fun hex_digits :: "nat \<Rightarrow> string" where
  "hex_digits n =
     (if n < 16 then [if n < 10 then char_of (48 + n) else char_of (87 + n)]
      else hex_digits (n div 16) @ hex_digits (n mod 16))"

declare hex_digits.simps [simp del]

definition show_bool :: "bool \<Rightarrow> string" where
  "show_bool b = (if b then ''true'' else ''false'')"

definition show_list :: "string list \<Rightarrow> string" where
  "show_list xs = ''['' @ join_with '' '' xs @ '']''"

text \<open>\<open>%v\<close> of an error, and \<open>%.2f\<close> of a number of hundredths.\<close>

definition show_error :: "string option \<Rightarrow> string" where
  "show_error err = (case err of None \<Rightarrow> ''<nil>'' | Some m \<Rightarrow> m)"

definition show_hundredths :: "int \<Rightarrow> string" where
  "show_hundredths n =
     (if n < 0 then ''-'' else []) @ digits (nat \<bar>n\<bar> div 100) @ ''.'' @
     digits (nat \<bar>n\<bar> mod 100 div 10) @ digits (nat \<bar>n\<bar> mod 10)"

text \<open>The seconds of a number of nanoseconds with two decimals, rounded.\<close>

definition show_seconds :: "int \<Rightarrow> string" where
  "show_seconds ns = show_hundredths ((ns + 5000000) div 10000000)"

subsection \<open>Splitting and joining\<close>

lemma split_on_ne [simp]: "split_on c s \<noteq> []"
  by (induction s) (auto split: list.splits)

lemma split_on_no_sep: "p \<in> set (split_on c s) \<Longrightarrow> c \<notin> set p"
  by (induction s arbitrary: p) (fastforce split: list.splits if_splits)+

lemma join_split_on: "join_with [c] (split_on c s) = s"
proof (induction s)
  case (Cons x xs)
  obtain y ys where ys: "split_on c xs = y # ys"
    by (meson split_on_ne neq_Nil_conv)
  with Cons show ?case
    by (cases ys) auto
qed simp

lemma split_on_plain: "c \<notin> set s \<Longrightarrow> split_on c s = [s]"
  by (induction s) auto

lemma split_on_append: "c \<notin> set s \<Longrightarrow> split_on c (s @ c # t) = s # split_on c t"
  by (induction s) auto

lemma split_join_with:
  "\<lbrakk>xs \<noteq> []; \<forall>x \<in> set xs. c \<notin> set x\<rbrakk> \<Longrightarrow> split_on c (join_with [c] xs) = xs"
  by (induction "[c]" xs rule: join_with.induct) (auto simp: split_on_plain split_on_append)

locale splitter =
  fixes splt :: "string \<Rightarrow> string list"
    and joi :: "string list \<Rightarrow> string"
    and good :: "string \<Rightarrow> bool"
  assumes splt_ne: "splt s \<noteq> []"
    and splt_good: "p \<in> set (splt s) \<Longrightarrow> good p"
    and joi_splt: "joi (splt s) = s"
    and splt_joi: "\<lbrakk>xs \<noteq> []; \<forall>x \<in> set xs. good x\<rbrakk> \<Longrightarrow> splt (joi xs) = xs"
begin

text \<open>Joining a prefix of a split line and splitting it again gives the prefix back.\<close>

lemma resplit_prefix: "\<lbrakk>ys @ zs = splt s; ys \<noteq> []\<rbrakk> \<Longrightarrow> splt (joi ys) = ys"
  by (metis splt_joi splt_good Un_iff set_append)

lemma joi_inj:
  "\<lbrakk>joi xs = joi ys; xs \<noteq> []; ys \<noteq> []; \<forall>x \<in> set xs. good x; \<forall>y \<in> set ys. good y\<rbrakk> \<Longrightarrow> xs = ys"
  by (metis splt_joi)

end

interpretation sp: splitter "split_on c" "join_with [c]" "\<lambda>s. c \<notin> set s" for c
  by unfold_locales (auto dest: split_on_no_sep simp: join_split_on split_join_with)

subsection \<open>Fields\<close>

lemma fields_acc_ne: "p \<in> set (fields_acc acc s) \<Longrightarrow> p \<noteq> []"
  by (induction acc s rule: fields_acc.induct) (auto split: if_splits)

lemma fields_ne: "p \<in> set (fields s) \<Longrightarrow> p \<noteq> []"
  by (simp add: fields_def fields_acc_ne)

lemma fields_acc_empty_iff: "fields_acc acc s = [] \<longleftrightarrow> acc = [] \<and> (\<forall>c \<in> set s. is_space c)"
  by (induction acc s rule: fields_acc.induct) auto

lemma fields_empty_iff: "fields s = [] \<longleftrightarrow> (\<forall>c \<in> set s. is_space c)"
  by (simp add: fields_def fields_acc_empty_iff)

lemma contains_iff: "contains s sub \<longleftrightarrow> (\<exists>a b. s = a @ sub @ b)"
proof (induction s)
  case Nil
  then show ?case by auto
next
  case (Cons c cs)
  have "take (length sub) (c # cs) = sub \<longleftrightarrow> (\<exists>b. c # cs = sub @ b)"
    by (metis append_eq_conv_conj append_take_drop_id)
  then show ?case
    using Cons by (auto simp: Cons_eq_append_conv)
qed

end
