(* ===== verification/Config.thy ===== *)
theory Config
  imports GoStrings
begin

section \<open>Command line options (config.go)\<close>

text \<open>
  The \<open>Config\<close> structure, its defaults, and \<open>reflectFlags\<close>, which registers one flag per field of
  a structure. Reflection over a Go value is modelled by a description of the value: whether it is
  a pointer to a structure, and the name, the tags and the current value of each field. The flag
  package itself is not part of the repository; a flag set is the list of the registrations made.
\<close>

definition BastionConnects :: int where "BastionConnects = 1"
definition DefaultConcurrency :: int where "DefaultConcurrency = 65536"
definition DefaultControlPath :: string where "DefaultControlPath = ''/.ssh/control''"
definition DefaultSSHKey :: string where "DefaultSSHKey = ''/.ssh/id_rsa''"
definition SSHHostKey :: string where "SSHHostKey = ''/.ssh/id_host''"
definition SSHTimeout :: int where "SSHTimeout = 60"
definition DefaultSpoolDir :: string where "DefaultSpoolDir = ''/.ssh/spool''"
definition DefaultTarget :: string where "DefaultTarget = ''/bin/target''"
definition KeepAliveInterval :: int where "KeepAliveInterval = 0"
definition TestCommand :: string where "TestCommand = ''exit 0''"

record Config =
  Agent :: bool
  BastionConns :: int
  Concurrency :: int
  ControlPath :: string
  c_Debug :: bool
  Daemonize :: bool
  Execute :: bool
  c_File :: string
  HostKey :: string
  KeepAlive :: int
  Key :: string
  Password :: bool
  c_Server :: bool
  Spool :: bool
  SpoolDir :: string
  TargetCmd :: string
  Tee :: bool
  TestCmd :: string
  Timeout :: int
  User :: string
  Verbose :: bool

text \<open>The two environment variables read are the arguments.\<close>

definition DefaultConfig :: "string \<Rightarrow> string \<Rightarrow> Config" where
  "DefaultConfig home user = \<lparr>
     Agent = False,
     BastionConns = BastionConnects,
     Concurrency = DefaultConcurrency,
     ControlPath = home @ DefaultControlPath,
     c_Debug = False,
     Daemonize = False,
     Execute = False,
     c_File = [],
     HostKey = home @ SSHHostKey,
     KeepAlive = KeepAliveInterval,
     Key = home @ DefaultSSHKey,
     Password = False,
     c_Server = False,
     Spool = False,
     SpoolDir = home @ DefaultSpoolDir,
     TargetCmd = home @ DefaultTarget,
     Tee = False,
     TestCmd = TestCommand,
     Timeout = SSHTimeout,
     User = user,
     Verbose = False\<rparr>"

subsection \<open>Registering the flags of a structure\<close>

datatype rvalue = VFloat64 string | VBool bool | VInt int | VString string | VOther

record struct_field =
  sf_name :: string
  sf_short :: string
  sf_desc :: string
  sf_value :: rvalue

datatype flags_arg = NotPointer | PointerTo_other | PointerTo_struct "struct_field list"

record flag =
  fl_name :: string
  fl_short :: string
  fl_value :: rvalue
  fl_desc :: string

record FlagSet =
  fs_name :: string
  fs_output :: "nat option"
  fs_flags :: "flag list"

text \<open>One turn of the loop: only the four kinds of the type switch register a flag.\<close>

definition register_field :: "struct_field \<Rightarrow> flag list" where
  "register_field f =
     (let reg = [\<lparr>fl_name = to_lower (sf_name f), fl_short = sf_short f, fl_value = sf_value f,
                  fl_desc = sf_desc f\<rparr>]
      in case sf_value f of
           VFloat64 x \<Rightarrow> reg
         | VBool b \<Rightarrow> reg
         | VInt i \<Rightarrow> reg
         | VString s \<Rightarrow> reg
         | VOther \<Rightarrow> [])"

fun reflectFlags :: "string \<Rightarrow> flags_arg \<Rightarrow> nat option \<Rightarrow> string + FlagSet" where
  "reflectFlags name NotPointer out = Inl ''Expected pointer type for flags.''"
| "reflectFlags name PointerTo_other out = Inl ''Expected pointer to struct for flags.''"
| "reflectFlags name (PointerTo_struct fs) out =
     Inr \<lparr>fs_name = name, fs_output = out, fs_flags = concat (map register_field fs)\<rparr>"

text \<open>The fields of \<open>Config\<close> with their tags, and the values they hold in a given configuration.\<close>

definition mk_field :: "string \<Rightarrow> string \<Rightarrow> string \<Rightarrow> rvalue \<Rightarrow> struct_field" where
  "mk_field n s d v = \<lparr>sf_name = n, sf_short = s, sf_desc = d, sf_value = v\<rparr>"

definition Config_fields :: "Config \<Rightarrow> struct_field list" where
  "Config_fields c = [
     mk_field ''Agent'' ''a'' ''Use ssh-agent auth. Limits concurrency to 128'' (VBool (Agent c)),
     mk_field ''BastionConns'' ''b'' ''Number of connections to maintain to each bastion'' (VInt (BastionConns c)),
     mk_field ''Concurrency'' ''c'' ''Maximum number of concurrent SSH connections'' (VInt (Concurrency c)),
     mk_field ''ControlPath'' [] ''Specify where to create the control master UNIX domain sockets'' (VString (ControlPath c)),
     mk_field ''Debug'' ''d'' ''Turn on debugging output'' (VBool (c_Debug c)),
     mk_field ''Daemonize'' [] ''Daemonize the program; run in the background'' (VBool (Daemonize c)),
     mk_field ''Execute'' ''e'' ''Execute a test command on the server after connecting'' (VBool (Execute c)),
     mk_field ''File'' ''f'' ''JSON file describing our SSH targets'' (VString (c_File c)),
     mk_field ''HostKey'' [] ''Path of the SSH server's private host key'' (VString (HostKey c)),
     mk_field ''KeepAlive'' [] ''Send server keep alive messages every 'n' seconds'' (VInt (KeepAlive c)),
     mk_field ''Key'' ''k'' ''Private SSH key to use for client authentication'' (VString (Key c)),
     mk_field ''Password'' ''p'' ''Prompt for a password for password auth fallback'' (VBool (Password c)),
     mk_field ''Server'' ''s'' ''Run in SSH server mode'' (VBool (c_Server c)),
     mk_field ''Spool'' [] ''Save remote execution output to the SpoolDir'' (VBool (Spool c)),
     mk_field ''SpoolDir'' [] ''Specify path to save program execution output'' (VString (SpoolDir c)),
     mk_field ''TargetCmd'' [] ''Specify external program to implement target functionality'' (VString (TargetCmd c)),
     mk_field ''Tee'' [] ''Tee spooled output to stdout/stderr.'' (VBool (Tee c)),
     mk_field ''TestCmd'' [] ''Specify a test command to execute'' (VString (TestCmd c)),
     mk_field ''Timeout'' ''t'' ''Number of seconds to wait for SSH connections to finish'' (VInt (Timeout c)),
     mk_field ''User'' ''u'' ''Specify the user to SSH in as'' (VString (User c)),
     mk_field ''Verbose'' ''v'' ''Enable verbose reporting'' (VBool (Verbose c))]"

lemma register_field_names:
  "map fl_name (concat (map register_field fs)) =
   map (\<lambda>f. to_lower (sf_name f)) (filter (\<lambda>f. sf_value f \<noteq> VOther) fs)"
  by (induction fs) (auto simp: register_field_def Let_def split: rvalue.splits)

lemma register_field_shorts:
  "map fl_short (concat (map register_field fs)) =
   map sf_short (filter (\<lambda>f. sf_value f \<noteq> VOther) fs)"
  by (induction fs) (auto simp: register_field_def Let_def split: rvalue.splits)


end
