(* ===== verification/MuxWire.thy ===== *)
theory MuxWire
  imports Prelude
begin

section \<open>The wire format of the control socket (controlmux.go)\<close>

text \<open>
  Messages on the control socket are sequences of bytes: big-endian 32-bit numbers, strings with a
  length in front, booleans sent as numbers. Reading past the end of the slice is a run-time panic,
  here \<open>Inl\<close>. (The slices of \<open>parseNewSession\<close> come from one \<open>make\<close> of exactly that length, so
  that their capacity is their length.)

  The interface \<open>wire_format\<close> states what reading has to do with writing: a value followed by
  anything reads back and leaves the rest; a strict prefix of a written value panics. The three
  \<open>pull\<close> functions are interpretations of it, and so, field by field, is the whole message.
\<close>

type_synonym bytes = "8 word list"

definition slice_panic :: string where
  "slice_panic = ''slice bounds out of range''"

definition index_panic :: string where
  "index_panic = ''index out of range''"

definition MuxMsgHello :: "32 word" where "MuxMsgHello = 0x00000001"
definition MuxCNewSession :: "32 word" where "MuxCNewSession = 0x10000002"
definition MuxCAliveCheck :: "32 word" where "MuxCAliveCheck = 0x10000004"
definition MuxSExitMessage :: "32 word" where "MuxSExitMessage = 0x80000004"
definition MuxSAlive :: "32 word" where "MuxSAlive = 0x80000005"
definition MuxSSessionOpened :: "32 word" where "MuxSSessionOpened = 0x80000006"

text \<open>The server of one control socket: its listener and the number of the next session.\<close>

record Mux =
  mx_me :: string
  mx_client :: nat
  mx_l :: nat
  sesscounter :: "32 word"

subsection \<open>Numbers\<close>

text \<open>\<open>binary.BigEndian.Uint32\<close> and \<open>PutUint32\<close>.\<close>

fun BigEndian_Uint32 :: "bytes \<Rightarrow> string + 32 word" where
  "BigEndian_Uint32 (a # b # c # d # rest) =
     Inr (word_of_nat (((unat a * 256 + unat b) * 256 + unat c) * 256 + unat d))"
| "BigEndian_Uint32 _ = Inl slice_panic"

definition PutUint32 :: "32 word \<Rightarrow> bytes" where
  "PutUint32 w =
     [word_of_nat (unat w div 2 ^ 24), word_of_nat (unat w div 2 ^ 16),
      word_of_nat (unat w div 2 ^ 8), word_of_nat (unat w)]"

definition pullUint32 :: "bytes \<Rightarrow> string + bytes \<times> 32 word" where
  "pullUint32 stream =
     (if length stream < 4 then Inl slice_panic
      else case BigEndian_Uint32 (take 4 stream) of
             Inl p \<Rightarrow> Inl p
           | Inr ret \<Rightarrow> Inr (drop 4 stream, ret))"

definition str_of :: "bytes \<Rightarrow> string" where
  "str_of bs = map (\<lambda>b. char_of (unat b)) bs"

definition bytes_of :: "string \<Rightarrow> bytes" where
  "bytes_of s = map (\<lambda>c. word_of_nat (of_char c)) s"

definition pullString :: "bytes \<Rightarrow> string + bytes \<times> string" where
  "pullString stream0 =
     (case pullUint32 stream0 of
        Inl p \<Rightarrow> Inl p
      | Inr (stream, n) \<Rightarrow>
          if n = 0 then Inr (stream, [])
          else if length stream < unat n then Inl slice_panic
          else Inr (drop (unat n) stream, str_of (take (unat n) stream)))"

definition pullBool :: "bytes \<Rightarrow> string + bytes \<times> bool" where
  "pullBool stream =
     (if length stream < 4 then Inl slice_panic
      else case BigEndian_Uint32 (take 4 stream) of
             Inl p \<Rightarrow> Inl p
           | Inr n \<Rightarrow> Inr (drop 4 stream, n \<noteq> 0))"

subsection \<open>The message that asks for a session\<close>

record newSessionMsg =
  ns_MsgType :: "32 word"
  ns_RequestID :: "32 word"
  ns_Reserved :: string
  WantTTY :: bool
  WantX11 :: bool
  WantAgent :: bool
  Subsystem :: bool
  EscapeChar :: "32 word"
  TerminalType :: string
  Command :: string

definition zero_newSessionMsg :: newSessionMsg where
  "zero_newSessionMsg = \<lparr>ns_MsgType = 0, ns_RequestID = 0, ns_Reserved = [], WantTTY = False,
     WantX11 = False, WantAgent = False, Subsystem = False, EscapeChar = 0, TerminalType = [],
     Command = []\<rparr>"

text \<open>A pull that stores what it reads and goes on; a panic ends the parse.\<close>

definition pulling ::
  "(bytes \<Rightarrow> string + bytes \<times> 'a) \<Rightarrow> (bytes \<Rightarrow> 'a \<Rightarrow> string + 'b) \<Rightarrow> bytes \<Rightarrow> string + 'b" where
  "pulling pull k stream = (case pull stream of Inl p \<Rightarrow> Inl p | Inr (rest, x) \<Rightarrow> k rest x)"

definition parseNewSession :: "bytes \<Rightarrow> string + newSessionMsg" where
  "parseNewSession =
     pulling pullUint32 (\<lambda>s mt.
     pulling pullUint32 (\<lambda>s rid.
     pulling pullString (\<lambda>s res.
     pulling pullBool (\<lambda>s tty.
     pulling pullBool (\<lambda>s x11.
     pulling pullBool (\<lambda>s agent.
     pulling pullBool (\<lambda>s subsys.
     pulling pullUint32 (\<lambda>s esc.
     pulling pullString (\<lambda>s term.
     pulling pullString (\<lambda>s cmd.
       Inr \<lparr>ns_MsgType = mt, ns_RequestID = rid, ns_Reserved = res, WantTTY = tty, WantX11 = x11,
            WantAgent = agent, Subsystem = subsys, EscapeChar = esc, TerminalType = term,
            Command = cmd\<rparr>) s) s) s) s) s) s) s) s) s)"

text \<open>What a client sends.\<close>

definition put_string :: "string \<Rightarrow> bytes" where
  "put_string s = PutUint32 (word_of_nat (length s)) @ bytes_of s"

definition put_bool :: "bool \<Rightarrow> bytes" where
  "put_bool b = PutUint32 (if b then 1 else 0)"

definition put_newSession :: "newSessionMsg \<Rightarrow> bytes" where
  "put_newSession m =
     PutUint32 (ns_MsgType m) @ PutUint32 (ns_RequestID m) @ put_string (ns_Reserved m) @
     put_bool (WantTTY m) @ put_bool (WantX11 m) @ put_bool (WantAgent m) @
     put_bool (Subsystem m) @ PutUint32 (EscapeChar m) @ put_string (TerminalType m) @
     put_string (Command m)"

definition sendable :: "newSessionMsg \<Rightarrow> bool" where
  "sendable m \<longleftrightarrow> length (ns_Reserved m) < 2 ^ 32 \<and> length (TerminalType m) < 2 ^ 32 \<and>
     length (Command m) < 2 ^ 32"

subsection \<open>Messages of fixed size\<close>

record helloMsg =
  h_MsgType :: "32 word"
  Version :: "32 word"

record aliveCheckMsg =
  ac_MsgType :: "32 word"
  ac_RequestID :: "32 word"

record aliveResponseMsg =
  ar_MsgType :: "32 word"
  ar_RequestID :: "32 word"
  ServerPid :: "32 word"

record sessionOpenedMsg =
  so_MsgType :: "32 word"
  ClientReqID :: "32 word"
  so_SessionID :: "32 word"

record exitMsg =
  em_MsgType :: "32 word"
  em_SessionID :: "32 word"
  ExitCode :: "32 word"

text \<open>
  \<open>binary.Write\<close> of such a struct writes its fields in order; \<open>binary.Read\<close> fails when the buffer
  is shorter than the struct, with \<open>EOF\<close> or \<open>unexpected EOF\<close>.
\<close>

definition write_struct :: "32 word list \<Rightarrow> bytes" where
  "write_struct fs = concat (map PutUint32 fs)"

fun read_struct :: "nat \<Rightarrow> bytes \<Rightarrow> 32 word list option" where
  "read_struct 0 bs = Some []"
| "read_struct (Suc n) bs =
     (case pullUint32 bs of
        Inl p \<Rightarrow> None
      | Inr (rest, w) \<Rightarrow> map_option ((#) w) (read_struct n rest))"

definition read_error :: "bytes \<Rightarrow> string" where
  "read_error bs = (if bs = [] then ''EOF'' else ''unexpected EOF'')"

definition read_helloMsg :: "bytes \<Rightarrow> string + helloMsg" where
  "read_helloMsg bs =
     (case read_struct 2 bs of
        Some [t, v] \<Rightarrow> Inr \<lparr>h_MsgType = t, Version = v\<rparr>
      | _ \<Rightarrow> Inl (read_error bs))"

definition read_aliveCheckMsg :: "bytes \<Rightarrow> string + aliveCheckMsg" where
  "read_aliveCheckMsg bs =
     (case read_struct 2 bs of
        Some [t, v] \<Rightarrow> Inr \<lparr>ac_MsgType = t, ac_RequestID = v\<rparr>
      | _ \<Rightarrow> Inl (read_error bs))"

definition write_helloMsg :: "helloMsg \<Rightarrow> bytes" where
  "write_helloMsg m = write_struct [h_MsgType m, Version m]"

definition write_aliveResponseMsg :: "aliveResponseMsg \<Rightarrow> bytes" where
  "write_aliveResponseMsg m = write_struct [ar_MsgType m, ar_RequestID m, ServerPid m]"

definition write_sessionOpenedMsg :: "sessionOpenedMsg \<Rightarrow> bytes" where
  "write_sessionOpenedMsg m = write_struct [so_MsgType m, ClientReqID m, so_SessionID m]"

definition write_exitMsg :: "exitMsg \<Rightarrow> bytes" where
  "write_exitMsg m = write_struct [em_MsgType m, em_SessionID m, ExitCode m]"

text \<open>What \<open>sendMsg\<close> writes: the length of the data, then the data.\<close>

definition msg_header :: "bytes \<Rightarrow> bytes" where
  "msg_header dat = PutUint32 (word_of_nat (length dat))"

subsection \<open>Reading what was written\<close>

locale wire_format =
  fixes pull :: "bytes \<Rightarrow> string + bytes \<times> 'a"
    and put :: "'a \<Rightarrow> bytes"
    and fits :: "'a \<Rightarrow> bool"
  assumes pull_put: "fits x \<Longrightarrow> pull (put x @ rest) = Inr (rest, x)"
    and pull_cut: "\<lbrakk>fits x; n < length (put x)\<rbrakk> \<Longrightarrow> pull (take n (put x)) = Inl slice_panic"
begin

lemma pulling_cut_last:
  "\<lbrakk>fits x; n < length (put x)\<rbrakk> \<Longrightarrow> pulling pull k (take n (put x)) = Inl slice_panic"
  by (simp add: pulling_def pull_cut)

lemma pulling_put: "fits x \<Longrightarrow> pulling pull k (put x @ rest) = k rest x"
  by (simp add: pulling_def pull_put)

text \<open>A message cut anywhere: either in this field, or in what follows it.\<close>

lemma pulling_cut:
  assumes "fits x" and "n < length (put x @ rst)"
    and "\<And>j. j < length rst \<Longrightarrow> k (take j rst) x = Inl slice_panic"
  shows "pulling pull k (take n (put x @ rst)) = Inl slice_panic"
proof (cases "n < length (put x)")
  case True
  then show ?thesis
    using assms(1) by (simp add: pulling_def pull_cut)
next
  case False
  then have "take n (put x @ rst) = put x @ take (n - length (put x)) rst"
    by simp
  with False assms show ?thesis
    by (simp add: pulling_def pull_put)
qed

end

lemma nat_bytes:
  fixes n :: nat
  assumes "n < 2 ^ 32"
  shows "((n div 2 ^ 24 mod 256 * 256 + n div 2 ^ 16 mod 256) * 256 + n div 2 ^ 8 mod 256) * 256 +
    n mod 256 = n"
proof -
  have "n div 2 ^ 24 mod 256 = n div 2 ^ 24"
    using assms by (simp add: less_mult_imp_div_less)
  moreover have "n div 2 ^ 16 = n div 2 ^ 24 * 256 + n div 2 ^ 16 mod 256"
    using div_mult_mod_eq [of "n div 2 ^ 16" 256] by (simp flip: div_mult2_eq)
  moreover have "n div 2 ^ 8 = n div 2 ^ 16 * 256 + n div 2 ^ 8 mod 256"
    using div_mult_mod_eq [of "n div 2 ^ 8" 256] by (simp flip: div_mult2_eq)
  moreover have "n = n div 2 ^ 8 * 256 + n mod 256"
    using div_mult_mod_eq [of n 256] by simp
  ultimately show ?thesis by simp
qed

lemma length_PutUint32 [simp]: "length (PutUint32 w) = 4"
  by (simp add: PutUint32_def)

lemma BigEndian_PutUint32 [simp]: "BigEndian_Uint32 (PutUint32 w) = Inr w"
proof -
  have "unat w < 2 ^ 32"
    using unsigned_less [of w, where ?'a = nat] by simp
  note whole = nat_bytes [OF this]
  have unat8: "unat (word_of_nat n :: 8 word) = n mod 256" for n
    by (simp add: unat_of_nat)
  show ?thesis
    unfolding PutUint32_def BigEndian_Uint32.simps unat8 whole by simp
qed

lemma pullUint32_put: "pullUint32 (PutUint32 w @ rest) = Inr (rest, w)"
  by (simp add: pullUint32_def)

lemma unat_of_length: "n < 2 ^ 32 \<Longrightarrow> unat (word_of_nat n :: 32 word) = n"
  by (simp add: unat_of_nat)

lemma length_bytes_of [simp]: "length (bytes_of s) = length s"
  by (simp add: bytes_of_def)

lemma str_of_bytes_of [simp]: "str_of (bytes_of s) = s"
proof -
  have "of_char c mod 256 = (of_char c :: nat)" for c
    by (cases c) simp
  then show ?thesis
    by (simp add: str_of_def bytes_of_def unat_of_nat comp_def)
qed

lemma bytes_of_str_of [simp]: "bytes_of (str_of bs) = bs"
proof -
  have "unat (b :: 8 word) mod 256 = unat b" for b
    using unsigned_less [of b, where ?'a = nat] by simp
  then show ?thesis
    by (simp add: str_of_def bytes_of_def comp_def)
qed

lemma length_str_of [simp]: "length (str_of bs) = length bs"
  by (simp add: str_of_def)

lemma pullString_put:
  assumes "length s < 2 ^ 32"
  shows "pullString (put_string s @ rest) = Inr (rest, s)"
proof (cases "s = []")
  case True
  then show ?thesis
    by (simp add: pullString_def put_string_def pullUint32_put bytes_of_def)
next
  case False
  then have "(word_of_nat (length s) :: 32 word) \<noteq> 0"
    using unat_of_length [OF assms] by auto
  then show ?thesis
    by (simp add: pullString_def put_string_def pullUint32_put unat_of_length [OF assms])
qed

lemma pullString_cut:
  assumes "length s < 2 ^ 32" and "n < length (put_string s)"
  shows "pullString (take n (put_string s)) = Inl slice_panic"
proof (cases "n < 4")
  case True
  then show ?thesis
    by (simp add: pullString_def pullUint32_def put_string_def)
next
  case False
  then have cut: "take n (put_string s) = PutUint32 (word_of_nat (length s)) @ take (n - 4) (bytes_of s)"
    by (simp add: put_string_def)
  have "n - 4 < length s" "s \<noteq> []"
    using assms(2) False by (auto simp: put_string_def)
  moreover have "(word_of_nat (length s) :: 32 word) \<noteq> 0"
    using unat_of_length [OF assms(1)] \<open>s \<noteq> []\<close> by auto
  ultimately show ?thesis
    unfolding cut by (simp add: pullString_def pullUint32_put unat_of_length [OF assms(1)])
qed

interpretation u32: wire_format pullUint32 PutUint32 "\<lambda>_. True"
  by unfold_locales (simp add: pullUint32_put, simp add: pullUint32_def)

interpretation str: wire_format pullString put_string "\<lambda>s. length s < 2 ^ 32"
  by unfold_locales (simp_all only: pullString_put pullString_cut)

interpretation bool: wire_format pullBool put_bool "\<lambda>_. True"
  by unfold_locales (auto simp: pullBool_def put_bool_def)

lemma parse_put_newSession:
  "sendable m \<Longrightarrow> parseNewSession (put_newSession m @ trailing) = Inr m"
  by (simp add: parseNewSession_def put_newSession_def sendable_def u32.pulling_put str.pulling_put
      bool.pulling_put)

subsection \<open>Properties\<close>

text \<open>
  C29. The parser of session requests reads exactly what a client encodes: for every message whose
  strings have a length that fits the 32-bit length field, parsing its encoding returns it, with
  whatever follows it (the environment variables of the protocol) ignored.
\<close>

theorem parse_newSession_roundtrip:
  assumes "sendable m"
  shows "parseNewSession (put_newSession m @ trailing) = Inr m"
  using assms by (rule parse_put_newSession)

definition scp_request :: newSessionMsg where
  "scp_request = zero_newSessionMsg\<lparr>ns_MsgType := MuxCNewSession, ns_RequestID := 7, WantTTY := True,
     EscapeChar := 0xFFFFFFFF, TerminalType := ''vt100'', Command := ''scp -t x''\<rparr>"

theorem parse_newSession_roundtrip_witness:
  "parseNewSession (put_newSession scp_request @ [1, 2, 3]) = Inr scp_request \<and>
   length (put_newSession scp_request) = 53"
proof -
  have "sendable scp_request"
    by (simp add: sendable_def scp_request_def zero_newSessionMsg_def)
  moreover have "length (put_newSession scp_request) = 53"
    by (simp add: put_newSession_def put_string_def put_bool_def scp_request_def zero_newSessionMsg_def)
  ultimately show ?thesis
    using parse_newSession_roundtrip [of scp_request "[1, 2, 3]"] by simp
qed

text \<open>
  C30. A session request cut short anywhere crashes the program: parsing any strict prefix of an
  encoded request runs off the end of the buffer, which in Go is a panic and not an error.
\<close>

theorem truncated_newSession_panics:
  assumes "sendable m" and "n < length (put_newSession m)"
  shows "parseNewSession (take n (put_newSession m)) = Inl slice_panic"
  using assms unfolding parseNewSession_def put_newSession_def sendable_def
  by (intro u32.pulling_cut str.pulling_cut bool.pulling_cut str.pulling_cut_last; simp)

theorem truncated_newSession_panics_witness:
  "parseNewSession (take 52 (put_newSession scp_request)) = Inl slice_panic"
  by (rule truncated_newSession_panics)
    (simp_all add: sendable_def put_newSession_def put_string_def put_bool_def scp_request_def
      zero_newSessionMsg_def)

end
