(* ===== verification/Proc.thy ===== *)
theory Proc
  imports Store Config MuxWire
begin

section \<open>Goroutines\<close>

text \<open>
  What a goroutine does, as a value of type \<open>proc\<close>: its next effect and, as a function of the
  effect's result, how it goes on. A Go function that returns a value takes its continuation as
  last argument. The effects are: a message to the state's serializer (\<open>Req\<close>, together with its
  reply), a call to something outside the program (\<open>Ask\<close>: the ssh package, the file system, the
  clock), a write to an output, access to the shared configuration, \<open>make(chan)\<close>, a message to
  the goroutine of a remote host, \<open>go\<close>, semaphores made of buffered channels, wait groups, and
  boolean fields that goroutines share without a lock.

  The environment is a sequence of choices; each external call, and each loop over a map, uses the
  next one. A theorem about all worlds is a theorem about all behaviours of the outside.

  \<open>exec\<close> runs a goroutine, its children as they are started (a child that blocks is left behind).
  \<open>pool_step\<close> is the interleaving semantics of any number of goroutines; \<open>exec_in_pool\<close> shows that
  what \<open>exec\<close> computes is one of its schedules.
\<close>

subsection \<open>The world\<close>

datatype query =
    XNow
  | XDial string
  | XDialVia nat string
  | XNewClientConn nat string
  | XNewSession nat
  | XSessionClose nat
  | XSessionPipe nat string
  | XSessionStart nat string
  | XSessionWait nat
  | XClientClose nat
  | XKeepAlive nat
  | XSelect
  | XTimeout
  | XStat string
  | XListenUnix string
  | XCloseListener nat
  | XCreate string
  | XFileClose string
  | XWriteFile string string
  | XAccess string
  | XRunTarget string "string list"
  | XReadFile string
  | XAccept nat
  | XConnRead nat nat
  | XConnWrite nat bytes
  | XConnClose nat
  | XConnFile nat
  | XRecvmsg nat
  | XConnFileClose nat
  | XParseControl
  | XParseRights
  | XCloseOnExec nat
  | XGetWinSize nat
  | XRequestPty nat string nat nat
  | XSessionShell nat
  | XCopyIn nat nat
  | XCopyOut nat string nat
  | XCopyFile nat string "string option"
  | XRange
  | XCmdPipe nat
  | XCmdCopy nat
  | XCmdWait
  | XReadLine nat bool
  | XCall string "string list"

text \<open>
  The answer to a query. \<open>c_ok\<close> says whether it succeeded (if not, \<open>c_str\<close> is the error's text, and
  \<open>c_kind\<close> whether it is of the kind the code asks for, such as an exit status); the other fields
  carry the result.
\<close>

record choice =
  c_ok :: bool
  c_kind :: bool
  c_timeout :: bool
  c_pw :: bool
  c_str :: string
  c_out :: string
  c_eout :: string
  c_num :: nat
  c_nums :: "nat list"
  c_time :: int

definition c_err :: "choice \<Rightarrow> error" where
  "c_err c = (if c_ok c then None else Some (c_str c))"

text \<open>A \<open>remoteHost\<close> goroutine in its loop: its arguments and the state of its local variables.\<close>

record remote =
  r_me :: string
  r_id :: int
  r_client :: nat
  r_isProxy :: bool
  r_session :: "nat option"
  r_mux :: "Mux option"
  r_nmErr :: error

record world =
  w_state :: State
  w_config :: Config
  w_log :: "(nat \<times> string) list"
  w_calls :: "query list"
  w_remotes :: "(chan_id \<times> remote) list"
  w_next :: nat
  w_sem :: "nat \<Rightarrow> int \<times> int"
  w_wg :: "nat \<Rightarrow> int"
  w_choices :: "nat \<Rightarrow> choice"
  w_tick :: nat
  w_flags :: "nat \<Rightarrow> bool"

definition zero_choice :: choice where
  "zero_choice = \<lparr>c_ok = True, c_kind = False, c_timeout = False, c_pw = False, c_str = [], c_out = [], c_eout = [], c_num = 0, c_nums = [],
     c_time = 0\<rparr>"

definition start_world :: "Config \<Rightarrow> (nat \<Rightarrow> choice) \<Rightarrow> world" where
  "start_world cfg chs = \<lparr>w_state = NewState, w_config = cfg, w_log = [], w_calls = [],
     w_remotes = [], w_next = 0, w_sem = (\<lambda>_. (0, 0)), w_wg = (\<lambda>_. 0), w_choices = chs,
     w_tick = 0, w_flags = (\<lambda>_. False)\<rparr>"

definition now_choice :: "world \<Rightarrow> choice" where
  "now_choice w = w_choices w (w_tick w)"

definition tick :: "world \<Rightarrow> world" where
  "tick w = w\<lparr>w_tick := Suc (w_tick w)\<rparr>"

text \<open>Requests that range over a map use a choice for the order (and the clock).\<close>

fun uses_order :: "request \<Rightarrow> bool" where
  "uses_order timeoutWaiters = True"
| "uses_order getWaiterInfo = True"
| "uses_order getHostKeys = True"
| "uses_order getConnKeys = True"
| "uses_order _ = False"

definition serve :: "request \<Rightarrow> world \<Rightarrow> string + world \<times> reply" where
  "serve r w =
     (case handle (c_time (now_choice w)) (c_nums (now_choice w)) (w_state w) r of
        Inl m \<Rightarrow> Inl m
      | Inr (s, rep) \<Rightarrow>
          Inr ((if uses_order r then tick w else w)\<lparr>w_state := s\<rparr>, rep))"

definition ask :: "query \<Rightarrow> world \<Rightarrow> world" where
  "ask q w = (tick w)\<lparr>w_calls := w_calls w @ [q]\<rparr>"

definition put_log :: "nat \<Rightarrow> string \<Rightarrow> world \<Rightarrow> world" where
  "put_log fd s w = w\<lparr>w_log := w_log w @ [(fd, s)]\<rparr>"

text \<open>Which of the goroutines that listen on a channel takes a message is the environment's choice.\<close>

definition listeners :: "chan_id \<Rightarrow> (chan_id \<times> remote) list \<Rightarrow> nat list" where
  "listeners c rs = filter (\<lambda>i. fst (rs ! i) = c) [0..<length rs]"

definition find_listener :: "nat \<Rightarrow> chan_id \<Rightarrow> (chan_id \<times> remote) list \<Rightarrow> nat option" where
  "find_listener n c rs =
     (let is = listeners c rs in if is = [] then None else Some (is ! (n mod length is)))"

definition remove_nth :: "nat \<Rightarrow> 'a list \<Rightarrow> 'a list" where
  "remove_nth i xs = take i xs @ drop (Suc i) xs"

subsection \<open>Goroutines and their steps\<close>

datatype proc =
    Halt
  | Panic string
  | ExitProc nat
  | Hang
  | Req request "reply \<Rightarrow> proc"
  | Ask query "choice \<Rightarrow> proc"
  | Log nat string proc
  | GetCfg "Config \<Rightarrow> proc"
  | SetCfg "Config \<Rightarrow> Config" proc
  | Fresh "nat \<Rightarrow> proc"
  | Listen chan_id remote proc
  | Meet chan_id "remote \<Rightarrow> proc"
  | Retire chan_id "remote \<Rightarrow> proc"
  | Fork proc proc
  | NewSem int "nat \<Rightarrow> proc"
  | Acquire nat proc
  | Release nat proc
  | WgAdd nat proc
  | WgDone nat proc
  | WgWait nat proc
  | GetFlag nat "bool \<Rightarrow> proc"
  | SetFlag nat bool proc

datatype step_result =
    Next world proc "proc list"
  | Blocked
  | Died string
  | Exited nat
  | Ended

definition makechan_panic :: string where
  "makechan_panic = ''makechan: size out of range''"

fun step :: "proc \<Rightarrow> world \<Rightarrow> step_result" where
  "step Halt w = Ended"
| "step (Panic m) w = Died m"
| "step (ExitProc n) w = Exited n"
| "step Hang w = Blocked"
| "step (Req r k) w =
     (case serve r w of Inl m \<Rightarrow> Died m | Inr (w', rep) \<Rightarrow> Next w' (k rep) [])"
| "step (Ask q k) w = Next (ask q w) (k (now_choice w)) []"
| "step (Log fd s p) w = Next (put_log fd s w) p []"
| "step (GetCfg k) w = Next w (k (w_config w)) []"
| "step (SetCfg f p) w = Next (w\<lparr>w_config := f (w_config w)\<rparr>) p []"
| "step (Fresh k) w = Next (w\<lparr>w_next := Suc (w_next w)\<rparr>) (k (w_next w)) []"
| "step (Listen c r p) w = Next (w\<lparr>w_remotes := w_remotes w @ [(c, r)]\<rparr>) p []"
| "step (Meet c k) w =
     (case find_listener (c_num (now_choice w)) c (w_remotes w) of
        None \<Rightarrow> Blocked
      | Some i \<Rightarrow> Next (tick w) (k (snd (w_remotes w ! i))) [])"
| "step (Retire c k) w =
     (case find_listener (c_num (now_choice w)) c (w_remotes w) of
        None \<Rightarrow> Blocked
      | Some i \<Rightarrow> Next ((tick w)\<lparr>w_remotes := remove_nth i (w_remotes w)\<rparr>)
                    (k (snd (w_remotes w ! i))) [])"
| "step (Fork p q) w = Next w q [p]"
| "step (NewSem n k) w =
     (if n < 0 then Died makechan_panic
      else Next (w\<lparr>w_next := Suc (w_next w), w_sem := (w_sem w)(w_next w := (n, 0))\<rparr>)
             (k (w_next w)) [])"
| "step (Acquire i p) w =
     (case w_sem w i of (cap, used) \<Rightarrow>
        if used < cap then Next (w\<lparr>w_sem := (w_sem w)(i := (cap, used + 1))\<rparr>) p [] else Blocked)"
| "step (Release i p) w =
     (case w_sem w i of (cap, used) \<Rightarrow>
        if 0 < used then Next (w\<lparr>w_sem := (w_sem w)(i := (cap, used - 1))\<rparr>) p [] else Blocked)"
| "step (WgAdd i p) w = Next (w\<lparr>w_wg := (w_wg w)(i := w_wg w i + 1)\<rparr>) p []"
| "step (WgDone i p) w = Next (w\<lparr>w_wg := (w_wg w)(i := w_wg w i - 1)\<rparr>) p []"
| "step (WgWait i p) w = (if w_wg w i = 0 then Next w p [] else Blocked)"
| "step (GetFlag i k) w = Next w (k (w_flags w i)) []"
| "step (SetFlag i b p) w = Next (w\<lparr>w_flags := (w_flags w)(i := b)\<rparr>) p []"

text \<open>Any number of goroutines: one of them takes a step, and those it starts join the pool.\<close>

inductive pool_step :: "proc list \<times> world \<Rightarrow> proc list \<times> world \<Rightarrow> bool" where
  go: "\<lbrakk>i < length ps; step (ps ! i) w = Next w' p new\<rbrakk> \<Longrightarrow>
    pool_step (ps, w) (ps[i := p] @ new, w')"

definition pool_panics :: "proc list \<times> world \<Rightarrow> string \<Rightarrow> bool" where
  "pool_panics pw m \<longleftrightarrow> (\<exists>i < length (fst pw). step (fst pw ! i) (snd pw) = Died m)"

subsection \<open>Running one goroutine\<close>

datatype outcome = Finished world | Crashed string world | Quit nat world | Stuck world

primrec exec :: "proc \<Rightarrow> world \<Rightarrow> outcome" where
  "exec Halt = Finished"
| "exec (Panic m) = Crashed m"
| "exec (ExitProc n) = Quit n"
| "exec Hang = Stuck"
| "exec (Req r k) = (\<lambda>w.
     case serve r w of Inl m \<Rightarrow> Crashed m w | Inr (w', rep) \<Rightarrow> exec (k rep) w')"
| "exec (Ask q k) = (\<lambda>w. exec (k (now_choice w)) (ask q w))"
| "exec (Log fd s p) = (\<lambda>w. exec p (put_log fd s w))"
| "exec (GetCfg k) = (\<lambda>w. exec (k (w_config w)) w)"
| "exec (SetCfg f p) = (\<lambda>w. exec p (w\<lparr>w_config := f (w_config w)\<rparr>))"
| "exec (Fresh k) = (\<lambda>w. exec (k (w_next w)) (w\<lparr>w_next := Suc (w_next w)\<rparr>))"
| "exec (Listen c r p) = (\<lambda>w. exec p (w\<lparr>w_remotes := w_remotes w @ [(c, r)]\<rparr>))"
| "exec (Meet c k) = (\<lambda>w.
     case find_listener (c_num (now_choice w)) c (w_remotes w) of
       None \<Rightarrow> Stuck w
     | Some i \<Rightarrow> exec (k (snd (w_remotes w ! i))) (tick w))"
| "exec (Retire c k) = (\<lambda>w.
     case find_listener (c_num (now_choice w)) c (w_remotes w) of
       None \<Rightarrow> Stuck w
     | Some i \<Rightarrow> exec (k (snd (w_remotes w ! i)))
                   ((tick w)\<lparr>w_remotes := remove_nth i (w_remotes w)\<rparr>))"
| "exec (Fork p q) = (\<lambda>w.
     case exec p w of
       Finished w' \<Rightarrow> exec q w'
     | Stuck w' \<Rightarrow> exec q w'
     | Crashed m w' \<Rightarrow> Crashed m w'
     | Quit n w' \<Rightarrow> Quit n w')"
| "exec (NewSem n k) = (\<lambda>w.
     if n < 0 then Crashed makechan_panic w
     else exec (k (w_next w))
       (w\<lparr>w_next := Suc (w_next w), w_sem := (w_sem w)(w_next w := (n, 0))\<rparr>))"
| "exec (Acquire i p) = (\<lambda>w.
     case w_sem w i of (cap, used) \<Rightarrow>
       if used < cap then exec p (w\<lparr>w_sem := (w_sem w)(i := (cap, used + 1))\<rparr>) else Stuck w)"
| "exec (Release i p) = (\<lambda>w.
     case w_sem w i of (cap, used) \<Rightarrow>
       if 0 < used then exec p (w\<lparr>w_sem := (w_sem w)(i := (cap, used - 1))\<rparr>) else Stuck w)"
| "exec (WgAdd i p) = (\<lambda>w. exec p (w\<lparr>w_wg := (w_wg w)(i := w_wg w i + 1)\<rparr>))"
| "exec (WgDone i p) = (\<lambda>w. exec p (w\<lparr>w_wg := (w_wg w)(i := w_wg w i - 1)\<rparr>))"
| "exec (WgWait i p) = (\<lambda>w. if w_wg w i = 0 then exec p w else Stuck w)"
| "exec (GetFlag i k) = (\<lambda>w. exec (k (w_flags w i)) w)"
| "exec (SetFlag i b p) = (\<lambda>w. exec p (w\<lparr>w_flags := (w_flags w)(i := b)\<rparr>))"

subsection \<open>What runs in isolation is a schedule of the pool\<close>

text \<open>A pool in which goroutine \<open>i\<close> can run to the outcome.\<close>

definition sched :: "nat \<Rightarrow> proc list \<Rightarrow> world \<Rightarrow> outcome \<Rightarrow> bool" where
  "sched i ps w out \<longleftrightarrow>
     (case out of
        Finished w' \<Rightarrow> \<exists>qs. pool_step\<^sup>*\<^sup>* (ps, w) (ps[i := Halt] @ qs, w')
      | Stuck w' \<Rightarrow> \<exists>q qs. pool_step\<^sup>*\<^sup>* (ps, w) (ps[i := q] @ qs, w')
      | Crashed m w' \<Rightarrow> \<exists>qs. pool_step\<^sup>*\<^sup>* (ps, w) (qs, w') \<and> pool_panics (qs, w') m
      | Quit n w' \<Rightarrow> \<exists>qs. pool_step\<^sup>*\<^sup>* (ps, w) (qs, w') \<and> (\<exists>j < length qs. step (qs ! j) w' = Exited n))"

lemma sched_trans:
  assumes steps: "pool_step\<^sup>*\<^sup>* (ps, w) (ps[i := q] @ qs, w1)" and i: "i < length ps"
    and rest: "sched i (ps[i := q] @ qs) w1 out"
  shows "sched i ps w out"
proof (cases out)
  case (Finished w')
  with rest obtain rs where "pool_step\<^sup>*\<^sup>* (ps[i := q] @ qs, w1) ((ps[i := q] @ qs)[i := Halt] @ rs, w')"
    by (auto simp: sched_def)
  with steps i have "pool_step\<^sup>*\<^sup>* (ps, w) (ps[i := Halt] @ (qs @ rs), w')"
    by (simp add: list_update_append)
  then show ?thesis unfolding Finished sched_def by auto
next
  case (Stuck w')
  with rest obtain x rs where "pool_step\<^sup>*\<^sup>* (ps[i := q] @ qs, w1) ((ps[i := q] @ qs)[i := x] @ rs, w')"
    by (auto simp: sched_def)
  with steps i have "pool_step\<^sup>*\<^sup>* (ps, w) (ps[i := x] @ (qs @ rs), w')"
    by (simp add: list_update_append)
  then show ?thesis unfolding Stuck sched_def by auto
next
  case (Crashed m w')
  with steps rest show ?thesis by (auto simp: sched_def dest: rtranclp_trans)
next
  case (Quit n w')
  with steps rest show ?thesis by (auto simp: sched_def dest: rtranclp_trans)
qed

lemma sched_next:
  assumes "i < length ps" and "step (ps ! i) w = Next w1 p new" and "sched i (ps[i := p] @ new) w1 out"
  shows "sched i ps w out"
  using assms by (blast intro: sched_trans r_into_rtranclp pool_step.go)

lemma sched_Finished: "\<lbrakk>i < length ps; ps ! i = Halt\<rbrakk> \<Longrightarrow> sched i ps w (Finished w)"
  unfolding sched_def by (auto intro!: exI [of _ "[]"]) (metis list_update_id rtranclp.rtrancl_refl)

lemma sched_Stuck: "i < length ps \<Longrightarrow> sched i ps w (Stuck w)"
  unfolding sched_def by (auto intro!: exI [of _ "ps ! i"] exI [of _ "[]"])

lemma sched_Crashed: "\<lbrakk>i < length ps; step (ps ! i) w = Died m\<rbrakk> \<Longrightarrow> sched i ps w (Crashed m w)"
  unfolding sched_def pool_panics_def by auto

lemma sched_Quit: "\<lbrakk>i < length ps; step (ps ! i) w = Exited n\<rbrakk> \<Longrightarrow> sched i ps w (Quit n w)"
  unfolding sched_def by auto

lemmas sched_ends = sched_Finished sched_Stuck sched_Crashed sched_Quit

lemma sched_child:
  assumes i: "i < length ps" "ps ! i = Fork p q"
    and child: "sched (length ps) (ps[i := q] @ [p]) w (exec p w)"
    and parent: "\<And>qs w'. sched i (ps[i := q] @ qs) w' (exec q w')"
  shows "sched i ps w (exec (Fork p q) w)"
proof -
  have fork: "pool_step\<^sup>*\<^sup>* (ps, w) (ps[i := q] @ [p], w)"
    using pool_step.go [of i ps w w q "[p]"] i by auto
  show ?thesis
  proof (cases "exec p w")
    case (Finished w')
    with child obtain qs where "pool_step\<^sup>*\<^sup>* (ps[i := q] @ [p], w) (ps[i := q] @ Halt # qs, w')"
      using i by (auto simp: sched_def list_update_append)
    with fork have "pool_step\<^sup>*\<^sup>* (ps, w) (ps[i := q] @ Halt # qs, w')"
      by (rule rtranclp_trans)
    from sched_trans [OF this i(1) parent] Finished show ?thesis
      by simp
  next
    case (Stuck w')
    with child obtain x qs where "pool_step\<^sup>*\<^sup>* (ps[i := q] @ [p], w) (ps[i := q] @ x # qs, w')"
      using i by (auto simp: sched_def list_update_append)
    with fork have "pool_step\<^sup>*\<^sup>* (ps, w) (ps[i := q] @ x # qs, w')"
      by (rule rtranclp_trans)
    from sched_trans [OF this i(1) parent] Stuck show ?thesis
      by simp
  next
    case (Crashed m w')
    with child fork show ?thesis
      by (auto simp: sched_def dest: rtranclp_trans)
  next
    case (Quit n w')
    with child fork show ?thesis
      by (auto simp: sched_def dest: rtranclp_trans)
  qed
qed

lemma exec_in_pool: "\<lbrakk>i < length ps; ps ! i = p\<rbrakk> \<Longrightarrow> sched i ps w (exec p w)"
proof (induction p arbitrary: i ps w)
  case (Fork p q)
  show ?case
    using Fork.prems by (intro sched_child Fork.IH) (simp_all add: nth_append)
qed (auto intro!: sched_ends intro: sched_next split: sum.splits option.splits prod.splits)

end
