(* ===== verification/OutputIO.thy ===== *)
theory OutputIO
  imports Proc
begin

section \<open>Serialized output (output.go)\<close>

text \<open>
  An \<open>Output\<close> funnels what the goroutines print through one serializer goroutine. Here is its
  state, the text it writes (with a carriage return after every newline where the output is a
  terminal), and the operations as effects of a goroutine: one printed string is one entry of the
  log, in the order the serializer takes the requests. \<open>Fprint\<close> ignores write errors, so a printed
  string counts as one entry whatever the writer does with it.

  \<open>write_result\<close> is the arithmetic of \<open>Write\<close>, on the writer's own result.
\<close>

record Output =
  o_stdOut :: nat
  o_stdErr :: nat
  addCR :: bool
  mute :: bool
  debug :: bool

definition NewOutput :: "nat \<Rightarrow> nat \<Rightarrow> bool \<Rightarrow> bool \<Rightarrow> Output" where
  "NewOutput out err cr dbg =
     \<lparr>o_stdOut = out, o_stdErr = err, addCR = cr, mute = False, debug = dbg\<rparr>"

definition DupeOuput :: "Output \<Rightarrow> nat \<times> nat \<times> bool \<times> bool" where
  "DupeOuput e = (o_stdOut e, o_stdErr e, addCR e, debug e)"

definition EnableDebug :: "Output \<Rightarrow> Output" where "EnableDebug e = e\<lparr>debug := True\<rparr>"
definition DisableDebug :: "Output \<Rightarrow> Output" where "DisableDebug e = e\<lparr>debug := False\<rparr>"
definition Mute :: "Output \<Rightarrow> Output" where "Mute e = e\<lparr>mute := True\<rparr>"
definition UnMute :: "Output \<Rightarrow> Output" where "UnMute e = e\<lparr>mute := False\<rparr>"

text \<open>\<open>nlRegex.ReplaceAll(p, "\n\r")\<close> and the number of its matches.\<close>

definition newline :: char where "newline = CHR 0x0A"
definition creturn :: char where "creturn = CHR 0x0D"

fun replace_nl :: "string \<Rightarrow> string" where
  "replace_nl [] = []"
| "replace_nl (c # cs) = (if c = newline then newline # creturn # replace_nl cs else c # replace_nl cs)"

definition count_nl :: "string \<Rightarrow> nat" where
  "count_nl s = length (filter (\<lambda>c. c = newline) s)"

text \<open>
  What \<open>Write\<close> sends to the serializer, and what it returns when the underlying writer reports
  \<open>n\<close> bytes: the matches are subtracted from that count.
\<close>

definition munge :: "Output \<Rightarrow> string \<Rightarrow> string" where
  "munge e s = (if addCR e then replace_nl s else s)"

definition write_result :: "Output \<Rightarrow> string \<Rightarrow> int \<Rightarrow> error \<Rightarrow> int \<times> error" where
  "write_result e p n err = (n - (if addCR e then int (count_nl p) else 0), err)"

subsection \<open>Printing as an effect\<close>

text \<open>A muted \<open>doOutput\<close> sends nothing and then waits for an answer.\<close>

definition doOutput :: "Output \<Rightarrow> nat \<Rightarrow> string \<Rightarrow> proc \<Rightarrow> proc" where
  "doOutput e fd s p = (if mute e then Hang else Log fd (munge e s) p)"

definition Out :: "Output \<Rightarrow> string \<Rightarrow> proc \<Rightarrow> proc" where
  "Out e s p = doOutput e (o_stdOut e) s p"

definition Err :: "Output \<Rightarrow> string \<Rightarrow> proc \<Rightarrow> proc" where
  "Err e s p = doOutput e (o_stdErr e) s p"

definition ErrExit :: "Output \<Rightarrow> string \<Rightarrow> proc" where
  "ErrExit e s = doOutput e (o_stdErr e) s (ExitProc 1)"

definition Debug :: "Output \<Rightarrow> string \<Rightarrow> nat \<Rightarrow> string \<Rightarrow> proc \<Rightarrow> proc" where
  "Debug e file line s p =
     (if debug e
      then doOutput e (o_stdErr e) (file @ ''('' @ digits line @ ''): '' @ s) p else p)"

text \<open>\<open>if err != nil { e.o.Debug("...: %s\n", err) }\<close>, which the code does everywhere.\<close>

definition warn :: "Output \<Rightarrow> string \<Rightarrow> nat \<Rightarrow> string \<Rightarrow> error \<Rightarrow> proc \<Rightarrow> proc" where
  "warn e file line pre err p =
     (case err of None \<Rightarrow> p | Some m \<Rightarrow> Debug e file line (pre @ m @ [newline]) p)"

subsection \<open>Lemmas\<close>

lemma length_replace_nl: "length (replace_nl s) = length s + count_nl s"
  by (induction s rule: replace_nl.induct) (auto simp: count_nl_def)

lemma replace_nl_append: "replace_nl (s @ t) = replace_nl s @ replace_nl t"
  by (induction s rule: replace_nl.induct) auto

lemma replace_nl_inj: "creturn \<notin> set s \<Longrightarrow> filter (\<lambda>c. c \<noteq> creturn) (replace_nl s) = s"
  by (induction s rule: replace_nl.induct) (auto simp: newline_def creturn_def)

text \<open>What a debug line adds to the log of a world.\<close>

definition debug_log :: "Output \<Rightarrow> string \<Rightarrow> nat \<Rightarrow> string \<Rightarrow> world \<Rightarrow> world" where
  "debug_log e file line s w =
     (if debug e
      then put_log (o_stdErr e) (munge e (file @ ''('' @ digits line @ ''): '' @ s)) w else w)"

lemma exec_Out [api_simps]:
  "\<not> mute e \<Longrightarrow> exec (Out e s p) w = exec p (put_log (o_stdOut e) (munge e s) w)"
  by (simp add: Out_def doOutput_def)

lemma exec_Err [api_simps]:
  "\<not> mute e \<Longrightarrow> exec (Err e s p) w = exec p (put_log (o_stdErr e) (munge e s) w)"
  by (simp add: Err_def doOutput_def)

lemma exec_Debug [api_simps]:
  "\<not> mute e \<Longrightarrow> exec (Debug e file line s p) w = exec p (debug_log e file line s w)"
  by (simp add: Debug_def doOutput_def debug_log_def)

lemma put_log_sel [simp]:
  "w_state (put_log fd s w) = w_state w" "w_config (put_log fd s w) = w_config w"
  "w_calls (put_log fd s w) = w_calls w" "w_remotes (put_log fd s w) = w_remotes w"
  "w_next (put_log fd s w) = w_next w" "w_sem (put_log fd s w) = w_sem w"
  "w_wg (put_log fd s w) = w_wg w" "w_choices (put_log fd s w) = w_choices w"
  "w_tick (put_log fd s w) = w_tick w" "w_flags (put_log fd s w) = w_flags w"
  by (simp_all add: put_log_def)

lemma debug_log_sel [simp]:
  "w_state (debug_log e f l s w) = w_state w" "w_config (debug_log e f l s w) = w_config w"
  "w_calls (debug_log e f l s w) = w_calls w" "w_remotes (debug_log e f l s w) = w_remotes w"
  "w_next (debug_log e f l s w) = w_next w" "w_sem (debug_log e f l s w) = w_sem w"
  "w_wg (debug_log e f l s w) = w_wg w" "w_choices (debug_log e f l s w) = w_choices w"
  "w_tick (debug_log e f l s w) = w_tick w" "w_flags (debug_log e f l s w) = w_flags w"
  by (simp_all add: debug_log_def)

definition warn_log :: "Output \<Rightarrow> string \<Rightarrow> nat \<Rightarrow> string \<Rightarrow> error \<Rightarrow> world \<Rightarrow> world" where
  "warn_log e file line pre err w =
     (case err of None \<Rightarrow> w | Some m \<Rightarrow> debug_log e file line (pre @ m @ [newline]) w)"

lemma exec_warn [api_simps]:
  "\<not> mute e \<Longrightarrow> exec (warn e file line pre err p) w = exec p (warn_log e file line pre err w)"
  by (simp add: warn_def warn_log_def exec_Debug split: option.split)

lemma warn_log_sel [simp]:
  "w_state (warn_log e f l s x w) = w_state w" "w_config (warn_log e f l s x w) = w_config w"
  "w_calls (warn_log e f l s x w) = w_calls w" "w_remotes (warn_log e f l s x w) = w_remotes w"
  "w_next (warn_log e f l s x w) = w_next w" "w_sem (warn_log e f l s x w) = w_sem w"
  "w_wg (warn_log e f l s x w) = w_wg w" "w_choices (warn_log e f l s x w) = w_choices w"
  "w_tick (warn_log e f l s x w) = w_tick w" "w_flags (warn_log e f l s x w) = w_flags w"
  by (simp_all add: warn_log_def split: option.split)



text \<open>
  With a carriage return to add, \<open>Write\<close> breaks that contract on a short write: whenever the
  writer takes fewer bytes than there are newlines in the data, a negative count is reported.
\<close>

theorem Write_negative_count:
  assumes "addCR e" and "n < int (count_nl p)"
  shows "fst (write_result e p n err) < 0"
  using assms by (simp add: write_result_def)

theorem Write_negative_count_witness:
  "fst (write_result (NewOutput 1 2 True False) [newline] 0 (Some ''EOF'')) < 0"
  by (rule Write_negative_count) (simp_all add: NewOutput_def count_nl_def)

text \<open>
  Printing to a muted output blocks the goroutine for ever: \<open>Out\<close>, \<open>Err\<close> and (with debugging
  on) \<open>Debug\<close> reach no later effect in any world, although \<open>Mute\<close> is documented to mute output.
\<close>

theorem muted_output_blocks:
  "exec (Out (Mute e) s p) w = Stuck w \<and> exec (Err (Mute e) s p) w = Stuck w \<and>
   exec (Debug (EnableDebug (Mute e)) file line s p) w = Stuck w \<and>
   step (Out (Mute e) s p) w = Blocked"
  by (simp add: Out_def Err_def Debug_def doOutput_def Mute_def EnableDebug_def)

end
