(* ===== verification/StateApi.thy ===== *)
theory StateApi
  imports OutputIO
begin

section \<open>The state's methods (state.go)\<close>

text \<open>
  Each method of \<open>State\<close> makes a response channel where it needs one, sends its message to the
  serializer and waits for the response; as an effect, that is one \<open>Req\<close>. Methods that send several
  messages are several effects, and other goroutines can be served in between: \<open>GetHostInfo\<close> and
  \<open>GetConnInfo\<close> first ask whether the entry exists and then fetch it.

  The interfaces \<open>host_table\<close> and \<open>conn_table\<close> say what the clients of these methods rely on;
  their interpretations show that the serializer provides it.
\<close>

fun the_bool :: "reply \<Rightarrow> bool" where "the_bool (RBool b) = b" | "the_bool _ = False"
fun the_str :: "reply \<Rightarrow> string" where "the_str (RStr s) = s" | "the_str _ = []"
fun the_keys :: "reply \<Rightarrow> string list" where "the_keys (RKeys ks) = ks" | "the_keys _ = []"
fun the_host :: "reply \<Rightarrow> HostInfo" where "the_host (RHost h) = h" | "the_host _ = zero_HostInfo"
fun the_conn :: "reply \<Rightarrow> ConnInfo" where "the_conn (RConn c) = c" | "the_conn _ = zero_ConnInfo"
fun the_waiters :: "reply \<Rightarrow> WaiterInfo" where
  "the_waiters (RWaiters wi) = wi"
| "the_waiters _ = \<lparr>n_connWaiters = 0, n_runWaiters = 0, avgConnWait = 0, avgRunWait = 0,
     connStates = [], runStates = []\<rparr>"
fun the_config :: "reply \<Rightarrow> ClientConfig option" where
  "the_config (RConfig c) = c"
| "the_config _ = None"

subsection \<open>Methods\<close>

definition GetPTR :: "string \<Rightarrow> (string \<Rightarrow> proc) \<Rightarrow> proc" where
  "GetPTR ip k = Req (getPTR ip) (\<lambda>r. k (the_str r))"

definition SetConnectionStatus :: "string \<Rightarrow> bool \<Rightarrow> duration \<Rightarrow> error \<Rightarrow> proc \<Rightarrow> proc" where
  "SetConnectionStatus h ok t e p = Req (setConnectionStatus h ok t e) (\<lambda>_. p)"

definition SetRunStatus ::
  "string \<Rightarrow> bool \<Rightarrow> bool \<Rightarrow> duration \<Rightarrow> error \<Rightarrow> string \<Rightarrow> proc \<Rightarrow> proc" where
  "SetRunStatus h ok once t e out p = Req (setRunStatus h ok once t e out) (\<lambda>_. p)"

definition IncProxyCount :: "string \<Rightarrow> proc \<Rightarrow> proc" where
  "IncProxyCount h p = Req (incProxyCount h) (\<lambda>_. p)"

definition GetAuthPass :: "(string \<Rightarrow> proc) \<Rightarrow> proc" where
  "GetAuthPass k = Req getAuthPass (\<lambda>r. k (the_str r))"

definition SetAuthPass :: "string \<Rightarrow> proc \<Rightarrow> proc" where
  "SetAuthPass pw p = Req (setAuthPass pw) (\<lambda>_. p)"

definition SetRequiresPw :: "string \<Rightarrow> proc \<Rightarrow> proc" where
  "SetRequiresPw h p = Req (setRequiresPw h) (\<lambda>_. p)"

definition GetSSHConfig :: "(ClientConfig option \<Rightarrow> proc) \<Rightarrow> proc" where
  "GetSSHConfig k = Req getSSHConfig (\<lambda>r. k (the_config r))"

definition SetSSHConfig :: "ClientConfig option \<Rightarrow> proc \<Rightarrow> proc" where
  "SetSSHConfig c p = Req (setSSHConfig c) (\<lambda>_. p)"

definition HostExists :: "string \<Rightarrow> (bool \<Rightarrow> proc) \<Rightarrow> proc" where
  "HostExists h k = Req (hostExists h) (\<lambda>r. k (the_bool r))"

definition no_host_error :: "string \<Rightarrow> string" where
  "no_host_error h = ''Host '' @ [CHR 0x27] @ h @ [CHR 0x27] @ '' does not exit.''"

definition GetHostInfo :: "string \<Rightarrow> (string + HostInfo \<Rightarrow> proc) \<Rightarrow> proc" where
  "GetHostInfo h k =
     HostExists h (\<lambda>exists.
       if \<not> exists then k (Inl (no_host_error h))
       else Req (getHostInfo h) (\<lambda>r. k (Inr (the_host r))))"

definition ClearHostInfo :: "proc \<Rightarrow> proc" where
  "ClearHostInfo p = Req clearHostInfo (\<lambda>_. p)"

definition SetHostInfo :: "HostInfo \<Rightarrow> proc \<Rightarrow> proc" where
  "SetHostInfo hi p = Req (setHostInfo hi) (\<lambda>_. p)"

definition DeleteHostInfo :: "string \<Rightarrow> proc \<Rightarrow> proc" where
  "DeleteHostInfo h p = Req (deleteHostInfo h) (\<lambda>_. p)"

definition GetHostKeys :: "(string list \<Rightarrow> proc) \<Rightarrow> proc" where
  "GetHostKeys k = Req getHostKeys (\<lambda>r. k (the_keys r))"

definition ConnExists :: "string \<Rightarrow> (bool \<Rightarrow> proc) \<Rightarrow> proc" where
  "ConnExists h k = Req (connExists h) (\<lambda>r. k (the_bool r))"

definition no_conn_error :: "string \<Rightarrow> string" where
  "no_conn_error h = ''Connection '' @ [CHR 0x27] @ h @ [CHR 0x27] @ '' does not exist.''"

definition GetConnInfo :: "string \<Rightarrow> (string + ConnInfo \<Rightarrow> proc) \<Rightarrow> proc" where
  "GetConnInfo h k =
     ConnExists h (\<lambda>exists.
       if \<not> exists then k (Inl (no_conn_error h))
       else Req (getConnInfo h) (\<lambda>r. k (Inr (the_conn r))))"

text \<open>The methods that replace the name they are given by its PTR entry first.\<close>

definition SetConnInfo :: "ConnInfo \<Rightarrow> proc \<Rightarrow> proc" where
  "SetConnInfo ci p =
     GetPTR (ci_hostName ci) (\<lambda>h. Req (setConnInfo (ci\<lparr>ci_hostName := h\<rparr>)) (\<lambda>_. p))"

definition DeleteConnInfo :: "string \<Rightarrow> proc \<Rightarrow> proc" where
  "DeleteConnInfo h p = Req (deleteConnInfo h) (\<lambda>_. p)"

definition GetConnKeys :: "(string list \<Rightarrow> proc) \<Rightarrow> proc" where
  "GetConnKeys k = Req getConnKeys (\<lambda>r. k (the_keys r))"

definition GetWaiterInfo :: "(WaiterInfo \<Rightarrow> proc) \<Rightarrow> proc" where
  "GetWaiterInfo k = Req getWaiterInfo (\<lambda>r. k (the_waiters r))"

definition SetConnWaitInfo :: "waitInfo \<Rightarrow> proc \<Rightarrow> proc" where
  "SetConnWaitInfo wi p =
     GetPTR (wi_hostName wi) (\<lambda>h. Req (setConnWaitInfo (wi\<lparr>wi_hostName := h\<rparr>)) (\<lambda>_. p))"

definition SetConnWaitState :: "string \<Rightarrow> string \<Rightarrow> proc \<Rightarrow> proc" where
  "SetConnWaitState h st p = GetPTR h (\<lambda>h'. Req (setConnWaitState h' st) (\<lambda>_. p))"

definition SetRunWaitState :: "string \<Rightarrow> string \<Rightarrow> proc \<Rightarrow> proc" where
  "SetRunWaitState h st p = GetPTR h (\<lambda>h'. Req (setRunWaitState h' st) (\<lambda>_. p))"

definition DeleteConnWaitInfo :: "string \<Rightarrow> proc \<Rightarrow> proc" where
  "DeleteConnWaitInfo h p = GetPTR h (\<lambda>h'. Req (deleteConnWaitInfo h') (\<lambda>_. p))"

definition SetRunWaitInfo :: "waitInfo \<Rightarrow> proc \<Rightarrow> proc" where
  "SetRunWaitInfo wi p =
     GetPTR (wi_hostName wi) (\<lambda>h. Req (setRunWaitInfo (wi\<lparr>wi_hostName := h\<rparr>)) (\<lambda>_. p))"

definition DeleteRunWaitInfo :: "string \<Rightarrow> proc \<Rightarrow> proc" where
  "DeleteRunWaitInfo h p = GetPTR h (\<lambda>h'. Req (deleteRunWaitInfo h') (\<lambda>_. p))"

definition TimeoutWaiters :: "proc \<Rightarrow> proc" where
  "TimeoutWaiters p = Req timeoutWaiters (\<lambda>_. p)"

subsection \<open>Running the methods\<close>

abbreviation host :: "world \<Rightarrow> string \<Rightarrow> HostInfo option" where
  "host w h \<equiv> glook (targets (w_state w)) h"

abbreviation connection :: "world \<Rightarrow> string \<Rightarrow> ConnInfo option" where
  "connection w h \<equiv> glook (conn (w_state w)) h"

definition ptr :: "world \<Rightarrow> string \<Rightarrow> string" where
  "ptr w h = (case glook (PTR (w_state w)) h of None \<Rightarrow> h | Some p \<Rightarrow> p)"

definition upd_state :: "(State \<Rightarrow> State) \<Rightarrow> world \<Rightarrow> world" where
  "upd_state f w = w\<lparr>w_state := f (w_state w)\<rparr>"

lemma upd_state_sel [simp]:
  "w_state (upd_state f w) = f (w_state w)" "w_config (upd_state f w) = w_config w"
  "w_calls (upd_state f w) = w_calls w" "w_remotes (upd_state f w) = w_remotes w"
  "w_next (upd_state f w) = w_next w" "w_sem (upd_state f w) = w_sem w"
  "w_wg (upd_state f w) = w_wg w" "w_choices (upd_state f w) = w_choices w"
  "w_tick (upd_state f w) = w_tick w" "w_log (upd_state f w) = w_log w"
  "w_flags (upd_state f w) = w_flags w"
  by (simp_all add: upd_state_def)

lemma tick_sel [simp]:
  "w_state (tick w) = w_state w" "w_config (tick w) = w_config w" "w_calls (tick w) = w_calls w"
  "w_remotes (tick w) = w_remotes w" "w_next (tick w) = w_next w" "w_sem (tick w) = w_sem w"
  "w_wg (tick w) = w_wg w" "w_choices (tick w) = w_choices w" "w_log (tick w) = w_log w"
  "w_tick (tick w) = Suc (w_tick w)" "w_flags (tick w) = w_flags w"
  by (simp_all add: tick_def)

lemma ask_sel [simp]:
  "w_state (ask q w) = w_state w" "w_config (ask q w) = w_config w"
  "w_calls (ask q w) = w_calls w @ [q]" "w_remotes (ask q w) = w_remotes w"
  "w_next (ask q w) = w_next w" "w_sem (ask q w) = w_sem w" "w_wg (ask q w) = w_wg w"
  "w_choices (ask q w) = w_choices w" "w_log (ask q w) = w_log w" "w_tick (ask q w) = Suc (w_tick w)"
  "w_flags (ask q w) = w_flags w"
  by (simp_all add: ask_def)

lemma same_state [simp]: "w\<lparr>w_state := w_state w\<rparr> = w"
  by simp

lemma exec_GetPTR [api_simps]: "exec (GetPTR ip k) w = exec (k (ptr w ip)) w"
  by (simp add: GetPTR_def serve_def ptr_def)

lemma exec_HostExists [api_simps]: "exec (HostExists h k) w = exec (k (host w h \<noteq> None)) w"
  by (simp add: HostExists_def serve_def)

lemma exec_GetHostInfo [api_simps]:
  "exec (GetHostInfo h k) w =
   exec (k (case host w h of None \<Rightarrow> Inl (no_host_error h) | Some hi \<Rightarrow> Inr hi)) w"
  by (auto simp: GetHostInfo_def exec_HostExists serve_def split: option.splits)

lemma exec_SetHostInfo [api_simps]:
  "exec (SetHostInfo hi p) w =
   exec p (upd_state (\<lambda>s. s\<lparr>targets := gput (hi_hostName hi) hi (targets s),
     PTR := gput (ipAddress hi) (hi_hostName hi) (PTR s)\<rparr>) w)"
  by (simp add: SetHostInfo_def serve_def upd_state_def)

lemma exec_DeleteHostInfo [api_simps]:
  "exec (DeleteHostInfo h p) w = exec p (upd_state (\<lambda>s. s\<lparr>targets := gdel h (targets s)\<rparr>) w)"
  by (simp add: DeleteHostInfo_def serve_def upd_state_def)

lemma exec_ClearHostInfo [api_simps]:
  "exec (ClearHostInfo p) w = exec p (upd_state (\<lambda>s. s\<lparr>targets := []\<rparr>) w)"
  by (simp add: ClearHostInfo_def serve_def upd_state_def)

lemma exec_GetHostKeys [api_simps]:
  "exec (GetHostKeys k) w =
   exec (k (grange (c_nums (now_choice w)) (targets (w_state w)))) (tick w)"
  by (simp add: GetHostKeys_def serve_def tick_def)

lemma exec_ConnExists [api_simps]: "exec (ConnExists h k) w = exec (k (connection w h \<noteq> None)) w"
  by (simp add: ConnExists_def serve_def)

lemma exec_GetConnInfo [api_simps]:
  "exec (GetConnInfo h k) w =
   exec (k (case connection w h of None \<Rightarrow> Inl (no_conn_error h) | Some ci \<Rightarrow> Inr ci)) w"
  by (auto simp: GetConnInfo_def exec_ConnExists serve_def split: option.splits)

definition add_conn :: "ConnInfo \<Rightarrow> State \<Rightarrow> State" where
  "add_conn ci s = (if glook (conn s) (ci_hostName ci) = None
     then s\<lparr>conn := gput (ci_hostName ci) ci (conn s)\<rparr> else s)"

lemma exec_SetConnInfo [api_simps]:
  "exec (SetConnInfo ci p) w =
   exec p (upd_state (add_conn (ci\<lparr>ci_hostName := ptr w (ci_hostName ci)\<rparr>)) w)"
  by (simp add: SetConnInfo_def exec_GetPTR serve_def upd_state_def add_conn_def)

lemma exec_DeleteConnInfo [api_simps]:
  "exec (DeleteConnInfo h p) w = exec p (upd_state (\<lambda>s. s\<lparr>conn := gdel h (conn s)\<rparr>) w)"
  by (simp add: DeleteConnInfo_def serve_def upd_state_def)

lemma exec_GetConnKeys [api_simps]:
  "exec (GetConnKeys k) w =
   exec (k (grange (c_nums (now_choice w)) (conn (w_state w)))) (tick w)"
  by (simp add: GetConnKeys_def serve_def tick_def)

lemma exec_GetWaiterInfo [api_simps]:
  "exec (GetWaiterInfo k) w =
   exec (k (waiter_info (c_time (now_choice w)) (c_nums (now_choice w)) (w_state w))) (tick w)"
  by (simp add: GetWaiterInfo_def serve_def tick_def)

lemma exec_TimeoutWaiters [api_simps]: "exec (TimeoutWaiters p) w = exec p (tick w)"
  by (simp add: TimeoutWaiters_def serve_def tick_def)

lemma exec_SetConnectionStatus [api_simps]:
  "exec (SetConnectionStatus h ok t e p) w =
   exec p (upd_state (\<lambda>s. s\<lparr>targets :=
     gmod h (\<lambda>hi. hi\<lparr>connectedOK := ok, connectTime := t, lastError := e\<rparr>) (targets s)\<rparr>) w)"
  by (simp add: SetConnectionStatus_def serve_def upd_state_def)

lemma exec_SetRunStatus [api_simps]:
  "exec (SetRunStatus h ok once t e out p) w =
   exec p (upd_state (\<lambda>s. s\<lparr>targets :=
     gmod h (\<lambda>hi. hi\<lparr>runOK := ok, runOnce := once, runTime := t, lastError := e\<rparr>) (targets s)\<rparr>) w)"
  by (simp add: SetRunStatus_def serve_def upd_state_def)

lemma exec_IncProxyCount [api_simps]:
  "connection w h = Some ci \<Longrightarrow>
   exec (IncProxyCount h p) w =
   exec p (upd_state (\<lambda>s. s\<lparr>conn := gput h (ci\<lparr>proxyCount := proxyCount ci + 1\<rparr>) (conn s)\<rparr>) w)"
  by (simp add: IncProxyCount_def serve_def upd_state_def)

lemma exec_SetRequiresPw [api_simps]:
  "exec (SetRequiresPw h p) w =
   (case host w h of
      None \<Rightarrow> Crashed nil_deref w
    | Some hi \<Rightarrow>
        exec p (upd_state (\<lambda>s. s\<lparr>targets := gput h (hi\<lparr>requiresPw := True\<rparr>) (targets s)\<rparr>) w))"
  by (simp add: SetRequiresPw_def serve_def upd_state_def split: option.splits)

lemma exec_GetAuthPass [api_simps]:
  "exec (GetAuthPass k) w = exec (k (sshAuthPass (w_state w))) w"
  by (simp add: GetAuthPass_def serve_def)

lemma exec_SetAuthPass [api_simps]:
  "exec (SetAuthPass pw p) w = exec p (upd_state (\<lambda>s. s\<lparr>sshAuthPass := pw\<rparr>) w)"
  by (simp add: SetAuthPass_def serve_def upd_state_def)

lemma exec_GetSSHConfig [api_simps]:
  "exec (GetSSHConfig k) w = exec (k (sshConfig (w_state w))) w"
  by (simp add: GetSSHConfig_def serve_def)

lemma exec_SetSSHConfig [api_simps]:
  "exec (SetSSHConfig c p) w = exec p (upd_state (\<lambda>s. s\<lparr>sshConfig := c\<rparr>) w)"
  by (simp add: SetSSHConfig_def serve_def upd_state_def)

lemma exec_SetConnWaitInfo [api_simps]:
  "exec (SetConnWaitInfo wi p) w =
   exec p (upd_state (\<lambda>s. s\<lparr>connWaiters :=
     gput (ptr w (wi_hostName wi)) (wi\<lparr>wi_hostName := ptr w (wi_hostName wi)\<rparr>) (connWaiters s)\<rparr>) w)"
  by (simp add: SetConnWaitInfo_def exec_GetPTR serve_def upd_state_def)

lemma exec_SetRunWaitInfo [api_simps]:
  "exec (SetRunWaitInfo wi p) w =
   exec p (upd_state (\<lambda>s. s\<lparr>runWaiters :=
     gput (ptr w (wi_hostName wi)) (wi\<lparr>wi_hostName := ptr w (wi_hostName wi)\<rparr>) (runWaiters s)\<rparr>) w)"
  by (simp add: SetRunWaitInfo_def exec_GetPTR serve_def upd_state_def)

lemma exec_SetConnWaitState [api_simps]:
  "exec (SetConnWaitState h x p) w =
   exec p (upd_state (\<lambda>s. s\<lparr>connWaiters :=
     gmod (ptr w h) (\<lambda>wi. wi\<lparr>wi_state := x\<rparr>) (connWaiters s)\<rparr>) w)"
  by (simp add: SetConnWaitState_def exec_GetPTR serve_def upd_state_def)

lemma exec_SetRunWaitState [api_simps]:
  "exec (SetRunWaitState h x p) w =
   exec p (upd_state (\<lambda>s. s\<lparr>runWaiters :=
     gmod (ptr w h) (\<lambda>wi. wi\<lparr>wi_state := x\<rparr>) (runWaiters s)\<rparr>) w)"
  by (simp add: SetRunWaitState_def exec_GetPTR serve_def upd_state_def)

lemma exec_DeleteConnWaitInfo [api_simps]:
  "exec (DeleteConnWaitInfo h p) w =
   exec p (upd_state (\<lambda>s. s\<lparr>connWaiters := gdel (ptr w h) (connWaiters s)\<rparr>) w)"
  by (simp add: DeleteConnWaitInfo_def exec_GetPTR serve_def upd_state_def)

lemma exec_DeleteRunWaitInfo [api_simps]:
  "exec (DeleteRunWaitInfo h p) w =
   exec p (upd_state (\<lambda>s. s\<lparr>runWaiters := gdel (ptr w h) (runWaiters s)\<rparr>) w)"
  by (simp add: DeleteRunWaitInfo_def exec_GetPTR serve_def upd_state_def)

subsection \<open>The interface to the targets\<close>

locale host_table =
  fixes run :: "proc \<Rightarrow> world \<Rightarrow> outcome"
    and look :: "world \<Rightarrow> string \<Rightarrow> HostInfo option"
    and put :: "HostInfo \<Rightarrow> world \<Rightarrow> world"
    and del :: "string \<Rightarrow> world \<Rightarrow> world"
    and keys :: "world \<Rightarrow> string list"
    and skip :: "world \<Rightarrow> world"
    and dbg :: "Output \<Rightarrow> string \<Rightarrow> nat \<Rightarrow> string \<Rightarrow> world \<Rightarrow> world"
  assumes run_exists: "run (HostExists h k) w = run (k (look w h \<noteq> None)) w"
    and run_get: "run (GetHostInfo h k') w =
      run (k' (case look w h of None \<Rightarrow> Inl (no_host_error h) | Some hi \<Rightarrow> Inr hi)) w"
    and run_set: "run (SetHostInfo hi p) w = run p (put hi w)"
    and run_del: "run (DeleteHostInfo h p) w = run p (del h w)"
    and run_keys: "run (GetHostKeys kk) w = run (kk (keys w)) (skip w)"
    and run_debug: "\<not> mute e \<Longrightarrow> run (Debug e f l t p) w = run p (dbg e f l t w)"
    and look_put: "look (put hi w) = (look w)(hi_hostName hi \<mapsto> hi)"
    and look_del: "look (del h w) = (look w)(h := None)"
    and look_skip: "look (skip w) = look w"
    and look_dbg: "look (dbg e f l t w) = look w"
    and set_keys: "set (keys w) = dom (look w)"

definition put_host :: "HostInfo \<Rightarrow> world \<Rightarrow> world" where
  "put_host hi = upd_state (\<lambda>s. s\<lparr>targets := gput (hi_hostName hi) hi (targets s),
     PTR := gput (ipAddress hi) (hi_hostName hi) (PTR s)\<rparr>)"

definition del_host :: "string \<Rightarrow> world \<Rightarrow> world" where
  "del_host h = upd_state (\<lambda>s. s\<lparr>targets := gdel h (targets s)\<rparr>)"

definition host_keys :: "world \<Rightarrow> string list" where
  "host_keys w = grange (c_nums (now_choice w)) (targets (w_state w))"

interpretation hosts: host_table exec host put_host del_host host_keys tick debug_log
  by unfold_locales
    (simp_all add: api_simps put_host_def del_host_def host_keys_def go_map_simps fun_eq_iff)

end
