(* ===== verification/Json.thy ===== *)
theory Json
  imports StateApi
begin

section \<open>Loading targets (json.go)\<close>

text \<open>
  The JSON blob the external target command prints becomes entries of the target table. Decoding
  is the function \<open>unmarshal\<close>, an argument of the definitions: it gives the decoding error, or the
  list of \<open>Server\<close> values in the order of the blob. \<open>load_servers\<close> is the loop of \<open>LoadBlob\<close>.
  Its lemma is proved from the interface \<open>host_table\<close> alone.
\<close>

record Server =
  s_Name :: string
  s_Chain :: string

definition server_host :: "Server \<Rightarrow> HostInfo" where
  "server_host srv = zero_HostInfo\<lparr>hi_hostName := s_Name srv, chain := split_on (CHR '' '') (s_Chain srv)\<rparr>"

fun load_servers :: "Output \<Rightarrow> Server list \<Rightarrow> int \<Rightarrow> (int \<Rightarrow> proc) \<Rightarrow> proc" where
  "load_servers e [] n k = k n"
| "load_servers e (srv # rest) n k =
     HostExists (s_Name srv) (\<lambda>exists.
       if exists
       then Debug e ''json.go'' 60 (''Duplicate HostInfo entry for: '' @ s_Name srv @ [newline])
              (load_servers e rest n k)
       else SetHostInfo (server_host srv) (load_servers e rest (n + 1) k))"

definition LoadBlob ::
  "(string \<Rightarrow> string + Server list) \<Rightarrow> Output \<Rightarrow> string \<Rightarrow> (int \<times> error \<Rightarrow> proc) \<Rightarrow> proc" where
  "LoadBlob unmarshal e jblob k =
     (case unmarshal jblob of
        Inl err \<Rightarrow> k (0, Some err)
      | Inr servers \<Rightarrow> load_servers e servers 0 (\<lambda>n. k (n, None)))"

definition LoadFile ::
  "(string \<Rightarrow> string + Server list) \<Rightarrow> Output \<Rightarrow> (int \<times> error \<Rightarrow> proc) \<Rightarrow> proc" where
  "LoadFile unmarshal e k =
     GetCfg (\<lambda>c. Ask (XReadFile (c_File c)) (\<lambda>r.
       if c_err r \<noteq> None then k (0, c_err r) else LoadBlob unmarshal e (c_str r) k))"

text \<open>
  What loading a list of servers means: a host that is already a target stays as it is, any other
  name gets the first server of that name. The number of new hosts is the count.
\<close>

definition load_spec :: "Server list \<Rightarrow> (string \<Rightarrow> HostInfo option) \<Rightarrow> string \<Rightarrow> HostInfo option" where
  "load_spec servers m h =
     (case m h of Some hi \<Rightarrow> Some hi
      | None \<Rightarrow> map_option server_host (find (\<lambda>srv. s_Name srv = h) servers))"

definition new_names :: "Server list \<Rightarrow> (string \<Rightarrow> HostInfo option) \<Rightarrow> string set" where
  "new_names servers m = s_Name ` set servers - dom m"

lemma server_host_sel [simp]:
  "hi_hostName (server_host srv) = s_Name srv"
  "chain (server_host srv) = split_on (CHR '' '') (s_Chain srv)"
  by (simp_all add: server_host_def)

lemma load_spec_old: "m (s_Name srv) \<noteq> None \<Longrightarrow> load_spec (srv # rest) m = load_spec rest m"
  by (rule ext) (auto simp: load_spec_def split: option.splits)

lemma load_spec_new:
  "m (s_Name srv) = None \<Longrightarrow>
   load_spec (srv # rest) m = load_spec rest (m(s_Name srv \<mapsto> server_host srv))"
  by (rule ext) (auto simp: load_spec_def split: option.splits)

lemma new_names_old:
  "m (s_Name srv) \<noteq> None \<Longrightarrow> new_names (srv # rest) m = new_names rest m"
  by (auto simp: new_names_def)

lemma card_new_names_new:
  assumes "m (s_Name srv) = None"
  shows "card (new_names (srv # rest) m) =
    Suc (card (new_names rest (m(s_Name srv \<mapsto> server_host srv))))"
proof -
  have "new_names (srv # rest) m =
      insert (s_Name srv) (new_names rest (m(s_Name srv \<mapsto> server_host srv)))"
    using assms by (auto simp: new_names_def)
  moreover have "s_Name srv \<notin> new_names rest (m(s_Name srv \<mapsto> server_host srv))"
    by (simp add: new_names_def)
  moreover have "finite (new_names rest (m(s_Name srv \<mapsto> server_host srv)))"
    by (simp add: new_names_def)
  ultimately show ?thesis by simp
qed

context host_table
begin

lemma run_load_servers:
  assumes "\<not> mute e"
  shows "\<exists>w'. (\<forall>k. run (load_servers e servers n k) w =
        run (k (n + int (card (new_names servers (look w))))) w') \<and>
      look w' = load_spec servers (look w)"
proof (induction servers arbitrary: n w)
  case Nil
  show ?case
    by (intro exI [of _ w]) (auto simp: new_names_def load_spec_def fun_eq_iff split: option.splits)
next
  case (Cons srv rest)
  show ?case
  proof (cases "look w (s_Name srv)")
    case None
    obtain w' where
      "\<forall>k. run (load_servers e rest (n + 1) k) (put (server_host srv) w) =
        run (k (n + 1 + int (card (new_names rest (look (put (server_host srv) w)))))) w'"
      "look w' = load_spec rest (look (put (server_host srv) w))"
      using Cons.IH by blast
    with None show ?thesis
      by (intro exI [of _ w'])
        (simp add: run_exists run_set look_put load_spec_new card_new_names_new add.assoc)
  next
    case (Some hi)
    let ?w = "dbg e ''json.go'' 60 (''Duplicate HostInfo entry for: '' @ s_Name srv @ [newline]) w"
    obtain w' where
      "\<forall>k. run (load_servers e rest n k) ?w = run (k (n + int (card (new_names rest (look ?w))))) w'"
      "look w' = load_spec rest (look ?w)"
      using Cons.IH by blast
    with Some show ?thesis
      by (intro exI [of _ w'])
        (simp add: run_exists run_debug [OF assms] look_dbg load_spec_old new_names_old)
  qed
qed

end

text \<open>
  C37. \<open>LoadBlob\<close> loads exactly the new hosts: a host that is already a target keeps its entry, a
  new name gets the chain of the first server of that name (with no other field set), no other
  host appears, and the number returned is the number of hosts that are new. A blob that does not
  decode changes nothing and returns the error.
\<close>

theorem LoadBlob_loads_new_hosts:
  assumes "\<not> mute e"
  shows "(\<forall>err. unmarshal jblob = Inl err \<longrightarrow>
      (\<forall>k. exec (LoadBlob unmarshal e jblob k) w = exec (k (0, Some err)) w)) \<and>
    (\<forall>servers. unmarshal jblob = Inr servers \<longrightarrow>
      (\<exists>w'. (\<forall>k. exec (LoadBlob unmarshal e jblob k) w =
           exec (k (int (card (new_names servers (host w))), None)) w') \<and>
         (\<forall>h. host w' h = load_spec servers (host w) h)))"
proof (intro conjI allI impI)
  fix servers
  assume u: "unmarshal jblob = Inr servers"
  obtain w' where w': "\<forall>k. exec (load_servers e servers 0 k) w =
        exec (k (0 + int (card (new_names servers (host w))))) w'"
      "host w' = load_spec servers (host w)"
    using hosts.run_load_servers [OF assms] by blast
  then show "\<exists>w'. (\<forall>k. exec (LoadBlob unmarshal e jblob k) w =
           exec (k (int (card (new_names servers (host w))), None)) w') \<and>
         (\<forall>h. host w' h = load_spec servers (host w) h)"
    by (intro exI [of _ w']) (simp add: LoadBlob_def u)
qed (simp add: LoadBlob_def)

definition blob_servers :: "Server list" where
  "blob_servers = [\<lparr>s_Name = ''a'', s_Chain = ''b a''\<rparr>, \<lparr>s_Name = ''a'', s_Chain = ''x''\<rparr>]"

theorem LoadBlob_loads_new_hosts_witness:
  "\<exists>w'. (\<forall>k. exec (LoadBlob (\<lambda>_. Inr blob_servers) (NewOutput 1 2 False False) [] k)
        (start_world (DefaultConfig ''/root'' ''u'') (\<lambda>_. zero_choice)) = exec (k (1, None)) w') \<and>
     host w' ''a'' = Some (zero_HostInfo\<lparr>hi_hostName := ''a'', chain := [''b'', ''a'']\<rparr>)"
proof -
  let ?w = "start_world (DefaultConfig ''/root'' ''u'') (\<lambda>_. zero_choice)"
  have e: "\<not> mute (NewOutput 1 2 False False)"
    by (simp add: NewOutput_def)
  have empty: "host ?w = Map.empty"
    by (rule ext) (simp only: start_world_def world.simps NewState_def State.simps gm.look_emp)
  have new: "new_names blob_servers Map.empty = {''a''}"
    by (auto simp: new_names_def blob_servers_def)
  have entry: "load_spec blob_servers Map.empty ''a'' =
      Some (zero_HostInfo\<lparr>hi_hostName := ''a'', chain := [''b'', ''a'']\<rparr>)"
    by (simp add: load_spec_def blob_servers_def server_host_def)
  obtain w' where
    "\<forall>k. exec (LoadBlob (\<lambda>_. Inr blob_servers) (NewOutput 1 2 False False) [] k) ?w =
       exec (k (int (card (new_names blob_servers (host ?w))), None)) w'"
    "\<forall>h. host w' h = load_spec blob_servers (host ?w) h"
    using LoadBlob_loads_new_hosts [OF e, of "\<lambda>_. Inr blob_servers" "[]" ?w] by blast
  then show ?thesis
    unfolding empty new entry [symmetric] by (intro exI [of _ w']) simp
qed

end
