(* ===== verification/Waiter.thy ===== *)
theory Waiter
  imports Store
begin

section \<open>Waiting with a timeout (proxy.go, run.go)\<close>

text \<open>
  \<open>proxyConnect\<close> and \<open>runCmd\<close> wait the same way. The function registers itself as a waiter, starts
  a worker goroutine and a timer goroutine, and selects between the worker's response and the
  timeout channel (capacity 1), on which the timer sends \<open>true\<close> and the serializer, for
  \<open>TimeoutWaiters\<close>, \<open>false\<close>. It answers its requester, leaves a goroutine behind to receive what it
  did not take, and finally removes its registration, which goes through the serializer.

  \<open>wait_step\<close> is the step relation of one such waiter: the function itself (\<open>w_main\<close>), the worker,
  the timer, the two clean-up goroutines, the channel's buffer, and the serializer as far as it
  concerns this waiter (\<open>w_blocked\<close>: it is blocked sending here). The function that builds the
  response for a timeout is the parameter \<open>mk\<close>.
\<close>

subsection \<open>Messages of a remote host (remotehost.go)\<close>

record proxyResponse =
  pr_client :: "nat option"
  pr_err :: error

record runResponse =
  stdOut :: string
  stdErr :: string
  exitCode :: int
  rr_err :: error

definition zero_runResponse :: runResponse where
  "zero_runResponse = \<lparr>stdOut = [], stdErr = [], exitCode = 0, rr_err = None\<rparr>"

text \<open>What is answered when the timeout channel wins: the flag tells the timer from an abort.\<close>

definition proxy_timeout_response :: "bool \<Rightarrow> proxyResponse" where
  "proxy_timeout_response organic =
     \<lparr>pr_client = None,
      pr_err = Some (if organic then ''Remote connection timed out.''
                     else ''Remote connection aborted.'')\<rparr>"

definition run_timeout_response :: "bool \<Rightarrow> runResponse" where
  "run_timeout_response organic =
     zero_runResponse\<lparr>rr_err := Some (if organic then ''Remote run timed out.''
                                        else ''Remote run aborted.'')\<rparr>"

subsection \<open>The step relation\<close>

datatype 'r main_pc = MStart | MSelect | MResp 'r | MTimeout bool | MReturn | MDone
datatype 'r worker_pc = WStart | WRun | WSend 'r | WDone
datatype timer_pc = TStart | TSleep | TDone
datatype helper_pc = HStart | HWait | HDone

record 'r waiter =
  w_main :: "'r main_pc"
  w_worker :: "'r worker_pc"
  w_timer :: timer_pc
  w_drain :: helper_pc
  w_strag :: helper_pc
  w_buf :: "bool option"
  w_reg :: bool
  w_sent :: "'r list"
  w_blocked :: bool
  w_aborts :: nat

definition wait_init :: "'r waiter" where
  "wait_init = \<lparr>w_main = MStart, w_worker = WStart, w_timer = TStart, w_drain = HStart,
     w_strag = HStart, w_buf = None, w_reg = False, w_sent = [], w_blocked = False, w_aborts = 0\<rparr>"

inductive wait_step :: "(bool \<Rightarrow> 'r) \<Rightarrow> 'r waiter \<Rightarrow> 'r waiter \<Rightarrow> bool" for mk where
  register: "\<lbrakk>w_main x = MStart; \<not> w_blocked x\<rbrakk> \<Longrightarrow>
    wait_step mk x (x\<lparr>w_main := MSelect, w_worker := WRun, w_timer := TSleep, w_reg := True\<rparr>)"
| work: "w_worker x = WRun \<Longrightarrow> wait_step mk x (x\<lparr>w_worker := WSend r\<rparr>)"
| select_resp: "\<lbrakk>w_main x = MSelect; w_worker x = WSend r\<rbrakk> \<Longrightarrow>
    wait_step mk x (x\<lparr>w_main := MResp r, w_worker := WDone\<rparr>)"
| select_timeout: "\<lbrakk>w_main x = MSelect; w_buf x = Some b\<rbrakk> \<Longrightarrow>
    wait_step mk x (x\<lparr>w_main := MTimeout b, w_buf := None\<rparr>)"
| timer_fires: "\<lbrakk>w_timer x = TSleep; w_buf x = None\<rbrakk> \<Longrightarrow>
    wait_step mk x (x\<lparr>w_timer := TDone, w_buf := Some True\<rparr>)"
| reply_resp: "w_main x = MResp r \<Longrightarrow>
    wait_step mk x (x\<lparr>w_main := MReturn, w_sent := w_sent x @ [r], w_drain := HWait\<rparr>)"
| reply_timeout: "w_main x = MTimeout b \<Longrightarrow>
    wait_step mk x (x\<lparr>w_main := MReturn, w_sent := w_sent x @ [mk b], w_strag := HWait\<rparr>)"
| drain: "\<lbrakk>w_drain x = HWait; w_buf x = Some b\<rbrakk> \<Longrightarrow>
    wait_step mk x (x\<lparr>w_drain := HDone, w_buf := None\<rparr>)"
| straggler: "\<lbrakk>w_strag x = HWait; w_worker x = WSend r\<rbrakk> \<Longrightarrow>
    wait_step mk x (x\<lparr>w_strag := HDone, w_worker := WDone\<rparr>)"
| deregister: "\<lbrakk>w_main x = MReturn; \<not> w_blocked x\<rbrakk> \<Longrightarrow>
    wait_step mk x (x\<lparr>w_main := MDone, w_reg := False\<rparr>)"
| abort_sent: "\<lbrakk>w_reg x; \<not> w_blocked x; w_buf x = None\<rbrakk> \<Longrightarrow>
    wait_step mk x (x\<lparr>w_buf := Some False, w_aborts := Suc (w_aborts x)\<rparr>)"
| abort_blocks: "\<lbrakk>w_reg x; \<not> w_blocked x; w_buf x = Some b\<rbrakk> \<Longrightarrow>
    wait_step mk x (x\<lparr>w_blocked := True, w_aborts := Suc (w_aborts x)\<rparr>)"
| unblock: "\<lbrakk>w_blocked x; w_buf x = None\<rbrakk> \<Longrightarrow>
    wait_step mk x (x\<lparr>w_blocked := False, w_buf := Some False\<rparr>)"

inductive_cases wait_stepE: "wait_step mk x y"

subsection \<open>The invariant\<close>

text \<open>How the program counters, the registration and the answers given agree.\<close>

definition wait_shape :: "(bool \<Rightarrow> 'r) \<Rightarrow> 'r waiter \<Rightarrow> bool" where
  "wait_shape mk x \<longleftrightarrow>
     (w_reg x \<longleftrightarrow> w_main x \<noteq> MStart \<and> w_main x \<noteq> MDone) \<and>
     (w_blocked x \<longrightarrow> w_reg x) \<and>
     (case w_main x of
        MStart \<Rightarrow> w_sent x = [] \<and> w_worker x = WStart \<and> w_timer x = TStart \<and> w_drain x = HStart \<and>
          w_strag x = HStart \<and> w_buf x = None \<and> w_aborts x = 0
      | MSelect \<Rightarrow> w_sent x = [] \<and> w_worker x \<in> {WRun} \<union> range WSend \<and> w_timer x \<noteq> TStart \<and>
          w_drain x = HStart \<and> w_strag x = HStart
      | MResp r \<Rightarrow> w_sent x = [] \<and> w_worker x = WDone \<and> w_timer x \<noteq> TStart \<and>
          w_drain x = HStart \<and> w_strag x = HStart
      | MTimeout b \<Rightarrow> w_sent x = [] \<and> w_worker x \<in> {WRun} \<union> range WSend \<and> w_timer x \<noteq> TStart \<and>
          w_drain x = HStart \<and> w_strag x = HStart
      | _ \<Rightarrow> w_timer x \<noteq> TStart \<and>
          ((w_drain x \<noteq> HStart \<and> w_strag x = HStart \<and> w_worker x = WDone \<and> length (w_sent x) = 1) \<or>
           (w_drain x = HStart \<and> w_strag x \<noteq> HStart \<and> (w_strag x = HDone \<longleftrightarrow> w_worker x = WDone) \<and>
            w_worker x \<noteq> WStart \<and> (\<exists>b. w_sent x = [mk b]))))"

text \<open>
  The tokens sent on the timeout channel (one by the timer, one per abort) against those taken
  from it (by the select or the drain goroutine) and the one the buffer can hold.
\<close>

definition tokens_in :: "'r waiter \<Rightarrow> nat" where
  "tokens_in x = (if w_timer x = TDone then 1 else 0) + w_aborts x"

definition tokens_taken :: "'r waiter \<Rightarrow> nat" where
  "tokens_taken x =
     (if w_strag x \<noteq> HStart \<or> (\<exists>b. w_main x = MTimeout b) then 1 else 0) +
     (if w_drain x = HDone then 1 else 0)"

definition wait_tokens :: "'r waiter \<Rightarrow> bool" where
  "wait_tokens x \<longleftrightarrow>
     tokens_in x = tokens_taken x + (if w_buf x = None then 0 else 1) + (if w_blocked x then 1 else 0)"

definition wait_inv :: "(bool \<Rightarrow> 'r) \<Rightarrow> 'r waiter \<Rightarrow> bool" where
  "wait_inv mk x \<longleftrightarrow> wait_shape mk x \<and> wait_tokens x"

lemma wait_inv_init: "wait_inv mk wait_init"
  by (simp add: wait_inv_def wait_shape_def wait_tokens_def wait_init_def tokens_in_def tokens_taken_def)

lemma wait_shape_step: "\<lbrakk>wait_step mk x y; wait_shape mk x\<rbrakk> \<Longrightarrow> wait_shape mk y"
  by (induction rule: wait_step.induct) (auto simp: wait_shape_def split: main_pc.splits)

lemma wait_tokens_step: "\<lbrakk>wait_step mk x y; wait_shape mk x; wait_tokens x\<rbrakk> \<Longrightarrow> wait_tokens y"
  by (induction rule: wait_step.induct)
    (auto simp: wait_shape_def wait_tokens_def tokens_in_def tokens_taken_def split: main_pc.splits)

interpretation waiting: transition_system "\<lambda>x. x = wait_init" "wait_step mk" "wait_inv mk" for mk
  by unfold_locales
    (auto simp: wait_inv_init, auto simp: wait_inv_def intro: wait_shape_step wait_tokens_step)

subsection \<open>One answer, no goroutine left, and the abort that blocks\<close>

text \<open>
  C11. A request to connect through a proxy or to run a command is answered at most once; once
  the function has returned it has been answered exactly once and the waiter is deregistered; and
  an answer given for the timeout channel is the timeout or the abort response.
\<close>

theorem exactly_one_response:
  assumes "(wait_step mk)\<^sup>*\<^sup>* wait_init x"
  shows "length (w_sent x) \<le> 1 \<and>
    (w_main x = MDone \<longrightarrow> length (w_sent x) = 1 \<and> \<not> w_reg x) \<and>
    (w_strag x \<noteq> HStart \<longrightarrow> w_sent x = [mk True] \<or> w_sent x = [mk False])"
proof -
  have "wait_shape mk x"
    using waiting.inv_reachable [OF refl assms] by (simp add: wait_inv_def)
  then show ?thesis
    by (auto simp: wait_shape_def ex_bool_eq split: main_pc.splits)
qed

text \<open>A run in which the timer wins, up to the return.\<close>

definition timed_out_waiter :: "(bool \<Rightarrow> 'r) \<Rightarrow> 'r waiter" where
  "timed_out_waiter mk = \<lparr>w_main = MReturn, w_worker = WRun, w_timer = TDone, w_drain = HStart,
     w_strag = HWait, w_buf = None, w_reg = True, w_sent = [mk True], w_blocked = False, w_aborts = 0\<rparr>"

lemma timed_out_reachable: "(wait_step mk)\<^sup>*\<^sup>* wait_init (timed_out_waiter mk)"
proof -
  let ?x1 = "wait_init\<lparr>w_main := MSelect, w_worker := WRun, w_timer := TSleep, w_reg := True\<rparr>"
  let ?x2 = "?x1\<lparr>w_timer := TDone, w_buf := Some True\<rparr>"
  let ?x3 = "?x2\<lparr>w_main := MTimeout True, w_buf := None\<rparr>"
  let ?x4 = "?x3\<lparr>w_main := MReturn, w_sent := w_sent ?x3 @ [mk True], w_strag := HWait\<rparr>"
  have "wait_step mk wait_init ?x1" "wait_step mk ?x1 ?x2" "wait_step mk ?x2 ?x3"
    "wait_step mk ?x3 ?x4"
    by (rule register timer_fires select_timeout reply_timeout; simp add: wait_init_def)+
  moreover have "?x4 = timed_out_waiter mk"
    by (simp add: wait_init_def timed_out_waiter_def)
  ultimately show ?thesis
    by (simp add: rtranclp.rtrancl_into_rtrancl [OF rtranclp.rtrancl_into_rtrancl
        [OF rtranclp.rtrancl_into_rtrancl [OF r_into_rtranclp]]])
qed

theorem exactly_one_response_witness:
  "\<exists>x. (wait_step run_timeout_response)\<^sup>*\<^sup>* wait_init x \<and> w_strag x \<noteq> HStart \<and>
     length (w_sent x) \<le> 1 \<and>
     (w_sent x = [run_timeout_response True] \<or> w_sent x = [run_timeout_response False])"
proof -
  have "w_strag (timed_out_waiter run_timeout_response) \<noteq> HStart"
    by (simp add: timed_out_waiter_def)
  with exactly_one_response [OF timed_out_reachable [of run_timeout_response]]
    timed_out_reachable [of run_timeout_response]
  show ?thesis by blast
qed

text \<open>Every step that is not an abort brings the waiter closer to the end.\<close>

definition wait_rank :: "'r waiter \<Rightarrow> nat" where
  "wait_rank x =
     (case w_main x of MStart \<Rightarrow> 4 | MSelect \<Rightarrow> 3 | MResp r \<Rightarrow> 2 | MTimeout b \<Rightarrow> 2 | MReturn \<Rightarrow> 1
        | MDone \<Rightarrow> 0) +
     (case w_worker x of WStart \<Rightarrow> 3 | WRun \<Rightarrow> 2 | WSend r \<Rightarrow> 1 | WDone \<Rightarrow> 0) +
     (case w_timer x of TStart \<Rightarrow> 2 | TSleep \<Rightarrow> 1 | TDone \<Rightarrow> 0) +
     (case w_drain x of HStart \<Rightarrow> 2 | HWait \<Rightarrow> 1 | HDone \<Rightarrow> 0) +
     (case w_strag x of HStart \<Rightarrow> 2 | HWait \<Rightarrow> 1 | HDone \<Rightarrow> 0) +
     (if w_blocked x then 1 else 0)"

lemma wait_rank_step:
  "\<lbrakk>wait_step mk x y; wait_shape mk x\<rbrakk> \<Longrightarrow>
   wait_rank y + 1 + 2 * w_aborts x \<le> wait_rank x + 2 * w_aborts y"
  by (induction rule: wait_step.induct)
    (auto simp: wait_rank_def wait_shape_def split: main_pc.splits)

lemma wait_run_length:
  "(wait_step mk ^^ n) wait_init x \<Longrightarrow> wait_shape mk x \<and> n + wait_rank x \<le> 13 + 2 * w_aborts x"
proof (induction n arbitrary: x)
  case 0
  then have x: "x = wait_init"
    by simp
  show ?case
    using wait_inv_init [of mk] unfolding x by (simp add: wait_inv_def) (simp add: wait_rank_def wait_init_def)
next
  case (Suc n)
  then obtain y where y: "(wait_step mk ^^ n) wait_init y" "wait_step mk y x"
    by auto
  with Suc.IH [OF y(1)] wait_rank_step [OF y(2)] wait_shape_step [OF y(2)] show ?case
    by simp
qed

lemma wait_terminal:
  assumes "wait_inv mk x" and "w_aborts x \<le> 1" and "\<forall>y. \<not> wait_step mk x y"
  shows "w_main x = MDone \<and> w_worker x = WDone \<and> w_timer x = TDone \<and> w_drain x \<noteq> HWait \<and>
    w_strag x \<noteq> HWait \<and> \<not> w_blocked x"
proof -
  have no: "\<not> wait_step mk x y" for y
    using assms(3) by simp
  have inv: "wait_shape mk x" "wait_tokens x"
    using assms(1) by (simp_all add: wait_inv_def)
  have run: "w_worker x \<noteq> WRun"
    by (metis no work)
  have timer: "w_timer x = TSleep \<Longrightarrow> w_buf x \<noteq> None"
    by (metis no timer_fires)
  have unbl: "w_blocked x \<Longrightarrow> w_buf x \<noteq> None"
    by (metis no unblock)
  have dr: "w_drain x = HWait \<Longrightarrow> w_buf x = None"
    by (metis no drain not_None_eq)
  have st: "w_strag x = HWait \<Longrightarrow> \<exists>r. w_worker x = WSend r \<Longrightarrow> False"
    by (metis no straggler)
  have main: "w_main x = MDone"
  proof (cases "w_main x")
    case MStart
    then have "\<not> w_blocked x"
      using inv(1) by (auto simp: wait_shape_def)
    with MStart show ?thesis by (metis no register)
  next
    case MSelect
    then obtain r where "w_worker x = WSend r"
      using inv(1) run by (auto simp: wait_shape_def)
    with MSelect show ?thesis by (metis no select_resp)
  next
    case (MResp r)
    then show ?thesis by (metis no reply_resp)
  next
    case (MTimeout b)
    then show ?thesis by (metis no reply_timeout)
  next
    case MReturn
    then have bl: "w_blocked x" "w_buf x \<noteq> None"
      by (metis no deregister, metis no deregister unbl)
    have "w_drain x \<noteq> HWait"
      using dr bl by auto
    with MReturn bl inv assms(2) timer show ?thesis
      by (cases "w_drain x") (auto simp: wait_shape_def wait_tokens_def tokens_in_def tokens_taken_def split: if_splits)
  qed
  moreover have "\<not> w_blocked x"
    using inv(1) main by (auto simp: wait_shape_def)
  moreover have "w_worker x = WDone" "w_strag x \<noteq> HWait"
    using inv(1) main run st
    by (cases "w_worker x"; cases "w_strag x"; auto simp: wait_shape_def)+
  moreover have "w_timer x = TDone \<and> w_drain x \<noteq> HWait"
    using inv main timer dr assms(2) calculation
    by (cases "w_timer x"; cases "w_drain x";
        auto simp: wait_shape_def wait_tokens_def tokens_in_def tokens_taken_def split: if_splits)
  ultimately show ?thesis
    using main by blast
qed

text \<open>
  C12. Waiting ends and leaves nothing behind: if the worker finishes and the waiters are
  aborted at most once, every run of a waiter is finite (at most 13 steps and 2 for the abort),
  and where no step is left the function has returned, the worker, the timer and the clean-up
  goroutine have ended, and the serializer is not blocked.
\<close>

theorem waiting_terminates_cleanly:
  assumes "(wait_step mk ^^ n) wait_init x" and "w_aborts x \<le> 1"
  shows "n \<le> 15 \<and>
    ((\<forall>y. \<not> wait_step mk x y) \<longrightarrow>
      w_main x = MDone \<and> w_worker x = WDone \<and> w_timer x = TDone \<and> w_drain x \<noteq> HWait \<and>
      w_strag x \<noteq> HWait \<and> \<not> w_blocked x)"
proof -
  have "wait_inv mk x"
    using assms(1) waiting.inv_reachable [OF refl, of mk x] by (blast intro: relpowp_imp_rtranclp)
  then show ?thesis
    using wait_run_length [OF assms(1)] wait_terminal [of mk x] assms(2) by auto
qed

theorem waiting_terminates_cleanly_witness:
  "\<exists>n. (wait_step proxy_timeout_response ^^ n) wait_init (timed_out_waiter proxy_timeout_response) \<and>
     n \<le> 15"
proof -
  obtain n where n: "(wait_step proxy_timeout_response ^^ n) wait_init
      (timed_out_waiter proxy_timeout_response)"
    using timed_out_reachable [of proxy_timeout_response] by (blast dest: rtranclp_imp_relpowp)
  have "w_aborts (timed_out_waiter proxy_timeout_response) \<le> 1"
    by (simp add: timed_out_waiter_def)
  with waiting_terminates_cleanly [OF n] n show ?thesis by blast
qed

definition wedged_waiter :: "(bool \<Rightarrow> 'r) \<Rightarrow> 'r waiter" where
  "wedged_waiter mk = (timed_out_waiter mk)\<lparr>w_buf := Some False, w_blocked := True, w_aborts := 2\<rparr>"

lemma wedged_reachable: "(wait_step mk)\<^sup>*\<^sup>* wait_init (wedged_waiter mk)"
proof -
  let ?x = "(timed_out_waiter mk)\<lparr>w_buf := Some False, w_aborts := 1\<rparr>"
  have "wait_step mk (timed_out_waiter mk)
      ((timed_out_waiter mk)\<lparr>w_buf := Some False, w_aborts := Suc (w_aborts (timed_out_waiter mk))\<rparr>)"
    by (rule abort_sent) (simp_all add: timed_out_waiter_def)
  then have "wait_step mk (timed_out_waiter mk) ?x"
    by (simp add: timed_out_waiter_def)
  moreover have "wait_step mk ?x (?x\<lparr>w_blocked := True, w_aborts := Suc (w_aborts ?x)\<rparr>)"
    by (rule abort_blocks [where b = False]) (simp_all add: timed_out_waiter_def)
  then have "wait_step mk ?x (wedged_waiter mk)"
    by (simp add: wedged_waiter_def timed_out_waiter_def numeral_2_eq_2)
  ultimately show ?thesis
    using timed_out_reachable [of mk] by (meson rtranclp.rtrancl_into_rtrancl)
qed

text \<open>
  C18. Two aborts can stop the program: after the timer has won, an abort fills the channel
  nobody reads any more; a second one, before the waiter's deregistration is served, blocks the
  serializer. From there on, in every continuation, the serializer stays blocked and the waiter
  registered (its deregistration needs the serializer).
\<close>

theorem two_aborts_block_the_serializer:
  "\<exists>x. (wait_step mk)\<^sup>*\<^sup>* wait_init x \<and> w_aborts x = 2 \<and> w_sent x = [mk True] \<and>
     \<not> (\<exists>y. (wait_step mk)\<^sup>*\<^sup>* x y \<and> \<not> (w_blocked y \<and> w_reg y))"
proof -
  let ?stuck = "\<lambda>y. w_blocked y \<and> w_reg y \<and> w_main y = MReturn \<and> w_drain y = HStart \<and> w_buf y \<noteq> None"
  have step': "?stuck z" if "wait_step mk y z" "?stuck y" for y z
    using that by (auto elim!: wait_stepE)
  have start: "?stuck (wedged_waiter mk)"
    by (simp add: wedged_waiter_def timed_out_waiter_def)
  have "?stuck y" if "(wait_step mk)\<^sup>*\<^sup>* (wedged_waiter mk) y" for y
    using that
  proof (induction rule: rtranclp_induct)
    case base
    show ?case by (rule start)
  next
    case (step y z)
    then show ?case using step' by blast
  qed
  moreover have "w_aborts (wedged_waiter mk) = 2 \<and> w_sent (wedged_waiter mk) = [mk True]"
    by (simp add: wedged_waiter_def timed_out_waiter_def)
  ultimately show ?thesis
    using wedged_reachable [of mk] by blast
qed

end
