(* ===== verification/Serializer.thy ===== *)
theory Serializer
  imports Store
begin

section \<open>The serializer and the timeout channels (state.go)\<close>

text \<open>
  \<open>TimeoutWaiters\<close> makes the serializer send \<open>false\<close> on the timeout channel of every waiter, from
  inside the loop that serves everybody. These channels have room for one value, so the send can
  block, and while it does no message is served. A configuration is the state, what the serializer
  is doing, and the content of each timeout channel; the labels say who moves: the serializer, a
  goroutine that receives from a timeout channel (\<open>Take\<close>), or a timer that expires (\<open>Expire\<close>).
\<close>

datatype ser_mode = Idle | Sending "chan_id list"

record Ser =
  ser_state :: State
  ser_mode :: ser_mode
  bufs :: "chan_id \<Rightarrow> bool option"

datatype ser_label =
    Turn request
  | Begin
  | SendFalse chan_id
  | Finish
  | Take chan_id bool
  | Expire chan_id

inductive ser_step :: "Ser \<Rightarrow> ser_label \<Rightarrow> Ser \<Rightarrow> bool" where
  turn: "\<lbrakk>ser_mode x = Idle; r \<noteq> timeoutWaiters; handle now ns (ser_state x) r = Inr (s', rep)\<rbrakk> \<Longrightarrow>
    ser_step x (Turn r) (x\<lparr>ser_state := s'\<rparr>)"
| begin_timeouts: "ser_mode x = Idle \<Longrightarrow>
    ser_step x Begin (x\<lparr>ser_mode := Sending (timeout_targets ns (ser_state x))\<rparr>)"
| send_false: "\<lbrakk>ser_mode x = Sending (c # cs); bufs x c = None\<rbrakk> \<Longrightarrow>
    ser_step x (SendFalse c) (x\<lparr>ser_mode := Sending cs, bufs := (bufs x)(c \<mapsto> False)\<rparr>)"
| finish: "ser_mode x = Sending [] \<Longrightarrow> ser_step x Finish (x\<lparr>ser_mode := Idle\<rparr>)"
| take: "bufs x c = Some b \<Longrightarrow> ser_step x (Take c b) (x\<lparr>bufs := (bufs x)(c := None)\<rparr>)"
| expire: "bufs x c = None \<Longrightarrow> ser_step x (Expire c) (x\<lparr>bufs := (bufs x)(c \<mapsto> True)\<rparr>)"

inductive_cases ser_stepE: "ser_step x l y"

inductive ser_run :: "Ser \<Rightarrow> ser_label list \<Rightarrow> Ser \<Rightarrow> bool" where
  nil: "ser_run x [] x"
| cons: "\<lbrakk>ser_step x l y; ser_run y ls z\<rbrakk> \<Longrightarrow> ser_run x (l # ls) z"

inductive_cases ser_run_NilE: "ser_run x [] y"

subsection \<open>Aborting the waiters\<close>

lemma ser_run_sends:
  assumes "ser_mode x = Sending cs" and "distinct cs" and "\<forall>c \<in> set cs. bufs x c = None"
  shows "ser_run x (map SendFalse cs @ [Finish])
    (x\<lparr>ser_mode := Idle, bufs := (\<lambda>c. if c \<in> set cs then Some False else bufs x c)\<rparr>)"
  using assms
proof (induction cs arbitrary: x)
  case Nil
  then show ?case
    by (auto intro!: ser_run.cons [OF finish] simp: ser_run.nil)
next
  case (Cons c cs)
  let ?y = "x\<lparr>ser_mode := Sending cs, bufs := (bufs x)(c \<mapsto> False)\<rparr>"
  have "ser_step x (SendFalse c) ?y"
    using Cons.prems by (intro send_false) simp_all
  moreover have "ser_run ?y (map SendFalse cs @ [Finish])
    (?y\<lparr>ser_mode := Idle, bufs := (\<lambda>d. if d \<in> set cs then Some False else bufs ?y d)\<rparr>)"
    using Cons.prems by (intro Cons.IH) auto
  moreover have "?y\<lparr>ser_mode := Idle, bufs := (\<lambda>d. if d \<in> set cs then Some False else bufs ?y d)\<rparr>
    = x\<lparr>ser_mode := Idle, bufs := (\<lambda>d. if d \<in> set (c # cs) then Some False else bufs x d)\<rparr>"
    by (simp add: fun_eq_iff)
  ultimately show ?case
    by (simp add: ser_run.cons)
qed

text \<open>
  C19. \<open>TimeoutWaiters\<close> reaches every waiter: from an idle serializer, when the waiters'
  channels are distinct and empty, the serializer can finish the request, and then the channel of
  every connection and run waiter holds \<open>false\<close>, all others are unchanged, and so is the state.
\<close>

theorem abort_reaches_every_waiter:
  assumes "ser_mode x = Idle" and "distinct (timeout_targets ns (ser_state x))"
    and "\<forall>c \<in> set (timeout_targets ns (ser_state x)). bufs x c = None"
  shows "\<exists>y. ser_run x (Begin # map SendFalse (timeout_targets ns (ser_state x)) @ [Finish]) y \<and>
    ser_mode y = Idle \<and> ser_state y = ser_state x \<and>
    (\<forall>h w. glook (connWaiters (ser_state x)) h = Some w \<longrightarrow> bufs y (timeoutChan w) = Some False) \<and>
    (\<forall>h w. glook (runWaiters (ser_state x)) h = Some w \<longrightarrow> bufs y (timeoutChan w) = Some False) \<and>
    (\<forall>c. c \<notin> set (timeout_targets ns (ser_state x)) \<longrightarrow> bufs y c = bufs x c)"
proof -
  let ?cs = "timeout_targets ns (ser_state x)"
  let ?x1 = "x\<lparr>ser_mode := Sending ?cs\<rparr>"
  let ?y = "x\<lparr>ser_mode := Idle, bufs := (\<lambda>c. if c \<in> set ?cs then Some False else bufs x c)\<rparr>"
  have "ser_step x Begin ?x1"
    using assms(1) by (rule begin_timeouts)
  moreover have "ser_run ?x1 (map SendFalse ?cs @ [Finish]) ?y"
    using ser_run_sends [of ?x1 ?cs] assms by (simp cong: if_cong)
  ultimately have "ser_run x (Begin # map SendFalse ?cs @ [Finish]) ?y"
    by (rule ser_run.cons)
  moreover have "timeoutChan w \<in> set ?cs"
    if "glook (connWaiters (ser_state x)) h = Some w \<or> glook (runWaiters (ser_state x)) h = Some w"
    for h w
    using that unfolding timeout_targets_def by (auto dest: gvalues_look)
  ultimately show ?thesis
    by (intro exI [of _ ?y]) auto
qed

theorem abort_reaches_every_waiter_witness:
  defines "s \<equiv> NewState\<lparr>
      connWaiters := [(''a'', \<lparr>wi_hostName = ''a'', wi_state = stateDialing, startTime = 0, timeoutChan = 1\<rparr>)],
      runWaiters := [(''a'', \<lparr>wi_hostName = ''a'', wi_state = stateRunning, startTime = 5, timeoutChan = 2\<rparr>)]\<rparr>"
  shows "\<exists>y. ser_run \<lparr>ser_state = s, ser_mode = Idle, bufs = Map.empty\<rparr>
      [Begin, SendFalse 1, SendFalse 2, Finish] y \<and> bufs y 1 = Some False \<and> bufs y 2 = Some False"
proof -
  let ?x = "\<lparr>ser_state = s, ser_mode = Idle, bufs = Map.empty\<rparr>"
  have cs: "timeout_targets [] s = [1, 2]"
    by (simp add: s_def timeout_targets_def gvalues_def NewState_def)
  have "glook (connWaiters s) ''a'' = Some \<lparr>wi_hostName = ''a'', wi_state = stateDialing, startTime = 0, timeoutChan = 1\<rparr>"
    and "glook (runWaiters s) ''a'' = Some \<lparr>wi_hostName = ''a'', wi_state = stateRunning, startTime = 5, timeoutChan = 2\<rparr>"
    by (simp_all add: s_def glook_def)
  with abort_reaches_every_waiter [of ?x "[]"] cs show ?thesis
    by fastforce
qed

text \<open>
  The serializer can starve everybody: once it is sending to a timeout channel that is full,
  then as long as nobody receives from that channel it stays there, serves no message at all and
  the state never changes again, whatever the timers and the other goroutines do.
\<close>

theorem serializer_stays_blocked:
  assumes "ser_run x ls y" and "ser_mode x = Sending (c # cs)" and "bufs x c = Some b"
    and "\<forall>v. Take c v \<notin> set ls"
  shows "ser_mode y = Sending (c # cs) \<and> bufs y c = Some b \<and> ser_state y = ser_state x \<and>
    (\<forall>r. Turn r \<notin> set ls)"
  using assms
proof (induction rule: ser_run.induct)
  case (nil x)
  then show ?case by simp
next
  case (cons x l y ls z)
  from cons.hyps(1) cons.prems
  have "ser_mode y = ser_mode x \<and> bufs y c = bufs x c \<and> ser_state y = ser_state x \<and> (\<forall>r. l \<noteq> Turn r)"
    by (auto elim!: ser_stepE)
  with cons show ?case by auto
qed

theorem serializer_stays_blocked_witness:
  "\<exists>x y c. ser_run x [Expire 3, Take 3 True] y \<and> ser_mode x = Sending [c] \<and> bufs x c = Some True \<and>
     ser_mode y = Sending [c] \<and> ser_state y = NewState"
proof -
  let ?x = "\<lparr>ser_state = NewState, ser_mode = Sending [7], bufs = [7 \<mapsto> True]\<rparr>"
  let ?y = "?x\<lparr>bufs := (bufs ?x)(3 \<mapsto> True)\<rparr>"
  let ?z = "?y\<lparr>bufs := (bufs ?y)(3 := None)\<rparr>"
  have "ser_step ?x (Expire 3) ?y" "ser_step ?y (Take 3 True) ?z"
    by (rule expire take, simp)+
  then have r: "ser_run ?x [Expire 3, Take 3 True] ?z"
    by (blast intro: ser_run.intros)
  have "ser_mode ?z = Sending [7] \<and> bufs ?z 7 = Some True \<and> ser_state ?z = ser_state ?x \<and>
      (\<forall>r. Turn r \<notin> set [Expire 3, Take 3 True])"
    by (rule serializer_stays_blocked [OF r]) simp_all
  with r show ?thesis by fastforce
qed

end
