(* ===== verification/Sortmap.thy ===== *)
theory Sortmap
  imports Prelude
begin

section \<open>Sorting the keys of a map by value (sortmap.go)\<close>

text \<open>
  Both functions collect the keys of a map, in the order of a \<open>range\<close> loop, and sort them with
  \<open>sort.Sort\<close>, which need not be stable. The model sorts stably; as the order of the loop is
  arbitrary, every result an unstable sort can give is a result of the model for some order
  (\<open>sorts_complete\<close>). The interface \<open>sorts_by_value\<close> holds what the two have in common.
  Floating-point values are any linear order here: the program never stores a NaN.
\<close>

definition sortedIntKeys :: "nat list \<Rightarrow> (string, int) gomap \<Rightarrow> string list" where
  "sortedIntKeys ns m = sort_key (\<lambda>k. - gcount m k) (grange ns m)"

definition float_at :: "(string, 'f::zero) gomap \<Rightarrow> string \<Rightarrow> 'f" where
  "float_at m k = (case glook m k of None \<Rightarrow> 0 | Some v \<Rightarrow> v)"

definition sortedRevFloat64Keys :: "nat list \<Rightarrow> (string, 'f::{linorder,zero}) gomap \<Rightarrow> string list" where
  "sortedRevFloat64Keys ns m = sort_key (float_at m) (grange ns m)"

lemma sort_key_id: "sorted (map f xs) \<Longrightarrow> sort_key f xs = xs"
  by (induction xs) (auto simp: insort_is_Cons)

locale sorts_by_value =
  fixes sorts :: "nat list \<Rightarrow> (string, 'v) gomap \<Rightarrow> string list"
    and rank :: "(string, 'v) gomap \<Rightarrow> string \<Rightarrow> 'r::linorder"
  assumes sorts_sort: "sorts ns m = sort_key (rank m) (grange ns m)"
begin

lemma sorts_keys: "set (sorts ns m) = dom (glook m)" "length (sorts ns m) = length m"
  by (simp_all add: sorts_sort)

lemma sorts_distinct: "gwf m \<Longrightarrow> distinct (sorts ns m)"
  by (simp add: sorts_sort distinct_grange)

lemma sorts_sorted: "sorted (map (rank m) (sorts ns m))"
  by (simp add: sorts_sort)

lemma sorts_ordered: "\<lbrakk>i \<le> j; j < length m\<rbrakk> \<Longrightarrow> rank m (sorts ns m ! i) \<le> rank m (sorts ns m ! j)"
  using sorted_nth_mono [OF sorts_sorted, of i j m ns] by (simp add: sorts_keys)

lemma sorts_complete:
  assumes "mset ks = mset (gkeys m)" and "sorted (map (rank m) ks)"
  shows "\<exists>ns. sorts ns m = ks"
proof -
  obtain ns where "grange ns m = ks"
    using pick_order_complete [OF assms(1)] by (auto simp: grange_def)
  then show ?thesis
    using sort_key_id [OF assms(2)] by (auto simp: sorts_sort)
qed

end

interpretation by_count: sorts_by_value sortedIntKeys "\<lambda>m k. - gcount m k"
  by unfold_locales (simp add: sortedIntKeys_def)

interpretation by_float: sorts_by_value sortedRevFloat64Keys float_at
  by unfold_locales (simp add: sortedRevFloat64Keys_def)

text \<open>
  C38. \<open>sortedIntKeys\<close> lists every key of the map once, with the largest counts first; and every
  such order of the keys is a possible result, so callers can rely on nothing more (ties come in
  any order).
\<close>

theorem sortedIntKeys_spec:
  assumes "gwf m"
  shows "distinct (sortedIntKeys ns m) \<and> set (sortedIntKeys ns m) = dom (glook m) \<and>
    (\<forall>i j. i \<le> j \<and> j < length m \<longrightarrow>
       gcount m (sortedIntKeys ns m ! j) \<le> gcount m (sortedIntKeys ns m ! i)) \<and>
    (\<forall>ks. mset ks = mset (gkeys m) \<and> sorted (map (\<lambda>k. - gcount m k) ks) \<longrightarrow>
       (\<exists>order. sortedIntKeys order m = ks))"
  using by_count.sorts_distinct [OF assms] by_count.sorts_keys by_count.sorts_ordered
    by_count.sorts_complete by (metis (no_types, lifting) neg_le_iff_le)

theorem sortedIntKeys_spec_witness:
  "gcount [(''a'', 1), (''b'', 3)] (sortedIntKeys [1] [(''a'', 1), (''b'', 3)] ! 1) \<le>
   gcount [(''a'', 1), (''b'', 3)] (sortedIntKeys [1] [(''a'', 1), (''b'', 3)] ! 0)"
  using sortedIntKeys_spec [of "[(''a'', 1), (''b'', 3)]" "[1]"]
  by (simp add: gwf_def gkeys_def del: sorted_map)

text \<open>
  Although it is described as a reverse sort, \<open>sortedRevFloat64Keys\<close> lists the keys with the
  smallest values first, for every map and iteration order.
\<close>

theorem sortedRevFloat64Keys_ascends:
  "set (sortedRevFloat64Keys ns m) = dom (glook m) \<and>
   sorted (map (float_at m) (sortedRevFloat64Keys ns m))"
  using by_float.sorts_keys by_float.sorts_sorted by blast

end
