(* ===== verification/Runs.thy ===== *)
theory Runs
  imports StateApi
begin

section \<open>Runs\<close>

text \<open>
  How a goroutine's run is described. \<open>asked\<close> is the world after some queries, which keeps terms
  small when a long sequence of calls is followed. \<open>returns\<close> is what a function in
  continuation-passing style does when it is called in a world: it comes back with a result and a
  world. The scripted worlds are those of the witnesses.
\<close>

subsection \<open>Runs of queries\<close>

definition nth_choice :: "world \<Rightarrow> nat \<Rightarrow> choice" where
  "nth_choice w i = w_choices w (w_tick w + i)"

lemma now_choice_ask [simp]:
  "now_choice (ask q w) = w_choices w (Suc (w_tick w))"
  "now_choice (put_log fd s w) = now_choice w"
  "now_choice (debug_log e f l s w) = now_choice w"
  "now_choice (warn_log e f l s x w) = now_choice w"
  by (simp_all add: now_choice_def ask_def tick_def put_log_def)

text \<open>A world after queries that all succeeded: only the trace and the clock have moved.\<close>

definition asked :: "query list \<Rightarrow> world \<Rightarrow> world" where
  "asked qs w = w\<lparr>w_tick := w_tick w + length qs, w_calls := w_calls w @ qs\<rparr>"

lemma asked_sel [simp]:
  "w_state (asked qs w) = w_state w" "w_config (asked qs w) = w_config w"
  "w_calls (asked qs w) = w_calls w @ qs" "w_remotes (asked qs w) = w_remotes w"
  "w_choices (asked qs w) = w_choices w" "w_tick (asked qs w) = w_tick w + length qs"
  "w_flags (asked qs w) = w_flags w"
  by (simp_all add: asked_def)

lemma asked_asked [simp]: "asked qs (asked rs w) = asked (rs @ qs) w"
  by (simp add: asked_def)

lemma log_asked [simp]:
  "put_log fd s (asked qs w) = asked qs (put_log fd s w)"
  "debug_log e f l s (asked qs w) = asked qs (debug_log e f l s w)"
  "warn_log e f l s x (asked qs w) = asked qs (warn_log e f l s x w)"
  by (simp_all add: put_log_def debug_log_def warn_log_def asked_def split: option.split)

lemma warn_log_None [simp]: "warn_log e f l s None w = w"
  by (simp add: warn_log_def)

lemma nth_choice_log [simp]:
  "nth_choice (put_log fd s w) i = nth_choice w i"
  "nth_choice (debug_log e f l s w) i = nth_choice w i"
  "nth_choice (warn_log e f l s x w) i = nth_choice w i"
  by (simp_all add: nth_choice_def)

lemma asked_Nil: "asked [] w = w"
  by (simp add: asked_def)

lemma exec_Ask: "exec (Ask q k) (asked qs w) = exec (k (nth_choice w (length qs))) (asked (qs @ [q]) w)"
  by (simp add: now_choice_def ask_def tick_def asked_def nth_choice_def)

lemma ask_asked: "ask q w = asked [q] w"
  by (simp add: ask_def tick_def asked_def)

lemmas run_queries = ask_asked now_choice_def nth_choice_def c_err_def

subsection \<open>Functions that return\<close>

text \<open>
  A function called in world \<open>w\<close> hands \<open>r\<close> to its continuation in world \<open>w'\<close>, whatever the
  continuation is; and the function that ends the program or blocks there.
\<close>

definition returns :: "(('r \<Rightarrow> proc) \<Rightarrow> proc) \<Rightarrow> world \<Rightarrow> 'r \<Rightarrow> world \<Rightarrow> bool" where
  "returns f w r w' \<longleftrightarrow> (\<forall>k. exec (f k) w = exec (k r) w')"

definition stops :: "(('r \<Rightarrow> proc) \<Rightarrow> proc) \<Rightarrow> world \<Rightarrow> outcome \<Rightarrow> bool" where
  "stops f w out \<longleftrightarrow> (\<forall>k. exec (f k) w = out) \<and> (\<forall>w'. out \<noteq> Finished w')"

lemma returnsI: "(\<And>k. exec (f k) w = exec (k r) w') \<Longrightarrow> returns f w r w'"
  by (simp add: returns_def)

lemma exec_returns: "returns f w r w' \<Longrightarrow> exec (f k) w = exec (k r) w'"
  by (simp add: returns_def)

lemma returns_bind:
  "\<lbrakk>returns f w r w1; returns (g r) w1 r' w'\<rbrakk> \<Longrightarrow> returns (\<lambda>k. f (\<lambda>x. g x k)) w r' w'"
  by (simp add: returns_def)

lemma returns_pure: "returns (\<lambda>k. k r) w r w"
  by (simp add: returns_def)

text \<open>The result and the world are determined.\<close>

lemma returns_det:
  assumes "returns f w r w'" and "returns f w r2 w2"
  shows "w2 = w' \<and> r2 = r"
proof -
  have same: "exec (k r) w' = exec (k r2) w2" for k
    using assms unfolding returns_def by metis
  have "w2 = w'"
    using same [of "\<lambda>_. Halt"] by simp
  moreover have "r2 = r"
    using same [of "\<lambda>x. if x = r then Halt else Hang"] by (auto split: if_splits)
  ultimately show ?thesis ..
qed

subsection \<open>Scripted worlds\<close>

text \<open>The worlds of the witnesses: a quiet output and scripted answers.\<close>

definition scripted :: "(nat \<Rightarrow> choice) \<Rightarrow> world" where
  "scripted chs = start_world (DefaultConfig ''/root'' ''me'') chs"

lemma scripted_sel [simp]:
  "nth_choice (scripted chs) i = chs i" "w_state (scripted chs) = NewState"
  "w_calls (scripted chs) = []" "w_remotes (scripted chs) = []" "w_choices (scripted chs) = chs"
  "w_tick (scripted chs) = 0" "w_config (scripted chs) = DefaultConfig ''/root'' ''me''"
  "w_log (scripted chs) = []" "w_next (scripted chs) = 0"
  "w_sem (scripted chs) = (\<lambda>_. (0, 0))" "w_wg (scripted chs) = (\<lambda>_. 0)"
  "w_flags (scripted chs) = (\<lambda>_. False)"
  by (simp_all add: scripted_def start_world_def nth_choice_def)

definition quiet :: Output where
  "quiet = NewOutput 1 2 False False"

lemma not_mute_quiet [simp]: "\<not> mute quiet"
  by (simp add: quiet_def NewOutput_def)

end
