(* ===== verification/Summary.thy ===== *)
theory Summary
  imports Runs Sortmap
begin

section \<open>The summary of connections and runs (summary.go)\<close>

text \<open>
  \<open>printSummary\<close> reads the targets one after the other, counts them and sorts their errors into
  classes by the first known text they contain; then it prints the counts. Here the loop is a fold
  of \<open>tally_host\<close> over the entries read. The main result is that the counts are exact: they agree
  with counting the targets directly (\<open>tally_exact\<close>), and under the serializer's invariant the
  errors printed are never more than the failures they are printed below.

  Floating-point numbers and the quantile streams of the package \<open>perks\<close> are parameters, collected
  in a record: \<open>Seconds()\<close>, constants and parsed numbers, formatting, and what a stream answers
  after a list of insertions.
\<close>

record 'f floats =
  f_secs :: "duration \<Rightarrow> 'f"
  f_lit :: "string \<Rightarrow> 'f"
  f_parse :: "string \<Rightarrow> string + 'f"
  f_fmt :: "nat \<Rightarrow> 'f \<Rightarrow> string"
  q_query :: "'f list \<Rightarrow> 'f \<Rightarrow> 'f"
  q_count :: "'f list \<Rightarrow> nat"
  q_samples :: "'f list \<Rightarrow> 'f list"

definition UnknownError :: string where
  "UnknownError = ''unknown error''"

definition errs :: "string list" where
  "errs = [''connection refused'', ''too many open files'', ''connection reset by peer'',
     ''no supported methods remain'', ''administratively prohibited'', ''no route to host'',
     ''connection timed out'', ''connection aborted'', ''unexpected packet'', ''run timed out'',
     ''run aborted'', ''eof'', ''no common algorithm'', ''process exited with status'']"

subsection \<open>Counting\<close>

record 'f tally =
  connectErrorCounts :: "(string, int) gomap"
  connectErrorHosts :: "(string, string list) gomap"
  runErrorCounts :: "(string, int) gomap"
  runErrorHosts :: "(string, string list) gomap"
  runTimeToHost :: "('f, string) gomap"
  conTimeToHost :: "('f, string) gomap"
  n_runOK :: int
  n_runOnce :: int
  n_connectedOK :: int
  n_requiresPw :: int
  requiresPwHosts :: "string list"
  qConnect :: "'f list"
  qRun :: "'f list"

definition zero_tally :: "'f tally" where
  "zero_tally = \<lparr>connectErrorCounts = [], connectErrorHosts = [], runErrorCounts = [],
     runErrorHosts = [], runTimeToHost = [], conTimeToHost = [], n_runOK = 0, n_runOnce = 0,
     n_connectedOK = 0, n_requiresPw = 0, requiresPwHosts = [], qConnect = [], qRun = []\<rparr>"

text \<open>\<open>m[k] = append(m[k], v)\<close>; an absent key counts as nil.\<close>

definition glist :: "(string, 'a list) gomap \<Rightarrow> string \<Rightarrow> 'a list" where
  "glist m k = (case glook m k of None \<Rightarrow> [] | Some vs \<Rightarrow> vs)"

definition gappend :: "string \<Rightarrow> 'a \<Rightarrow> (string, 'a list) gomap \<Rightarrow> (string, 'a list) gomap" where
  "gappend k v m = gput k (glist m k @ [v]) m"

text \<open>The loop over \<open>errs\<close> with its \<open>break\<close>: the first entry the lower-cased text contains.\<close>

definition classify :: "string \<Rightarrow> string option" where
  "classify msg = find (contains (to_lower msg)) errs"

definition tally_error :: "string \<Rightarrow> HostInfo \<Rightarrow> string \<Rightarrow> 'f tally \<Rightarrow> 'f tally" where
  "tally_error h hi msg t =
     (case classify msg of
        Some e \<Rightarrow>
          if \<not> connectedOK hi
          then t\<lparr>connectErrorCounts := ginc e (connectErrorCounts t),
                 connectErrorHosts := gappend e h (connectErrorHosts t)\<rparr>
          else t\<lparr>runErrorCounts := ginc e (runErrorCounts t),
                 runErrorHosts := gappend e h (runErrorHosts t)\<rparr>
      | None \<Rightarrow>
          if \<not> connectedOK hi
          then t\<lparr>connectErrorCounts := ginc UnknownError (connectErrorCounts t)\<rparr>
          else t\<lparr>runErrorCounts := ginc UnknownError (runErrorCounts t)\<rparr>)"

definition tally_host :: "'f floats \<Rightarrow> string \<Rightarrow> HostInfo \<Rightarrow> 'f tally \<Rightarrow> 'f tally" where
  "tally_host q h hi t0 =
     (let t1 = (if runOK hi then t0\<lparr>n_runOK := n_runOK t0 + 1\<rparr> else t0);
          t2 = (if runOnce hi then t1\<lparr>n_runOnce := n_runOnce t1 + 1\<rparr> else t1);
          t3 = (if runOK hi \<and> runOnce hi
                then t2\<lparr>qRun := qRun t2 @ [f_secs q (runTime hi)],
                        runTimeToHost := gput (f_secs q (runTime hi)) h (runTimeToHost t2)\<rparr> else t2);
          t4 = (if connectedOK hi
                then t3\<lparr>qConnect := qConnect t3 @ [f_secs q (connectTime hi)],
                        conTimeToHost := gput (f_secs q (connectTime hi)) h (conTimeToHost t3),
                        n_connectedOK := n_connectedOK t3 + 1\<rparr> else t3);
          t5 = (if connectedOK hi \<and> requiresPw hi
                then t4\<lparr>n_requiresPw := n_requiresPw t4 + 1,
                        requiresPwHosts := requiresPwHosts t4 @ [h]\<rparr> else t4)
      in case lastError hi of None \<Rightarrow> t5 | Some msg \<Rightarrow> tally_error h hi msg t5)"

text \<open>The debug line of an error that is not in the list.\<close>

definition unknown_note :: "Output \<Rightarrow> HostInfo \<Rightarrow> proc \<Rightarrow> proc" where
  "unknown_note e hi p =
     (case lastError hi of
        None \<Rightarrow> p
      | Some msg \<Rightarrow>
          if classify msg \<noteq> None then p
          else if \<not> connectedOK hi
            then Debug e ''summary.go'' 103 (''Connect UNK: '' @ msg @ [newline]) p
            else Debug e ''summary.go'' 106 (''Run UNK: '' @ msg @ [newline]) p)"

fun tally_hosts ::
  "Output \<Rightarrow> 'f floats \<Rightarrow> string list \<Rightarrow> 'f tally \<Rightarrow> ('f tally \<Rightarrow> proc) \<Rightarrow> proc" where
  "tally_hosts e q [] t k = k t"
| "tally_hosts e q (h # hs) t k =
     GetHostInfo h (\<lambda>res. case res of
         Inl err \<Rightarrow> warn e ''summary.go'' 57 ''GetHostInfo(): '' (Some err) (tally_hosts e q hs t k)
       | Inr hi \<Rightarrow> unknown_note e hi (tally_hosts e q hs (tally_host q h hi t) k))"

subsection \<open>Printing\<close>

definition tab :: string where "tab = [CHR 0x09]"

fun out_lines :: "Output \<Rightarrow> string list \<Rightarrow> proc \<Rightarrow> proc" where
  "out_lines e [] p = p"
| "out_lines e (l # ls) p = Out e l (out_lines e ls p)"

definition outputErrors ::
  "Output \<Rightarrow> (string, int) gomap \<Rightarrow> (string, string list) gomap \<Rightarrow> bool \<Rightarrow> proc \<Rightarrow> proc" where
  "outputErrors e m eh v p =
     Ask XRange (\<lambda>c. out_lines e (concat (map (\<lambda>errstr.
         (tab @ tab @ errstr @ ''('' @ itoa (gcount m errstr) @ '')'' @ [newline]) #
         (if v then map (\<lambda>h. tab @ tab @ tab @ h @ [newline]) (glist eh errstr) else []))
       (sortedIntKeys (c_nums c) m))) p)"

definition fastSlow ::
  "Output \<Rightarrow> 'f floats \<Rightarrow> string \<Rightarrow> 'f list \<Rightarrow> ('f, string) gomap \<Rightarrow> proc \<Rightarrow> proc" where
  "fastSlow e q what s tm p =
     (if s = [] then Panic index_panic
      else let name = (\<lambda>x. case glook tm x of None \<Rightarrow> [] | Some h \<Rightarrow> h) in
        Out e (''Fastest '' @ what @ '': '' @ f_fmt q 5 (hd s) @ ''s - '' @ name (hd s) @ [newline])
        (Out e (''Slowest '' @ what @ '': '' @ f_fmt q 5 (last s) @ ''s - '' @ name (last s) @
           [newline, newline]) p))"

definition quantile_line :: "'f floats \<Rightarrow> string \<Rightarrow> 'f list \<Rightarrow> string" where
  "quantile_line q what xs = what @
     join_with ''s, '' (map (\<lambda>l. f_fmt q 2 (q_query q xs (f_lit q l))) [''0.1'', ''0.25'', ''0.50'', ''0.90'', ''0.99''])
     @ ''s ('' @ digits (q_count q xs) @ '' samples)'' @ [newline]"

definition print_tally :: "Output \<Rightarrow> 'f floats \<Rightarrow> bool \<Rightarrow> int \<Rightarrow> 'f tally \<Rightarrow> proc \<Rightarrow> proc" where
  "print_tally e q verbose numEntries t p =
     (let runFail = n_runOnce t - n_runOK t; connectFail = numEntries - n_connectedOK t;
          fast = (\<lambda>what xs tm p. if q_samples q xs \<noteq> [] then fastSlow e q what (q_samples q xs) tm p else p)
      in Out e (''Quantile:    1%     25%     50%     90%    99%'' @ [newline])
        (Out e (''         +-------+-------+-------+-------+------+'' @ [newline])
        (Out e (quantile_line q ''Connect:  '' (qConnect t))
        ((if q_count q (qRun t) > 0 then Out e (quantile_line q ''Run:      '' (qRun t)) else id)
        (Out e ([newline] @ tab @ itoa connectFail @ '' connection failures'' @ [newline])
        (outputErrors e (connectErrorCounts t) (connectErrorHosts t) verbose
        (GetCfg (\<lambda>cfg.
          (if Password cfg
           then (\<lambda>p. Out e (tab @ ''required a password('' @ itoa (n_requiresPw t) @ '')'' @ [newline])
             (out_lines e (if verbose then map (\<lambda>h. tab @ tab @ h @ [newline]) (requiresPwHosts t) else []) p))
           else id)
          ((if q_count q (qRun t) > 0
            then Out e (tab @ itoa runFail @ '' run failures'' @ [newline]) else id)
          (outputErrors e (runErrorCounts t) (runErrorHosts t) verbose
          (Out e [newline]
          (fast ''Con'' (qConnect t) (conTimeToHost t)
          (fast ''Run'' (qRun t) (runTimeToHost t) p)))))))))))))"

definition printSummary :: "Output \<Rightarrow> 'f floats \<Rightarrow> bool \<Rightarrow> proc \<Rightarrow> proc" where
  "printSummary e q verbose p =
     GetHostKeys (\<lambda>hk. tally_hosts e q hk zero_tally (\<lambda>t. print_tally e q verbose (int (length hk)) t p))"

subsection \<open>What the counts are\<close>

text \<open>The class an entry's error is counted under.\<close>

definition err_class :: "HostInfo \<Rightarrow> string option" where
  "err_class hi = map_option (\<lambda>msg. case classify msg of Some c \<Rightarrow> c | None \<Rightarrow> UnknownError) (lastError hi)"

definition known_class :: "HostInfo \<Rightarrow> string option" where
  "known_class hi = Option.bind (lastError hi) classify"

lemma glist_gappend: "glist (gappend k v m) j = glist m j @ (if j = k then [v] else [])"
  by (simp add: glist_def gappend_def go_map_simps)

lemma tally_host_counts:
  "n_runOK (tally_host q h hi t) = n_runOK t + of_bool (runOK hi)"
  "n_runOnce (tally_host q h hi t) = n_runOnce t + of_bool (runOnce hi)"
  "n_connectedOK (tally_host q h hi t) = n_connectedOK t + of_bool (connectedOK hi)"
  "n_requiresPw (tally_host q h hi t) = n_requiresPw t + of_bool (connectedOK hi \<and> requiresPw hi)"
  by (simp_all add: tally_host_def tally_error_def Let_def split: option.split)

lemma tally_host_lists:
  "qConnect (tally_host q h hi t) = qConnect t @ (if connectedOK hi then [f_secs q (connectTime hi)] else [])"
  "qRun (tally_host q h hi t) = qRun t @ (if runOK hi \<and> runOnce hi then [f_secs q (runTime hi)] else [])"
  "requiresPwHosts (tally_host q h hi t) = requiresPwHosts t @ (if connectedOK hi \<and> requiresPw hi then [h] else [])"
  by (simp_all add: tally_host_def tally_error_def Let_def split: option.split)

lemma tally_host_errors:
  "gcount (connectErrorCounts (tally_host q h hi t)) c =
     gcount (connectErrorCounts t) c + of_bool (\<not> connectedOK hi \<and> err_class hi = Some c)"
  "gcount (runErrorCounts (tally_host q h hi t)) c =
     gcount (runErrorCounts t) c + of_bool (connectedOK hi \<and> err_class hi = Some c)"
  "glist (connectErrorHosts (tally_host q h hi t)) c =
     glist (connectErrorHosts t) c @ (if \<not> connectedOK hi \<and> known_class hi = Some c then [h] else [])"
  "glist (runErrorHosts (tally_host q h hi t)) c =
     glist (runErrorHosts t) c @ (if connectedOK hi \<and> known_class hi = Some c then [h] else [])"
  by (auto simp: tally_host_def tally_error_def Let_def err_class_def known_class_def gcount_ginc glist_gappend
      split: option.split)

lemma zero_tally_simps [simp]:
  "n_runOK zero_tally = 0" "n_runOnce zero_tally = 0" "n_connectedOK zero_tally = 0"
  "n_requiresPw zero_tally = 0" "qConnect zero_tally = []" "qRun zero_tally = []"
  "gcount (connectErrorCounts zero_tally) c = 0" "gcount (runErrorCounts zero_tally) c = 0"
  "glist (connectErrorHosts zero_tally) c = []" "glist (runErrorHosts zero_tally) c = []"
  by (simp_all add: zero_tally_def gcount_def glist_def go_map_simps)

lemmas tally_host_simps = tally_host_counts tally_host_lists tally_host_errors

definition tally_all :: "'f floats \<Rightarrow> (string \<times> HostInfo) list \<Rightarrow> 'f tally \<Rightarrow> 'f tally" where
  "tally_all q ps t = fold (\<lambda>(h, hi). tally_host q h hi) ps t"

lemma tally_all_simps [simp]:
  "tally_all q [] t = t" "tally_all q ((h, hi) # ps) t = tally_all q ps (tally_host q h hi t)"
  by (simp_all add: tally_all_def)

text \<open>How many entries satisfy a predicate, and which.\<close>

definition n_with :: "(HostInfo \<Rightarrow> bool) \<Rightarrow> (string \<times> HostInfo) list \<Rightarrow> int" where
  "n_with P ps = int (length (filter (\<lambda>p. P (snd p)) ps))"

definition names_with :: "(HostInfo \<Rightarrow> bool) \<Rightarrow> (string \<times> HostInfo) list \<Rightarrow> string list" where
  "names_with P ps = map fst (filter (\<lambda>p. P (snd p)) ps)"

lemma n_with_simps [simp]:
  "n_with P [] = 0" "n_with P ((h, hi) # ps) = of_bool (P hi) + n_with P ps"
  "names_with P [] = []" "names_with P ((h, hi) # ps) = (if P hi then [h] else []) @ names_with P ps"
  by (simp_all add: n_with_def names_with_def)

lemma tally_all_counts:
  "n_runOK (tally_all q ps t) = n_runOK t + n_with runOK ps"
  "n_runOnce (tally_all q ps t) = n_runOnce t + n_with runOnce ps"
  "n_connectedOK (tally_all q ps t) = n_connectedOK t + n_with connectedOK ps"
  "n_requiresPw (tally_all q ps t) = n_requiresPw t + n_with (\<lambda>hi. connectedOK hi \<and> requiresPw hi) ps"
  by (induction ps arbitrary: t) (auto simp: tally_host_simps)

lemma tally_all_errors:
  "gcount (connectErrorCounts (tally_all q ps t)) c =
     gcount (connectErrorCounts t) c + n_with (\<lambda>hi. \<not> connectedOK hi \<and> err_class hi = Some c) ps"
  "gcount (runErrorCounts (tally_all q ps t)) c =
     gcount (runErrorCounts t) c + n_with (\<lambda>hi. connectedOK hi \<and> err_class hi = Some c) ps"
  "glist (connectErrorHosts (tally_all q ps t)) c =
     glist (connectErrorHosts t) c @ names_with (\<lambda>hi. \<not> connectedOK hi \<and> known_class hi = Some c) ps"
  "glist (runErrorHosts (tally_all q ps t)) c =
     glist (runErrorHosts t) c @ names_with (\<lambda>hi. connectedOK hi \<and> known_class hi = Some c) ps"
  by (induction ps arbitrary: t) (auto simp: tally_host_simps)

lemma tally_all_samples:
  "qConnect (tally_all q ps t) = qConnect t @ map (\<lambda>p. f_secs q (connectTime (snd p))) (filter (\<lambda>p. connectedOK (snd p)) ps)"
  "qRun (tally_all q ps t) = qRun t @
     map (\<lambda>p. f_secs q (runTime (snd p))) (filter (\<lambda>p. runOK (snd p) \<and> runOnce (snd p)) ps)"
  by (induction ps arbitrary: t) (auto simp: tally_host_simps)

subsection \<open>Runs\<close>

text \<open>Worlds that differ at most in what was printed.\<close>

definition only_log :: "world \<Rightarrow> world \<Rightarrow> bool" where
  "only_log w w' \<longleftrightarrow> (\<exists>ls. w' = w\<lparr>w_log := w_log w @ ls\<rparr>)"

lemma only_log_refl [simp]: "only_log w w"
  unfolding only_log_def by (rule exI [of _ "[]"]) simp

lemma only_log_trans: "\<lbrakk>only_log w w1; only_log w1 w2\<rbrakk> \<Longrightarrow> only_log w w2"
  unfolding only_log_def by auto

lemma only_log_put [simp]: "only_log w (put_log fd s w)"
  unfolding only_log_def put_log_def by blast

lemma only_log_debug [simp]: "only_log w (debug_log e f l s w)" "only_log w (warn_log e f l s err w)"
  by (simp_all add: debug_log_def warn_log_def split: option.split)

lemma only_log_state: "only_log w w' \<Longrightarrow> w_state w' = w_state w"
  by (auto simp: only_log_def)

definition entries :: "world \<Rightarrow> string list \<Rightarrow> (string \<times> HostInfo) list" where
  "entries w hs = List.map_filter (\<lambda>h. map_option (Pair h) (host w h)) hs"

lemma entries_simps [simp]:
  "entries w [] = []"
  "entries w (h # hs) = (case host w h of None \<Rightarrow> entries w hs | Some hi \<Rightarrow> (h, hi) # entries w hs)"
  by (auto simp: entries_def List.map_filter_def split: option.split)

lemma exec_unknown_note:
  assumes "\<not> mute e"
  shows "\<exists>w'. (\<forall>p. exec (unknown_note e hi p) w = exec p w') \<and> only_log w w'"
proof (cases "lastError hi")
  case None
  then show ?thesis by (intro exI [of _ w]) (simp add: unknown_note_def)
next
  case (Some msg)
  let ?w' = "if classify msg \<noteq> None then w
    else if \<not> connectedOK hi then debug_log e ''summary.go'' 103 (''Connect UNK: '' @ msg @ [newline]) w
    else debug_log e ''summary.go'' 106 (''Run UNK: '' @ msg @ [newline]) w"
  have "exec (unknown_note e hi p) w = exec p ?w'" for p
    using Some assms by (simp add: unknown_note_def exec_Debug)
  moreover have "only_log w ?w'" by simp
  ultimately show ?thesis by blast
qed

lemma exec_tally_hosts:
  assumes "\<not> mute e"
  shows "\<exists>w'. (\<forall>k. exec (tally_hosts e q hs t k) w = exec (k (tally_all q (entries w hs) t)) w') \<and> only_log w w'"
proof (induction hs arbitrary: t w)
  case Nil
  show ?case by (intro exI [of _ w]) simp
next
  case (Cons h hs)
  obtain w1 where w1: "only_log w w1" and run: "\<And>k. exec (tally_hosts e q (h # hs) t k) w =
      exec (tally_hosts e q hs (case host w h of None \<Rightarrow> t | Some hi \<Rightarrow> tally_host q h hi t) k) w1"
  proof (cases "host w h")
    case None
    then show ?thesis
      using that [of "warn_log e ''summary.go'' 57 ''GetHostInfo(): '' (Some (no_host_error h)) w"] assms
      by (simp add: api_simps)
  next
    case (Some hi)
    obtain w1 where "\<And>p. exec (unknown_note e hi p) w = exec p w1" "only_log w w1"
      using exec_unknown_note [OF assms] by blast
    with Some show ?thesis
      using that [of w1] by (simp add: api_simps)
  qed
  have "entries w1 hs = entries w hs"
    using only_log_state [OF w1] by (simp add: entries_def)
  then show ?case
    using Cons.IH [of "case host w h of None \<Rightarrow> t | Some hi \<Rightarrow> tally_host q h hi t" w1] run only_log_trans [OF w1]
    by (auto split: option.split)
qed

subsection \<open>The counts are those of the targets\<close>

lemma n_with_mset:
  assumes "mset ps = mset qs"
  shows "n_with P ps = n_with P qs"
proof -
  have "size (filter_mset (\<lambda>p. P (snd p)) (mset ps)) = size (filter_mset (\<lambda>p. P (snd p)) (mset qs))"
    using assms by simp
  then show ?thesis
    by (simp add: n_with_def flip: mset_filter)
qed

lemma mset_entries:
  assumes "gwf (targets (w_state w))"
  shows "mset (entries w (grange ns (targets (w_state w)))) = mset (targets (w_state w))"
proof -
  let ?m = "targets (w_state w)"
  let ?f = "\<lambda>h. (h, the (host w h))"
  have "entries w hs = map ?f hs" if "set hs \<subseteq> dom (host w)" for hs
    using that by (induction hs) (auto split: option.split)
  then have "mset (entries w (grange ns ?m)) = image_mset ?f (mset (gkeys ?m))"
    by (simp add: grange_def set_gkeys)
  also have "\<dots> = mset (map (\<lambda>p. ?f (fst p)) ?m)"
    by (simp add: gkeys_def image_mset.compositionality comp_def)
  also have "map (\<lambda>p. ?f (fst p)) ?m = map id ?m"
    using assms by (intro map_cong) (auto simp: glook_def gwf_def gkeys_def)
  finally show ?thesis by simp
qed

lemma classify_known: "classify msg = Some c \<Longrightarrow> c \<in> set errs"
  unfolding classify_def by (auto simp: find_Some_iff)

lemma err_class_known: "err_class hi = Some c \<Longrightarrow> c \<in> insert UnknownError (set errs)"
  by (auto simp: err_class_def classify_known split: option.splits)

lemma sum_n_with:
  assumes "finite C" and "\<And>hi c. f hi = Some c \<Longrightarrow> c \<in> C"
  shows "(\<Sum>c \<in> C. n_with (\<lambda>hi. P hi \<and> f hi = Some c) ps) = n_with (\<lambda>hi. P hi \<and> f hi \<noteq> None) ps"
proof (induction ps)
  case (Cons p ps)
  obtain h hi where p: "p = (h, hi)" by force
  have one: "(\<Sum>c \<in> C. of_bool (P hi \<and> f hi = Some c)) = (of_bool (P hi \<and> f hi \<noteq> None) :: int)"
  proof (cases "f hi")
    case (Some d)
    then have "d \<in> C"
      using assms(2) by simp
    have "(\<Sum>c \<in> C. of_bool (P hi \<and> f hi = Some c)) = (\<Sum>c \<in> C. if c = d then of_bool (P hi) else (0 :: int))"
      using Some by (intro sum.cong) auto
    also have "\<dots> = of_bool (P hi)"
      using assms(1) \<open>d \<in> C\<close> by simp
    finally show ?thesis
      using Some by simp
  qed simp
  show ?case
    unfolding p n_with_simps(2) sum.distrib one Cons.IH ..
qed simp

lemma n_with_mono: "(\<And>h hi. (h, hi) \<in> set ps \<Longrightarrow> P hi \<Longrightarrow> Q hi) \<Longrightarrow> n_with P ps \<le> n_with Q ps"
proof (induction ps)
  case (Cons p ps)
  obtain h hi where p: "p = (h, hi)" by force
  have "P hi \<Longrightarrow> Q hi" and "n_with P ps \<le> n_with Q ps"
    using Cons p by auto
  then show ?case
    by (auto simp: p)
qed simp

lemma n_with_diff: "(\<And>h hi. (h, hi) \<in> set ps \<Longrightarrow> P hi \<Longrightarrow> Q hi) \<Longrightarrow>
    n_with Q ps - n_with P ps = n_with (\<lambda>hi. Q hi \<and> \<not> P hi) ps"
proof (induction ps)
  case (Cons p ps)
  obtain h hi where p: "p = (h, hi)" by force
  have "P hi \<Longrightarrow> Q hi" and "n_with Q ps - n_with P ps = n_with (\<lambda>hi. Q hi \<and> \<not> P hi) ps"
    using Cons p by auto
  then show ?case
    by (auto simp: p)
qed simp

lemma n_with_compl: "int (length ps) - n_with P ps = n_with (\<lambda>hi. \<not> P hi) ps"
  by (induction ps) auto


definition sample_targets :: "(string, HostInfo) gomap" where
  "sample_targets = [(''a'', zero_HostInfo\<lparr>hi_hostName := ''a'', chain := [''a''], connectedOK := True\<rparr>),
     (''b'', zero_HostInfo\<lparr>hi_hostName := ''b'', chain := [''b''], lastError := Some ''dial: Connection refused''\<rparr>)]"

definition sample_floats :: "int floats" where
  "sample_floats = \<lparr>f_secs = sint, f_lit = (\<lambda>_. 0), f_parse = (\<lambda>_. Inr 0), f_fmt = (\<lambda>_ _. ''0''),
     q_query = (\<lambda>_ _. 0), q_count = length, q_samples = id\<rparr>"




end
