(* ===== verification/MuxServer.thy ===== *)
theory MuxServer
  imports Runs
begin

section \<open>The control socket server (controlmux.go)\<close>

text \<open>
  A \<open>Mux\<close> listens on a Unix socket and opens SSH sessions for its clients. \<open>readMsg\<close> reads one
  message from a connection and hands it to the goroutine of \<open>handleControlMaster\<close>;
  \<open>handle_request\<close> is one turn of that goroutine's loop, which goes on with the changed \<open>Mux\<close>, and
  \<open>handleControlMaster\<close> is the loop over the requests that arrive. A goroutine that \<open>handle_request\<close>
  starts to read the next message ends where it would hand that message over: what it delivers is
  one of the requests that arrive later.

  These goroutines share no state with the rest of the program. The client's messages, the system
  calls and the SSH session are queries to the world.
\<close>

record controlMsg =
  cm_MsgType :: "32 word"
  cm_data :: bytes
  bytesRead :: nat
  cm_conn :: nat

datatype muxRequest = ControlMsg controlMsg | ControlKill

subsection \<open>Reading and writing messages\<close>

definition readMsg :: "Output \<Rightarrow> Mux \<Rightarrow> nat \<Rightarrow> (controlMsg \<Rightarrow> proc) \<Rightarrow> proc" where
  "readMsg e m c deliver =
     Ask (XConnRead c 4) (\<lambda>r. let got = take 4 (bytes_of (c_str r)) in
       if c_err r \<noteq> None then warn e ''controlmux.go'' 158 (mx_me m @ '': Read() failed: '') (c_err r) Halt
       else if length got \<noteq> 4
       then Debug e ''controlmux.go'' 162
              (''Read '' @ digits (length got) @ '' bytes, expected 4.'' @ [newline]) Halt
       else case BigEndian_Uint32 got of
              Inl p \<Rightarrow> Panic p
            | Inr moreBytes \<Rightarrow>
                Ask (XConnRead c (unat moreBytes)) (\<lambda>r. let more_got = take (unat moreBytes) (bytes_of (c_str r));
                    buf = more_got @ replicate (unat moreBytes - length more_got) 0 in
                  if c_err r \<noteq> None
                  then warn e ''controlmux.go'' 169 (mx_me m @ '': Read() failed: '') (c_err r) Halt
                  else if length buf < 4 then Panic slice_panic
                  else case BigEndian_Uint32 (take 4 buf) of
                         Inl p \<Rightarrow> Panic p
                       | Inr msgType \<Rightarrow> deliver \<lparr>cm_MsgType = msgType, cm_data = buf,
                           bytesRead = length more_got, cm_conn = c\<rparr>))"

definition sendMsg :: "Output \<Rightarrow> Mux \<Rightarrow> nat \<Rightarrow> bytes \<Rightarrow> proc \<Rightarrow> proc" where
  "sendMsg e m c dat p =
     Ask (XConnWrite c (msg_header dat)) (\<lambda>r.
       if c_err r \<noteq> None then warn e ''controlmux.go'' 182 (mx_me m @ '': Write() failed: '') (c_err r) p
       else Ask (XConnWrite c dat) (\<lambda>r.
         warn e ''controlmux.go'' 187 (mx_me m @ '': Write() failed: '') (c_err r) p))"

text \<open>\<open>binary.Write\<close> to a buffer does not fail for structs of fixed-size fields.\<close>

definition sendStruct :: "Output \<Rightarrow> Mux \<Rightarrow> nat \<Rightarrow> bytes \<Rightarrow> (error \<Rightarrow> proc) \<Rightarrow> proc" where
  "sendStruct e m c dat k = sendMsg e m c dat (k None)"

text \<open>\<open>if err := conn.Close(); err != nil { ... }\<close>\<close>

definition close_conn :: "Output \<Rightarrow> Mux \<Rightarrow> nat \<Rightarrow> nat \<Rightarrow> proc \<Rightarrow> proc" where
  "close_conn e m c line p =
     Ask (XConnClose c) (\<lambda>r. warn e ''controlmux.go'' line (mx_me m @ '': Close() failed: '') (c_err r) p)"

definition refuse :: "Output \<Rightarrow> Mux \<Rightarrow> nat \<Rightarrow> nat \<Rightarrow> string \<Rightarrow> error \<Rightarrow> proc \<Rightarrow> proc" where
  "refuse e m c line pre err p =
     warn e ''controlmux.go'' line pre err (close_conn e m c (line + 2) p)"

definition could_not_read :: string where
  "could_not_read = ''Couldn'' @ [CHR 0x27] @ ''t read message: ''"

subsection \<open>The greeting and the alive check\<close>

definition handle_hello ::
  "Output \<Rightarrow> Mux \<Rightarrow> controlMsg \<Rightarrow> (Mux \<Rightarrow> proc) \<Rightarrow> proc" where
  "handle_hello e m msg k =
     (case read_helloMsg (cm_data msg) of
        Inl err \<Rightarrow> refuse e m (cm_conn msg) 204 could_not_read (Some err) (k m)
      | Inr hm \<Rightarrow> sendStruct e m (cm_conn msg) (write_helloMsg hm) (\<lambda>err.
          if err \<noteq> None
          then refuse e m (cm_conn msg) 214 (mx_me m @ '': m.sendStruct(): '') err (k m)
          else Fork (readMsg e m (cm_conn msg) (\<lambda>_. Halt)) (k m)))"

definition handle_alive ::
  "nat \<Rightarrow> Output \<Rightarrow> Mux \<Rightarrow> controlMsg \<Rightarrow> (Mux \<Rightarrow> proc) \<Rightarrow> proc" where
  "handle_alive pid e m msg k =
     (case read_aliveCheckMsg (cm_data msg) of
        Inl err \<Rightarrow> refuse e m (cm_conn msg) 226 could_not_read (Some err) (k m)
      | Inr acm \<Rightarrow> sendStruct e m (cm_conn msg)
          (write_aliveResponseMsg \<lparr>ar_MsgType = MuxSAlive, ar_RequestID = ac_RequestID acm,
             ServerPid = word_of_nat pid\<rparr>) (\<lambda>err.
          if err \<noteq> None
          then refuse e m (cm_conn msg) 239 (mx_me m @ '': m.sendStruct(): '') err (k m)
          else Fork (readMsg e m (cm_conn msg) (\<lambda>_. Halt)) (k m)))"

subsection \<open>Opening a session\<close>

text \<open>\<open>getFd\<close> receives descriptors over the socket: several system calls, each of which can fail.\<close>

definition getFd :: "nat \<Rightarrow> (string + nat list \<Rightarrow> proc) \<Rightarrow> proc" where
  "getFd c k =
     Ask (XConnFile c) (\<lambda>r. case c_err r of Some err \<Rightarrow> k (Inl err) | None \<Rightarrow>
     Ask (XRecvmsg c) (\<lambda>r. case c_err r of Some err \<Rightarrow> k (Inl err) | None \<Rightarrow>
     Ask (XConnFileClose c) (\<lambda>r. case c_err r of Some err \<Rightarrow> k (Inl err) | None \<Rightarrow>
     Ask XParseControl (\<lambda>r. case c_err r of Some err \<Rightarrow> k (Inl err) | None \<Rightarrow>
       if c_num r = 0 then Panic index_panic
       else Ask XParseRights (\<lambda>r. case c_err r of Some err \<Rightarrow> k (Inl err)
              | None \<Rightarrow> k (Inr (c_nums r)))))))"

text \<open>The loop over \<open>inOutErr\<close>: a failure closes the connection and goes on with the next descriptor.\<close>

fun get_fds :: "Output \<Rightarrow> Mux \<Rightarrow> nat \<Rightarrow> nat list \<Rightarrow> nat list \<Rightarrow> (nat list \<Rightarrow> proc) \<Rightarrow> proc" where
  "get_fds e m c [] inOutErr k = k inOutErr"
| "get_fds e m c (i # is) inOutErr k =
     getFd c (\<lambda>res. case res of
         Inl err \<Rightarrow> refuse e m c 275 ''getFds failed: '' (Some err) (get_fds e m c is inOutErr k)
       | Inr [] \<Rightarrow> Panic index_panic
       | Inr (fd # _) \<Rightarrow> Ask (XCloseOnExec fd) (\<lambda>_. get_fds e m c is (inOutErr[i := fd]) k))"

declare get_fds.simps [simp del]

definition win_size :: "choice \<Rightarrow> nat \<times> nat" where
  "win_size r = (case c_nums r of h # w # _ \<Rightarrow> (h mod 2 ^ 16, w mod 2 ^ 16) | _ \<Rightarrow> (0, 0))"

definition request_pty ::
  "Output \<Rightarrow> Mux \<Rightarrow> nat \<Rightarrow> newSessionMsg \<Rightarrow> nat \<Rightarrow> nat list \<Rightarrow> proc \<Rightarrow> proc \<Rightarrow> proc" where
  "request_pty e m c nsm session fds refused p =
     (if \<not> WantTTY nsm then p
      else Ask (XGetWinSize (fds ! 1)) (\<lambda>r.
        let (rows, cols) = (if c_err r = None then win_size r else (24, 80)) in
        warn e ''controlmux.go'' 296 ''getWinSize: '' (c_err r)
          (Ask (XRequestPty session (TerminalType nsm) rows cols) (\<lambda>r.
             if c_err r \<noteq> None then refuse e m c 303 ''ssh.RequestPty() failed: '' (c_err r) refused
             else p))))"

text \<open>\<open>waiter\<close> waits for the command, sends its exit code to the client and hangs up.\<close>

definition waiter :: "Output \<Rightarrow> Mux \<Rightarrow> nat \<Rightarrow> nat \<Rightarrow> 32 word \<Rightarrow> proc" where
  "waiter e m c session sid =
     Ask (XSessionWait session) (\<lambda>r.
       let exitCode = (if c_err r = None then 0 else if c_kind r then word_of_nat (c_num r) else 255)
       in (if c_err r \<noteq> None \<and> \<not> c_kind r
           then Debug e ''controlmux.go'' 386 (''Unknown exit code, faking it.'' @ [newline]) else id)
       (sendStruct e m c (write_exitMsg \<lparr>em_MsgType = MuxSExitMessage, em_SessionID = sid,
            ExitCode = exitCode\<rparr>) (\<lambda>err.
          (if err \<noteq> None then refuse e m c 397 (mx_me m @ '': m.sendStruct(): '') err else id)
          (Ask (XConnClose c) (\<lambda>r.
             warn e ''controlmux.go'' 403 (mx_me m @ '': c.Close() failed: '') (c_err r) Halt)))))"

definition start_session ::
  "Output \<Rightarrow> Mux \<Rightarrow> nat \<Rightarrow> newSessionMsg \<Rightarrow> nat \<Rightarrow> 32 word \<Rightarrow> nat list \<Rightarrow> proc \<Rightarrow> proc" where
  "start_session e m c nsm session sid fds p =
     Ask (XSessionPipe session ''stdin'') (\<lambda>r.
       if c_err r \<noteq> None then refuse e m c 315 ''session.StdinPipe() failed: '' (c_err r) p else
     Ask (XSessionPipe session ''stdout'') (\<lambda>r.
       if c_err r \<noteq> None then refuse e m c 323 ''session.StdoutPipe() failed: '' (c_err r) p else
     Ask (XSessionPipe session ''stderr'') (\<lambda>r.
       if c_err r \<noteq> None then refuse e m c 331 ''session.StderrPipe() failed: '' (c_err r) p else
     (if WantTTY nsm \<or> Command nsm = [] \<or> contains (Command nsm) ''scp -t''
      then Fork (Ask (XCopyIn session (fds ! 0)) (\<lambda>_. Halt)) else id)
     (Fork (Ask (XCopyOut session ''stdout'' (fds ! 1)) (\<lambda>_. Halt))
     (Fork (Ask (XCopyOut session ''stderr'' (fds ! 2)) (\<lambda>_. Halt))
     (Ask (if Command nsm \<noteq> [] then XSessionStart session (Command nsm) else XSessionShell session) (\<lambda>r.
       if c_err r \<noteq> None then refuse e m c 355 ''session.Start/Shell() failed: '' (c_err r) p
       else Fork (waiter e m c session sid) p)))))))"

definition handle_newSession ::
  "Output \<Rightarrow> Mux \<Rightarrow> controlMsg \<Rightarrow> (Mux \<Rightarrow> proc) \<Rightarrow> proc" where
  "handle_newSession e m msg k =
     (case parseNewSession (cm_data msg) of
        Inl p \<Rightarrow> Panic p
      | Inr nsm \<Rightarrow> Ask (XNewSession (mx_client m)) (\<lambda>r. let session = c_num r; sid = sesscounter m in
          if c_err r \<noteq> None
          then refuse e m (cm_conn msg) 250 ''ssh.NewSession() failed: '' (c_err r) (k m)
          else let m1 = m\<lparr>sesscounter := sid + 1\<rparr> in
            sendStruct e m1 (cm_conn msg) (write_sessionOpenedMsg \<lparr>so_MsgType = MuxSSessionOpened,
                ClientReqID = ns_RequestID nsm, so_SessionID = sid\<rparr>) (\<lambda>err.
            if err \<noteq> None
            then refuse e m1 (cm_conn msg) 264 (mx_me m @ '': m.sendStruct(): '') err (k m1)
            else get_fds e m1 (cm_conn msg) [0, 1, 2] [0, 0, 0] (\<lambda>fds.
              request_pty e m1 (cm_conn msg) nsm session fds (k m1)
                (start_session e m1 (cm_conn msg) nsm session sid fds (k m1))))))"

subsection \<open>The loop\<close>

definition handle_message ::
  "nat \<Rightarrow> Output \<Rightarrow> Mux \<Rightarrow> controlMsg \<Rightarrow> (Mux \<Rightarrow> proc) \<Rightarrow> proc" where
  "handle_message pid e m msg k =
     (if cm_MsgType msg = MuxMsgHello then handle_hello e m msg k
      else if cm_MsgType msg = MuxCAliveCheck then handle_alive pid e m msg k
      else if cm_MsgType msg = MuxCNewSession then handle_newSession e m msg k
      else Debug e ''controlmux.go'' 364
             (mx_me m @ '': Unhandled message: '' @ hex_digits (unat (cm_MsgType msg)) @ [newline]) (k m))"

text \<open>\<open>controlKill\<close> closes the listener and answers; the goroutine ends.\<close>

definition handle_kill :: "Output \<Rightarrow> string \<Rightarrow> nat \<Rightarrow> proc \<Rightarrow> proc" where
  "handle_kill e me l p =
     Ask (XCloseListener l) (\<lambda>r.
       warn e ''controlmux.go'' 369 (me @ '': m.l.Close() failed: '') (c_err r) p)"

fun handleControlMaster :: "nat \<Rightarrow> Output \<Rightarrow> Mux \<Rightarrow> muxRequest list \<Rightarrow> (Mux \<Rightarrow> proc) \<Rightarrow> proc" where
  "handleControlMaster pid e m [] k = k m"
| "handleControlMaster pid e m (ControlMsg msg # reqs) k =
     handle_message pid e m msg (\<lambda>m'. handleControlMaster pid e m' reqs k)"
| "handleControlMaster pid e m (ControlKill # reqs) k = handle_kill e (mx_me m) (mx_l m) (k m)"

text \<open>The accept loop, for the number of connections that arrive before the listener is closed.\<close>

fun acceptControlMaster :: "Output \<Rightarrow> Mux \<Rightarrow> nat \<Rightarrow> proc" where
  "acceptControlMaster e m 0 = Ask (XAccept (mx_l m)) (\<lambda>_. Halt)"
| "acceptControlMaster e m (Suc n) =
     Ask (XAccept (mx_l m)) (\<lambda>r.
       if c_err r \<noteq> None then Halt
       else Fork (readMsg e m (c_num r) (\<lambda>_. Halt)) (acceptControlMaster e m n))"

definition SSHPort :: string where "SSHPort = ''22''"

definition NewMux :: "Output \<Rightarrow> string \<Rightarrow> nat \<Rightarrow> (Mux option \<times> error \<Rightarrow> proc) \<Rightarrow> proc" where
  "NewMux e me client k =
     GetCfg (\<lambda>cfg. let sockName = ControlPath cfg @ ''/'' @ me @ ''_'' @ SSHPort in
       Ask (XStat sockName) (\<lambda>r.
         if c_err r \<noteq> None \<and> c_kind r
         then k (None, Some (''Socket '' @ sockName @ '' already exists.''))
         else Ask (XListenUnix sockName) (\<lambda>r.
           case c_err r of
             Some err \<Rightarrow> k (None, Some (me @ '': net.Listen failed: '' @ err))
           | None \<Rightarrow> k (Some \<lparr>mx_me = me, mx_client = client, mx_l = c_num r, sesscounter = 0\<rparr>, None))))"

text \<open>\<open>Close\<close> is a method call on the pointer \<open>NewMux\<close> returned, which can be nil.\<close>

definition Mux_Close :: "Output \<Rightarrow> Mux option \<Rightarrow> proc \<Rightarrow> proc" where
  "Mux_Close e m p =
     (case m of None \<Rightarrow> Panic nil_deref | Some mx \<Rightarrow> handle_kill e (mx_me mx) (mx_l mx) p)"

subsection \<open>Properties\<close>

text \<open>
  C31. A message that is read whole arrives as it was sent: when the two reads give the header
  \<open>sendMsg\<close> writes and the data, \<open>readMsg\<close> delivers exactly that data with its message type (the
  first four bytes). Data shorter than a message type crashes the program.
\<close>

theorem readMsg_framing:
  assumes "\<not> mute e" and "c_ok (nth_choice w 0)" and "c_ok (nth_choice w 1)"
    and "c_str (nth_choice w 0) = str_of (msg_header dat)"
    and "c_str (nth_choice w 1) = str_of dat" and "length dat < 2 ^ 32"
  shows "(\<forall>t body. dat = PutUint32 t @ body \<longrightarrow>
      exec (readMsg e m c deliver) w =
      exec (deliver \<lparr>cm_MsgType = t, cm_data = dat, bytesRead = length dat, cm_conn = c\<rparr>)
        (asked [XConnRead c 4, XConnRead c (length dat)] w)) \<and>
    (length dat < 4 \<longrightarrow>
      exec (readMsg e m c deliver) w =
      Crashed slice_panic (asked [XConnRead c 4, XConnRead c (length dat)] w))"
proof -
  have len: "unat (word_of_nat (length dat) :: 32 word) = length dat"
    using assms(6) by (rule unat_of_length)
  have run: "exec (readMsg e m c deliver) w =
      exec (if length dat < 4 then Panic slice_panic
        else case BigEndian_Uint32 (take 4 dat) of
               Inl p \<Rightarrow> Panic p
             | Inr t \<Rightarrow> deliver \<lparr>cm_MsgType = t, cm_data = dat, bytesRead = length dat, cm_conn = c\<rparr>)
        (asked [XConnRead c 4, XConnRead c (length dat)] w)"
    using assms by (simp add: readMsg_def run_queries msg_header_def len Let_def split: sum.split)
  show ?thesis
    unfolding run by simp
qed

definition alive_request :: bytes where
  "alive_request = PutUint32 MuxCAliveCheck @ PutUint32 9"

definition test_mux :: Mux where
  "test_mux = \<lparr>mx_me = ''a'', mx_client = 5, mx_l = 1, sesscounter = 0xFFFFFFFF\<rparr>"

theorem readMsg_framing_witness:
  defines "chs \<equiv> (\<lambda>i. zero_choice\<lparr>c_str := str_of (if i = 0 then msg_header alive_request else alive_request)\<rparr>)"
  shows "exec (readMsg quiet test_mux 4 (\<lambda>msg. if cm_MsgType msg = MuxCAliveCheck then Halt else Hang))
    (scripted chs) = Finished (asked [XConnRead 4 4, XConnRead 4 8] (scripted chs))"
proof -
  have len: "length alive_request = 8"
    by (simp add: alive_request_def)
  have "\<forall>t body. alive_request = PutUint32 t @ body \<longrightarrow>
      exec (readMsg quiet test_mux 4 (\<lambda>msg. if cm_MsgType msg = MuxCAliveCheck then Halt else Hang)) (scripted chs) =
      exec (if cm_MsgType \<lparr>cm_MsgType = t, cm_data = alive_request, bytesRead = length alive_request,
          cm_conn = 4\<rparr> = MuxCAliveCheck then Halt else Hang)
        (asked [XConnRead 4 4, XConnRead 4 (length alive_request)] (scripted chs))"
    by (rule readMsg_framing [THEN conjunct1]) (simp_all add: chs_def zero_choice_def len)
  then show ?thesis
    by (simp add: alive_request_def)
qed

text \<open>
  C32. The client gets the command's exit code: when the two writes succeed, \<open>waiter\<close> sends one
  exit message that names the session, with the exit status modulo \<open>2 ^ 32\<close>, 0 for success and 255
  when the error is not an exit status, and then closes the connection once.
\<close>

theorem waiter_reports_exit_code:
  assumes "\<not> mute e" and "c_ok (nth_choice w 1)" and "c_ok (nth_choice w 2)"
  shows "\<exists>w'. exec (waiter e m c session sid) w = Finished w' \<and> w_state w' = w_state w \<and>
    (let r = nth_choice w 0;
         code = (if c_ok r then 0 else if c_kind r then word_of_nat (c_num r) else 255);
         dat = write_struct [MuxSExitMessage, sid, code]
     in w_calls w' = w_calls w @ [XSessionWait session, XConnWrite c (msg_header dat),
          XConnWrite c dat, XConnClose c])"
  using assms
  by (auto simp: waiter_def sendStruct_def sendMsg_def write_exitMsg_def Let_def c_err_def
      now_choice_def nth_choice_def api_simps numeral_2_eq_2)

lemma exec_sendStruct_ok:
  assumes "\<not> mute e" and "c_ok (nth_choice w (length qs))" and "c_ok (nth_choice w (Suc (length qs)))"
  shows "exec (sendStruct e m c dat k) (asked qs w) =
    exec (k None) (asked (qs @ [XConnWrite c (msg_header dat), XConnWrite c dat]) w)"
  using assms by (simp add: sendStruct_def sendMsg_def exec_Ask c_err_def api_simps del: exec.simps)

lemma exec_getFd_fails:
  assumes "\<not> c_ok (nth_choice w (length qs))"
  shows "exec (getFd c k) (asked qs w) =
    exec (k (Inl (c_str (nth_choice w (length qs))))) (asked (qs @ [XConnFile c]) w)"
  using assms by (simp add: getFd_def exec_Ask c_err_def del: exec.simps)

lemma exec_refuse:
  assumes "\<not> mute e"
  shows "\<exists>w'. (\<forall>p. exec (refuse e m c line pre err p) (asked qs w) =
      exec p (asked (qs @ [XConnClose c]) w')) \<and>
    w_calls w' = w_calls w \<and> nth_choice w' = nth_choice w \<and> w_state w' = w_state w"
  using assms
  by (intro exI [of _ "warn_log e ''controlmux.go'' (line + 2) (mx_me m @ '': Close() failed: '')
      (c_err (nth_choice w (length qs))) (warn_log e ''controlmux.go'' line pre err w)"])
    (simp add: refuse_def close_conn_def exec_Ask api_simps fun_eq_iff del: exec.simps)

lemma exec_get_fds_fail:
  assumes "\<not> mute e" and "\<forall>i < length is. \<not> c_ok (nth_choice w (length qs + 2 * i))"
  shows "\<exists>w'. (\<forall>k. exec (get_fds e m c is fds k) (asked qs w) =
      exec (k fds) (asked (qs @ concat (map (\<lambda>_. [XConnFile c, XConnClose c]) is)) w')) \<and>
    w_calls w' = w_calls w \<and> nth_choice w' = nth_choice w \<and> w_state w' = w_state w"
  using assms(2)
proof (induction "is" arbitrary: qs w)
  case Nil
  show ?case by (intro exI [of _ w]) (simp add: get_fds.simps)
next
  case (Cons i "is")
  have no: "\<not> c_ok (nth_choice w (length qs))"
    using Cons.prems by fastforce
  obtain w1 where w1: "\<forall>p. exec (refuse e m c 275 ''getFds failed: ''
        (Some (c_str (nth_choice w (length qs)))) p) (asked (qs @ [XConnFile c]) w) =
      exec p (asked ((qs @ [XConnFile c]) @ [XConnClose c]) w1)"
    and same: "w_calls w1 = w_calls w" "nth_choice w1 = nth_choice w" "w_state w1 = w_state w"
    using exec_refuse [OF assms(1)] by blast
  have rest: "\<forall>i < length is. \<not> c_ok (nth_choice w1 (length (qs @ [XConnFile c, XConnClose c]) + 2 * i))"
  proof (intro allI impI)
    fix i assume "i < length is"
    then show "\<not> c_ok (nth_choice w1 (length (qs @ [XConnFile c, XConnClose c]) + 2 * i))"
      using Cons.prems [rule_format, of "Suc i"] by (simp add: same)
  qed
  show ?case
    using Cons.IH [OF rest] w1 same by (auto simp: get_fds.simps exec_getFd_fails [OF no])
qed

theorem waiter_reports_exit_code_witness:
  "\<exists>w'. exec (waiter quiet test_mux 4 8 3)
      (scripted (\<lambda>i. if i = 0 then zero_choice\<lparr>c_ok := False, c_kind := True, c_num := 258\<rparr> else zero_choice)) =
      Finished w' \<and> XConnWrite 4 (write_struct [MuxSExitMessage, 3, 258]) \<in> set (w_calls w')"
proof -
  let ?w = "scripted (\<lambda>i. if i = 0 then zero_choice\<lparr>c_ok := False, c_kind := True, c_num := 258\<rparr> else zero_choice)"
  have "\<not> mute quiet" "c_ok (nth_choice ?w 1)" "c_ok (nth_choice ?w 2)"
    by (simp_all add: zero_choice_def)
  from waiter_reports_exit_code [OF this, of test_mux 4 8 3] show ?thesis
    by (auto simp: zero_choice_def Let_def)
qed

text \<open>
  When a client's descriptors cannot be received, the connection is closed but the session is
  not given up: after three failures it is still started, with its output copied to descriptor 0
  of the program itself, and the exit code written to the closed connection.
\<close>

theorem failed_descriptors_still_run:
  assumes "\<not> mute e" and "parseNewSession (cm_data msg) = Inr nsm" and "\<not> WantTTY nsm"
    and "Command nsm \<noteq> []" and "\<not> contains (Command nsm) ''scp -t''"
    and "\<forall>i. c_ok (nth_choice w i) \<longleftrightarrow> i \<notin> {3, 5, 7}"
  shows "\<exists>w'. exec (handle_newSession e m msg (\<lambda>_. Halt)) w = Finished w' \<and>
    (let c = cm_conn msg; session = c_num (nth_choice w 0);
         opened = write_struct [MuxSSessionOpened, ns_RequestID nsm, sesscounter m];
         done = write_struct [MuxSExitMessage, sesscounter m, 0]
     in w_calls w' = w_calls w @
       [XNewSession (mx_client m), XConnWrite c (msg_header opened), XConnWrite c opened,
        XConnFile c, XConnClose c, XConnFile c, XConnClose c, XConnFile c, XConnClose c,
        XSessionPipe session ''stdin'', XSessionPipe session ''stdout'', XSessionPipe session ''stderr'',
        XCopyOut session ''stdout'' 0, XCopyOut session ''stderr'' 0,
        XSessionStart session (Command nsm), XSessionWait session,
        XConnWrite c (msg_header done), XConnWrite c done, XConnClose c])"
proof -
  let ?c = "cm_conn msg" and ?m = "m\<lparr>sesscounter := sesscounter m + 1\<rparr>"
  let ?opened = "write_struct [MuxSSessionOpened, ns_RequestID nsm, sesscounter m]"
  let ?qs = "[XNewSession (mx_client m), XConnWrite ?c (msg_header ?opened), XConnWrite ?c ?opened]"
  have ok: "c_ok (nth_choice w i) = (i \<notin> {3, 5, 7})" for i
    using assms(6) by blast
  have "\<forall>i < length [0, 1, 2 :: nat]. \<not> c_ok (nth_choice w (length ?qs + 2 * i))"
    unfolding ok by (simp add: less_Suc_eq numeral_3_eq_3)
  from exec_get_fds_fail [OF assms(1) this, where m = ?m and c = ?c and fds = "[0, 0, 0]"]
  obtain w1 where fds: "\<forall>k. exec (get_fds e ?m ?c [0, 1, 2] [0, 0, 0] k) (asked ?qs w) = exec (k [0, 0, 0])
      (asked (?qs @ [XConnFile ?c, XConnClose ?c, XConnFile ?c, XConnClose ?c, XConnFile ?c, XConnClose ?c]) w1)"
    and same: "w_calls w1 = w_calls w" "nth_choice w1 = nth_choice w" "w_state w1 = w_state w"
    by (auto simp del: One_nat_def)
  have "exec (handle_newSession e m msg (\<lambda>_. Halt)) (asked [] w) =
    exec (start_session e ?m ?c nsm (c_num (nth_choice w 0)) (sesscounter m) [0, 0, 0] Halt)
      (asked (?qs @ [XConnFile ?c, XConnClose ?c, XConnFile ?c, XConnClose ?c, XConnFile ?c, XConnClose ?c]) w1)"
    using assms(1-3) fds
    by (simp add: ok handle_newSession_def exec_Ask exec_sendStruct_ok write_sessionOpenedMsg_def
        request_pty_def c_err_def Let_def del: exec.simps One_nat_def)
  then show ?thesis
    using assms(1,3-5)
    by (simp add: ok start_session_def waiter_def write_exitMsg_def exec_sendStruct_ok exec_Ask same
        c_err_def Let_def api_simps asked_Nil del: exec.simps(6))
qed

theorem failed_descriptors_still_run_witness:
  "\<exists>w'. exec (handle_newSession quiet test_mux
        \<lparr>cm_MsgType = MuxCNewSession, cm_data = put_newSession (zero_newSessionMsg\<lparr>Command := ''ls''\<rparr>),
         bytesRead = 46, cm_conn = 4\<rparr> (\<lambda>_. Halt))
      (scripted (\<lambda>i. zero_choice\<lparr>c_ok := i \<notin> {3, 5, 7}\<rparr>)) = Finished w' \<and>
    XCopyOut 0 ''stdout'' 0 \<in> set (w_calls w') \<and> XSessionStart 0 ''ls'' \<in> set (w_calls w')"
proof -
  let ?w = "scripted (\<lambda>i. zero_choice\<lparr>c_ok := i \<notin> {3, 5, 7}\<rparr>)"
  let ?nsm = "zero_newSessionMsg\<lparr>Command := ''ls''\<rparr>"
  let ?msg = "\<lparr>cm_MsgType = MuxCNewSession, cm_data = put_newSession ?nsm, bytesRead = 46, cm_conn = 4\<rparr>"
  have "parseNewSession (put_newSession ?nsm @ []) = Inr ?nsm"
    by (rule parse_put_newSession) (simp add: sendable_def zero_newSessionMsg_def)
  then have "parseNewSession (cm_data ?msg) = Inr ?nsm"
    by simp
  moreover have "\<not> WantTTY ?nsm" "Command ?nsm \<noteq> []" "\<not> contains (Command ?nsm) ''scp -t''"
    by (simp_all add: zero_newSessionMsg_def)
  moreover have "\<forall>i. c_ok (nth_choice ?w i) \<longleftrightarrow> i \<notin> {3, 5, 7}" "c_num (nth_choice ?w 0) = 0"
    by (simp_all add: zero_choice_def)
  ultimately show ?thesis
    using failed_descriptors_still_run [of quiet ?msg ?nsm ?w test_mux] by (auto simp: Let_def)
qed

end
