(* ===== verification/RemoteHost.thy ===== *)
theory RemoteHost
  imports MuxServer Waiter
begin

section \<open>The goroutine of a connection and its end (remotehost.go, connect.go)\<close>

text \<open>
  Every SSH connection has a goroutine that waits for requests on a channel. In the model it sets
  itself up (\<open>remoteHost\<close>) and then listens (\<open>Listen\<close>, with its local variables in a \<open>remote\<close>);
  who sends it a request runs the request's handler: for a cleanup request \<open>send_cleanup\<close>, which
  ends the goroutine, for the others see the theory of sessions.

  The main result is that \<open>disconnectEverywhere\<close> ends every connection, the hosts before the
  proxies they are reached through.
\<close>

subsection \<open>Cleaning up one connection\<close>

text \<open>The case \<open>cleanupRequest\<close> of the loop, up to the response.\<close>

definition cleanup :: "Output \<Rightarrow> remote \<Rightarrow> (bool \<Rightarrow> proc) \<Rightarrow> proc" where
  "cleanup e r k =
     (let closed = Ask (XClientClose (r_client r)) (\<lambda>c. let allGood = (c_err c = None) in
        warn e ''remotehost.go'' 117 (r_me r @ '': client.Close(): '') (c_err c)
          (if \<not> r_isProxy r \<and> r_nmErr r = None then Mux_Close e (r_mux r) (k allGood) else k allGood))
      in case r_session r of
           None \<Rightarrow> closed
         | Some s \<Rightarrow> Ask (XSessionClose s) (\<lambda>c.
             warn e ''remotehost.go'' 112 ''session.Close(): '' (c_err c) closed))"

text \<open>A cleanup request is taken by one of the goroutines that listen; the sender waits.\<close>

definition send_cleanup :: "Output \<Rightarrow> chan_id \<Rightarrow> (bool \<Rightarrow> proc) \<Rightarrow> proc" where
  "send_cleanup e c k = Retire c (\<lambda>r. cleanup e r k)"

definition disconnectHost :: "Output \<Rightarrow> string \<Rightarrow> (error \<Rightarrow> proc) \<Rightarrow> proc" where
  "disconnectHost e h k =
     GetConnInfo h (\<lambda>res. case res of
         Inl err \<Rightarrow> k (Some err)
       | Inr ci \<Rightarrow> send_cleanup e (reqChan ci) (\<lambda>_. DeleteConnInfo h (k None)))"

definition disconnect_later :: "Output \<Rightarrow> string \<Rightarrow> nat \<Rightarrow> proc" where
  "disconnect_later e me line =
     disconnectHost e me (\<lambda>err. warn e ''remotehost.go'' line ''disconnectHost: '' err Halt)"

subsection \<open>Starting up\<close>

text \<open>
  The keep-alive messages of a connection, \<open>n\<close> of them. They are handled in the loop of
  \<open>remoteHost\<close>; that the loop may have ended in the meantime is left open.
\<close>

fun keep_alive :: "Output \<Rightarrow> string \<Rightarrow> nat option \<Rightarrow> nat \<Rightarrow> proc" where
  "keep_alive e me session 0 = Halt"
| "keep_alive e me None (Suc n) = keep_alive e me None n"
| "keep_alive e me (Some s) (Suc n) =
     Ask (XKeepAlive s) (\<lambda>r. case c_err r of
         None \<Rightarrow> keep_alive e me (Some s) n
       | Some err \<Rightarrow> Debug e ''remotehost.go'' 132
           (err @ '' Keep alive failed: %!s(MISSING)'' @ [newline])
           (Fork (disconnect_later e me 136) (keep_alive e me (Some s) n)))"

text \<open>The keep-alive goroutine, the control socket in server mode, and then the loop.\<close>

definition start_loop ::
  "Output \<Rightarrow> string \<Rightarrow> int \<Rightarrow> chan_id \<Rightarrow> nat \<Rightarrow> bool \<Rightarrow> nat option \<Rightarrow> proc" where
  "start_loop e me i listen client isPrx session =
     (let listening = (\<lambda>m nmErr. Listen listen \<lparr>r_me = me, r_id = i, r_client = client,
            r_isProxy = isPrx, r_session = session, r_mux = m, r_nmErr = nmErr\<rparr> Halt)
      in GetCfg (\<lambda>cfg.
        (if KeepAlive cfg > 0
         then Fork (Ask XTimeout (\<lambda>t. keep_alive e me session (c_num t))) else id)
        (if \<not> isPrx \<and> c_Server cfg
         then NewMux e me client (\<lambda>(m, nmErr).
           warn e ''remotehost.go'' 93 ''NewMux() failed: '' nmErr (listening m nmErr))
         else listening None None)))"

definition remoteHost ::
  "Output \<Rightarrow> string \<Rightarrow> int \<Rightarrow> chan_id \<Rightarrow> nat \<Rightarrow> bool \<Rightarrow> proc" where
  "remoteHost e me0 i listen client isPrx =
     GetPTR me0 (\<lambda>h. let me = (if h \<noteq> [] then h else me0) in
       Debug e ''remotehost.go'' 64 (''remoteHost(): running for '' @ me @ [newline])
       (Ask (XNewSession client) (\<lambda>s.
          warn e ''remotehost.go'' 69 (me @ '': NewSession() failed: '') (c_err s)
          ((if c_err s \<noteq> None then Fork (disconnect_later e me 73) else id)
          (start_loop e me i listen client isPrx
            (if c_err s = None then Some (c_num s) else None))))))"

subsection \<open>Ending all connections\<close>

datatype verdict = Keep | Whaa nat | Clean int

fun clean_times :: "Output \<Rightarrow> chan_id \<Rightarrow> nat \<Rightarrow> proc \<Rightarrow> proc" where
  "clean_times e c 0 p = p"
| "clean_times e c (Suc n) p = send_cleanup e c (\<lambda>_. clean_times e c n p)"

text \<open>
  One of the three loops over the connections: what it does with a connection is a \<open>verdict\<close>, to
  leave it, to complain about it (with the line of the message), or to send it some cleanup
  requests and to delete it.
\<close>

fun sweep ::
  "Output \<Rightarrow> nat \<Rightarrow> (Config \<Rightarrow> ConnInfo \<Rightarrow> verdict) \<Rightarrow> string list \<Rightarrow> proc \<Rightarrow> proc" where
  "sweep e line v [] p = p"
| "sweep e line v (h # hs) p =
     GetConnInfo h (\<lambda>res. case res of
         Inl err \<Rightarrow> warn e ''connect.go'' line ''GetConnInfo(): '' (Some err) (sweep e line v hs p)
       | Inr ci \<Rightarrow> GetCfg (\<lambda>cfg. case v cfg ci of
             Keep \<Rightarrow> sweep e line v hs p
           | Whaa l \<Rightarrow> Debug e ''connect.go'' l
               (''Whaa, how did '' @ h @ '' not get killed!?'' @ [newline]) (sweep e line v hs p)
           | Clean n \<Rightarrow> clean_times e (reqChan ci) (nat n) (DeleteConnInfo h (sweep e line v hs p))))"

definition non_proxies :: "Config \<Rightarrow> ConnInfo \<Rightarrow> verdict" where
  "non_proxies cfg ci = (if isProxy ci then Keep else Clean 1)"

definition indirect_proxies :: "Config \<Rightarrow> ConnInfo \<Rightarrow> verdict" where
  "indirect_proxies cfg ci = (if \<not> isProxy ci then Whaa 105 else if isDirect ci then Keep else Clean 1)"

definition direct_proxies :: "Config \<Rightarrow> ConnInfo \<Rightarrow> verdict" where
  "direct_proxies cfg ci =
     (if \<not> isProxy ci \<or> \<not> isDirect ci then Whaa 124 else Clean (BastionConns cfg))"

definition disconnectEverywhere :: "Output \<Rightarrow> bool \<Rightarrow> proc \<Rightarrow> proc" where
  "disconnectEverywhere e Proxies p =
     TimeoutWaiters
     (GetConnKeys (\<lambda>ck. sweep e 83 non_proxies ck
       (if \<not> Proxies then p
        else GetConnKeys (\<lambda>ck. sweep e 101 indirect_proxies ck
               (GetConnKeys (\<lambda>ck. sweep e 120 direct_proxies ck p))))))"

subsection \<open>Listeners\<close>

definition n_listeners :: "chan_id \<Rightarrow> (chan_id \<times> remote) list \<Rightarrow> nat" where
  "n_listeners c rs = length (filter (\<lambda>x. fst x = c) rs)"

lemma length_listeners: "length (listeners c rs) = n_listeners c rs"
proof -
  have "filter (\<lambda>x. fst x = c) rs = filter (\<lambda>x. fst x = c) (map ((!) rs) [0..<length rs])"
    by (simp add: map_nth)
  also have "\<dots> = map ((!) rs) (listeners c rs)"
    by (simp add: listeners_def filter_map comp_def)
  finally show ?thesis
    by (simp add: n_listeners_def)
qed

lemma find_listener_Some:
  assumes "0 < n_listeners c rs"
  obtains i where "find_listener n c rs = Some i" and "i < length rs" and "fst (rs ! i) = c"
proof -
  let ?is = "listeners c rs"
  have ne: "0 < length ?is"
    using assms by (simp add: length_listeners)
  then have "?is ! (n mod length ?is) \<in> set ?is"
    by (intro nth_mem) simp
  then show ?thesis
    using that ne by (auto simp: find_listener_def Let_def listeners_def)
qed

lemma remove_nth_split:
  assumes "i < length rs"
  shows "rs = take i rs @ rs ! i # drop (Suc i) rs"
  using assms by (rule id_take_nth_drop)

lemma n_listeners_remove:
  assumes "i < length rs"
  shows "n_listeners c rs = n_listeners c (remove_nth i rs) + (if fst (rs ! i) = c then 1 else 0)"
  unfolding n_listeners_def remove_nth_def
  by (subst remove_nth_split [OF assms]) (simp del: append_take_drop_id)

lemma set_remove_nth: "set (remove_nth i rs) \<subseteq> set rs"
  unfolding remove_nth_def by (metis le_sup_iff set_append set_drop_subset set_take_subset)

subsection \<open>Runs of the cleanup\<close>

fun closes :: "query list \<Rightarrow> nat list" where
  "closes [] = []"
| "closes (XClientClose c # qs) = c # closes qs"
| "closes (_ # qs) = closes qs"

lemma closes_append [simp]: "closes (qs @ rs) = closes qs @ closes rs"
  by (induction qs rule: closes.induct) auto

text \<open>A connection whose cleanup does not panic.\<close>

definition safe_remote :: "remote \<Rightarrow> bool" where
  "safe_remote r \<longleftrightarrow> r_isProxy r \<or> r_nmErr r \<noteq> None \<or> r_mux r \<noteq> None"

text \<open>What a cleanup leaves alone.\<close>

definition keeps :: "world \<Rightarrow> world \<Rightarrow> bool" where
  "keeps w w' \<longleftrightarrow> w_state w' = w_state w \<and> w_config w' = w_config w \<and> w_next w' = w_next w \<and>
     w_sem w' = w_sem w \<and> w_wg w' = w_wg w \<and> w_choices w' = w_choices w"

lemma keeps_refl [simp]: "keeps w w"
  by (simp add: keeps_def)

lemma keeps_trans: "keeps w w1 \<Longrightarrow> keeps w1 w2 \<Longrightarrow> keeps w w2"
  by (simp add: keeps_def)

lemma exec_cleanup:
  assumes "\<not> mute e" and "safe_remote r"
  obtains w' g where "returns (cleanup e r) w g w'" and "keeps w w'"
    and "w_remotes w' = w_remotes w" and "closes (w_calls w') = closes (w_calls w) @ [r_client r]"
proof -
  define w1 where "w1 = (case r_session r of None \<Rightarrow> w | Some s \<Rightarrow>
    warn_log e ''remotehost.go'' 112 ''session.Close(): '' (c_err (now_choice w)) (ask (XSessionClose s) w))"
  define w2 where "w2 = warn_log e ''remotehost.go'' 117 (r_me r @ '': client.Close(): '')
    (c_err (now_choice w1)) (ask (XClientClose (r_client r)) w1)"
  define w3 where "w3 = (case r_mux r of None \<Rightarrow> w2 | Some mx \<Rightarrow>
    if \<not> r_isProxy r \<and> r_nmErr r = None
    then warn_log e ''controlmux.go'' 369 (mx_me mx @ '': m.l.Close() failed: '') (c_err (now_choice w2))
      (ask (XCloseListener (mx_l mx)) w2) else w2)"
  have "returns (cleanup e r) w (c_err (now_choice w1) = None) w3"
    using assms
    by (auto simp: returns_def cleanup_def Let_def Mux_Close_def handle_kill_def safe_remote_def
        w1_def w2_def w3_def api_simps split: option.split)
  moreover have "keeps w w3" "w_remotes w3 = w_remotes w"
    "closes (w_calls w3) = closes (w_calls w) @ [r_client r]"
    by (auto simp: keeps_def w1_def w2_def w3_def split: option.split)
  ultimately show ?thesis
    by (rule that)
qed

text \<open>Several cleanup requests to one channel end that many of its goroutines, and no other.\<close>

lemma exec_clean_times:
  assumes "\<not> mute e" and "n \<le> n_listeners c (w_remotes w)"
    and "\<forall>r \<in> snd ` set (w_remotes w). safe_remote r"
  shows "\<exists>w' cs. (\<forall>p. exec (clean_times e c n p) w = exec p w') \<and> keeps w w' \<and>
    closes (w_calls w') = closes (w_calls w) @ cs \<and> length cs = n \<and>
    set cs \<subseteq> {r_client r | r. (c, r) \<in> set (w_remotes w)} \<and>
    set (w_remotes w') \<subseteq> set (w_remotes w) \<and>
    (\<forall>d. n_listeners d (w_remotes w') = n_listeners d (w_remotes w) - (if d = c then n else 0))"
  using assms(2,3)
proof (induction n arbitrary: w)
  case 0
  show ?case
    by (rule exI [of _ w], rule exI [of _ "[]"]) simp
next
  case (Suc n)
  then obtain i where i: "find_listener (c_num (now_choice w)) c (w_remotes w) = Some i"
      "i < length (w_remotes w)" "fst (w_remotes w ! i) = c"
    by (metis find_listener_Some less_eq_Suc_le zero_less_Suc order_less_le_trans)
  let ?r = "snd (w_remotes w ! i)" and ?w1 = "(tick w)\<lparr>w_remotes := remove_nth i (w_remotes w)\<rparr>"
  have r: "(c, ?r) \<in> set (w_remotes w)"
    using i by (metis nth_mem prod.collapse)
  then have "safe_remote ?r"
    using Suc.prems(2) by force
  from exec_cleanup [OF assms(1) this, of ?w1]
  obtain w2 g where w2: "returns (cleanup e ?r) ?w1 g w2" "keeps ?w1 w2"
      "w_remotes w2 = w_remotes ?w1" "closes (w_calls w2) = closes (w_calls ?w1) @ [r_client ?r]"
    by metis
  have fewer: "n_listeners d (w_remotes w2) = n_listeners d (w_remotes w) - (if d = c then 1 else 0)" for d
    using n_listeners_remove [OF i(2), of d] i(3) by (simp add: w2(3))
  have sub: "set (w_remotes w2) \<subseteq> set (w_remotes w)"
    using set_remove_nth by (simp add: w2(3))
  have "n \<le> n_listeners c (w_remotes w2)" "\<forall>r \<in> snd ` set (w_remotes w2). safe_remote r"
    using Suc.prems fewer [of c] sub by auto
  from Suc.IH [OF this] obtain w' cs where w': "\<forall>p. exec (clean_times e c n p) w2 = exec p w'"
      "keeps w2 w'" "closes (w_calls w') = closes (w_calls w2) @ cs" "length cs = n"
      "set cs \<subseteq> {r_client r | r. (c, r) \<in> set (w_remotes w2)}" "set (w_remotes w') \<subseteq> set (w_remotes w2)"
      "\<forall>d. n_listeners d (w_remotes w') = n_listeners d (w_remotes w2) - (if d = c then n else 0)"
    by blast
  have "exec (clean_times e c (Suc n) p) w = exec p w'" for p
    using i(1) w2(1) w'(1) by (simp add: send_cleanup_def returns_def)
  moreover have "keeps w w'"
    using w2(2) w'(2) by (simp add: keeps_def)
  moreover have "set (r_client ?r # cs) \<subseteq> {r_client r | r. (c, r) \<in> set (w_remotes w)}"
    using r w'(5) sub by auto
  ultimately show ?case
    using w' w2(4) sub fewer by (intro exI [of _ w'] exI [of _ "r_client ?r # cs"]) auto
qed

subsection \<open>Runs of the loops\<close>

text \<open>
  What the loops rely on: no two connections share a channel, no cleanup panics, and enough
  goroutines listen for the number of requests that will be sent.
\<close>

definition own_channels :: "world \<Rightarrow> bool" where
  "own_channels w \<longleftrightarrow> (\<forall>h h' ci ci'. connection w h = Some ci \<longrightarrow> connection w h' = Some ci' \<longrightarrow>
     reqChan ci = reqChan ci' \<longrightarrow> h = h')"

definition all_safe :: "world \<Rightarrow> bool" where
  "all_safe w \<longleftrightarrow> (\<forall>r \<in> snd ` set (w_remotes w). safe_remote r)"

definition n_times :: "verdict \<Rightarrow> nat" where
  "n_times x = (case x of Clean n \<Rightarrow> nat n | _ \<Rightarrow> 0)"

definition enough :: "(Config \<Rightarrow> ConnInfo \<Rightarrow> verdict) \<Rightarrow> world \<Rightarrow> bool" where
  "enough v w \<longleftrightarrow> (\<forall>h ci. connection w h = Some ci \<longrightarrow>
     n_times (v (w_config w) ci) \<le> n_listeners (reqChan ci) (w_remotes w))"

definition doomed :: "(Config \<Rightarrow> ConnInfo \<Rightarrow> verdict) \<Rightarrow> world \<Rightarrow> string set" where
  "doomed v w = {h. \<exists>ci n. connection w h = Some ci \<and> v (w_config w) ci = Clean n}"

text \<open>The clients of the connections a loop cleans, and how many it closes.\<close>

definition clients :: "(Config \<Rightarrow> ConnInfo \<Rightarrow> verdict) \<Rightarrow> world \<Rightarrow> nat set" where
  "clients v w = {r_client r | r h ci. h \<in> doomed v w \<and> connection w h = Some ci \<and>
     (reqChan ci, r) \<in> set (w_remotes w)}"

definition n_closes :: "(Config \<Rightarrow> ConnInfo \<Rightarrow> verdict) \<Rightarrow> world \<Rightarrow> string list \<Rightarrow> nat" where
  "n_closes v w hs =
     (\<Sum>h\<leftarrow>hs. case connection w h of None \<Rightarrow> 0 | Some ci \<Rightarrow> n_times (v (w_config w) ci))"

text \<open>The world after a loop, compared with the world before it.\<close>

definition swept ::
  "(Config \<Rightarrow> ConnInfo \<Rightarrow> verdict) \<Rightarrow> string list \<Rightarrow> world \<Rightarrow> world \<Rightarrow> nat list \<Rightarrow> bool" where
  "swept v hs w w' cs \<longleftrightarrow>
     w_config w' = w_config w \<and> w_wg w' = w_wg w \<and> w_next w' = w_next w \<and> targets (w_state w') = targets (w_state w) \<and>
     (gwf (conn (w_state w)) \<longrightarrow> gwf (conn (w_state w'))) \<and>
     (\<forall>h. connection w' h = (if h \<in> set hs \<inter> doomed v w then None else connection w h)) \<and>
     closes (w_calls w') = closes (w_calls w) @ cs \<and> length cs = n_closes v w hs \<and>
     set cs \<subseteq> clients v w \<and> set (w_remotes w') \<subseteq> set (w_remotes w) \<and>
     (\<forall>h ci. connection w h = Some ci \<longrightarrow> h \<notin> set hs \<inter> doomed v w \<longrightarrow>
        n_listeners (reqChan ci) (w_remotes w') = n_listeners (reqChan ci) (w_remotes w)) \<and>
     (\<forall>d. n_listeners d (w_remotes w') \<le> n_listeners d (w_remotes w)) \<and>
     (\<forall>h ci. connection w h = Some ci \<longrightarrow> h \<in> set hs \<longrightarrow>
        n_listeners (reqChan ci) (w_remotes w') \<le>
        n_listeners (reqChan ci) (w_remotes w) - n_times (v (w_config w) ci))"

lemma swept_own: "\<lbrakk>swept v hs w w' cs; own_channels w\<rbrakk> \<Longrightarrow> own_channels w'"
  unfolding swept_def own_channels_def by (metis option.distinct(1))

lemma swept_safe: "\<lbrakk>swept v hs w w' cs; all_safe w\<rbrakk> \<Longrightarrow> all_safe w'"
  unfolding swept_def all_safe_def by (meson image_mono subsetD)

lemma swept_enough:
  assumes "swept v hs w w' cs" and "enough u w"
  shows "enough u w'"
  unfolding enough_def
proof (intro allI impI)
  fix h ci assume "connection w' h = Some ci"
  with assms(1) have "connection w h = Some ci" "h \<notin> set hs \<inter> doomed v w"
    by (auto simp: swept_def split: if_splits)
  with assms show "n_times (u (w_config w') ci) \<le> n_listeners (reqChan ci) (w_remotes w')"
    by (simp add: swept_def enough_def)
qed

lemma swept_Cons:
  assumes one: "swept v [h] w w1 cs1" and rest: "swept v hs w1 w' cs" and h: "h \<notin> set hs"
    and own: "own_channels w"
  shows "swept v (h # hs) w w' (cs1 @ cs)"
proof -
  have dm: "x \<in> doomed v w1 \<longleftrightarrow> x \<in> doomed v w" if "x \<noteq> h" for x
    using one that by (simp add: swept_def doomed_def)
  have c1: "connection w1 x = connection w x" if "x \<noteq> h" for x
    using one that by (simp add: swept_def)
  have cfg: "w_config w1 = w_config w"
    using one by (simp add: swept_def)
  have "connection w1 x = connection w x" if "x \<in> set hs" for x
    using h c1 that by metis
  then have n: "n_closes v w1 hs = n_closes v w hs"
    unfolding n_closes_def cfg by (intro arg_cong [where f = sum_list] map_cong refl) simp
  have cl: "clients v w1 \<subseteq> clients v w"
    using one unfolding clients_def swept_def doomed_def by (fastforce split: if_splits)
  have n_Cons: "n_closes v w (h # hs) = n_closes v w [h] + n_closes v w hs"
    by (simp add: n_closes_def)
  have conn': "connection w' x = (if x \<in> set (h # hs) \<inter> doomed v w then None else connection w x)" for x
    using one rest h dm by (cases "x = h") (simp_all add: swept_def)
  have listening: "n_listeners (reqChan ci) (w_remotes w') = n_listeners (reqChan ci) (w_remotes w)"
    if "connection w x = Some ci" "x \<notin> set (h # hs) \<inter> doomed v w" for x ci
  proof -
    have "connection w1 x = Some ci" "x \<notin> set hs \<inter> doomed v w1"
      using one that h dm [of x] by (auto simp: swept_def)
    with rest have "n_listeners (reqChan ci) (w_remotes w') = n_listeners (reqChan ci) (w_remotes w1)"
      by (simp add: swept_def)
    also have "\<dots> = n_listeners (reqChan ci) (w_remotes w)"
      using one that by (auto simp: swept_def)
    finally show ?thesis .
  qed
  have fewer: "n_listeners d (w_remotes w') \<le> n_listeners d (w_remotes w1)"
    "n_listeners d (w_remotes w1) \<le> n_listeners d (w_remotes w)" for d
    using one rest by (simp_all add: swept_def)
  have cut: "n_listeners (reqChan ci) (w_remotes w') \<le>
      n_listeners (reqChan ci) (w_remotes w) - n_times (v (w_config w) ci)"
    if "connection w x = Some ci" "x \<in> set (h # hs)" for x ci
  proof (cases "x = h")
    case True
    then have "n_listeners (reqChan ci) (w_remotes w1) \<le>
        n_listeners (reqChan ci) (w_remotes w) - n_times (v (w_config w) ci)"
      using one that by (simp add: swept_def)
    with fewer(1) show ?thesis
      by (rule order_trans)
  next
    case False
    then have "n_listeners (reqChan ci) (w_remotes w') \<le>
        n_listeners (reqChan ci) (w_remotes w1) - n_times (v (w_config w) ci)"
      using rest that c1 [OF False] cfg by (simp add: swept_def)
    also have "\<dots> \<le> n_listeners (reqChan ci) (w_remotes w) - n_times (v (w_config w) ci)"
      by (intro diff_le_mono fewer(2))
    finally show ?thesis .
  qed
  show ?thesis
    unfolding swept_def
  proof (intro conjI)
    show "\<forall>x ci. connection w x = Some ci \<longrightarrow> x \<in> set (h # hs) \<longrightarrow>
        n_listeners (reqChan ci) (w_remotes w') \<le>
        n_listeners (reqChan ci) (w_remotes w) - n_times (v (w_config w) ci)"
      by (intro allI impI cut)
    show "\<forall>d. n_listeners d (w_remotes w') \<le> n_listeners d (w_remotes w)"
      using fewer order_trans by blast
    show "\<forall>x. connection w' x = (if x \<in> set (h # hs) \<inter> doomed v w then None else connection w x)"
      by (intro allI conn')
    show "\<forall>x ci. connection w x = Some ci \<longrightarrow> x \<notin> set (h # hs) \<inter> doomed v w \<longrightarrow>
        n_listeners (reqChan ci) (w_remotes w') = n_listeners (reqChan ci) (w_remotes w)"
      by (intro allI impI listening)
  qed (use one rest n cl n_Cons in \<open>auto simp: swept_def\<close>)
qed

lemma swept_one:
  assumes "\<not> mute e" and "own_channels w" and "all_safe w" and "enough v w"
  shows "\<exists>w' cs. (\<forall>p. exec (sweep e line v (h # hs) p) w = exec (sweep e line v hs p) w') \<and>
    swept v [h] w w' cs"
proof (cases "connection w h")
  case None
  let ?w = "warn_log e ''connect.go'' line ''GetConnInfo(): '' (Some (no_conn_error h)) w"
  have "exec (sweep e line v (h # hs) p) w = exec (sweep e line v hs p) ?w" for p
    by (simp add: api_simps assms(1) None)
  moreover have "swept v [h] w ?w []"
    by (simp add: swept_def n_closes_def None)
  ultimately show ?thesis by blast
next
  case (Some ci)
  show ?thesis
  proof (cases "v (w_config w) ci")
    case Keep
    then have "exec (sweep e line v (h # hs) p) w = exec (sweep e line v hs p) w" for p
      by (simp add: api_simps Some)
    moreover have "swept v [h] w w []"
      by (simp add: swept_def n_closes_def n_times_def doomed_def Some Keep)
    ultimately show ?thesis by blast
  next
    case (Whaa l)
    let ?w = "debug_log e ''connect.go'' l (''Whaa, how did '' @ h @ '' not get killed!?'' @ [newline]) w"
    have "exec (sweep e line v (h # hs) p) w = exec (sweep e line v hs p) ?w" for p
      by (simp add: api_simps assms(1) Some Whaa)
    moreover have "swept v [h] w ?w []"
      by (simp add: swept_def n_closes_def n_times_def doomed_def Some Whaa)
    ultimately show ?thesis by blast
  next
    case (Clean n)
    have n: "nat n \<le> n_listeners (reqChan ci) (w_remotes w)"
      using assms(4) Some Clean by (force simp: enough_def n_times_def)
    from exec_clean_times [OF assms(1) n] assms(3)
    obtain w1 cs where w1: "\<forall>p. exec (clean_times e (reqChan ci) (nat n) p) w = exec p w1" "keeps w w1"
        "closes (w_calls w1) = closes (w_calls w) @ cs" "length cs = nat n"
        "set cs \<subseteq> {r_client r | r. (reqChan ci, r) \<in> set (w_remotes w)}"
        "set (w_remotes w1) \<subseteq> set (w_remotes w)"
        "\<forall>d. n_listeners d (w_remotes w1) =
          n_listeners d (w_remotes w) - (if d = reqChan ci then nat n else 0)"
      unfolding all_safe_def by blast
    let ?w = "upd_state (\<lambda>s. s\<lparr>conn := gdel h (conn s)\<rparr>) w1"
    have "exec (sweep e line v (h # hs) p) w = exec (sweep e line v hs p) ?w" for p
      by (simp add: api_simps Some Clean w1(1))
    moreover have doomed: "h \<in> doomed v w"
      using Some Clean by (simp add: doomed_def)
    have "swept v [h] w ?w cs"
      unfolding swept_def
    proof (intro conjI)
      show "set cs \<subseteq> clients v w"
        using w1(5) doomed Some unfolding clients_def by blast
      show "\<forall>h' ci'. connection w h' = Some ci' \<longrightarrow> h' \<notin> set [h] \<inter> doomed v w \<longrightarrow>
          n_listeners (reqChan ci') (w_remotes ?w) = n_listeners (reqChan ci') (w_remotes w)"
        using assms(2) doomed Some w1(7) by (auto simp: own_channels_def)
    qed (use w1 doomed in \<open>auto simp: keeps_def go_map_simps gwf_gdel n_closes_def n_times_def Some Clean\<close>)
    ultimately show ?thesis by blast
  qed
qed

lemma exec_sweep:
  assumes "\<not> mute e" and "own_channels w" and "all_safe w" and "enough v w" and "distinct hs"
  shows "\<exists>w' cs. (\<forall>p. exec (sweep e line v hs p) w = exec p w') \<and> swept v hs w w' cs"
  using assms(2-)
proof (induction hs arbitrary: w)
  case Nil
  show ?case
    by (rule exI [of _ w], rule exI [of _ "[]"]) (simp add: swept_def n_closes_def)
next
  case (Cons h hs)
  obtain w1 cs1 where w1: "\<forall>p. exec (sweep e line v (h # hs) p) w = exec (sweep e line v hs p) w1"
      "swept v [h] w w1 cs1"
    using swept_one [OF assms(1) Cons.prems(1-3)] by blast
  then have ready: "own_channels w1" "all_safe w1" "enough v w1"
    using Cons.prems swept_own swept_safe swept_enough by blast+
  have "distinct hs"
    using Cons.prems(4) by simp
  from Cons.IH [OF ready this] obtain w' cs
    where w': "\<forall>p. exec (sweep e line v hs p) w1 = exec p w'" "swept v hs w1 w' cs"
    by blast
  then have "swept v (h # hs) w w' (cs1 @ cs)"
    using swept_Cons w1(2) Cons.prems by auto
  with w1(1) w'(1) show ?case by metis
qed

subsection \<open>Disconnecting from everywhere\<close>

text \<open>The number of goroutines a connection should have: one per session the program opens to it.\<close>

definition n_remotes :: "Config \<Rightarrow> ConnInfo \<Rightarrow> nat" where
  "n_remotes cfg ci = (if isProxy ci \<and> isDirect ci then nat (BastionConns cfg) else 1)"

definition class_clients :: "(ConnInfo \<Rightarrow> bool) \<Rightarrow> world \<Rightarrow> nat set" where
  "class_clients P w = {r_client r | r h ci. connection w h = Some ci \<and> P ci \<and>
     (reqChan ci, r) \<in> set (w_remotes w)}"

lemma swept_clients: "swept v hs w w' cs \<Longrightarrow> set cs \<subseteq> clients v w"
  by (simp add: swept_def)

lemma doomed_mono:
  assumes "swept v hs w w' cs" and "h \<in> doomed u w'"
  shows "h \<in> doomed u w"
proof -
  obtain ci n where "connection w' h = Some ci" "u (w_config w') ci = Clean n"
    using assms(2) by (auto simp: doomed_def)
  with assms(1) show ?thesis
    by (auto simp: swept_def doomed_def split: if_splits)
qed

lemma clients_mono:
  assumes "swept v hs w w' cs"
  shows "clients u w' \<subseteq> clients u w"
proof
  fix x assume "x \<in> clients u w'"
  then obtain r h ci where x: "x = r_client r" "h \<in> doomed u w'" "connection w' h = Some ci"
      "(reqChan ci, r) \<in> set (w_remotes w')"
    unfolding clients_def by blast
  then have "connection w h = Some ci" "(reqChan ci, r) \<in> set (w_remotes w)"
    using assms by (auto simp: swept_def split: if_splits)
  with x doomed_mono [OF assms] show "x \<in> clients u w"
    unfolding clients_def by blast
qed

lemma tick_ready [simp]:
  "own_channels (tick w) = own_channels w" "all_safe (tick w) = all_safe w"
  "enough v (tick w) = enough v w" "clients v (tick w) = clients v w" "doomed v (tick w) = doomed v w"
  by (simp_all add: own_channels_def all_safe_def enough_def clients_def doomed_def)

lemma doomed_iff:
  "h \<in> doomed non_proxies w \<longleftrightarrow> (\<exists>ci. connection w h = Some ci \<and> \<not> isProxy ci)"
  "h \<in> doomed indirect_proxies w \<longleftrightarrow> (\<exists>ci. connection w h = Some ci \<and> isProxy ci \<and> \<not> isDirect ci)"
  "h \<in> doomed direct_proxies w \<longleftrightarrow> (\<exists>ci. connection w h = Some ci \<and> isProxy ci \<and> isDirect ci)"
  by (auto simp: doomed_def non_proxies_def indirect_proxies_def direct_proxies_def)

lemma clients_class:
  "clients non_proxies w \<subseteq> class_clients (\<lambda>ci. \<not> isProxy ci) w"
  "clients indirect_proxies w \<subseteq> class_clients (\<lambda>ci. isProxy ci \<and> \<not> isDirect ci) w"
  "clients direct_proxies w \<subseteq> class_clients (\<lambda>ci. isProxy ci \<and> isDirect ci) w"
  by (auto simp: clients_def class_clients_def doomed_iff) blast+

text \<open>One loop over the connections the state holds when it starts.\<close>

lemma exec_sweep_keys:
  assumes "\<not> mute e" and "own_channels w" and "all_safe w" and "enough v w"
    and "gwf (conn (w_state w))"
  shows "\<exists>w' cs hs. (\<forall>p. exec (GetConnKeys (\<lambda>ck. sweep e line v ck p)) w = exec p w') \<and>
    swept v hs (tick w) w' cs \<and> set hs = dom (connection w)"
proof -
  let ?hs = "grange (c_nums (now_choice w)) (conn (w_state w))"
  have "distinct ?hs"
    using assms(5) by (rule distinct_grange)
  then have "\<exists>w' cs. (\<forall>p. exec (sweep e line v ?hs p) (tick w) = exec p w') \<and>
      swept v ?hs (tick w) w' cs"
    using assms by (intro exec_sweep) simp_all
  then obtain w' cs where "\<forall>p. exec (sweep e line v ?hs p) (tick w) = exec p w'" "swept v ?hs (tick w) w' cs"
    by blast
  then show ?thesis
    by (intro exI [of _ w'] exI [of _ cs] exI [of _ ?hs]) (simp add: api_simps)
qed

lemma swept_fewer: "swept v hs w w' cs \<Longrightarrow> n_listeners d (w_remotes w') \<le> n_listeners d (w_remotes w)"
  by (simp add: swept_def)

lemma swept_cut:
  assumes "swept v hs (tick w) w' cs" and "set hs = dom (connection w)" and "connection w h = Some ci"
    and "n_listeners (reqChan ci) (w_remotes w) \<le> n_times (v (w_config w) ci)"
  shows "n_listeners (reqChan ci) (w_remotes w') = 0"
proof -
  have "h \<in> set hs"
    using assms(2,3) by auto
  then have "n_listeners (reqChan ci) (w_remotes w') \<le>
      n_listeners (reqChan ci) (w_remotes w) - n_times (v (w_config w) ci)"
    using assms(1,3) by (simp add: swept_def)
  with assms(4) show ?thesis by simp
qed

lemma swept_all:
  assumes "swept v hs (tick w) w' cs" and "set hs = dom (connection w)"
  shows "connection w' h = (if h \<in> doomed v w then None else connection w h)"
  using assms by (auto simp: swept_def doomed_def)

definition ready_to_disconnect :: "world \<Rightarrow> bool" where
  "ready_to_disconnect w \<longleftrightarrow> gwf (conn (w_state w)) \<and> own_channels w \<and> all_safe w \<and>
     (\<forall>h ci. connection w h = Some ci \<longrightarrow>
        n_listeners (reqChan ci) (w_remotes w) = n_remotes (w_config w) ci)"

lemma ready_enough:
  assumes "ready_to_disconnect w"
  shows "enough non_proxies w" "enough indirect_proxies w" "enough direct_proxies w"
  using assms
  by (auto simp: enough_def ready_to_disconnect_def non_proxies_def indirect_proxies_def
      direct_proxies_def n_times_def n_remotes_def)

text \<open>The three loops, one after the other.\<close>

definition three_sweeps ::
  "world \<Rightarrow> world \<Rightarrow> world \<Rightarrow> world \<Rightarrow> nat list \<Rightarrow> nat list \<Rightarrow> nat list \<Rightarrow> bool" where
  "three_sweeps w w1 w2 w3 cs1 cs2 cs3 \<longleftrightarrow>
     (\<exists>hs1. swept non_proxies hs1 (tick (tick w)) w1 cs1 \<and> set hs1 = dom (connection w)) \<and>
     (\<exists>hs2. swept indirect_proxies hs2 (tick w1) w2 cs2 \<and> set hs2 = dom (connection w1)) \<and>
     (\<exists>hs3. swept direct_proxies hs3 (tick w2) w3 cs3 \<and> set hs3 = dom (connection w2))"

lemma disconnect_sweeps:
  assumes "\<not> mute e" and "ready_to_disconnect w"
  shows "\<exists>w1 w2 w3 cs1 cs2 cs3. (\<forall>p. exec (disconnectEverywhere e True p) w = exec p w3) \<and>
    three_sweeps w w1 w2 w3 cs1 cs2 cs3"
proof -
  note ready = assms(2) [unfolded ready_to_disconnect_def] and enough = ready_enough [OF assms(2)]
  obtain w1 cs1 hs1 where
    w1: "\<forall>p. exec (GetConnKeys (\<lambda>ck. sweep e 83 non_proxies ck p)) (tick w) = exec p w1"
    and s1: "swept non_proxies hs1 (tick (tick w)) w1 cs1" "set hs1 = dom (connection (tick w))"
    using exec_sweep_keys [OF assms(1), of "tick w" non_proxies 83] ready enough by auto
  have r1: "own_channels w1" "all_safe w1" "enough indirect_proxies w1" "enough direct_proxies w1"
    "gwf (conn (w_state w1))"
    using ready enough swept_own [OF s1(1)] swept_safe [OF s1(1)] swept_enough [OF s1(1)] s1(1)
    by (simp_all add: swept_def)
  obtain w2 cs2 hs2 where
    w2: "\<forall>p. exec (GetConnKeys (\<lambda>ck. sweep e 101 indirect_proxies ck p)) w1 = exec p w2"
    and s2: "swept indirect_proxies hs2 (tick w1) w2 cs2" "set hs2 = dom (connection w1)"
    using exec_sweep_keys [OF assms(1) r1(1-3) r1(5), of 101] by blast
  have r2: "own_channels w2" "all_safe w2" "enough direct_proxies w2" "gwf (conn (w_state w2))"
    using r1 swept_own [OF s2(1)] swept_safe [OF s2(1)] swept_enough [OF s2(1)] s2(1)
    by (simp_all add: swept_def)
  obtain w3 cs3 hs3 where
    w3: "\<forall>p. exec (GetConnKeys (\<lambda>ck. sweep e 120 direct_proxies ck p)) w2 = exec p w3"
    and s3: "swept direct_proxies hs3 (tick w2) w3 cs3" "set hs3 = dom (connection w2)"
    using exec_sweep_keys [OF assms(1) r2, of 120] by blast
  have "exec (disconnectEverywhere e True p) w = exec p w3" for p
    using w1 w2 w3 by (simp add: disconnectEverywhere_def exec_TimeoutWaiters)
  moreover have "three_sweeps w w1 w2 w3 cs1 cs2 cs3"
    using s1 s2 s3 unfolding three_sweeps_def by auto
  ultimately show ?thesis by blast
qed

lemma sweeps_connections:
  assumes "three_sweeps w w1 w2 w3 cs1 cs2 cs3"
  shows "connection w1 h = (if h \<in> doomed non_proxies w then None else connection w h)"
    "connection w2 h = (if h \<in> doomed indirect_proxies w1 then None else connection w1 h)"
    "connection w3 h = (if h \<in> doomed direct_proxies w2 then None else connection w2 h)"
  using assms swept_all [of non_proxies _ "tick w" w1 cs1 h] swept_all [of _ _ w1 w2 cs2 h]
    swept_all [of _ _ w2 w3 cs3 h]
  unfolding three_sweeps_def by auto

lemma sweeps_empty:
  assumes "three_sweeps w w1 w2 w3 cs1 cs2 cs3"
  shows "connection w3 h = None"
  by (cases "connection w h") (auto simp: sweeps_connections [OF assms] doomed_iff)

lemma sweeps_clients:
  assumes "three_sweeps w w1 w2 w3 cs1 cs2 cs3"
  shows "set cs1 \<subseteq> class_clients (\<lambda>ci. \<not> isProxy ci) w"
    "set cs2 \<subseteq> class_clients (\<lambda>ci. isProxy ci \<and> \<not> isDirect ci) w"
    "set cs3 \<subseteq> class_clients (\<lambda>ci. isProxy ci \<and> isDirect ci) w"
proof -
  obtain hs1 hs2 hs3 where s: "swept non_proxies hs1 (tick (tick w)) w1 cs1"
      "swept indirect_proxies hs2 (tick w1) w2 cs2" "swept direct_proxies hs3 (tick w2) w3 cs3"
    using assms unfolding three_sweeps_def by blast
  show "set cs1 \<subseteq> class_clients (\<lambda>ci. \<not> isProxy ci) w"
    using swept_clients [OF s(1)] clients_class(1) [of w] by simp
  show "set cs2 \<subseteq> class_clients (\<lambda>ci. isProxy ci \<and> \<not> isDirect ci) w"
    using swept_clients [OF s(2)] clients_mono [OF s(1), of indirect_proxies] clients_class(2) [of w]
    by simp
  show "set cs3 \<subseteq> class_clients (\<lambda>ci. isProxy ci \<and> isDirect ci) w"
    using swept_clients [OF s(3)] clients_mono [OF s(2), of direct_proxies]
      clients_mono [OF s(1), of direct_proxies] clients_class(3) [of w]
    by simp
qed

lemma sweeps_listening:
  assumes three: "three_sweeps w w1 w2 w3 cs1 cs2 cs3" and h: "connection w h = Some ci"
    and n: "n_listeners (reqChan ci) (w_remotes w) = n_remotes (w_config w) ci"
  shows "n_listeners (reqChan ci) (w_remotes w3) = 0"
proof -
  obtain hs1 hs2 hs3 where s: "swept non_proxies hs1 (tick (tick w)) w1 cs1" "set hs1 = dom (connection w)"
      "swept indirect_proxies hs2 (tick w1) w2 cs2" "set hs2 = dom (connection w1)"
      "swept direct_proxies hs3 (tick w2) w3 cs3" "set hs3 = dom (connection w2)"
    using three unfolding three_sweeps_def by blast
  note mono = swept_fewer [OF s(1), of "reqChan ci"] swept_fewer [OF s(3), of "reqChan ci"]
    swept_fewer [OF s(5), of "reqChan ci"]
  have cfg: "w_config w1 = w_config w" "w_config w2 = w_config w"
    using s(1,3) by (simp_all add: swept_def)
  consider "\<not> isProxy ci" | "isProxy ci" "\<not> isDirect ci" | "isProxy ci" "isDirect ci"
    by blast
  then show ?thesis
  proof cases
    case 1
    then have "n_listeners (reqChan ci) (w_remotes w1) = 0"
      using swept_cut [of non_proxies hs1 "tick w"] s(1,2) h n
      by (simp add: n_remotes_def non_proxies_def n_times_def)
    with mono show ?thesis by simp
  next
    case 2
    then have "connection w1 h = Some ci"
      using h by (simp add: sweeps_connections [OF three] doomed_iff)
    then have "n_listeners (reqChan ci) (w_remotes w2) = 0"
      using swept_cut [OF s(3,4)] 2 n mono by (simp add: n_remotes_def indirect_proxies_def n_times_def)
    with mono show ?thesis by simp
  next
    case 3
    then have "connection w2 h = Some ci"
      using h by (simp add: sweeps_connections [OF three] doomed_iff)
    then show ?thesis
      using swept_cut [OF s(5,6)] 3 n mono
      by (simp add: n_remotes_def direct_proxies_def n_times_def cfg)
  qed
qed


text \<open>A host behind a proxy, each with its goroutine, in server mode.\<close>

definition sample_remote :: "string \<Rightarrow> nat \<Rightarrow> bool \<Rightarrow> remote" where
  "sample_remote me client prx = \<lparr>r_me = me, r_id = 0, r_client = client, r_isProxy = prx,
     r_session = None,
     r_mux = Some \<lparr>mx_me = me, mx_client = client, mx_l = 1, sesscounter = 0\<rparr>, r_nmErr = None\<rparr>"

definition two_connections :: world where
  "two_connections = (scripted (\<lambda>_. zero_choice))\<lparr>
     w_state := NewState\<lparr>conn := [(''p'', zero_ConnInfo\<lparr>ci_hostName := ''p'', isProxy := True,
         isDirect := True, reqChan := 2\<rparr>), (''a'', zero_ConnInfo\<lparr>ci_hostName := ''a'', reqChan := 3\<rparr>)]\<rparr>,
     w_remotes := [(3, sample_remote ''a'' 11 False), (2, sample_remote ''p'' 12 True)]\<rparr>"

lemma connection_two:
  "connection two_connections h =
     (if h = ''p'' then Some (zero_ConnInfo\<lparr>ci_hostName := ''p'', isProxy := True, isDirect := True, reqChan := 2\<rparr>)
      else if h = ''a'' then Some (zero_ConnInfo\<lparr>ci_hostName := ''a'', reqChan := 3\<rparr>) else None)"
  by (simp add: two_connections_def glook_def)

lemma ready_two: "ready_to_disconnect two_connections"
proof -
  have remotes: "w_remotes two_connections = [(3, sample_remote ''a'' 11 False), (2, sample_remote ''p'' 12 True)]"
    "w_config two_connections = DefaultConfig ''/root'' ''me''"
    by (simp_all add: two_connections_def)
  show ?thesis
    unfolding ready_to_disconnect_def own_channels_def all_safe_def connection_two remotes
    by (auto simp: two_connections_def gwf_def gkeys_def safe_remote_def sample_remote_def n_listeners_def
        n_remotes_def zero_ConnInfo_def DefaultConfig_def BastionConnects_def split: if_splits)
qed


lemma listeners_snoc: "n_listeners c rs = 0 \<Longrightarrow> find_listener n c (rs @ [(c, r)]) = Some (length rs)"
proof -
  assume "n_listeners c rs = 0"
  then have "listeners c rs = []"
    by (metis length_0_conv length_listeners)
  moreover have "filter (\<lambda>i. fst ((rs @ [(c, r)]) ! i) = c) [0..<length rs] = listeners c rs"
    unfolding listeners_def by (rule filter_cong) (auto simp: nth_append)
  ultimately have "listeners c (rs @ [(c, r)]) = [length rs]"
    by (simp add: listeners_def)
  then show ?thesis
    by (simp add: find_listener_def)
qed



end
