(* ===== verification/Effects.thy ===== *)
theory Effects
  imports Runs
begin

section \<open>What a function can do before it returns\<close>

text \<open>
  Two ways to bound the effects of a goroutine without following it.

  \<^item> The interface \<open>effect\<close>: a reflexive and transitive relation \<open>R\<close> between worlds that contains the
    steps which only use the environment, and the requests \<open>ok\<close>. A piece of code \<open>p\<close> with
    continuation \<open>k\<close> is \<open>via\<close> when, run in any world, it reaches its continuation in a world related
    by \<open>R\<close>, or blocks in such a world, or crashes, or exits. The rules follow the constructors of
    \<open>proc\<close>, so that proofs are by applying them along the program text.
  \<^item> \<open>sends\<close>: all messages to the serializer satisfy a predicate, in all branches and children. As it
    is a property of the program text it holds for any interleaving: \<open>pool_keeps\<close> carries it through
    the pool semantics, together with any state invariant those messages keep.
\<close>

subsection \<open>Effects up to the continuation\<close>

definition via_in :: "(world \<Rightarrow> world \<Rightarrow> bool) \<Rightarrow> ('r \<Rightarrow> proc) \<Rightarrow> world \<Rightarrow> outcome \<Rightarrow> bool" where
  "via_in R k w out \<longleftrightarrow>
     (\<exists>r w1. R w w1 \<and> out = exec (k r) w1) \<or> (\<exists>w1. R w w1 \<and> out = Stuck w1) \<or>
     (\<exists>m w1. out = Crashed m w1) \<or> (\<exists>n w1. out = Quit n w1)"

locale effect =
  fixes R :: "world \<Rightarrow> world \<Rightarrow> bool" and ok :: "request \<Rightarrow> bool"
  assumes R_refl: "R w w"
    and R_trans: "\<lbrakk>R w w1; R w1 w2\<rbrakk> \<Longrightarrow> R w w2"
    and R_ask: "R w (ask q w)"
    and R_tick: "R w (tick w)"
    and R_log: "R w (put_log fd s w)"
    and R_fresh: "R w (w\<lparr>w_next := Suc (w_next w)\<rparr>)"
    and R_request: "\<lbrakk>ok r; serve r w = Inr (w', rep)\<rbrakk> \<Longrightarrow> R w w'"
begin

definition via :: "('r \<Rightarrow> proc) \<Rightarrow> proc \<Rightarrow> bool" where
  "via k p \<longleftrightarrow> (\<forall>w. via_in R k w (exec p w))"

lemma via_in_after: "\<lbrakk>R w w1; via_in R k w1 out\<rbrakk> \<Longrightarrow> via_in R k w out"
  unfolding via_in_def by (blast intro: R_trans)

lemma via_return: "via k (k r)"
  unfolding via_def via_in_def by (blast intro: R_refl)

lemma via_Halt: "via (\<lambda>_. Halt) Halt"
  by (rule via_return)

lemma via_Panic: "via k (Panic m)"
  by (simp add: via_def via_in_def)

lemma via_ExitProc: "via k (ExitProc n)"
  by (simp add: via_def via_in_def)

lemma via_Hang: "via k Hang"
  by (simp add: via_def via_in_def R_refl)

lemma via_Ask: "(\<And>c. via k (f c)) \<Longrightarrow> via k (Ask q f)"
  by (auto simp: via_def intro: via_in_after [OF R_ask])

lemma via_Log: "via k p \<Longrightarrow> via k (Log fd s p)"
  by (auto simp: via_def intro: via_in_after [OF R_log])

lemma via_GetCfg: "(\<And>c. via k (f c)) \<Longrightarrow> via k (GetCfg f)"
  by (simp add: via_def)

lemma via_Fresh: "(\<And>n. via k (f n)) \<Longrightarrow> via k (Fresh f)"
  by (auto simp: via_def intro: via_in_after [OF R_fresh])

lemma via_SetCfg:
  assumes "\<And>w. R w (w\<lparr>w_config := f (w_config w)\<rparr>)" and "via k p"
  shows "via k (SetCfg f p)"
  using assms by (auto simp: via_def intro: via_in_after)

lemma via_Meet: "(\<And>r. via k (f r)) \<Longrightarrow> via k (Meet c f)"
  unfolding via_def
proof
  fix w
  assume f: "\<And>r. \<forall>w. via_in R k w (exec (f r) w)"
  show "via_in R k w (exec (Meet c f) w)"
  proof (cases "find_listener (c_num (now_choice w)) c (w_remotes w)")
    case None
    then show ?thesis by (auto simp: via_in_def intro: R_refl)
  next
    case (Some i)
    then show ?thesis using f by (auto intro: via_in_after [OF R_tick])
  qed
qed

lemma via_Req:
  assumes "ok r" and "\<And>rep. via k (f rep)"
  shows "via k (Req r f)"
  unfolding via_def
proof
  fix w
  show "via_in R k w (exec (Req r f) w)"
  proof (cases "serve r w")
    case (Inl m)
    then show ?thesis by (simp add: via_in_def)
  next
    case (Inr x)
    obtain w' rep where x: "x = (w', rep)" by force
    have "via_in R k w' (exec (f rep) w')"
      using assms(2) by (simp add: via_def)
    then have "via_in R k w (exec (f rep) w')"
      by (rule via_in_after [OF R_request [OF assms(1)], rotated]) (simp add: Inr x)
    with Inr x show ?thesis by simp
  qed
qed

lemma via_Fork:
  assumes "via (\<lambda>_ :: unit. Halt) p" and "via k q"
  shows "via k (Fork p q)"
  unfolding via_def
proof
  fix w
  have "via_in R (\<lambda>_ :: unit. Halt) w (exec p w)"
    using assms(1) by (simp add: via_def)
  moreover have "via_in R k w (exec q w1)" if "R w w1" for w1
    using assms(2) that by (auto simp: via_def intro: via_in_after)
  ultimately show "via_in R k w (exec (Fork p q) w)"
    by (auto simp: via_in_def [of R "\<lambda>_ :: unit. Halt"] via_in_def [where out = "Crashed _ _"]
        via_in_def [where out = "Quit _ _"])
qed

lemma via_if: "\<lbrakk>b \<Longrightarrow> via k p; \<not> b \<Longrightarrow> via k q\<rbrakk> \<Longrightarrow> via k (if b then p else q)"
  by simp

lemma via_wrap: "\<lbrakk>b \<Longrightarrow> via k (f p); via k p\<rbrakk> \<Longrightarrow> via k ((if b then f else id) p)"
  by simp

lemma via_option: "\<lbrakk>x = None \<Longrightarrow> via k p; \<And>a. x = Some a \<Longrightarrow> via k (f a)\<rbrakk> \<Longrightarrow>
    via k (case x of None \<Rightarrow> p | Some a \<Rightarrow> f a)"
  by (simp split: option.split)

lemma via_sum: "\<lbrakk>\<And>a. x = Inl a \<Longrightarrow> via k (f a); \<And>b. x = Inr b \<Longrightarrow> via k (g b)\<rbrakk> \<Longrightarrow>
    via k (case x of Inl a \<Rightarrow> f a | Inr b \<Rightarrow> g b)"
  by (simp split: sum.split)

lemma via_doOutput: "via k p \<Longrightarrow> via k (doOutput e fd s p)"
  by (simp add: doOutput_def via_Hang via_Log)

lemma via_Debug: "via k p \<Longrightarrow> via k (Debug e f l s p)"
  by (simp add: Debug_def via_doOutput)

lemma via_Out: "via k p \<Longrightarrow> via k (Out e s p)"
  by (simp add: Out_def via_doOutput)

lemma via_Err: "via k p \<Longrightarrow> via k (Err e s p)"
  by (simp add: Err_def via_doOutput)

lemma via_warn: "via k p \<Longrightarrow> via k (warn e f l s x p)"
  by (simp add: warn_def via_Debug split: option.split)

lemmas via_rules = via_Halt via_Panic via_ExitProc via_Hang via_Ask via_Log via_GetCfg via_Fresh via_Meet
  via_Req via_Fork via_if via_wrap via_option via_sum via_Debug via_Out via_Err via_warn

text \<open>What a run of such a piece of code can end with.\<close>

lemma via_outcome:
  assumes "via k p"
  obtains (returned) r w1 where "R w w1" and "exec p w = exec (k r) w1"
  | (stuck) w1 where "R w w1" and "exec p w = Stuck w1"
  | (crashed) m w1 where "exec p w = Crashed m w1"
  | (quit) n w1 where "exec p w = Quit n w1"
  using assms unfolding via_def via_in_def by metis

end

subsection \<open>The messages a goroutine can send\<close>

primrec sends :: "(request \<Rightarrow> bool) \<Rightarrow> proc \<Rightarrow> bool" where
  "sends P Halt = True"
| "sends P (Panic m) = True"
| "sends P (ExitProc n) = True"
| "sends P Hang = True"
| "sends P (Req r k) = (P r \<and> (\<forall>rep. sends P (k rep)))"
| "sends P (Ask q k) = (\<forall>c. sends P (k c))"
| "sends P (Log fd s p) = sends P p"
| "sends P (GetCfg k) = (\<forall>c. sends P (k c))"
| "sends P (SetCfg f p) = sends P p"
| "sends P (Fresh k) = (\<forall>n. sends P (k n))"
| "sends P (Listen c r p) = sends P p"
| "sends P (Meet c k) = (\<forall>r. sends P (k r))"
| "sends P (Retire c k) = (\<forall>r. sends P (k r))"
| "sends P (Fork p q) = (sends P p \<and> sends P q)"
| "sends P (NewSem n k) = (\<forall>i. sends P (k i))"
| "sends P (Acquire i p) = sends P p"
| "sends P (Release i p) = sends P p"
| "sends P (WgAdd i p) = sends P p"
| "sends P (WgDone i p) = sends P p"
| "sends P (WgWait i p) = sends P p"
| "sends P (GetFlag i k) = (\<forall>b. sends P (k b))"
| "sends P (SetFlag i b p) = sends P p"

lemma sends_step:
  assumes "step p w = Next w' p' new" and "sends P p"
  shows "sends P p' \<and> (\<forall>q \<in> set new. sends P q) \<and>
    (w_state w' = w_state w \<or> (\<exists>r now ns rep. P r \<and> handle now ns (w_state w) r = Inr (w_state w', rep)))"
  using assms
  by (cases p) (auto simp: serve_def split: sum.splits option.splits if_splits prod.splits)

lemma pool_sends:
  assumes "pool_step x y" and "\<forall>p \<in> set (fst x). sends P p"
  shows "(\<forall>p \<in> set (fst y). sends P p) \<and> (w_state (snd y) = w_state (snd x) \<or> turn P (w_state (snd x)) (w_state (snd y)))"
  using assms
proof (induction rule: pool_step.induct)
  case (go i ps w w' p new)
  then have i: "sends P (ps ! i)" by simp
  note step = sends_step [OF go(2) i]
  have "set (ps[i := p] @ new) \<subseteq> set ps \<union> {p} \<union> set new"
    using set_update_subset_insert [of ps i p] by auto
  with step go.prems show ?case
    by (auto simp: turn_def)
qed

text \<open>Whatever messages that satisfy \<open>P\<close> keep, any interleaving of goroutines that send only such messages keeps.\<close>

lemma pool_keeps:
  assumes "pool_step\<^sup>*\<^sup>* x y" and "\<forall>p \<in> set (fst x). sends P p" and "I (w_state (snd x))"
    and "\<And>s s'. turn P s s' \<Longrightarrow> I s \<Longrightarrow> I s'"
  shows "(\<forall>p \<in> set (fst y). sends P p) \<and> I (w_state (snd y))"
  using assms(1-3)
proof (induction rule: rtranclp_induct)
  case (step y z)
  with pool_sends [of y z P] assms(4) show ?case by metis
qed simp

end
