(* ===== verification/Sessions.thy ===== *)
theory Sessions
  imports RemoteHost Effects
begin

section \<open>Connections through a proxy and remote commands (proxy.go, run.go)\<close>

text \<open>
  The requests a connection's goroutine serves beside cleaning up: to connect to a host through it
  (\<open>proxyConnect\<close>) and to run a command (\<open>runCmd\<close>). Both start a worker and wait for it, for the
  timer or for an abort. Which of these comes first is the answer to the query \<open>XSelect\<close>: the
  worker (\<open>c_ok\<close>), the timer (\<open>c_timeout\<close>) or an abort. If it is not the worker, the worker goes on
  by itself and nobody takes its response. The requester waits for the response, so its
  continuation is what follows it. (The protocol of the channels involved is the step relation of
  the waiter's theory.)
\<close>

subsection \<open>Connecting through a proxy\<close>

text \<open>The password callback of the SSH configuration, when the server asks for a password.\<close>

definition pwClosure :: "string \<Rightarrow> proc \<Rightarrow> proc" where
  "pwClosure link p = GetPTR link (\<lambda>h. SetRequiresPw h (GetAuthPass (\<lambda>_. p)))"

definition proxy_worker :: "string \<Rightarrow> nat \<Rightarrow> (proxyResponse \<Rightarrow> proc) \<Rightarrow> proc" where
  "proxy_worker target client send =
     (let dest = target @ '':'' @ SSHPort in
      GetSSHConfig (\<lambda>sc. case sc of None \<Rightarrow> Panic nil_deref | Some _ \<Rightarrow>
      GetCfg (\<lambda>cfg.
      Ask (XDialVia client dest) (\<lambda>c.
        if c_err c \<noteq> None then send \<lparr>pr_client = None, pr_err = c_err c\<rparr>
        else SetConnWaitState target stateEstablishing
          (Ask (XNewClientConn (c_num c) dest) (\<lambda>n.
            (if Password cfg \<and> c_pw n then pwClosure target else id)
            (if c_err n \<noteq> None then send \<lparr>pr_client = None, pr_err = c_err n\<rparr>
             else SetConnWaitState target stateNewClient
               (SetConnWaitState target stateDone
                 (send \<lparr>pr_client = Some (c_num n), pr_err = None\<rparr>)))))))))"

definition proxyConnect :: "string \<Rightarrow> nat \<Rightarrow> (proxyResponse \<Rightarrow> proc) \<Rightarrow> proc" where
  "proxyConnect target client respond =
     Fresh (\<lambda>timeout. Ask XNow (\<lambda>t.
     SetConnWaitInfo \<lparr>wi_hostName = target, wi_state = stateDialing, startTime = c_time t,
         timeoutChan = timeout\<rparr>
     (Ask XSelect (\<lambda>sel.
       if c_ok sel
       then proxy_worker target client (\<lambda>resp.
              Fork (DeleteConnWaitInfo target Halt) (respond resp))
       else Fork (proxy_worker target client (\<lambda>_. Halt))
              (Fork (DeleteConnWaitInfo target Halt)
                (respond (proxy_timeout_response (c_timeout sel))))))))"

definition send_proxy :: "chan_id \<Rightarrow> string \<Rightarrow> (proxyResponse \<Rightarrow> proc) \<Rightarrow> proc" where
  "send_proxy c target k = Meet c (\<lambda>r. proxyConnect target (r_client r) k)"

subsection \<open>The spool files\<close>

definition spool_path :: "Config \<Rightarrow> string \<Rightarrow> string \<Rightarrow> string" where
  "spool_path cfg h suffix = SpoolDir cfg @ ''/'' @ h @ suffix"

text \<open>
  The handles are the names of the files; no handles stand for three nil pointers. When a later
  file cannot be created, the earlier ones are closed and the error is overwritten by what
  \<open>Close\<close> returns.
\<close>

type_synonym handles = "(string \<times> string \<times> string) option"

definition spoolHandles :: "Output \<Rightarrow> string \<Rightarrow> (handles \<times> error \<Rightarrow> proc) \<Rightarrow> proc" where
  "spoolHandles e h k =
     GetCfg (\<lambda>cfg. let out = spool_path cfg h ''.out''; err = spool_path cfg h ''.err'';
         ret = spool_path cfg h ''.ret'' in
       Ask (XCreate out) (\<lambda>r1.
         if c_err r1 \<noteq> None then k (None, c_err r1) else
       Ask (XCreate err) (\<lambda>r2.
         if c_err r2 \<noteq> None
         then Ask (XFileClose out) (\<lambda>c1.
                warn e ''run.go'' 244 ''fpStdOut.Close(): '' (c_err c1) (k (None, c_err c1)))
         else
       Ask (XCreate ret) (\<lambda>r3.
         if c_err r3 \<noteq> None
         then Ask (XFileClose out) (\<lambda>c1.
                warn e ''run.go'' 252 ''fpStdOut.Close(): '' (c_err c1)
                (Ask (XFileClose err) (\<lambda>c2.
                  warn e ''run.go'' 256 ''fpStdErr.Close(): '' (c_err c2) (k (None, c_err c2)))))
         else k (Some (out, err, ret), None)))))"

definition invalid_argument :: string where "invalid_argument = ''invalid argument''"

text \<open>The deferred closing; closing a nil pointer gives an error.\<close>

definition close_file :: "Output \<Rightarrow> nat \<Rightarrow> string \<Rightarrow> string option \<Rightarrow> proc \<Rightarrow> proc" where
  "close_file e line pre f p =
     (case f of None \<Rightarrow> warn e ''run.go'' line pre (Some invalid_argument) p
      | Some name \<Rightarrow> Ask (XFileClose name) (\<lambda>c. warn e ''run.go'' line pre (c_err c) p))"

definition out_handle :: "handles \<Rightarrow> string option" where
  "out_handle fps = map_option fst fps"

definition err_handle :: "handles \<Rightarrow> string option" where
  "err_handle fps = map_option (fst \<circ> snd) fps"

definition ret_handle :: "handles \<Rightarrow> string option" where
  "ret_handle fps = map_option (snd \<circ> snd) fps"

definition close_handles :: "Output \<Rightarrow> handles \<Rightarrow> proc" where
  "close_handles e fps =
     close_file e 52 ''fpStdOut.Close(): '' (out_handle fps)
     (close_file e 56 ''fpStdErr.Close(): '' (err_handle fps)
     (close_file e 60 ''fpRetCode.Close(): '' (ret_handle fps) Halt))"

subsection \<open>Running a command\<close>

definition err_response :: "error \<Rightarrow> runResponse" where
  "err_response err = zero_runResponse\<lparr>rr_err := err\<rparr>"

text \<open>The spool files of a command: the handles, and whether they are to be closed at the end.\<close>

definition open_spool :: "Output \<Rightarrow> string \<Rightarrow> (handles \<Rightarrow> bool \<Rightarrow> proc) \<Rightarrow> proc" where
  "open_spool e me k =
     GetCfg (\<lambda>cfg. if \<not> Spool cfg then k None False
       else GetPTR me (\<lambda>h. spoolHandles e h (\<lambda>(fps, err). case err of
           None \<Rightarrow> k fps True
         | Some m \<Rightarrow> Err e (''spoolHandles: '' @ m @ [newline])
             (Err e (''Spooling is turned OFF, correct and re-enable.'' @ [newline])
               (SetCfg (\<lambda>c. c\<lparr>Spool := False\<rparr>) (k fps False))))))"

text \<open>Where the command's output goes: to the files, to them and the buffers, or to the buffers.\<close>

definition redirect ::
  "Output \<Rightarrow> nat \<Rightarrow> handles \<Rightarrow> (error \<Rightarrow> proc) \<Rightarrow> (bool \<Rightarrow> proc) \<Rightarrow> proc" where
  "redirect e session fps failed k =
     GetCfg (\<lambda>cfg. if \<not> Spool cfg then k True
       else Ask (XSessionPipe session ''stdout'') (\<lambda>r.
         if c_err r \<noteq> None then warn e ''run.go'' 75 ''StdoutPipe(): '' (c_err r) (failed (c_err r)) else
       Ask (XSessionPipe session ''stderr'') (\<lambda>r.
         if c_err r \<noteq> None then warn e ''run.go'' 81 ''StderrPipe(): '' (c_err r) (failed (c_err r)) else
       Fork (Ask (XCopyFile session ''stdout'' (out_handle fps)) (\<lambda>c.
         warn e ''run.go'' 95 ''fpStdOut io.Copy: '' (c_err c) Halt))
       (Fork (Ask (XCopyFile session ''stderr'' (err_handle fps)) (\<lambda>c.
         warn e ''run.go'' 101 ''fpStdErr io.Copy: '' (c_err c) Halt))
       (k (Tee cfg))))))"

text \<open>The exit code goes to its file; the error variable is assigned by that write.\<close>

definition write_exit_code ::
  "Output \<Rightarrow> handles \<Rightarrow> 32 word \<Rightarrow> error \<Rightarrow> (error \<Rightarrow> proc) \<Rightarrow> proc" where
  "write_exit_code e fps code err k =
     GetCfg (\<lambda>cfg. if \<not> Spool cfg then k err
       else case ret_handle fps of
           None \<Rightarrow> warn e ''run.go'' 126 ''fmt.Fprintf: '' (Some invalid_argument) (k (Some invalid_argument))
         | Some name \<Rightarrow> Ask (XWriteFile name (digits (unat code) @ [newline])) (\<lambda>c.
             warn e ''run.go'' 126 ''fmt.Fprintf: '' (c_err c) (k (c_err c))))"

definition exit_code :: "choice \<Rightarrow> 32 word" where
  "exit_code c = (if c_ok c then 0 else if c_kind c then word_of_nat (c_num c) else 255)"

definition run_session ::
  "Output \<Rightarrow> string \<Rightarrow> string \<Rightarrow> nat \<Rightarrow> handles \<Rightarrow> (runResponse \<Rightarrow> proc) \<Rightarrow> proc" where
  "run_session e me cmd session fps send =
     redirect e session fps (\<lambda>err. send (err_response err)) (\<lambda>buffered.
     SetRunWaitState me stateStartSession
     (Ask (XSessionStart session cmd) (\<lambda>r.
       if c_err r \<noteq> None then send (err_response (c_err r))
       else SetRunWaitState me stateRunning
         (Ask (XSessionWait session) (\<lambda>c.
           (if \<not> c_ok c \<and> \<not> c_kind c
            then Debug e ''run.go'' 119 (''Unknown exit code, faking it.'' @ [newline]) else id)
           (write_exit_code e fps (exit_code c) (c_err c) (\<lambda>err.
             SetRunWaitState me stateDone
               (send \<lparr>stdOut = (if buffered then c_out c else []),
                 stdErr = (if buffered then c_eout c else []),
                 exitCode = int (unat (exit_code c)), rr_err = err\<rparr>))))))))"

definition run_worker ::
  "Output \<Rightarrow> string \<Rightarrow> string \<Rightarrow> nat \<Rightarrow> (runResponse \<Rightarrow> proc) \<Rightarrow> proc" where
  "run_worker e me cmd client send0 =
     open_spool e me (\<lambda>fps opened.
       let send = (\<lambda>resp. (if opened then Fork (close_handles e fps) else id) (send0 resp)) in
       Ask (XNewSession client) (\<lambda>r.
         if c_err r \<noteq> None then send (err_response (c_err r))
         else run_session e me cmd (c_num r) fps send))"

definition show_response :: "runResponse \<Rightarrow> string" where
  "show_response r = ''{'' @ stdOut r @ '' '' @ stdErr r @ '' '' @ itoa (exitCode r) @ '' '' @
     show_error (rr_err r) @ ''}''"

definition runCmd ::
  "Output \<Rightarrow> string \<Rightarrow> string \<Rightarrow> nat \<Rightarrow> (runResponse \<Rightarrow> proc) \<Rightarrow> proc" where
  "runCmd e me cmd client respond =
     Fresh (\<lambda>timeout. Ask XNow (\<lambda>t.
     SetRunWaitInfo \<lparr>wi_hostName = me, wi_state = stateNewSession, startTime = c_time t,
         timeoutChan = timeout\<rparr>
     (Ask XSelect (\<lambda>sel.
       if c_ok sel
       then run_worker e me cmd client (\<lambda>resp. Fork (DeleteRunWaitInfo me Halt) (respond resp))
       else Fork (run_worker e me cmd client (\<lambda>resp.
              Debug e ''run.go'' 159 (me @ '' caught a run straggler: '' @ show_response resp @ [newline]) Halt))
            (Fork (DeleteRunWaitInfo me Halt) (respond (run_timeout_response (c_timeout sel))))))))"

definition send_run :: "Output \<Rightarrow> chan_id \<Rightarrow> string \<Rightarrow> (runResponse \<Rightarrow> proc) \<Rightarrow> proc" where
  "send_run e c cmd k = Meet c (\<lambda>r. runCmd e (r_me r) cmd (r_client r) k)"

definition run_once :: "Output \<Rightarrow> string \<Rightarrow> string \<Rightarrow> proc \<Rightarrow> proc" where
  "run_once e h cmd p =
     Ask XNow (\<lambda>t0. GetConnInfo h (\<lambda>res. case res of
         Inl err \<Rightarrow> warn e ''run.go'' 173 ''GetConnInfo(): '' (Some err) p
       | Inr ci \<Rightarrow> send_run e (reqChan ci) cmd (\<lambda>resp. Ask XNow (\<lambda>t1.
           let elapsed = since (c_time t1) (c_time t0) in
           if rr_err resp \<noteq> None then SetRunStatus h False True elapsed (rr_err resp) [] p
           else SetRunStatus h True True elapsed None (stdOut resp) p))))"

subsection \<open>Running a command everywhere\<close>

definition run_report :: "string \<Rightarrow> duration \<Rightarrow> runResponse \<Rightarrow> string" where
  "run_report h elapsed resp = ''***** Host: '' @ h @ '', Time: '' @ show_seconds (sint elapsed) @
     ''s, Exit: '' @ itoa (exitCode resp) @ '', Err: '' @ show_error (rr_err resp) @ '' *****'' @
     [newline] @ stdOut resp"

definition run_host :: "Output \<Rightarrow> string \<Rightarrow> string \<Rightarrow> proc \<Rightarrow> proc" where
  "run_host e h cmd finish =
     Ask XNow (\<lambda>t0. GetConnInfo h (\<lambda>res. case res of
         Inl err \<Rightarrow> warn e ''run.go'' 211 ''GetConnInfo(): '' (Some err) finish
       | Inr ci \<Rightarrow> send_run e (reqChan ci) cmd (\<lambda>resp. Ask XNow (\<lambda>t1.
           let elapsed = since (c_time t1) (c_time t0) in
           SetRunStatus h (rr_err resp = None) True elapsed (rr_err resp) (stdOut resp)
           ((if stdOut resp \<noteq> [] then Out e (run_report h elapsed resp) else id) finish)))))"

text \<open>The deferred \<open>wg.Done(); <-limiter\<close>.\<close>

definition host_done :: "nat \<Rightarrow> nat \<Rightarrow> proc" where
  "host_done wg limiter = WgDone wg (Release limiter Halt)"

fun run_hosts :: "Output \<Rightarrow> string \<Rightarrow> nat \<Rightarrow> nat \<Rightarrow> string list \<Rightarrow> proc \<Rightarrow> proc" where
  "run_hosts e cmd wg limiter [] p = p"
| "run_hosts e cmd wg limiter (h # hs) p =
     GetConnInfo h (\<lambda>res. case res of
         Inl err \<Rightarrow> warn e ''run.go'' 196 ''GetConnInfo(): '' (Some err) (run_hosts e cmd wg limiter hs p)
       | Inr ci \<Rightarrow>
           if isProxy ci then run_hosts e cmd wg limiter hs p
           else WgAdd wg (Acquire limiter
             (Fork (run_host e h cmd (host_done wg limiter))
               (run_hosts e cmd wg limiter hs p))))"

definition runEverywhere :: "Output \<Rightarrow> string \<Rightarrow> proc \<Rightarrow> proc" where
  "runEverywhere e cmd p =
     Fresh (\<lambda>wg. GetCfg (\<lambda>cfg. NewSem (Concurrency cfg) (\<lambda>limiter.
       GetConnKeys (\<lambda>hk. run_hosts e cmd wg limiter hk (WgWait wg p)))))"

subsection \<open>What a command changes\<close>

text \<open>The messages of \<open>runCmd\<close>, and what it leaves alone.\<close>

fun run_message :: "request \<Rightarrow> bool" where
  "run_message (setRunWaitInfo wi) = True"
| "run_message (setRunWaitState h x) = True"
| "run_message (deleteRunWaitInfo h) = True"
| "run_message (getPTR h) = True"
| "run_message _ = False"

definition calm :: "world \<Rightarrow> world \<Rightarrow> bool" where
  "calm w w' \<longleftrightarrow> targets (w_state w') = targets (w_state w) \<and> conn (w_state w') = conn (w_state w) \<and>
     w_remotes w' = w_remotes w \<and> w_wg w' = w_wg w \<and> w_sem w' = w_sem w"

lemma calm_request: "\<lbrakk>run_message r; serve r w = Inr (w', rep)\<rbrakk> \<Longrightarrow> calm w w'"
  by (cases r) (auto simp: serve_def calm_def)

interpretation command: effect calm run_message
  by unfold_locales (rule calm_request; assumption | simp add: calm_def)+

lemma via_api:
  "(\<And>x. command.via k (f x)) \<Longrightarrow> command.via k (GetPTR ip f)"
  "command.via k p \<Longrightarrow> command.via k (SetRunWaitInfo wi p)"
  "command.via k p \<Longrightarrow> command.via k (SetRunWaitState h x p)"
  "command.via k p \<Longrightarrow> command.via k (DeleteRunWaitInfo h p)"
  "(\<And>c. Spool c = Spool c) \<Longrightarrow> command.via k p \<Longrightarrow> command.via k (SetCfg g p)"
  by (simp_all add: GetPTR_def SetRunWaitInfo_def SetRunWaitState_def DeleteRunWaitInfo_def
      command.via_Req)
    (rule command.via_SetCfg; simp add: calm_def)

lemma via_close_handles: "command.via (\<lambda>_ :: unit. Halt) (close_handles e fps)"
  unfolding close_handles_def close_file_def
  by (intro command.via_rules)

lemma via_open_spool: "(\<And>fps b. command.via k (f fps b)) \<Longrightarrow> command.via k (open_spool e me f)"
  unfolding open_spool_def spoolHandles_def Let_def
  by (auto intro!: command.via_rules via_api split: option.split)

lemma via_run_session:
  "(\<And>r. command.via k (f r)) \<Longrightarrow> command.via k (run_session e me cmd session fps f)"
  unfolding run_session_def redirect_def write_exit_code_def Let_def
  by (intro command.via_rules via_api)

lemma via_run_worker:
  assumes "\<And>r. command.via k (f r)"
  shows "command.via k (run_worker e me cmd client f)"
  unfolding run_worker_def Let_def
  by (intro via_open_spool command.via_rules via_run_session via_close_handles assms)

lemma via_runCmd: "command.via k (runCmd e me cmd client k)"
  unfolding runCmd_def
  by (intro command.via_rules via_api via_run_worker command.via_return refl)

lemma via_send_run: "command.via k (send_run e c cmd k)"
  unfolding send_run_def by (intro command.via_Meet via_runCmd)

subsection \<open>Every connected target gets a status\<close>

definition has_status :: "HostInfo \<Rightarrow> bool" where
  "has_status hi \<longleftrightarrow> runOnce hi \<and> (runOK hi \<longleftrightarrow> lastError hi = None)"

definition host_has_status :: "world \<Rightarrow> string \<Rightarrow> bool" where
  "host_has_status w h \<longleftrightarrow> (\<forall>hi. host w h = Some hi \<longrightarrow> has_status hi)"

text \<open>How the run of one host's goroutine compares with what was before.\<close>

definition ran :: "string \<Rightarrow> nat \<Rightarrow> world \<Rightarrow> world \<Rightarrow> bool" where
  "ran h wg w w' \<longleftrightarrow> conn (w_state w') = conn (w_state w) \<and>
     (\<forall>g. host_has_status w g \<longrightarrow> host_has_status w' g) \<and>
     ((w_wg w' wg = w_wg w wg) \<or> (w_wg w' wg = w_wg w wg - 1 \<and> host_has_status w' h))"

lemma set_status:
  fixes err :: error and t :: duration
  defines "f \<equiv> \<lambda>hi. hi\<lparr>runOK := err = None, runOnce := True, runTime := t, lastError := err\<rparr>"
  shows "host_has_status (upd_state (\<lambda>s. s\<lparr>targets := gmod h f (targets s)\<rparr>) w) h"
    and "host_has_status w g \<Longrightarrow> host_has_status (upd_state (\<lambda>s. s\<lparr>targets := gmod h f (targets s)\<rparr>) w) g"
  by (auto simp: host_has_status_def has_status_def go_map_simps f_def)

lemma calm_status: "calm w w' \<Longrightarrow> host_has_status w' g = host_has_status w g"
  by (simp add: calm_def host_has_status_def)

text \<open>What follows the response.\<close>

lemma run_host_finish:
  assumes "conn (w_state w1) = conn (w_state w)" and "\<forall>g. host_has_status w g \<longrightarrow> host_has_status w1 g"
    and "w_wg w1 = w_wg w"
    and "out = exec (SetRunStatus h (err = None) True el err txt
      ((if txt \<noteq> [] then Out e report else id) (host_done wg limiter))) w1"
  shows "(\<exists>w'. (out = Finished w' \<or> out = Stuck w') \<and> ran h wg w w')"
proof -
  let ?w2 = "upd_state (\<lambda>s. s\<lparr>targets := gmod h (\<lambda>hi. hi\<lparr>runOK := err = None, runOnce := True,
      runTime := el, lastError := err\<rparr>) (targets s)\<rparr>) w1"
  have st: "host_has_status ?w2 h" "\<forall>g. host_has_status w g \<longrightarrow> host_has_status ?w2 g"
    using set_status [where w = w1 and t = el and err = err and h = h] assms(2) by blast+
  have ran_if: "ran h wg w w'" if "w_state w' = w_state ?w2" "w_wg w' wg = w_wg w wg \<or> w_wg w' wg = w_wg w wg - 1" for w'
    using that st assms(1) by (auto simp: ran_def host_has_status_def)
  show ?thesis
    using assms(3) unfolding assms(4) exec_SetRunStatus host_done_def
    by (auto simp: Out_def doOutput_def split: prod.split intro!: ran_if)
qed

lemma ran_run_host:
  assumes "connection w h \<noteq> None"
  shows "(\<exists>w'. exec (run_host e h cmd (host_done wg limiter)) w \<in> {Finished w', Stuck w'} \<and> ran h wg w w') \<or>
    (\<forall>w'. exec (run_host e h cmd (host_done wg limiter)) w \<notin> {Finished w', Stuck w'})"
proof -
  obtain ci where ci: "connection w h = Some ci"
    using assms by blast
  let ?after = "\<lambda>resp. Ask XNow (\<lambda>t1. let elapsed = since (c_time t1) (c_time (now_choice w)) in
      SetRunStatus h (rr_err resp = None) True elapsed (rr_err resp) (stdOut resp)
      ((if stdOut resp \<noteq> [] then Out e (run_report h elapsed resp) else id) (host_done wg limiter)))"
  have start: "exec (run_host e h cmd (host_done wg limiter)) w =
      exec (send_run e (reqChan ci) cmd ?after) (ask XNow w)"
    by (simp add: run_host_def exec_GetConnInfo ci Let_def)
  have "via_in calm ?after (ask XNow w) (exec (send_run e (reqChan ci) cmd ?after) (ask XNow w))"
    using via_send_run by (simp add: command.via_def)
  then consider
      (returned) r w1 where "calm (ask XNow w) w1"
        "exec (send_run e (reqChan ci) cmd ?after) (ask XNow w) = exec (?after r) w1"
    | (stuck) w1 where "calm (ask XNow w) w1"
        "exec (send_run e (reqChan ci) cmd ?after) (ask XNow w) = Stuck w1"
    | (lost) "\<forall>w'. exec (send_run e (reqChan ci) cmd ?after) (ask XNow w) \<notin> {Finished w', Stuck w'}"
    unfolding via_in_def by auto
  then show ?thesis
    unfolding start
  proof cases
    case (returned r w1)
    then have w1: "conn (w_state (ask XNow w1)) = conn (w_state w)"
      "\<forall>g. host_has_status w g \<longrightarrow> host_has_status (ask XNow w1) g" "w_wg (ask XNow w1) = w_wg w"
      by (simp_all add: calm_def host_has_status_def)
    obtain w' where "ran h wg w w'" and "exec (?after r) w1 = Finished w' \<or> exec (?after r) w1 = Stuck w'"
      using run_host_finish [OF w1 refl] by (simp add: Let_def) blast
    with returned(2) show "(\<exists>w'. exec (send_run e (reqChan ci) cmd ?after) (ask XNow w) \<in> {Finished w', Stuck w'} \<and>
          ran h wg w w') \<or> (\<forall>w'. exec (send_run e (reqChan ci) cmd ?after) (ask XNow w) \<notin> {Finished w', Stuck w'})"
      by auto
  next
    case (stuck w1)
    then have "ran h wg w w1"
      by (simp add: ran_def calm_def host_has_status_def)
    with stuck(2) show "(\<exists>w'. exec (send_run e (reqChan ci) cmd ?after) (ask XNow w) \<in> {Finished w', Stuck w'} \<and>
          ran h wg w w') \<or> (\<forall>w'. exec (send_run e (reqChan ci) cmd ?after) (ask XNow w) \<notin> {Finished w', Stuck w'})"
      by auto
  qed (rule disjI2)
qed

lemma run_hosts_status:
  assumes "exec (run_hosts e cmd wg limiter hs (WgWait wg p)) w = Finished wend"
    and "conn (w_state w) = C" and "finite U" and "int (card U) \<le> w_wg w wg"
    and "\<forall>h \<in> V - U. host_has_status w h"
  shows "\<exists>w1. exec p w1 = Finished wend \<and> conn (w_state w1) = C \<and>
    (\<forall>h \<in> V \<union> {h \<in> set hs. \<exists>ci. glook C h = Some ci \<and> \<not> isProxy ci}. host_has_status w1 h)"
  using assms
proof (induction hs arbitrary: w U V)
  case Nil
  then have "w_wg w wg = 0" "exec p w = Finished wend"
    by (auto split: if_splits)
  then have "U = {}"
    using Nil.prems(3,4) by simp
  then show ?case
    using Nil.prems \<open>exec p w = Finished wend\<close> by auto
next
  case (Cons h hs)
  let ?new = "\<lambda>hs. {h \<in> set hs. \<exists>ci. glook C h = Some ci \<and> \<not> isProxy ci}"
  show ?case
  proof (cases "connection w h")
    case None
    then obtain w1 where w1: "exec (run_hosts e cmd wg limiter hs (WgWait wg p)) w1 = Finished wend"
        "w_state w1 = w_state w" "w_wg w1 = w_wg w"
      using Cons.prems(1)
      by (cases "mute e"; cases "debug e") (auto simp: exec_GetConnInfo warn_def Debug_def doOutput_def)
    have "?new (h # hs) = ?new hs"
      using None Cons.prems(2) by auto
    then show ?thesis
      using Cons.IH [OF w1(1), of U V] w1 Cons.prems(2-) by (simp add: host_has_status_def)
  next
    case (Some ci)
    show ?thesis
    proof (cases "isProxy ci")
      case True
      then have "exec (run_hosts e cmd wg limiter hs (WgWait wg p)) w = Finished wend"
        using Cons.prems(1) Some by (simp add: exec_GetConnInfo)
      moreover have "?new (h # hs) = ?new hs"
        using Some True Cons.prems(2) by auto
      ultimately show ?thesis
        using Cons.IH [of w U V] Cons.prems(2-) by simp
    next
      case False
      let ?run = "run_host e h cmd (host_done wg limiter)"
      let ?rest = "run_hosts e cmd wg limiter hs (WgWait wg p)"
      obtain w0 where fork: "exec (Fork ?run ?rest) w0 = Finished wend"
        and w0: "w_state w0 = w_state w" "w_wg w0 = (w_wg w)(wg := w_wg w wg + 1)"
        using Cons.prems(1) Some False by (auto simp: exec_GetConnInfo split: prod.splits if_splits)
      have "connection w0 h \<noteq> None"
        using Some w0 by simp
      from ran_run_host [OF this, of e cmd wg limiter] fork
      obtain w1 where w1: "ran h wg w0 w1" "exec ?rest w1 = Finished wend"
        by (cases "exec ?run w0") (auto split: outcome.splits)
      define U1 where "U1 = (if w_wg w1 wg = w_wg w0 wg then insert h U else U - {h})"
      have "finite U1" "int (card U1) \<le> w_wg w1 wg"
        using w1(1) w0 Cons.prems(3,4) card_insert_le_m1 card_Diff1_le [of U h]
        by (auto simp: U1_def ran_def card_insert_if)
      moreover have "\<forall>g \<in> insert h V - U1. host_has_status w1 g"
      proof
        fix g assume g: "g \<in> insert h V - U1"
        have keep: "host_has_status w1 g" if "host_has_status w g"
          using w1(1) that w0 by (simp add: ran_def host_has_status_def)
        show "host_has_status w1 g"
        proof (cases "g = h")
          case True
          then show ?thesis using g w1(1) by (auto simp: U1_def ran_def split: if_splits)
        next
          case False
          then show ?thesis using g Cons.prems(5) by (auto simp: U1_def intro!: keep split: if_splits)
        qed
      qed
      moreover have "conn (w_state w1) = C"
        using w1(1) w0 Cons.prems(2) by (simp add: ran_def)
      ultimately have "\<exists>w1. exec p w1 = Finished wend \<and> conn (w_state w1) = C \<and>
          (\<forall>g \<in> insert h V \<union> ?new hs. host_has_status w1 g)"
        using Cons.IH [OF w1(2), of U1 "insert h V"] by simp
      then show ?thesis by auto
    qed
  qed
qed


text \<open>The host of the sample connections as a target that was never run.\<close>

definition sample_target :: HostInfo where
  "sample_target = zero_HostInfo\<lparr>hi_hostName := ''a'', chain := [''p'', ''a''], connectedOK := True\<rparr>"

definition sample_world :: world where
  "sample_world = upd_state (\<lambda>s. s\<lparr>targets := [(''a'', sample_target)]\<rparr>) two_connections"

lemma sample_world_sel [simp]:
  "w_choices sample_world = (\<lambda>_. zero_choice)" "w_config sample_world = DefaultConfig ''/root'' ''me''"
  "w_remotes sample_world = [(3, sample_remote ''a'' 11 False), (2, sample_remote ''p'' 12 True)]"
  "w_next sample_world = 0" "w_wg sample_world = (\<lambda>_. 0)" "w_tick sample_world = 0"
  "targets (w_state sample_world) = [(''a'', sample_target)]"
  "PTR (w_state sample_world) = []" "runWaiters (w_state sample_world) = []"
  "conn (w_state sample_world) = [(''p'', zero_ConnInfo\<lparr>ci_hostName := ''p'', isProxy := True,
     isDirect := True, reqChan := 2\<rparr>), (''a'', zero_ConnInfo\<lparr>ci_hostName := ''a'', reqChan := 3\<rparr>)]"
  by (simp_all add: sample_world_def two_connections_def NewState_def)

lemma find_sample:
  "find_listener n 3 [(3, r), (2, r')] = Some 0" "find_listener n 2 [(3, r), (2, r')] = Some 1"
  by (simp_all add: find_listener_def listeners_def)


text \<open>
  C36. With spooling on, a command that fails counts as a success: when the exit code can be written
  to its file, that write overwrites the error, and the response carries the exit status of the
  command but no error (which is what \<open>runOK\<close> is set from).
\<close>

theorem spooling_hides_failure:
  assumes "\<not> mute e" and "Spool (w_config w)"
    and "\<forall>i. c_ok (nth_choice w i) \<longleftrightarrow> i \<noteq> 5" and "c_kind (nth_choice w 5)"
  shows "\<exists>r w'. returns (run_session e me cmd session (Some fps)) w r w' \<and> rr_err r = None \<and>
    exitCode r = int (c_num (nth_choice w 5)) mod 2 ^ 32"
proof -
  have ok: "c_ok (w_choices w (w_tick w + i)) = (i \<noteq> 5)" for i
    using assms(3) by (simp add: nth_choice_def)
  have five: "Suc (Suc (Suc (Suc (Suc (w_tick w))))) = w_tick w + 5"
    by simp
  have oks: "c_ok (w_choices w (w_tick w))" "c_ok (w_choices w (Suc (w_tick w)))"
    "c_ok (w_choices w (Suc (Suc (w_tick w))))" "c_ok (w_choices w (Suc (Suc (Suc (w_tick w)))))"
    "c_ok (w_choices w (Suc (Suc (Suc (Suc (w_tick w))))))" "\<not> c_ok (w_choices w (w_tick w + 5))"
    "c_ok (w_choices w (Suc (w_tick w + 5)))"
    using ok [of 0] ok [of 1] ok [of 2] ok [of 3] ok [of 4] ok [of 5] ok [of 6]
    by (simp_all add: eval_nat_numeral)
  define r where "r = \<lparr>stdOut = (if Tee (w_config w) then c_out (nth_choice w 5) else []),
    stdErr = (if Tee (w_config w) then c_eout (nth_choice w 5) else []),
    exitCode = int (unat (word_of_nat (c_num (nth_choice w 5)) :: 32 word)), rr_err = None\<rparr>"
  have "\<exists>w'. \<forall>k. exec (run_session e me cmd session (Some fps) k) w = exec (k r) w'"
    using assms(1,2,4) oks
    by (simp add: run_session_def redirect_def write_exit_code_def exit_code_def ret_handle_def
        out_handle_def err_handle_def c_err_def now_choice_def five api_simps nth_choice_def r_def
        Let_def split: prod.split) blast
  moreover have "exitCode r = int (c_num (nth_choice w 5)) mod 2 ^ 32"
    by (simp add: r_def unat_of_nat zmod_int)
  moreover have "rr_err r = None"
    by (simp add: r_def)
  ultimately show ?thesis
    unfolding returns_def by blast
qed

theorem spooling_hides_failure_witness:
  "\<exists>r w'. returns (run_session quiet ''a'' ''false'' 4 (Some (''o'', ''e'', ''r'')))
       ((scripted (\<lambda>i. zero_choice\<lparr>c_ok := i \<noteq> 5, c_kind := i = 5, c_num := 1\<rparr>))
         \<lparr>w_config := (DefaultConfig ''/root'' ''me'')\<lparr>Spool := True\<rparr>\<rparr>) r w' \<and>
     rr_err r = None \<and> exitCode r = 1"
proof -
  let ?w = "(scripted (\<lambda>i. zero_choice\<lparr>c_ok := i \<noteq> 5, c_kind := i = 5, c_num := 1\<rparr>))
    \<lparr>w_config := (DefaultConfig ''/root'' ''me'')\<lparr>Spool := True\<rparr>\<rparr>"
  have nth: "nth_choice ?w i = zero_choice\<lparr>c_ok := i \<noteq> 5, c_kind := i = 5, c_num := 1\<rparr>" for i
    by (simp add: nth_choice_def)
  have "Spool (w_config ?w)" "\<forall>i. c_ok (nth_choice ?w i) \<longleftrightarrow> i \<noteq> 5" "c_kind (nth_choice ?w 5)"
    unfolding nth by simp_all
  from spooling_hides_failure [OF not_mute_quiet this, of "''a''" "''false''" 4 "(''o'', ''e'', ''r'')"]
  show ?thesis
    unfolding nth by simp
qed

end
