(* ===== verification/Connect.thy ===== *)
theory Connect
  imports Sessions
begin

section \<open>Connecting to the targets (resolve.go, connect.go)\<close>

text \<open>
  \<open>resolve\<close> follows a chain of hosts: the first is dialled directly, each further one through the
  one before it. \<open>resolveProxies\<close> connects the chains of proxies one after the other, and
  \<open>connectEverywhere\<close> then all targets at once, as many as the limiter allows. A loop over a list is
  a recursive function; \<open>continue\<close> is the call for the rest of the list.
\<close>

subsection \<open>Following a chain\<close>

definition directConnect :: "string \<Rightarrow> bool \<Rightarrow> (string + nat \<Rightarrow> proc) \<Rightarrow> proc" where
  "directConnect link password send =
     Ask (XDial link) (\<lambda>c.
       (if password \<and> c_pw c then pwClosure link else id)
       (case c_err c of Some err \<Rightarrow> send (Inl err) | None \<Rightarrow> send (Inr (c_num c))))"

definition new_connection :: "string \<Rightarrow> chan_id \<Rightarrow> bool \<Rightarrow> bool \<Rightarrow> ConnInfo" where
  "new_connection link c isPrx direct = zero_ConnInfo\<lparr>ci_hostName := link, reqChan := c,
     isProxy := isPrx, isDirect := direct\<rparr>"

text \<open>One of the goroutines that dial a host directly; the select is as for the waiters.\<close>

definition dial_direct ::
  "Output \<Rightarrow> string \<Rightarrow> bool \<Rightarrow> chan_id \<Rightarrow> bool \<Rightarrow> nat \<Rightarrow> proc \<Rightarrow> proc" where
  "dial_direct e link isPrx c password i finish =
     Ask XSelect (\<lambda>sel.
       if c_ok sel
       then directConnect link password (\<lambda>res. case res of
           Inl err \<Rightarrow> Debug e ''resolve.go'' 108
             (''resolve(): Err: '' @ err @ '' from directConnect'' @ [newline]) finish
         | Inr client \<Rightarrow> Fork (remoteHost e link (int i) c client isPrx)
             (SetConnInfo (new_connection link c isPrx True) finish))
       else Fork (directConnect link password (\<lambda>_. Halt)) finish)"

fun dial_all ::
  "Output \<Rightarrow> string \<Rightarrow> bool \<Rightarrow> chan_id \<Rightarrow> bool \<Rightarrow> nat \<Rightarrow> nat list \<Rightarrow> proc \<Rightarrow> proc" where
  "dial_all e link isPrx c password wg [] p = WgWait wg p"
| "dial_all e link isPrx c password wg (i # is) p =
     WgAdd wg (Fork (dial_direct e link isPrx c password i (WgDone wg Halt))
       (dial_all e link isPrx c password wg is p))"

definition resolve_direct :: "Output \<Rightarrow> bool \<Rightarrow> string \<Rightarrow> proc \<Rightarrow> proc" where
  "resolve_direct e isPrx link p =
     Debug e ''resolve.go'' 66 (''resolve(): Direct connect to: '' @ link @ [newline])
     (ConnExists link (\<lambda>exists.
       if exists
       then Debug e ''resolve.go'' 68 (''resolve(): '' @ link @ '' connection already exists.'' @ [newline]) p
       else Fresh (\<lambda>c. GetSSHConfig (\<lambda>sc. case sc of None \<Rightarrow> Panic nil_deref | Some _ \<Rightarrow>
              GetCfg (\<lambda>cfg. Fresh (\<lambda>wg.
                dial_all e link isPrx c (Password cfg) wg [0..<nat (BastionConns cfg)] p))))))"

text \<open>Through a proxy: \<open>k\<close> gets the proxy's error, \<open>p\<close> is the rest of the loop.\<close>

definition resolve_via ::
  "Output \<Rightarrow> bool \<Rightarrow> string \<Rightarrow> string \<Rightarrow> (error \<Rightarrow> proc) \<Rightarrow> proc \<Rightarrow> proc" where
  "resolve_via e isPrx proxyhost link k p =
     Debug e ''resolve.go'' 35 (''resolve(): Using a proxy.'' @ [newline])
     (ConnExists link (\<lambda>exists.
       if exists then p
       else GetConnInfo proxyhost (\<lambda>res. case res of
           Inl err \<Rightarrow> warn e ''resolve.go'' 47 ''GetConnInfo(): '' (Some err) p
         | Inr ci \<Rightarrow> send_proxy (reqChan ci) link (\<lambda>resp.
             if pr_err resp \<noteq> None then k (pr_err resp)
             else IncProxyCount proxyhost (Fresh (\<lambda>c.
               Fork (case pr_client resp of None \<Rightarrow> Panic nil_deref
                     | Some client \<Rightarrow> remoteHost e link 0 c client isPrx)
               (SetConnInfo (new_connection link c isPrx False) p)))))))"

fun resolve_links ::
  "Output \<Rightarrow> bool \<Rightarrow> string option \<Rightarrow> string list \<Rightarrow> (error \<Rightarrow> proc) \<Rightarrow> proc" where
  "resolve_links e isPrx prev [] k = k None"
| "resolve_links e isPrx prev (link # links) k =
     (let rest = resolve_links e isPrx (Some link) links k in
      case prev of
        None \<Rightarrow> resolve_direct e isPrx link rest
      | Some proxyhost \<Rightarrow> resolve_via e isPrx proxyhost link k rest)"

definition resolve :: "Output \<Rightarrow> string list \<Rightarrow> bool \<Rightarrow> int \<Rightarrow> (error \<Rightarrow> proc) \<Rightarrow> proc" where
  "resolve e links isPrx timeout k =
     Debug e ''resolve.go'' 31 (''resolve() chain: '' @ show_list links @ '', isProxy: '' @
         show_bool isPrx @ '', timeout: '' @ itoa timeout @ [newline])
       (resolve_links e isPrx None links k)"

subsection \<open>The proxies\<close>

fun resolve_proxies ::
  "Output \<Rightarrow> (string, int) gomap \<Rightarrow> string list \<Rightarrow> (error \<Rightarrow> proc) \<Rightarrow> proc" where
  "resolve_proxies e chainMap [] k = k None"
| "resolve_proxies e chainMap (h # hs) k =
     GetHostInfo h (\<lambda>res. case res of
         Inl err \<Rightarrow> k (Some err)
       | Inr hi \<Rightarrow>
           if length (chain hi) = 1 then resolve_proxies e chainMap hs k
           else Debug e ''resolve.go'' 174 (''resolveProxies(): host: '' @ h @ '', chain: '' @
               show_list (chain hi) @ '', length: '' @ digits (length (chain hi)) @ [newline])
             (if chain hi = [] then Panic slice_panic
              else let ch = join_with '' '' (butlast (chain hi)) in
                case glook chainMap ch of
                  Some val \<Rightarrow> resolve_proxies e (gput ch (val + 1) chainMap) hs k
                | None \<Rightarrow> GetCfg (\<lambda>cfg.
                    resolve e (split_on (CHR '' '') ch) True (Timeout cfg) (\<lambda>err. case err of
                        Some m \<Rightarrow> ErrExit e (''Could not resolve proxy: '' @ m @ [newline])
                      | None \<Rightarrow> resolve_proxies e (gput ch 1 chainMap) hs k))))"

definition resolveProxies :: "Output \<Rightarrow> (error \<Rightarrow> proc) \<Rightarrow> proc" where
  "resolveProxies e k =
     Debug e ''resolve.go'' 161 (''Inside resolveProxies()'' @ [newline])
       (GetHostKeys (\<lambda>hk. resolve_proxies e [] hk k))"

subsection \<open>All targets\<close>

definition connect_host :: "Output \<Rightarrow> string \<Rightarrow> int \<Rightarrow> proc \<Rightarrow> proc" where
  "connect_host e me timeout finish =
     GetHostInfo me (\<lambda>res. case res of
         Inl err \<Rightarrow> warn e ''connect.go'' 41 ''GetHostInfo(): '' (Some err) finish
       | Inr hi \<Rightarrow> Ask XNow (\<lambda>t0. resolve e (chain hi) False timeout (\<lambda>err. Ask XNow (\<lambda>t1.
           SetConnectionStatus me (err = None) (since (c_time t1) (c_time t0)) err
             (GetCfg (\<lambda>cfg. if err = None \<and> Execute cfg
                then run_once e me (TestCmd cfg) finish else finish))))))"

fun connect_hosts ::
  "Output \<Rightarrow> int \<Rightarrow> nat \<Rightarrow> nat \<Rightarrow> string list \<Rightarrow> proc \<Rightarrow> proc" where
  "connect_hosts e timeout wg limiter [] p = p"
| "connect_hosts e timeout wg limiter (h # hs) p =
     ConnExists h (\<lambda>exists.
       if exists
       then Debug e ''connect.go'' 32 (''Already connected to: '' @ h @ [newline])
              (connect_hosts e timeout wg limiter hs p)
       else WgAdd wg (Acquire limiter
         (Fork (connect_host e h timeout (host_done wg limiter))
           (connect_hosts e timeout wg limiter hs p))))"

definition connectEverywhere :: "Output \<Rightarrow> int \<Rightarrow> (int \<Rightarrow> proc) \<Rightarrow> proc" where
  "connectEverywhere e timeout k =
     Fresh (\<lambda>wg.
     Debug e ''connect.go'' 18 (''Connecting everywhere.'' @ [newline])
     (resolveProxies e (\<lambda>err. case err of
         Some m \<Rightarrow> ErrExit e (''proxy resolve failed: '' @ m @ [newline])
       | None \<Rightarrow> GetCfg (\<lambda>cfg.
           NewSem (if Agent cfg then 128 else Concurrency cfg) (\<lambda>limiter.
             GetHostKeys (\<lambda>hk. connect_hosts e timeout wg limiter hk
               (WgWait wg (k (max 1 (int (length hk)))))))))))"

end
