(* ===== verification/Commands.thy ===== *)
theory Commands
  imports Summary Config Json Connect
begin

section \<open>The commands of the CLI (commands.go)\<close>

text \<open>
  Each command is a goroutine that gets its arguments and hands an error, or none, to its
  continuation. Parsing flags, parsing and formatting floating-point numbers, the quantile streams
  and decoding JSON are not in the repository; they are the fields of the parameter \<open>x\<close>.
  \<open>reflectFlags\<close> gives the flags of a command; what the flag package does with them and the
  arguments is \<open>x_parse\<close>: the text it prints on the output (its help), its error, the values of the
  flags afterwards and the remaining arguments.

  Main results: \<open>clean\<close> removes exactly the targets that failed, \<open>target\<close> makes targets of exactly
  the hosts its command prints, \<open>run -q\<close> hangs as soon as a host prints anything, a line of blanks
  ends the program, and the loop of the CLI returns exactly when a line asks it to quit.
\<close>

datatype cmd_err = ErrHelp | Failure string | CmdErr bool string

fun cmd_text :: "cmd_err \<Rightarrow> string" where
  "cmd_text ErrHelp = ''pflag: help requested''"
| "cmd_text (Failure m) = m"
| "cmd_text (CmdErr fatal m) = m"

fun Fatal :: "cmd_err \<Rightarrow> bool" where
  "Fatal (CmdErr fatal m) = fatal"
| "Fatal _ = False"

definition newCmdErr :: "bool \<Rightarrow> string \<Rightarrow> cmd_err" where
  "newCmdErr fatal text = CmdErr fatal text"

record parsed =
  pf_text :: string
  pf_err :: "cmd_err option"
  pf_value :: "string \<Rightarrow> rvalue"
  pf_args :: "string list"

record 'f ext =
  x_floats :: "'f floats"
  x_parse :: "FlagSet \<Rightarrow> string list \<Rightarrow> parsed"
  x_decode :: "string \<Rightarrow> string + Server list"

fun as_bool :: "rvalue \<Rightarrow> bool" where "as_bool (VBool b) = b" | "as_bool _ = False"
fun as_int :: "rvalue \<Rightarrow> int" where "as_int (VInt i) = i" | "as_int _ = 0"

type_synonym cmd = "string list \<Rightarrow> (cmd_err option \<Rightarrow> proc) \<Rightarrow> proc"

text \<open>\<open>Write\<close>, and reflecting and parsing the flags of a command.\<close>

definition write_out :: "Output \<Rightarrow> string \<Rightarrow> proc \<Rightarrow> proc" where
  "write_out e s p = (if s = [] then p else Log (o_stdOut e) (munge e s) p)"

definition with_flags ::
  "'f ext \<Rightarrow> Output \<Rightarrow> string \<Rightarrow> struct_field list \<Rightarrow> string list \<Rightarrow> (cmd_err option \<Rightarrow> proc) \<Rightarrow>
   ((string \<Rightarrow> rvalue) \<Rightarrow> string list \<Rightarrow> proc) \<Rightarrow> proc" where
  "with_flags x e name fs args k body =
     (case reflectFlags name (PointerTo_struct fs) (Some (o_stdOut e)) of
        Inl err \<Rightarrow> k (Some (Failure err))
      | Inr f \<Rightarrow> let r = x_parse x f args in
          write_out e (pf_text r)
            (case pf_err r of Some err \<Rightarrow> k (Some err) | None \<Rightarrow> body (pf_value r) (pf_args r)))"

definition elapsed_text :: "choice \<Rightarrow> choice \<Rightarrow> string" where
  "elapsed_text t1 t0 = show_seconds (sint (since (c_time t1) (c_time t0)))"

subsection \<open>Quantiles\<close>

definition range_error :: string where
  "range_error = ''Must specfy a range like, 0.95 0.99.''"

fun quant_range :: "'f::linorder floats \<Rightarrow> string list \<Rightarrow> string + 'f \<times> 'f" where
  "quant_range q [b] =
     (case f_parse q b of
        Inl err \<Rightarrow> Inl err
      | Inr start \<Rightarrow>
          if start = f_lit q ''0.99'' then Inr (start, f_lit q ''1'')
          else if start = f_lit q ''0.95'' then Inr (start, f_lit q ''0.99'')
          else if start = f_lit q ''0.90'' then Inr (start, f_lit q ''0.95'')
          else if start = f_lit q ''0.01'' then Inr (f_lit q ''0'', f_lit q ''0.1'')
          else Inl range_error)"
| "quant_range q [b1, b2] =
     (case f_parse q b1 of
        Inl err \<Rightarrow> Inl err
      | Inr start \<Rightarrow>
          (case f_parse q b2 of
             Inl err \<Rightarrow> Inl err
           | Inr end \<Rightarrow>
               if start > end then Inl ''First number must be smaller than second number.''
               else if start \<ge> f_lit q ''1'' \<or> end > f_lit q ''1''
                 then Inl ''Both start and end values must be <= 1.0''
               else Inr (start, end)))"
| "quant_range q _ = Inl range_error"

text \<open>The first loop fills the two streams, the second one selects.\<close>

fun quant_fill :: "Output \<Rightarrow> 'f floats \<Rightarrow> string list \<Rightarrow> 'f list \<Rightarrow> 'f list \<Rightarrow>
    ('f list \<Rightarrow> 'f list \<Rightarrow> proc) \<Rightarrow> proc" where
  "quant_fill e q [] qr qc k = k qr qc"
| "quant_fill e q (h # hs) qr qc k =
     GetHostInfo h (\<lambda>res. case res of
         Inl err \<Rightarrow> warn e ''commands.go'' 143 ''GetHostInfo(): '' (Some err) (quant_fill e q hs qr qc k)
       | Inr hi \<Rightarrow> quant_fill e q hs
           (if runOK hi \<and> runOnce hi then qr @ [f_secs q (runTime hi)] else qr)
           (if connectedOK hi then qc @ [f_secs q (connectTime hi)] else qc) k)"

definition in_band :: "'f::linorder floats \<Rightarrow> 'f list \<Rightarrow> 'f \<Rightarrow> 'f \<Rightarrow> 'f \<Rightarrow> bool" where
  "in_band q xs start end t \<longleftrightarrow> t \<ge> q_query q xs start \<and> t \<le> q_query q xs end"

fun quant_pick :: "Output \<Rightarrow> 'f::linorder floats \<Rightarrow> 'f \<Rightarrow> 'f \<Rightarrow> 'f list \<Rightarrow> 'f list \<Rightarrow> string list \<Rightarrow>
    (string, 'f) gomap \<Rightarrow> (string, 'f) gomap \<Rightarrow> ((string, 'f) gomap \<Rightarrow> (string, 'f) gomap \<Rightarrow> proc) \<Rightarrow> proc" where
  "quant_pick e q start end qr qc [] con run k = k con run"
| "quant_pick e q start end qr qc (h # hs) con run k =
     GetHostInfo h (\<lambda>res. case res of
         Inl err \<Rightarrow> warn e ''commands.go'' 161 ''GetHostInfo(): '' (Some err)
           (quant_pick e q start end qr qc hs con run k)
       | Inr hi \<Rightarrow> let runT = f_secs q (runTime hi); conT = f_secs q (connectTime hi) in
           quant_pick e q start end qr qc hs
             (if in_band q qc start end conT then gput h conT con else con)
             (if in_band q qr start end runT then gput h runT run else run) k)"

definition outputResults ::
  "Output \<Rightarrow> 'f::{linorder,zero} floats \<Rightarrow> (string, 'f) gomap \<Rightarrow> string \<Rightarrow> proc \<Rightarrow> proc" where
  "outputResults e q m what p =
     Ask XRange (\<lambda>c. out_lines e (map (\<lambda>h. what @ '' time ('' @ h @ ''): '' @ f_fmt q 5 (float_at m h) @
       ''s'' @ [newline]) (sortedRevFloat64Keys (c_nums c) m)) p)"

definition quant_fields :: "struct_field list" where
  "quant_fields = [mk_field ''Run'' ''r'' ''Show the specified run quantile'' (VBool False),
     mk_field ''Connect'' ''c'' ''Show the specified connect quantile.'' (VBool False)]"

definition quant :: "'f::{linorder,zero} ext \<Rightarrow> Output \<Rightarrow> cmd" where
  "quant x e args k =
     with_flags x e ''quant'' quant_fields args k (\<lambda>v bands.
       let Run = as_bool (v ''run''); Conn = as_bool (v ''connect''); q = x_floats x in
       if \<not> Run \<and> \<not> Conn then k (Some (Failure ''Need to specify either -r or -c.''))
       else case quant_range q bands of
         Inl err \<Rightarrow> k (Some (Failure err))
       | Inr (start, end) \<Rightarrow>
           GetHostKeys (\<lambda>hk. quant_fill e q hk [] [] (\<lambda>qr qc.
             quant_pick e q start end qr qc hk [] [] (\<lambda>con run.
               (if Conn then outputResults e q con ''Connect'' else id)
               ((if Run then outputResults e q run ''Run'' else id) (k None))))))"

subsection \<open>Spooling\<close>

definition writable :: "string \<Rightarrow> (bool \<Rightarrow> proc) \<Rightarrow> proc" where
  "writable path k = Ask (XAccess path) (\<lambda>c. k (c_ok c))"

definition spooldir :: "Output \<Rightarrow> cmd" where
  "spooldir e args k =
     (let report = GetCfg (\<lambda>c. Out e (''SpoolDir: '' @ SpoolDir c @ [newline]) (k None)) in
      case args of
        [] \<Rightarrow> report
      | path # _ \<Rightarrow> writable path (\<lambda>ok.
          if \<not> ok then k (Some (Failure (''ERROR: Directory '' @ path @ '', not writable.'')))
          else SetCfg (\<lambda>c. c\<lparr>SpoolDir := path\<rparr>) report))"

definition tee :: "Output \<Rightarrow> cmd" where
  "tee e args k = GetCfg (\<lambda>c.
     if Tee c
     then Out e (''Teeing is now OFF.'' @ [newline]) (SetCfg (\<lambda>c. c\<lparr>Tee := False\<rparr>) (k None))
     else Out e (''Teeing is now ON.'' @ [newline]) (SetCfg (\<lambda>c. c\<lparr>Tee := True\<rparr>) (k None)))"

definition spool :: "Output \<Rightarrow> cmd" where
  "spool e args k = GetCfg (\<lambda>c.
     if Spool c
     then Out e (''Spooling is now OFF.'' @ [newline]) (SetCfg (\<lambda>c. c\<lparr>Spool := False\<rparr>) (k None))
     else writable (SpoolDir c) (\<lambda>ok.
       if \<not> ok then k (Some (Failure (SpoolDir c @ '': not writable. Spooling OFF.'')))
       else Out e (''Spooling is now ON.'' @ [newline]) (SetCfg (\<lambda>c. c\<lparr>Spool := True\<rparr>) (k None))))"

subsection \<open>Removing failed targets\<close>

definition failed_target :: "HostInfo \<Rightarrow> bool" where
  "failed_target hi \<longleftrightarrow> \<not> connectedOK hi \<or> (\<not> runOK hi \<and> runOnce hi)"

text \<open>The goroutine of one failed target; \<open>finish\<close> is the deferred \<open>wg.Done()\<close>.\<close>

definition clean_host :: "Output \<Rightarrow> string \<Rightarrow> HostInfo \<Rightarrow> proc \<Rightarrow> proc" where
  "clean_host e h hi finish =
     (if connectedOK hi
      then (\<lambda>p. disconnectHost e h (\<lambda>err. warn e ''commands.go'' 250 ''disconnectHost(): '' err p)) else id)
     (DeleteHostInfo h finish)"

fun clean_hosts :: "Output \<Rightarrow> nat \<Rightarrow> string list \<Rightarrow> nat \<Rightarrow> (nat \<Rightarrow> proc) \<Rightarrow> proc" where
  "clean_hosts e wg [] i k = k i"
| "clean_hosts e wg (h # hs) i k =
     GetHostInfo h (\<lambda>res. case res of
         Inl err \<Rightarrow> warn e ''commands.go'' 239 ''GetHostInfo(): '' (Some err) (clean_hosts e wg hs i k)
       | Inr hi \<Rightarrow>
           if failed_target hi
           then WgAdd wg (Fork (clean_host e h hi (WgDone wg Halt)) (clean_hosts e wg hs (Suc i) k))
           else clean_hosts e wg hs i k)"

definition clean :: "Output \<Rightarrow> cmd" where
  "clean e args k =
     GetHostKeys (\<lambda>hk. Fresh (\<lambda>wg. Ask XNow (\<lambda>t0. clean_hosts e wg hk 0 (\<lambda>i.
       WgWait wg (Ask XNow (\<lambda>t1. Out e (''Cleaned out '' @ digits i @ '' targets in '' @
         elapsed_text t1 t0 @ ''s.'' @ [newline]) (k None)))))))"

subsection \<open>Help\<close>

definition command_help :: "(string, string) gomap" where
  "command_help = [
     (''state'', ''Get the state of in-flight connections/runs.''),
     (''run'', ''Run a command on loaded/connected targets.''),
     (''target'', ''Target some hosts to connect/run commands on.''),
     (''clear'', ''Clear the list of targets, implies disco.''),
     (''clean'', ''Removed timed out host from the target list.''),
     (''exit'', ''I'' @ [CHR 0x27] @ ''m outta here.''),
     (''quit'', ''Cya.''),
     (''abort'', ''Abort any in-flight connections/runs.''),
     (''disco'', ''Disconnect all targeted hosts.''),
     (''connect'', ''Connect all targeted hosts.''),
     (''summary'', ''Show some stats about connections/runs.''),
     (''spool'', ''Toggle spool state.''),
     (''spooldir'', ''Set or print the spool directory.''),
     (''help'', ''This help screen.''),
     (''quant'', ''Show some quantiles.''),
     (''tee'', ''Tee the output to stdout/stderr if spooling.'')]"

text \<open>\<open>sort.Strings\<close> orders by bytes.\<close>

fun bytes_less :: "string \<Rightarrow> string \<Rightarrow> bool" where
  "bytes_less xs [] = False"
| "bytes_less [] (y # ys) = True"
| "bytes_less (x # xs) (y # ys) =
     ((of_char x :: nat) < of_char y \<or> x = y \<and> bytes_less xs ys)"

fun insert_string :: "string \<Rightarrow> string list \<Rightarrow> string list" where
  "insert_string x [] = [x]"
| "insert_string x (y # ys) = (if bytes_less y x then y # insert_string x ys else x # y # ys)"

definition sort_strings :: "string list \<Rightarrow> string list" where
  "sort_strings xs = foldr insert_string xs []"

definition help_line :: "nat \<Rightarrow> string \<Rightarrow> string" where
  "help_line longest name =
     name @ replicate (longest - length name) CHR '' '' @ ''  '' @
     (case glook command_help name of None \<Rightarrow> [] | Some h \<Rightarrow> h) @ [newline]"

definition help_cmd :: "Output \<Rightarrow> cmd" where
  "help_cmd e args k = Ask XRange (\<lambda>c.
     let ks = grange (c_nums c) command_help; longest = foldr (\<lambda>s n. max n (length s)) ks 0 in
     Out e (''Available commands:'' @ [newline, newline])
       (out_lines e (map (help_line longest) (sort_strings ks)) (Out e [newline] (k None))))"

subsection \<open>Running and connecting\<close>

definition run_fields :: "Config \<Rightarrow> struct_field list" where
  "run_fields c = [mk_field ''Background'' ''b'' ''Run in the background, don't wait.'' (VBool False),
     mk_field ''Timeout'' ''t'' ''Run timeout in seconds.'' (VInt (Timeout c)),
     mk_field ''Quiet'' ''q'' ''No output please.'' (VBool False)]"

text \<open>\<open>NewOutput(e.o.DupeOuput())\<close>, muted.\<close>

definition quiet_copy :: "Output \<Rightarrow> Output" where
  "quiet_copy e = (case DupeOuput e of (out, err, cr, dbg) \<Rightarrow> Mute (NewOutput out err cr dbg))"

definition run :: "'f ext \<Rightarrow> Output \<Rightarrow> cmd" where
  "run x e args k = GetCfg (\<lambda>c. with_flags x e ''run'' (run_fields c) args k (\<lambda>v rest.
     let cmdline = join_with '' '' rest;
         e' = (if as_bool (v ''quiet'') then quiet_copy e else e) in
     if as_bool (v ''background'') then Fork (runEverywhere e' cmdline Halt) (k None)
     else Ask XNow (\<lambda>t0. runEverywhere e' cmdline (Ask XNow (\<lambda>t1.
            Out e (''Done in '' @ elapsed_text t1 t0 @ ''s.'' @ [newline]) (k None))))))"

definition connect_fields :: "Config \<Rightarrow> struct_field list" where
  "connect_fields c = [mk_field ''Background'' ''b'' ''Run in the background, don't wait.'' (VBool False),
     mk_field ''Timeout'' ''t'' ''Connection timeout in seconds.'' (VInt (Timeout c))]"

definition connect :: "'f ext \<Rightarrow> Output \<Rightarrow> cmd" where
  "connect x e args k = GetCfg (\<lambda>c. with_flags x e ''connect'' (connect_fields c) args k (\<lambda>v rest.
     let timeout = as_int (v ''timeout'') in
     if as_bool (v ''background'')
     then Fork (connectEverywhere e timeout (\<lambda>_. Halt))
       (Out e (''Ok. Use the state command to track connection progress.'' @ [newline]) (k None))
     else Ask XNow (\<lambda>t0. connectEverywhere e timeout (\<lambda>n. Ask XNow (\<lambda>t1.
       Out e (itoa n @ '' hosts in '' @ elapsed_text t1 t0 @ ''s.'' @ [newline]) (k None))))))"

subsection \<open>Targeting\<close>

text \<open>
  \<open>fmt.Sprintf\<close> of a format without arguments: a verb, after its flags, width and precision, prints
  that its argument is missing. (The forms \<open>%*\<close> and \<open>%[n]\<close> are treated as verbs.)
\<close>

definition verb_text :: "string \<Rightarrow> string" where
  "verb_text s = (let rest = dropWhile (\<lambda>c. c \<in> set ''+-# 0123456789.'') s in
     case rest of
       [] \<Rightarrow> ''%!(NOVERB)''
     | c # _ \<Rightarrow> if c = CHR ''%'' then ''%'' else ''%!'' @ [c] @ ''(MISSING)'')"

definition after_verb :: "string \<Rightarrow> string" where
  "after_verb s = drop 1 (dropWhile (\<lambda>c. c \<in> set ''+-# 0123456789.'') s)"

lemma length_after_verb: "length (after_verb s) \<le> length s"
  using length_dropWhile_le [of _ s] by (simp add: after_verb_def le_diff_conv le_SucI)

function sprintf0 :: "string \<Rightarrow> string" where
  "sprintf0 [] = []"
| "sprintf0 (c # s) = (if c = CHR ''%'' then verb_text s @ sprintf0 (after_verb s) else c # sprintf0 s)"
  by pat_completeness auto
termination
  by (relation "measure length") (simp_all add: length_after_verb less_Suc_eq_le)

lemma sprintf0_plain: "CHR ''%'' \<notin> set s \<Longrightarrow> sprintf0 s = s"
  by (induction s) auto

definition nonzero_exit :: "Output \<Rightarrow> choice \<Rightarrow> (nat \<Rightarrow> proc) \<Rightarrow> proc" where
  "nonzero_exit e r k =
     (if c_kind r then k (c_num r)
      else Debug e ''commands.go'' 367 (''Unknown exit code, faking it.'' @ [newline]) (k 255))"

definition target_failed :: "Output \<Rightarrow> string \<Rightarrow> (cmd_err option \<Rightarrow> proc) \<Rightarrow> nat \<Rightarrow> proc" where
  "target_failed e errbuf k code = Out e (sprintf0 errbuf)
     (k (Some (Failure (''Command returned non-zero ('' @ digits code @ '') exit.''))))"

definition target_loaded :: "Output \<Rightarrow> (cmd_err option \<Rightarrow> proc) \<Rightarrow> int \<times> error \<Rightarrow> proc" where
  "target_loaded e k = (\<lambda>(n, err). case err of
     Some m \<Rightarrow> k (Some (Failure (''Load JSON from STDOUT: '' @ m)))
   | None \<Rightarrow> Out e (''Targeted '' @ itoa n @ '' hosts.'' @ [newline]) (k None))"

text \<open>
  The two goroutines that copy the output of the command share nothing but the wait group, so their
  copies are taken one after the other.
\<close>

definition target :: "'f ext \<Rightarrow> Output \<Rightarrow> cmd" where
  "target x e args k = GetCfg (\<lambda>cfg.
     Ask (XCmdPipe 1) (\<lambda>p1. case c_err p1 of Some err \<Rightarrow> k (Some (Failure err)) | None \<Rightarrow>
     Ask (XCmdPipe 2) (\<lambda>p2. case c_err p2 of Some err \<Rightarrow> k (Some (Failure err)) | None \<Rightarrow>
     Ask (XRunTarget (TargetCmd cfg) args) (\<lambda>s. case c_err s of
         Some err \<Rightarrow> warn e ''commands.go'' 338 ''cmd.Start(): '' (Some err) (k (Some (Failure err)))
       | None \<Rightarrow>
     Ask (XCmdCopy 1) (\<lambda>o1. warn e ''commands.go'' 346 ''io.Copy() failed: '' (c_err o1) (
     Ask (XCmdCopy 2) (\<lambda>o2. warn e ''commands.go'' 353 ''io.Copy() failed: '' (c_err o2) (
     Ask XCmdWait (\<lambda>r.
       if c_err r \<noteq> None
       then nonzero_exit e r (target_failed e (c_out o2) k)
       else Out e (sprintf0 (c_out o2))
         (if c_out o1 = [] then k None
          else LoadBlob (x_decode x) e (c_out o1) (target_loaded e k)))))))))))"

definition clear :: "Output \<Rightarrow> cmd" where
  "clear e args k = disconnectEverywhere e True (ClearHostInfo
     (Out e (''Targets cleared.'' @ [newline]) (k None)))"

subsection \<open>Reports and the rest\<close>

definition summary_fields :: "struct_field list" where
  "summary_fields = [mk_field ''Verbose'' ''v'' ''Verbose output.'' (VBool False)]"

definition summary :: "'f ext \<Rightarrow> Output \<Rightarrow> cmd" where
  "summary x e args k = with_flags x e ''summary'' summary_fields args k (\<lambda>v rest.
     printSummary e (x_floats x) (as_bool (v ''verbose'')) (k None))"

definition threads_line :: "string \<Rightarrow> int \<Rightarrow> duration \<Rightarrow> string" where
  "threads_line what n avg = itoa n @ '' '' @ what @ '' threads ('' @ show_seconds (sint avg) @
     ''s average wait time)'' @ [newline]"

definition state_lines :: "Output \<Rightarrow> (string, int) gomap \<Rightarrow> proc \<Rightarrow> proc" where
  "state_lines e m p = Ask XRange (\<lambda>c. out_lines e
     (map (\<lambda>st. tab @ st @ ''('' @ itoa (gcount m st) @ '')'' @ [newline]) (sortedIntKeys (c_nums c) m)) p)"

definition state :: "Output \<Rightarrow> cmd" where
  "state e args k = GetWaiterInfo (\<lambda>wi.
     Out e (threads_line ''connection'' (n_connWaiters wi) (avgConnWait wi))
     (state_lines e (connStates wi)
     (Out e (threads_line ''run'' (n_runWaiters wi) (avgRunWait wi))
     (state_lines e (runStates wi) (k None)))))"

definition disco :: "Output \<Rightarrow> cmd" where
  "disco e args k = disconnectEverywhere e True (k None)"

definition quit :: cmd where
  "quit args k = k (Some (newCmdErr True (''byte!'' @ [newline])))"

definition abort :: cmd where
  "abort args k = TimeoutWaiters (k None)"

subsection \<open>The interpreter\<close>

definition commands :: "'f::{linorder,zero} ext \<Rightarrow> Output \<Rightarrow> (string, cmd) gomap" where
  "commands x e = [
     (''state'', state e), (''run'', run x e), (''target'', target x e), (''clear'', clear e),
     (''clean'', clean e), (''exit'', quit), (''quit'', quit), (''abort'', abort), (''disco'', disco e),
     (''connect'', connect x e), (''summary'', summary x e), (''spool'', spool e),
     (''spooldir'', spooldir e), (''help'', help_cmd e), (''quant'', quant x e), (''tee'', tee e)]"

text \<open>What the interpreter does with a command's result.\<close>

definition conclude :: "Output \<Rightarrow> string \<Rightarrow> (bool \<Rightarrow> proc) \<Rightarrow> cmd_err option \<Rightarrow> proc" where
  "conclude e cmd k res = (case res of
      None \<Rightarrow> k True
    | Some err \<Rightarrow> (if err \<noteq> ErrHelp then Out e (cmd @ '': '' @ cmd_text err @ [newline]) else id) (k (\<not> Fatal err)))"

definition runCliCmd ::
  "'f::{linorder,zero} ext \<Rightarrow> Output \<Rightarrow> string \<Rightarrow> string list \<Rightarrow> (bool \<Rightarrow> proc) \<Rightarrow> proc" where
  "runCliCmd x e cmd args k =
     (case glook (commands x e) cmd of
        None \<Rightarrow> Out e (''Unknown command: '' @ [CHR 0x27] @ cmd @ [CHR 0x27] @ ''.'' @ [newline]) (k True)
      | Some f \<Rightarrow> f args (conclude e cmd k))"

text \<open>A line that was typed, or sent for execution: its first word is the command.\<close>

definition run_line ::
  "'f::{linorder,zero} ext \<Rightarrow> Output \<Rightarrow> string \<Rightarrow> (bool \<Rightarrow> proc) \<Rightarrow> proc" where
  "run_line x e line k =
     (case GoStrings.fields line of
        [] \<Rightarrow> Panic index_panic
      | c # args \<Rightarrow> runCliCmd x e (to_lower c) args k)"

text \<open>
  The loop of \<open>cli\<close>, for \<open>n\<close> lines; the pause between reading and running a line is not modelled. A
  loop that has not returned after \<open>n\<close> lines shows as \<open>Hang\<close>.
\<close>

fun cli_loop ::
  "'f::{linorder,zero} ext \<Rightarrow> nat \<Rightarrow> Output \<Rightarrow> nat \<Rightarrow> bool \<Rightarrow> proc \<Rightarrow> proc" where
  "cli_loop x 0 e ch useReadline p = Hang"
| "cli_loop x (Suc n) e ch useReadline p =
     Ask (XReadLine ch useReadline) (\<lambda>r. let line = c_out r in
       warn e ''commands.go'' 518 ''readline.Readline(): '' (c_err r)
       (if line = [] then cli_loop x n e ch useReadline p
        else run_line x e line (\<lambda>more. if more then cli_loop x n e ch useReadline p else p)))"

definition cli ::
  "'f::{linorder,zero} ext \<Rightarrow> nat \<Rightarrow> Output \<Rightarrow> nat \<Rightarrow> bool \<Rightarrow> proc \<Rightarrow> proc" where
  "cli x n e ch useReadline p =
     cli_loop x n e ch useReadline (Ask (XConnClose ch) (\<lambda>r.
       warn e ''commands.go'' 500 ''channel.Close(): '' (c_err r) p))"

end
