(* ===== verification/Reach.thy ===== *)
theory Reach
  imports Connect
begin

section \<open>What resolving a chain achieves\<close>

text \<open>
  What connecting reaches. In a world in which every dial works, \<open>resolve\<close> connects every host of a
  chain, each with a goroutine that listens on its channel (\<open>exec_resolve\<close>), \<open>resolveProxies\<close> all
  bastions of the targets, and \<open>connectEverywhere\<close> all targets; a target that is a bastion of
  another one is skipped by the last loop. In a world in which the direct dial fails, the error is
  lost, and the target counts as connected.
\<close>

subsection \<open>A lost error\<close>

text \<open>
  C28. A target that cannot be reached counts as connected: when the direct dial of a one-host chain
  fails, \<open>resolve\<close> still returns no error, so the target is marked \<open>connectedOK\<close> with no error,
  although no connection exists.
\<close>

theorem unreachable_counts_connected:
  assumes "\<not> mute e" and "host w h = Some hi" and "chain hi = [link]" and "connection w link = None"
    and "sshConfig (w_state w) \<noteq> None" and "BastionConns (w_config w) = 1"
    and "\<not> Password (w_config w)" and "\<not> Execute (w_config w)"
    and "c_ok (nth_choice w 1)" and "\<not> c_ok (nth_choice w 2)"
    and "\<forall>i \<ge> w_next w. w_wg w i = 0"
  shows "\<exists>w' hi'. exec (connect_host e h timeout Halt) w = Finished w' \<and> host w' h = Some hi' \<and>
    connectedOK hi' \<and> lastError hi' = None \<and> conn (w_state w') = conn (w_state w)"
proof -
  obtain sc where sc: "sshConfig (w_state w) = Some sc"
    using assms(5) by blast
  show ?thesis
    using assms(1-4,6-11) sc
    by (auto simp: connect_host_def resolve_def resolve_direct_def dial_direct_def directConnect_def
        api_simps c_err_def now_choice_def nth_choice_def go_map_simps Let_def numeral_2_eq_2)
qed

theorem unreachable_counts_connected_witness:
  defines "hi \<equiv> zero_HostInfo\<lparr>hi_hostName := ''a'', chain := [''a'']\<rparr>"
  defines "w \<equiv> upd_state (\<lambda>s. s\<lparr>targets := [(''a'', hi)], sshConfig := Some \<lparr>cc_User = ''me'', cc_Auth = [],
      cc_insecureHostKey = True\<rparr>\<rparr>) (scripted (\<lambda>i. zero_choice\<lparr>c_ok := i \<noteq> 2\<rparr>))"
  shows "\<exists>w' hi'. exec (connect_host quiet ''a'' 60 Halt) w = Finished w' \<and> host w' ''a'' = Some hi' \<and>
    connectedOK hi' \<and> connection w' ''a'' = None"
proof -
  have nth: "nth_choice w i = zero_choice\<lparr>c_ok := i \<noteq> 2\<rparr>" for i
    by (simp add: w_def nth_choice_def)
  have "host w ''a'' = Some hi" "chain hi = [''a'']" "connection w ''a'' = None"
    "sshConfig (w_state w) \<noteq> None" "BastionConns (w_config w) = 1" "\<not> Password (w_config w)"
    "\<not> Execute (w_config w)" "c_ok (nth_choice w 1)" "\<not> c_ok (nth_choice w 2)"
    "\<forall>i \<ge> w_next w. w_wg w i = 0" and c: "conn (w_state w) = []"
    by (simp_all add: nth) (simp_all add: w_def hi_def glook_def NewState_def DefaultConfig_def BastionConnects_def)
  from unreachable_counts_connected [OF not_mute_quiet this(1-10), of 60] c show ?thesis
    by (auto simp: glook_def)
qed

subsection \<open>A network in which everything works\<close>

definition good_net :: "world \<Rightarrow> bool" where
  "good_net w \<longleftrightarrow> (\<forall>i. c_ok (w_choices w i) \<and> \<not> c_pw (w_choices w i))"

text \<open>What the pieces that only talk to the outside leave alone.\<close>

definition talks :: "world \<Rightarrow> world \<Rightarrow> bool" where
  "talks w w' \<longleftrightarrow> keeps w w' \<and> w_remotes w' = w_remotes w"

lemma good_net_cong: "w_choices w' = w_choices w \<Longrightarrow> good_net w' = good_net w"
  by (simp add: good_net_def)

lemma talks_good: "talks w w' \<Longrightarrow> good_net w' = good_net w"
  by (simp add: talks_def keeps_def good_net_def)

lemma good_net_sel [simp]:
  "good_net (ask q w) = good_net w" "good_net (debug_log e f l s w) = good_net w"
  "good_net (warn_log e f l s x w) = good_net w" "good_net (upd_state g w) = good_net w"
  "good_net (w\<lparr>w_next := n\<rparr>) = good_net w" "good_net (w\<lparr>w_wg := m\<rparr>) = good_net w"
  "good_net (w\<lparr>w_remotes := rs\<rparr>) = good_net w" "good_net (tick w) = good_net w"
  by (simp_all add: good_net_def)

lemma good_net_now [simp]: "good_net w \<Longrightarrow> c_err (now_choice w) = None" "good_net w \<Longrightarrow> c_ok (now_choice w)"
  "good_net w \<Longrightarrow> \<not> c_pw (now_choice w)"
  by (simp_all add: good_net_def now_choice_def c_err_def)

lemma good_net_choice [simp]: "good_net w \<Longrightarrow> c_err (w_choices w i) = None"
  "good_net w \<Longrightarrow> c_ok (w_choices w i)" "good_net w \<Longrightarrow> \<not> c_pw (w_choices w i)"
  by (simp_all add: good_net_def c_err_def)

lemma exec_keep_alive:
  assumes "good_net w"
  shows "\<exists>w'. exec (keep_alive e me session n) w = Finished w' \<and> talks w w'"
  using assms
proof (induction e me session n arbitrary: w rule: keep_alive.induct)
  case (3 e me s n)
  have no_err: "c_err (now_choice w) = None" and "good_net (ask (XKeepAlive s) w)"
    using "3.prems" by simp_all
  then obtain w' where w': "exec (keep_alive e me (Some s) n) (ask (XKeepAlive s) w) = Finished w'"
      "talks (ask (XKeepAlive s) w) w'"
    using "3.IH"(1) by blast
  have "talks w w'"
    using w'(2) by (simp add: talks_def keeps_def)
  moreover have "exec (keep_alive e me (Some s) (Suc n)) w = Finished w'"
    using w'(1) no_err by simp
  ultimately show ?case by blast
qed (auto simp: talks_def keeps_def)

lemma exec_listening:
  assumes "\<not> mute e" and "good_net w"
  shows "\<exists>w' r. exec (if \<not> prx \<and> c_Server (w_config w)
      then NewMux e me client (\<lambda>(m, nmErr). warn e ''remotehost.go'' 93 ''NewMux() failed: '' nmErr
        (Listen c \<lparr>r_me = me, r_id = i, r_client = client, r_isProxy = prx, r_session = session,
           r_mux = m, r_nmErr = nmErr\<rparr> Halt))
      else Listen c \<lparr>r_me = me, r_id = i, r_client = client, r_isProxy = prx, r_session = session,
        r_mux = None, r_nmErr = None\<rparr> Halt) w = Finished w' \<and>
    keeps w w' \<and> w_remotes w' = w_remotes w @ [(c, r)]"
proof (cases "\<not> prx \<and> c_Server (w_config w)")
  case True
  have "good_net (ask (XStat (ControlPath (w_config w) @ ''/'' @ me @ ''_'' @ SSHPort)) w)"
    using assms(2) by simp
  then show ?thesis
    using assms True by (simp add: NewMux_def Let_def api_simps keeps_def)
next
  case False
  then show ?thesis by (simp only: if_False) (simp add: keeps_def)
qed

lemma exec_start_loop:
  assumes "\<not> mute e" and "good_net w"
  shows "\<exists>w' r. exec (start_loop e me i c client prx session) w = Finished w' \<and> keeps w w' \<and>
    w_remotes w' = w_remotes w @ [(c, r)]"
proof (cases "KeepAlive (w_config w) > 0")
  case True
  have "good_net (ask XTimeout w)"
    using assms(2) by simp
  then obtain w2 where w2: "exec (keep_alive e me session (c_num (now_choice w))) (ask XTimeout w) = Finished w2"
      "talks (ask XTimeout w) w2"
    using exec_keep_alive by blast
  then have net: "good_net w2" and cfg: "w_config w2 = w_config w" and k: "keeps w w2"
    and rs: "w_remotes w2 = w_remotes w"
    using assms(2) talks_good [OF w2(2)] by (simp_all add: talks_def keeps_def)
  let ?mux = "if \<not> prx \<and> c_Server (w_config w)
    then NewMux e me client (\<lambda>(m, nmErr). warn e ''remotehost.go'' 93 ''NewMux() failed: '' nmErr
      (Listen c \<lparr>r_me = me, r_id = i, r_client = client, r_isProxy = prx, r_session = session,
         r_mux = m, r_nmErr = nmErr\<rparr> Halt))
    else Listen c \<lparr>r_me = me, r_id = i, r_client = client, r_isProxy = prx, r_session = session,
      r_mux = None, r_nmErr = None\<rparr> Halt"
  have "exec (start_loop e me i c client prx session) w = exec ?mux w2"
    using True w2(1) by (simp add: start_loop_def Let_def)
  then show ?thesis
    using exec_listening [OF assms(1) net, of prx me client c i session] k rs cfg keeps_trans by fastforce
next
  case False
  then show ?thesis
    using exec_listening [OF assms, of prx me client c i session] by (simp add: start_loop_def Let_def)
qed

lemma exec_remoteHost:
  assumes "\<not> mute e" and "good_net w"
  shows "\<exists>w' r. exec (remoteHost e link i c client prx) w = Finished w' \<and> keeps w w' \<and>
    w_remotes w' = w_remotes w @ [(c, r)]"
proof -
  let ?me = "if ptr w link \<noteq> [] then ptr w link else link"
  let ?w1 = "debug_log e ''remotehost.go'' 64 (''remoteHost(): running for '' @ ?me @ [newline]) w"
  have "good_net (ask (XNewSession client) ?w1)"
    using assms(2) by simp
  from exec_start_loop [OF assms(1) this, of ?me i c client prx "Some (c_num (now_choice ?w1))"]
  show ?thesis
    using assms by (auto simp: remoteHost_def Let_def api_simps keeps_def)
qed

text \<open>Connecting through a proxy then succeeds, and only the waiters change.\<close>

definition waits :: "world \<Rightarrow> world \<Rightarrow> bool" where
  "waits w w' \<longleftrightarrow> targets (w_state w') = targets (w_state w) \<and> conn (w_state w') = conn (w_state w) \<and>
     PTR (w_state w') = PTR (w_state w) \<and> sshConfig (w_state w') = sshConfig (w_state w) \<and>
     w_config w' = w_config w \<and> w_remotes w' = w_remotes w \<and> w_next w \<le> w_next w' \<and>
     w_sem w' = w_sem w \<and> w_wg w' = w_wg w \<and> w_choices w' = w_choices w"

lemma exec_proxy_worker:
  assumes "good_net w" and "sshConfig (w_state w) = Some sc"
  shows "\<exists>c w'. returns (proxy_worker link client) w \<lparr>pr_client = Some c, pr_err = None\<rparr> w' \<and>
    waits w w'"
  unfolding returns_def
  apply (rule exI, rule exI, rule conjI, rule allI)
   apply (simp add: proxy_worker_def Let_def api_simps assms)
  apply (simp add: waits_def)
  done

lemma exec_proxyConnect:
  assumes "good_net w" and "sshConfig (w_state w) = Some sc"
  shows "\<exists>c w'. returns (proxyConnect link client) w \<lparr>pr_client = Some c, pr_err = None\<rparr> w' \<and>
    waits w w'"
proof -
  define w1 where "w1 = ask XSelect (upd_state (\<lambda>s. s\<lparr>connWaiters := gput (ptr w link)
      \<lparr>wi_hostName = ptr w link, wi_state = stateDialing, startTime = c_time (now_choice (w\<lparr>w_next := Suc (w_next w)\<rparr>)),
       timeoutChan = w_next w\<rparr> (connWaiters s)\<rparr>) (ask XNow (w\<lparr>w_next := Suc (w_next w)\<rparr>)))"
  have "good_net w1" "sshConfig (w_state w1) = Some sc" and waits1: "waits w w1"
    using assms by (simp_all add: w1_def waits_def)
  from exec_proxy_worker [OF this(1,2)] obtain c w2
    where w2: "returns (proxy_worker link client) w1 \<lparr>pr_client = Some c, pr_err = None\<rparr> w2" "waits w1 w2"
    by blast
  have "ptr w1 h = ptr w h" for h
    by (simp add: ptr_def w1_def)
  moreover have "returns (proxyConnect link client) w \<lparr>pr_client = Some c, pr_err = None\<rparr>
     (upd_state (\<lambda>s. s\<lparr>connWaiters := gdel (ptr w2 link) (connWaiters s)\<rparr>) w2)"
    using w2(1) assms by (simp add: proxyConnect_def returns_def api_simps w1_def ptr_def)
  moreover have "waits w (upd_state (\<lambda>s. s\<lparr>connWaiters := gdel (ptr w2 link) (connWaiters s)\<rparr>) w2)"
    using w2(2) waits1 by (simp add: waits_def)
  ultimately show ?thesis by blast
qed

subsection \<open>What connecting adds to a world\<close>

definition listened :: "world \<Rightarrow> bool" where
  "listened w \<longleftrightarrow> (\<forall>h ci. connection w h = Some ci \<longrightarrow> 0 < n_listeners (reqChan ci) (w_remotes w))"

text \<open>
  Nothing that was connected is lost, the proxy counts aside; goroutines and connections are added,
  and every connection still has a goroutine.
\<close>

definition chain_of :: "world \<Rightarrow> string \<Rightarrow> string list option" where
  "chain_of w h = map_option chain (host w h)"

definition same_setup :: "world \<Rightarrow> world \<Rightarrow> bool" where
  "same_setup w w' \<longleftrightarrow> chain_of w' = chain_of w \<and> PTR (w_state w') = PTR (w_state w) \<and>
     sshConfig (w_state w') = sshConfig (w_state w) \<and> w_config w' = w_config w \<and>
     w_choices w' = w_choices w \<and> w_sem w' = w_sem w \<and> w_wg w' = w_wg w \<and> w_next w \<le> w_next w'"

definition same_channels :: "(string, ConnInfo) gomap \<Rightarrow> (string, ConnInfo) gomap \<Rightarrow> bool" where
  "same_channels m m' \<longleftrightarrow>
     (\<forall>h ci. glook m h = Some ci \<longrightarrow> (\<exists>ci'. glook m' h = Some ci' \<and> reqChan ci' = reqChan ci))"

definition extended :: "world \<Rightarrow> world \<Rightarrow> bool" where
  "extended w w' \<longleftrightarrow> same_setup w w' \<and> (\<exists>rs. w_remotes w' = w_remotes w @ rs) \<and>
     same_channels (conn (w_state w)) (conn (w_state w')) \<and> (listened w \<longrightarrow> listened w')"

definition grown :: "world \<Rightarrow> world \<Rightarrow> bool" where
  "grown w w' \<longleftrightarrow> extended w w' \<and> targets (w_state w') = targets (w_state w)"

lemma same_channels_refl [simp]: "same_channels m m"
  by (simp add: same_channels_def)

lemma same_channels_trans: "\<lbrakk>same_channels m m1; same_channels m1 m2\<rbrakk> \<Longrightarrow> same_channels m m2"
  unfolding same_channels_def by metis

lemma same_setup_trans: "\<lbrakk>same_setup w w1; same_setup w1 w2\<rbrakk> \<Longrightarrow> same_setup w w2"
  by (simp add: same_setup_def)

lemma extended_refl [simp]: "extended w w"
  by (simp add: extended_def same_setup_def)

lemma extended_trans: "\<lbrakk>extended w w1; extended w1 w2\<rbrakk> \<Longrightarrow> extended w w2"
  unfolding extended_def using same_setup_trans same_channels_trans by (metis append_assoc)

lemma extended_setup: "extended w w' \<Longrightarrow> same_setup w w'"
  by (simp add: extended_def)

lemma extended_connected: "\<lbrakk>extended w w'; connection w h \<noteq> None\<rbrakk> \<Longrightarrow> connection w' h \<noteq> None"
  unfolding extended_def same_channels_def by blast

lemma extended_ptr: "extended w w' \<Longrightarrow> ptr w' h = ptr w h"
  by (simp add: extended_def same_setup_def ptr_def)

lemma extended_chain: "extended w w' \<Longrightarrow> chain_of w' = chain_of w"
  by (simp add: extended_def same_setup_def)

lemma grown_extended: "grown w w' \<Longrightarrow> extended w w'"
  by (simp add: grown_def)

lemma grown_refl [simp]: "grown w w"
  by (simp add: grown_def)

lemma grown_trans [trans]: "\<lbrakk>grown w w1; grown w1 w2\<rbrakk> \<Longrightarrow> grown w w2"
  unfolding grown_def using extended_trans by metis

lemmas grown_setup = extended_setup [OF grown_extended]
lemmas grown_connected = extended_connected [OF grown_extended]
lemmas grown_ptr = extended_ptr [OF grown_extended]
lemmas grown_chain = extended_chain [OF grown_extended]

text \<open>A world in which connecting can succeed.\<close>

definition fit :: "world \<Rightarrow> bool" where
  "fit w \<longleftrightarrow> good_net w \<and> listened w \<and> sshConfig (w_state w) \<noteq> None \<and>
     1 \<le> BastionConns (w_config w) \<and> (\<forall>i \<ge> w_next w. w_wg w i = 0)"

lemma extended_fit: "\<lbrakk>extended w w'; fit w\<rbrakk> \<Longrightarrow> fit w'"
  using good_net_cong [of w' w] by (auto simp: extended_def same_setup_def fit_def)

lemmas grown_fit = extended_fit [OF grown_extended]

lemma waits_grown: "waits w w' \<Longrightarrow> grown w w'"
  by (simp add: waits_def grown_def extended_def same_setup_def listened_def chain_of_def fun_eq_iff)

lemma grown_same [simp]:
  "grown w (ask q w)" "grown w (debug_log e f l s w)" "grown w (w\<lparr>w_next := Suc (w_next w)\<rparr>)" "grown w (tick w)"
  by (simp_all add: grown_def extended_def same_setup_def listened_def chain_of_def fun_eq_iff)

lemma n_listeners_append: "n_listeners c (rs @ rs') = n_listeners c rs + n_listeners c rs'"
  by (simp add: n_listeners_def)

lemma new_connection_simps [simp]:
  "ci_hostName (new_connection link c isPrx d) = link" "reqChan (new_connection link c isPrx d) = c"
  "(new_connection link c isPrx d)\<lparr>ci_hostName := link\<rparr> = new_connection link c isPrx d"
  by (simp_all add: new_connection_def zero_ConnInfo_def)

text \<open>A wait group's counter that is raised and lowered again.\<close>

lemma wg_bracket:
  assumes "grown (w\<lparr>w_wg := (w_wg w)(i := w_wg w i + 1)\<rparr>) w'"
  shows "grown w (w'\<lparr>w_wg := (w_wg w')(i := w_wg w' i - 1)\<rparr>)"
  using assms by (simp add: grown_def extended_def same_setup_def listened_def chain_of_def fun_eq_iff)

lemma wg_fit: "\<lbrakk>fit w; i < w_next w\<rbrakk> \<Longrightarrow> fit (w\<lparr>w_wg := (w_wg w)(i := n)\<rparr>)"
  using good_net_cong [of "w\<lparr>w_wg := (w_wg w)(i := n)\<rparr>" w] by (simp add: fit_def listened_def)

text \<open>A goroutine for a channel, and then its connection.\<close>

lemma add_connection_grown:
  assumes "keeps w w1" and "w_remotes w1 = w_remotes w @ [(c, r)]" and "ptr w link = link"
    and w2_def: "w2 = upd_state (add_conn (new_connection link c isPrx d)) w1"
  shows "grown w w2" and "connection w2 link \<noteq> None"
proof -
  have c: "connection w2 h = (if h = link \<and> connection w link = None
      then Some (new_connection link c isPrx d) else connection w h)" for h
    using assms(1) by (simp add: w2_def add_conn_def new_connection_def keeps_def go_map_simps)
  have "listened w \<longrightarrow> listened w2"
    using assms(2) by (simp add: listened_def c n_listeners_append) (simp add: w2_def new_connection_def n_listeners_def)
  then show "grown w w2"
    using assms(1,2) c unfolding grown_def extended_def same_channels_def same_setup_def chain_of_def
    by (simp add: w2_def keeps_def add_conn_def)
  show "connection w2 link \<noteq> None"
    by (simp add: c)
qed

subsection \<open>Dialling a host\<close>

lemma exec_dial_direct:
  assumes "\<not> mute e" and "fit w" and "ptr w link = link"
  obtains w' where "\<And>finish. exec (dial_direct e link isPrx c pw i finish) w = exec finish w'" and "grown w w'"
    and "connection w' link \<noteq> None"
proof -
  let ?w1 = "ask (XDial link) (ask XSelect w)"
  have net: "good_net w" "good_net (ask XSelect w)" "good_net ?w1"
    using assms(2) by (simp_all add: fit_def)
  obtain w2 r where w2: "exec (remoteHost e link (int i) c (c_num (now_choice (ask XSelect w))) isPrx) ?w1 = Finished w2"
      "keeps ?w1 w2" "w_remotes w2 = w_remotes ?w1 @ [(c, r)]"
    using exec_remoteHost [OF assms(1) net(3)] by blast
  let ?w3 = "upd_state (add_conn (new_connection link c isPrx True)) w2"
  have ptr: "ptr ?w1 link = link" "ptr w2 link = link"
    using assms(3) w2(2) by (simp_all add: ptr_def keeps_def)
  have "exec (dial_direct e link isPrx c pw i finish) w = exec finish ?w3" for finish
    using w2(1) net ptr(2) by (simp add: dial_direct_def directConnect_def api_simps)
  moreover have "grown ?w1 ?w3" "connection ?w3 link \<noteq> None"
    using add_connection_grown [OF w2(2,3) ptr(1) refl] by blast+
  moreover have "grown w ?w1"
    using grown_trans [of w "ask XSelect w" ?w1] by simp
  ultimately show ?thesis
    using that grown_trans by blast
qed

lemma exec_dial_all:
  assumes "\<not> mute e" and "fit w" and "ptr w link = link" and "w_wg w wg = 0" and "wg < w_next w"
    and "ks \<noteq> [] \<or> connection w link \<noteq> None"
  shows "\<exists>w'. (\<forall>p. exec (dial_all e link isPrx c pw wg ks p) w = exec p w') \<and> grown w w' \<and>
    connection w' link \<noteq> None"
  using assms(2-6)
proof (induction ks arbitrary: w)
  case Nil
  then show ?case by auto
next
  case (Cons k ks)
  let ?w1 = "w\<lparr>w_wg := (w_wg w)(wg := w_wg w wg + 1)\<rparr>"
  have "fit ?w1" "ptr ?w1 link = link"
    using Cons.prems by (simp_all add: wg_fit ptr_def)
  from exec_dial_direct [OF assms(1) this]
  obtain w2 where w2: "\<And>finish. exec (dial_direct e link isPrx c pw k finish) ?w1 = exec finish w2"
      "grown ?w1 w2" "connection w2 link \<noteq> None"
    by metis
  let ?w3 = "w2\<lparr>w_wg := (w_wg w2)(wg := w_wg w2 wg - 1)\<rparr>"
  have g: "grown w ?w3"
    using w2(2) by (rule wg_bracket)
  have "w_wg ?w3 wg = 0" "wg < w_next ?w3" "connection ?w3 link \<noteq> None"
    using grown_setup [OF g] Cons.prems w2(3) by (simp_all add: same_setup_def)
  then obtain w' where w': "\<And>p. exec (dial_all e link isPrx c pw wg ks p) ?w3 = exec p w'" "grown ?w3 w'"
      "connection w' link \<noteq> None"
    using Cons.IH [of ?w3] grown_fit [OF g Cons.prems(1)] grown_ptr [OF g] Cons.prems(2) by auto
  have "exec (dial_all e link isPrx c pw wg (k # ks) p) w = exec p w'" for p
    using w2(1) w'(1) by simp
  then show ?case
    using w'(2,3) grown_trans [OF g] by blast
qed

lemma exec_resolve_direct:
  assumes "\<not> mute e" and "fit w" and "ptr w link = link"
  shows "\<exists>w'. (\<forall>p. exec (resolve_direct e isPrx link p) w = exec p w') \<and> grown w w' \<and>
    connection w' link \<noteq> None"
proof -
  let ?w1 = "debug_log e ''resolve.go'' 66 (''resolve(): Direct connect to: '' @ link @ [newline]) w"
  have g1: "grown w ?w1" by simp
  show ?thesis
  proof (cases "connection w link")
    case None
    let ?w2 = "?w1\<lparr>w_next := Suc (Suc (w_next w))\<rparr>"
    have g2: "grown w ?w2"
      by (simp add: grown_def extended_def same_setup_def listened_def chain_of_def fun_eq_iff)
    obtain sc where "sshConfig (w_state w) = Some sc"
      using assms(2) by (auto simp: fit_def)
    then have "exec (resolve_direct e isPrx link p) w =
        exec (dial_all e link isPrx (w_next w) (Password (w_config w)) (Suc (w_next w)) [0..<nat (BastionConns (w_config w))] p) ?w2" for p
      using assms(1) None by (simp add: resolve_direct_def api_simps)
    moreover have "fit ?w2" "ptr ?w2 link = link" "w_wg ?w2 (Suc (w_next w)) = 0"
      using grown_fit [OF g2 assms(2)] grown_ptr [OF g2] assms(2,3) by (simp_all add: fit_def)
    moreover have "[0..<nat (BastionConns (w_config w))] \<noteq> []"
      using assms(2) by (simp add: fit_def)
    ultimately show ?thesis
      using exec_dial_all [OF assms(1), of ?w2 link "Suc (w_next w)" "[0..<nat (BastionConns (w_config w))]" isPrx
        "w_next w" "Password (w_config w)"] grown_trans [OF g2] by auto
  next
    case (Some ci)
    let ?w2 = "debug_log e ''resolve.go'' 68 (''resolve(): '' @ link @ '' connection already exists.'' @ [newline]) ?w1"
    have "grown ?w1 ?w2" by simp
    then have "grown w ?w2"
      by (rule grown_trans [OF g1])
    moreover have "exec (resolve_direct e isPrx link p) w = exec p ?w2" for p
      using assms(1) Some by (simp add: resolve_direct_def api_simps)
    ultimately show ?thesis
      using Some by (intro exI [of _ ?w2]) simp
  qed
qed

subsection \<open>Following a chain\<close>

lemma exec_resolve_via:
  assumes "\<not> mute e" and "fit w" and "ptr w link = link" and "connection w proxyhost \<noteq> None"
  shows "\<exists>w'. (\<forall>k p. exec (resolve_via e isPrx proxyhost link k p) w = exec p w') \<and> grown w w' \<and>
    connection w' link \<noteq> None"
proof -
  let ?w1 = "debug_log e ''resolve.go'' 35 (''resolve(): Using a proxy.'' @ [newline]) w"
  show ?thesis
  proof (cases "connection w link")
    case (Some ci)
    then show ?thesis
      using assms(1) by (intro exI [of _ ?w1]) (simp add: resolve_via_def api_simps)
  next
    case None
    obtain ci where ci: "connection w proxyhost = Some ci"
      using assms(4) by blast
    then have "0 < n_listeners (reqChan ci) (w_remotes w)"
      using assms(2) by (auto simp: fit_def listened_def)
    then obtain i where i: "find_listener (c_num (now_choice w)) (reqChan ci) (w_remotes w) = Some i"
      by (rule find_listener_Some)
    let ?w2 = "tick ?w1"
    obtain sc where "good_net ?w2" "sshConfig (w_state ?w2) = Some sc"
      using assms(2) by (auto simp: fit_def)
    from exec_proxyConnect [OF this] obtain client w3
      where w3: "returns (proxyConnect link (r_client (snd (w_remotes w ! i)))) ?w2 \<lparr>pr_client = Some client, pr_err = None\<rparr> w3"
        "waits ?w2 w3"
      by blast
    define w4 where "w4 = (upd_state (\<lambda>s. s\<lparr>conn := gput proxyhost (ci\<lparr>proxyCount := proxyCount ci + 1\<rparr>) (conn s)\<rparr>)
      w3)\<lparr>w_next := Suc (w_next w3)\<rparr>"
    have ci3: "connection w3 proxyhost = Some ci" and "waits w w3"
      using w3(2) ci by (simp_all add: waits_def)
    then have g3: "grown w w3"
      by (simp add: waits_grown)
    have g4: "grown w3 w4"
      using ci3 by (simp add: grown_def extended_def same_setup_def same_channels_def listened_def w4_def chain_of_def fun_eq_iff go_map_simps)
    note g = grown_trans [OF g3 g4]
    have fit4: "fit w4" and ptr4: "ptr w4 link = link"
      using grown_fit [OF g assms(2)] grown_ptr [OF g] assms(3) by simp_all
    then obtain w5 r where w5: "exec (remoteHost e link 0 (w_next w3) client isPrx) w4 = Finished w5"
        "keeps w4 w5" "w_remotes w5 = w_remotes w4 @ [(w_next w3, r)]"
      using exec_remoteHost [OF assms(1), of w4 link 0 "w_next w3" client isPrx] by (auto simp: fit_def)
    let ?w6 = "upd_state (add_conn (new_connection link (w_next w3) isPrx False)) w5"
    have ptr5: "ptr w5 link = link"
      using ptr4 w5(2) by (simp add: ptr_def keeps_def)
    have "exec (send_proxy (reqChan ci) link k) ?w1 = exec (k \<lparr>pr_client = Some client, pr_err = None\<rparr>) w3" for k
      using i w3(1) by (simp add: send_proxy_def returns_def)
    then have "exec (resolve_via e isPrx proxyhost link k p) w = exec p ?w6" for k p
      using assms(1) None ci ci3 ptr5 w5(1) by (simp add: resolve_via_def api_simps w4_def)
    then show ?thesis
      using add_connection_grown [OF w5(2,3) ptr4 refl] grown_trans [OF g] by blast
  qed
qed

lemma exec_resolve_links:
  assumes "\<not> mute e" and "fit w" and "\<forall>l \<in> set links. ptr w l = l"
    and "case prev of None \<Rightarrow> True | Some h \<Rightarrow> connection w h \<noteq> None"
  shows "\<exists>w'. returns (resolve_links e isPrx prev links) w None w' \<and> grown w w' \<and>
    (\<forall>l \<in> set links. connection w' l \<noteq> None)"
  using assms(2-4)
proof (induction links arbitrary: prev w)
  case Nil
  then show ?case by (intro exI [of _ w]) (simp add: returns_def)
next
  case (Cons link links)
  have ptr: "ptr w link = link"
    using Cons.prems(2) by simp
  have "\<exists>w1. (\<forall>k. exec (resolve_links e isPrx prev (link # links) k) w =
      exec (resolve_links e isPrx (Some link) links k) w1) \<and> grown w w1 \<and> connection w1 link \<noteq> None"
    using exec_resolve_direct [OF assms(1) Cons.prems(1) ptr, of isPrx] Cons.prems(3)
      exec_resolve_via [OF assms(1) Cons.prems(1) ptr, of "the prev" isPrx]
    by (cases prev) (auto simp: Let_def)
  then obtain w1 where w1: "\<And>k. exec (resolve_links e isPrx prev (link # links) k) w =
      exec (resolve_links e isPrx (Some link) links k) w1" "grown w w1" "connection w1 link \<noteq> None"
    by blast
  obtain w' where w': "returns (resolve_links e isPrx (Some link) links) w1 None w'" "grown w1 w'"
      "\<forall>l \<in> set links. connection w' l \<noteq> None"
    using Cons.IH [of w1 "Some link"] grown_fit [OF w1(2) Cons.prems(1)] grown_ptr [OF w1(2)] Cons.prems(2) w1(3)
    by auto
  have "returns (resolve_links e isPrx prev (link # links)) w None w'"
    using w1(1) w'(1) by (simp add: returns_def)
  moreover have "\<forall>l \<in> set (link # links). connection w' l \<noteq> None"
    using w'(3) grown_connected [OF w'(2) w1(3)] by simp
  ultimately show ?case
    using grown_trans [OF w1(2) w'(2)] by blast
qed

lemma exec_resolve:
  assumes "\<not> mute e" and "fit w" and "\<forall>l \<in> set links. ptr w l = l"
  shows "\<exists>w'. returns (resolve e links isPrx timeout) w None w' \<and> grown w w' \<and>
    (\<forall>l \<in> set links. connection w' l \<noteq> None)"
proof -
  let ?w1 = "debug_log e ''resolve.go'' 31 (''resolve() chain: '' @ show_list links @ '', isProxy: '' @
      show_bool isPrx @ '', timeout: '' @ itoa timeout @ [newline]) w"
  have g: "grown w ?w1" by simp
  then obtain w' where "returns (resolve_links e isPrx None links) ?w1 None w'" "grown ?w1 w'"
      "\<forall>l \<in> set links. connection w' l \<noteq> None"
    using exec_resolve_links [OF assms(1), of ?w1 links None isPrx] grown_fit [OF g assms(2)] grown_ptr [OF g] assms(3)
    by auto
  then show ?thesis
    using grown_trans [OF g] assms(1) by (auto simp: resolve_def returns_def api_simps)
qed

subsection \<open>All targets\<close>

text \<open>The chains of the targets end in the target and name hosts as they are stored.\<close>

definition plain_chain :: "world \<Rightarrow> string \<Rightarrow> string list \<Rightarrow> bool" where
  "plain_chain w h ch \<longleftrightarrow> ch \<noteq> [] \<and> last ch = h \<and> (\<forall>l \<in> set ch. CHR '' '' \<notin> set l \<and> ptr w l = l)"

definition plain_targets :: "world \<Rightarrow> bool" where
  "plain_targets w \<longleftrightarrow> (\<forall>h ch. chain_of w h = Some ch \<longrightarrow> plain_chain w h ch)"

lemma extended_plain: "extended w w' \<Longrightarrow> plain_targets w' = plain_targets w"
  using extended_ptr [of w w'] extended_chain [of w w'] by (simp add: plain_targets_def plain_chain_def)

lemmas grown_plain = extended_plain [OF grown_extended]

text \<open>The chains of proxies that were resolved, by the text they are remembered under.\<close>

definition cached :: "world \<Rightarrow> (string, int) gomap \<Rightarrow> bool" where
  "cached w m \<longleftrightarrow> (\<forall>key l. glook m key \<noteq> None \<longrightarrow> l \<in> set (split_on (CHR '' '') key) \<longrightarrow> connection w l \<noteq> None)"

definition bastions_connected :: "world \<Rightarrow> string \<Rightarrow> bool" where
  "bastions_connected w h \<longleftrightarrow>
     (\<forall>ch l. chain_of w h = Some ch \<longrightarrow> l \<in> set (butlast ch) \<longrightarrow> connection w l \<noteq> None)"

lemma grown_cached: "\<lbrakk>grown w w'; cached w m\<rbrakk> \<Longrightarrow> cached w' m"
  unfolding cached_def using grown_connected by metis

lemma grown_bastions: "\<lbrakk>grown w w'; bastions_connected w h\<rbrakk> \<Longrightarrow> bastions_connected w' h"
  unfolding bastions_connected_def using grown_connected grown_chain by metis

lemma exec_resolve_proxies:
  assumes "\<not> mute e" and "fit w" and "plain_targets w" and "\<forall>h \<in> set hs. chain_of w h \<noteq> None"
    and "cached w m"
  shows "\<exists>w'. returns (resolve_proxies e m hs) w None w' \<and> grown w w' \<and> (\<forall>h \<in> set hs. bastions_connected w' h)"
  using assms(2-5)
proof (induction hs arbitrary: w m)
  case Nil
  then show ?case by (intro exI [of _ w]) (simp add: returns_def)
next
  case (Cons h hs)
  obtain hi where hi: "host w h = Some hi"
    using Cons.prems(3) by (auto simp: chain_of_def)
  then have plain: "plain_chain w h (chain hi)"
    using Cons.prems(2) by (simp add: plain_targets_def chain_of_def)
  have step: ?case if w1: "\<And>k. exec (resolve_proxies e m (h # hs) k) w = exec (resolve_proxies e m' hs k) w1"
    "grown w w1" "cached w1 m'" "bastions_connected w1 h" for m' w1
  proof -
    obtain w' where w': "returns (resolve_proxies e m' hs) w1 None w'" "grown w1 w'" "\<forall>h \<in> set hs. bastions_connected w' h"
      using Cons.IH [of w1 m'] Cons.prems w1(3) grown_fit [OF w1(2)] grown_plain [OF w1(2)] grown_chain [OF w1(2)]
      by auto
    have "returns (resolve_proxies e m (h # hs)) w None w'"
      using w1(1) w'(1) unfolding returns_def by metis
    moreover have "\<forall>h \<in> set (h # hs). bastions_connected w' h"
      using w'(3) grown_bastions [OF w'(2) w1(4)] by simp
    ultimately show ?thesis
      using grown_trans [OF w1(2) w'(2)] by blast
  qed
  show ?case
  proof (cases "length (chain hi) = 1")
    case True
    have "exec (resolve_proxies e m (h # hs) k) w = exec (resolve_proxies e m hs k) w" for k
      using hi True by (simp add: api_simps)
    moreover have "bastions_connected w h"
      using hi True by (cases "chain hi") (auto simp: bastions_connected_def chain_of_def)
    ultimately show ?thesis
      using Cons.prems(4) by (intro step) simp_all
  next
    case False
    let ?ch = "join_with '' '' (butlast (chain hi))"
    define w1 where "w1 = debug_log e ''resolve.go'' 174 (''resolveProxies(): host: '' @ h @ '', chain: '' @
      show_list (chain hi) @ '', length: '' @ digits (length (chain hi)) @ [newline]) w"
    have g1: "grown w w1" by (simp add: w1_def)
    have ne: "chain hi \<noteq> []" "butlast (chain hi) \<noteq> []"
      using plain False by (auto simp: plain_chain_def) (metis append_butlast_last_id length_append_singleton list.size(3) One_nat_def)
    have links: "\<forall>l \<in> set (butlast (chain hi)). CHR '' '' \<notin> set l \<and> ptr w1 l = l"
      using plain by (auto simp: plain_chain_def grown_ptr [OF g1] dest: in_set_butlastD)
    then have split: "split_on (CHR '' '') ?ch = butlast (chain hi)"
      using sp.splt_joi [of "butlast (chain hi)" "CHR '' ''"] ne(2) by simp
    show ?thesis
    proof (cases "glook m ?ch")
      case (Some n)
      then have "exec (resolve_proxies e m (h # hs) k) w = exec (resolve_proxies e (gput ?ch (n + 1) m) hs k) w1" for k
        using hi False ne assms(1) by (simp add: api_simps Let_def w1_def)
      moreover have "\<forall>l \<in> set (butlast (chain hi)). connection w1 l \<noteq> None"
        using grown_cached [OF g1 Cons.prems(4)] Some split unfolding cached_def by (metis option.distinct(1))
      then have "bastions_connected w1 h"
        using hi grown_chain [OF g1] by (simp add: bastions_connected_def chain_of_def)
      moreover have "cached w1 (gput ?ch (n + 1) m)"
        using grown_cached [OF g1 Cons.prems(4)] Some by (simp add: cached_def go_map_simps) blast
      ultimately show ?thesis
        using g1 by (intro step)
    next
      case None
      obtain w2 where w2: "returns (resolve e (butlast (chain hi)) True (Timeout (w_config w1))) w1 None w2" "grown w1 w2"
          "\<forall>l \<in> set (butlast (chain hi)). connection w2 l \<noteq> None"
        using exec_resolve [OF assms(1), of w1] grown_fit [OF g1 Cons.prems(1)] links by blast
      have "exec (resolve_proxies e m (h # hs) k) w = exec (resolve_proxies e (gput ?ch 1 m) hs k) w2" for k
        using hi False ne assms(1) None w2(1) by (simp add: api_simps Let_def split returns_def) (simp add: w1_def)
      moreover have "bastions_connected w2 h"
        using w2(3) hi grown_chain [OF grown_trans [OF g1 w2(2)]] by (simp add: bastions_connected_def chain_of_def)
      moreover have "cached w2 (gput ?ch 1 m)"
        using grown_cached [OF grown_trans [OF g1 w2(2)] Cons.prems(4)] w2(3) split
        by (simp add: cached_def go_map_simps)
      ultimately show ?thesis
        using grown_trans [OF g1 w2(2)] by (intro step)
    qed
  qed
qed

text \<open>The goroutine of one target, which holds a slot of the limiter and of the wait group.\<close>

definition take_slot :: "nat \<Rightarrow> nat \<Rightarrow> world \<Rightarrow> world" where
  "take_slot wg lim w = w\<lparr>w_wg := (w_wg w)(wg := w_wg w wg + 1),
     w_sem := (w_sem w)(lim := (fst (w_sem w lim), snd (w_sem w lim) + 1))\<rparr>"

definition free_slot :: "nat \<Rightarrow> nat \<Rightarrow> world \<Rightarrow> world" where
  "free_slot wg lim w = w\<lparr>w_wg := (w_wg w)(wg := w_wg w wg - 1),
     w_sem := (w_sem w)(lim := (fst (w_sem w lim), snd (w_sem w lim) - 1))\<rparr>"

lemma slot_bracket: "extended (take_slot wg lim w) w' \<Longrightarrow> extended w (free_slot wg lim w')"
  by (simp add: extended_def same_setup_def listened_def take_slot_def free_slot_def chain_of_def fun_eq_iff)

lemma take_slot_fit: "\<lbrakk>fit w; wg < w_next w\<rbrakk> \<Longrightarrow> fit (take_slot wg lim w)"
  using good_net_cong [of "take_slot wg lim w" w] by (simp add: fit_def listened_def take_slot_def)

lemma set_status_extended: "extended w (upd_state (\<lambda>s. s\<lparr>targets :=
    gmod h (\<lambda>hi. hi\<lparr>connectedOK := ok, connectTime := t, lastError := err\<rparr>) (targets s)\<rparr>) w)"
  by (auto simp: extended_def same_setup_def listened_def chain_of_def fun_eq_iff go_map_simps option.map_comp comp_def)

definition settled :: "world \<Rightarrow> world \<Rightarrow> bool" where
  "settled w w' \<longleftrightarrow> (\<forall>g. connection w g \<noteq> None \<longrightarrow> host w' g = host w g)"

lemma grown_settled: "grown w w' \<Longrightarrow> settled w w'"
  by (simp add: grown_def settled_def)

lemma settled_trans: "\<lbrakk>settled w w1; extended w w1; settled w1 w2\<rbrakk> \<Longrightarrow> settled w w2"
  unfolding settled_def using extended_connected by metis

lemma exec_connect_host:
  assumes "\<not> mute e" and "fit w" and "plain_targets w" and "chain_of w h = Some ch" and "\<not> Execute (w_config w)"
    and "connection w h = None"
  shows "\<exists>w'. (\<forall>finish. exec (connect_host e h timeout finish) w = exec finish w') \<and> extended w w' \<and>
    settled w w' \<and> connection w' h \<noteq> None"
proof -
  obtain hi where hi: "host w h = Some hi" "chain hi = ch"
    using assms(4) by (auto simp: chain_of_def)
  have plain: "plain_chain w h ch"
    using assms(3,4) by (simp add: plain_targets_def)
  have g1: "grown w (ask XNow w)" by simp
  moreover have "\<forall>l \<in> set ch. ptr (ask XNow w) l = l"
    using plain grown_ptr [OF g1] by (auto simp: plain_chain_def)
  ultimately obtain w2 where w2: "returns (resolve e ch False timeout) (ask XNow w) None w2"
      "grown (ask XNow w) w2" "\<forall>l \<in> set ch. connection w2 l \<noteq> None"
    using exec_resolve [OF assms(1)] grown_fit [OF g1 assms(2)] by blast
  let ?w3 = "upd_state (\<lambda>s. s\<lparr>targets := gmod h (\<lambda>hi. hi\<lparr>connectedOK := True,
      connectTime := since (c_time (now_choice w2)) (c_time (now_choice w)), lastError := None\<rparr>) (targets s)\<rparr>) (ask XNow w2)"
  have g2: "grown w w2"
    using g1 w2(2) by (rule grown_trans)
  have cfg: "w_config w2 = w_config w"
    using grown_setup [OF g2] by (simp add: same_setup_def)
  have "exec (connect_host e h timeout finish) w = exec finish ?w3" for finish
    using hi w2(1) assms(5) cfg by (simp add: connect_host_def api_simps returns_def cong: if_cong)
  moreover have "extended (ask XNow w2) ?w3" "extended w2 (ask XNow w2)"
    by (rule set_status_extended) (simp add: grown_extended)
  then have "extended w ?w3"
    using extended_trans grown_extended [OF g2] by blast
  moreover have "settled w ?w3"
    using grown_settled [OF g2] assms(6) by (auto simp: settled_def go_map_simps)
  moreover have "connection ?w3 h \<noteq> None"
    using w2(3) plain by (auto simp: plain_chain_def)
  ultimately show ?thesis by blast
qed

lemma exec_connect_hosts:
  assumes "\<not> mute e" and "fit w" and "plain_targets w" and "\<not> Execute (w_config w)"
    and "\<forall>h \<in> set hs. chain_of w h \<noteq> None" and "wg < w_next w"
    and "0 \<le> snd (w_sem w lim) \<and> snd (w_sem w lim) < fst (w_sem w lim)"
  shows "\<exists>w'. (\<forall>p. exec (connect_hosts e timeout wg lim hs p) w = exec p w') \<and> extended w w' \<and> settled w w' \<and>
    (\<forall>h \<in> set hs. connection w' h \<noteq> None)"
  using assms(2-7)
proof (induction hs arbitrary: w)
  case Nil
  then show ?case by (intro exI [of _ w]) (simp add: settled_def)
next
  case (Cons h hs)
  have step: ?case if w1: "\<And>p. exec (connect_hosts e timeout wg lim (h # hs) p) w = exec (connect_hosts e timeout wg lim hs p) w1"
    "extended w w1" "settled w w1" "connection w1 h \<noteq> None" for w1
  proof -
    obtain w' where w': "\<forall>p. exec (connect_hosts e timeout wg lim hs p) w1 = exec p w'" "extended w1 w'" "settled w1 w'"
      "\<forall>h \<in> set hs. connection w' h \<noteq> None"
      using Cons.IH [of w1] Cons.prems extended_fit [OF w1(2)] extended_plain [OF w1(2)] extended_chain [OF w1(2)]
        extended_setup [OF w1(2)] by (auto simp: same_setup_def)
    have "\<forall>p. exec (connect_hosts e timeout wg lim (h # hs) p) w = exec p w'"
      using w1(1) w'(1) by simp
    moreover have "\<forall>h \<in> set (h # hs). connection w' h \<noteq> None"
      using w'(4) extended_connected [OF w'(2) w1(4)] by simp
    ultimately show ?thesis
      using extended_trans [OF w1(2) w'(2)] settled_trans [OF w1(3,2) w'(3)] by blast
  qed
  show ?case
  proof (cases "connection w h")
    case (Some ci)
    let ?w1 = "debug_log e ''connect.go'' 32 (''Already connected to: '' @ h @ [newline]) w"
    have run: "exec (connect_hosts e timeout wg lim (h # hs) p) w = exec (connect_hosts e timeout wg lim hs p) ?w1" for p
      using Some assms(1) by (simp add: api_simps)
    have "extended w ?w1" "settled w ?w1" "connection ?w1 h \<noteq> None"
      using Some by (simp_all add: grown_extended settled_def)
    then show ?thesis
      by (rule step [OF run])
  next
    case None
    let ?w1 = "take_slot wg lim w"
    obtain ch where ch: "chain_of w h = Some ch"
      using Cons.prems(4) by auto
    obtain w2 where w2: "\<And>finish. exec (connect_host e h timeout finish) ?w1 = exec finish w2" "extended ?w1 w2"
        "settled ?w1 w2" "connection w2 h \<noteq> None"
      using exec_connect_host [OF assms(1), of ?w1 h ch timeout] take_slot_fit [OF Cons.prems(1,5)] Cons.prems(2,3) ch None
      by (auto simp: take_slot_def plain_targets_def plain_chain_def chain_of_def ptr_def)
    let ?w3 = "free_slot wg lim w2"
    have e3: "extended w ?w3"
      using w2(2) by (rule slot_bracket)
    have "w_sem w2 = w_sem ?w1"
      using extended_setup [OF w2(2)] by (simp add: same_setup_def)
    then have run: "exec (connect_hosts e timeout wg lim (h # hs) p) w = exec (connect_hosts e timeout wg lim hs p) ?w3" for p
      using None Cons.prems(6) w2(1) by (simp add: api_simps take_slot_def free_slot_def host_done_def split_beta)
    have "settled w ?w3" "connection ?w3 h \<noteq> None"
      using w2(3,4) by (simp_all add: settled_def take_slot_def free_slot_def)
    then show ?thesis
      by (rule step [OF run e3])
  qed
qed

definition bastion_of_target :: "world \<Rightarrow> string \<Rightarrow> bool" where
  "bastion_of_target w b \<longleftrightarrow> (\<exists>h hi. host w h = Some hi \<and> b \<in> set (butlast (chain hi)))"

lemma exec_connectEverywhere:
  assumes "\<not> mute e" and "fit w" and "plain_targets w" and "\<not> Execute (w_config w)"
    and "Agent (w_config w) \<or> 1 \<le> Concurrency (w_config w)"
  shows "\<exists>w'. returns (connectEverywhere e timeout) w (max 1 (int (length (targets (w_state w))))) w' \<and>
    listened w' \<and> (\<forall>h. host w h \<noteq> None \<longrightarrow> connection w' h \<noteq> None) \<and>
    same_channels (conn (w_state w)) (conn (w_state w')) \<and>
    (\<forall>b. bastion_of_target w b \<longrightarrow> host w' b = host w b)"
proof -
  define wg where "wg = w_next w"
  define w1 where "w1 = debug_log e ''resolve.go'' 161 (''Inside resolveProxies()'' @ [newline])
    (debug_log e ''connect.go'' 18 (''Connecting everywhere.'' @ [newline]) (w\<lparr>w_next := Suc wg\<rparr>))"
  define hk where "hk = grange (c_nums (now_choice w1)) (targets (w_state w))"
  have g1: "grown w (tick w1)"
    by (simp add: w1_def wg_def grown_def extended_def same_setup_def listened_def chain_of_def fun_eq_iff)
  have hosts: "h \<in> set hk \<longleftrightarrow> chain_of w h \<noteq> None" for h
    by (simp add: hk_def grange_def go_map_simps chain_of_def)
  obtain w2 where w2: "returns (resolve_proxies e [] hk) (tick w1) None w2" "grown (tick w1) w2"
      "\<forall>h \<in> set hk. bastions_connected w2 h"
    using exec_resolve_proxies [OF assms(1) grown_fit [OF g1 assms(2)], of hk "[]"] assms(3) grown_plain [OF g1]
      grown_chain [OF g1] hosts by (auto simp: cached_def go_map_simps)
  have g2: "grown w w2"
    using g1 w2(2) by (rule grown_trans)
  define cap where "cap = (if Agent (w_config w) then 128 else Concurrency (w_config w))"
  define lim where "lim = w_next w2"
  define w3 where "w3 = w2\<lparr>w_next := Suc lim, w_sem := (w_sem w2)(lim := (cap, 0))\<rparr>"
  define hk2 where "hk2 = grange (c_nums (now_choice w3)) (targets (w_state w))"
  have hosts2: "set hk2 = set hk" "length hk2 = length (targets (w_state w))"
    by (simp_all add: hk_def hk2_def grange_def gkeys_def)
  have su2: "same_setup w w2" and tg: "targets (w_state w2) = targets (w_state w)"
    using g2 grown_setup by (auto simp: grown_def)
  have su12: "same_setup (tick w1) w2"
    using grown_setup [OF w2(2)] .
  have wg_lt: "wg < w_next w2"
    using su12 by (simp add: same_setup_def w1_def)
  have fit3: "fit (tick w3)"
    using grown_fit [OF g2 assms(2)] good_net_cong [of "tick w3" w2] by (simp add: fit_def w3_def lim_def listened_def)
  have plain3: "plain_targets (tick w3)"
    using grown_plain [OF g2] assms(3)
    by (simp add: plain_targets_def plain_chain_def w3_def chain_of_def ptr_def)
  have cap3: "w_sem (tick w3) lim = (cap, 0)" and cap: "0 < cap"
    using assms(5) by (auto simp: w3_def cap_def)
  have "\<forall>h \<in> set hk2. chain_of (tick w3) h \<noteq> None"
    using hosts hosts2(1) by (simp add: chain_of_def w3_def tg)
  then obtain w4 where w4: "\<And>p. exec (connect_hosts e timeout wg lim hk2 p) (tick w3) = exec p w4" "extended (tick w3) w4"
      "settled (tick w3) w4" "\<forall>h \<in> set hk2. connection w4 h \<noteq> None"
    using exec_connect_hosts [OF assms(1) fit3 plain3, of hk2 wg lim timeout] su2 wg_lt assms(4) cap3 cap
    by (auto simp: same_setup_def w3_def lim_def)
  have "w_wg w4 = w_wg w"
    using extended_setup [OF w4(2)] su2 by (simp add: same_setup_def w3_def)
  then have wg0: "w_wg w4 wg = 0"
    using assms(2) by (simp add: fit_def wg_def)
  have "exec (connectEverywhere e timeout k) w = exec (k (max 1 (int (length (targets (w_state w)))))) w4" for k
  proof -
    have "exec (connectEverywhere e timeout k) w = exec (connect_hosts e timeout wg lim hk2
        (WgWait wg (k (max 1 (int (length hk2)))))) (tick w3)"
      using assms(1,5) w2(1) su2 tg
      by (auto simp: connectEverywhere_def resolveProxies_def api_simps returns_def hk_def w1_def wg_def
          lim_def w3_def hk2_def cap_def same_setup_def)
    then show ?thesis
      using w4(1) wg0 hosts2(2) by simp
  qed
  moreover have "listened w4"
    using fit3 w4(2) by (simp add: fit_def extended_def)
  moreover have "\<forall>h. host w h \<noteq> None \<longrightarrow> connection w4 h \<noteq> None"
    using w4(4) hosts hosts2(1) by (simp add: chain_of_def)
  moreover have "same_channels (conn (w_state w)) (conn (w_state w4))"
    using g2 w4(2) same_channels_trans by (simp add: grown_def extended_def w3_def) blast
  moreover have "\<forall>b. bastion_of_target w b \<longrightarrow> host w4 b = host w b"
  proof (intro allI impI)
    fix b
    assume "bastion_of_target w b"
    then obtain h ch where "chain_of w h = Some ch" "b \<in> set (butlast ch)"
      by (auto simp: bastion_of_target_def chain_of_def)
    then have "connection w2 b \<noteq> None"
      using w2(3) hosts grown_chain [OF g2] by (auto simp: bastions_connected_def)
    then show "host w4 b = host w b"
      using w4(3) tg by (simp add: settled_def w3_def)
  qed
  ultimately show ?thesis
    unfolding returns_def by blast
qed



text \<open>The world of the witnesses: host \<open>b\<close>, and host \<open>a\<close> behind it.\<close>

definition two_targets :: world where
  "two_targets = upd_state (\<lambda>s. s\<lparr>targets := [(''b'', zero_HostInfo\<lparr>hi_hostName := ''b'', chain := [''b'']\<rparr>),
      (''a'', zero_HostInfo\<lparr>hi_hostName := ''a'', chain := [''b'', ''a'']\<rparr>)],
     sshConfig := Some \<lparr>cc_User = ''me'', cc_Auth = [], cc_insecureHostKey = True\<rparr>\<rparr>) (scripted (\<lambda>_. zero_choice))"

lemma two_targets_fit: "fit two_targets" "plain_targets two_targets" "\<not> Execute (w_config two_targets)"
  "Agent (w_config two_targets) \<or> 1 \<le> Concurrency (w_config two_targets)"
  by (auto simp: two_targets_def fit_def good_net_def listened_def NewState_def DefaultConfig_def BastionConnects_def
      DefaultConcurrency_def zero_choice_def plain_targets_def plain_chain_def chain_of_def ptr_def glook_def
      zero_HostInfo_def split: if_splits)



end
