(* ===== verification/CommandProofs.thy ===== *)
theory CommandProofs
  imports Commands Reach
begin

section \<open>What the commands do\<close>

text \<open>
  The theorems about the commands and the interpreter of the CLI: one section per command, each from
  the lemmas of the components the command calls.
\<close>

subsection \<open>clean\<close>

definition was_connected :: "world \<Rightarrow> string \<Rightarrow> bool" where
  "was_connected w h \<longleftrightarrow> (\<exists>hi. host w h = Some hi \<and> connectedOK hi)"

definition is_failed :: "world \<Rightarrow> string \<Rightarrow> bool" where
  "is_failed w h \<longleftrightarrow> (\<exists>hi. host w h = Some hi \<and> failed_target hi)"

text \<open>The world after some hosts were removed, and what removing relies on.\<close>

definition removed :: "(string \<Rightarrow> bool) \<Rightarrow> world \<Rightarrow> world \<Rightarrow> bool" where
  "removed D w w' \<longleftrightarrow> (\<forall>g. host w' g = (if D g then None else host w g)) \<and>
     (\<forall>g. connection w' g = (if D g \<and> was_connected w g then None else connection w g)) \<and>
     w_wg w' = w_wg w \<and> w_next w' = w_next w"

definition clean_ready :: "world \<Rightarrow> bool" where
  "clean_ready w \<longleftrightarrow> ready_to_disconnect w \<and> 1 \<le> BastionConns (w_config w)"

lemma clean_ready_iff:
  "clean_ready w \<longleftrightarrow> gwf (conn (w_state w)) \<and> own_channels w \<and> all_safe w \<and> 1 \<le> BastionConns (w_config w) \<and>
     (\<forall>h ci. connection w h = Some ci \<longrightarrow> n_listeners (reqChan ci) (w_remotes w) = n_remotes (w_config w) ci)"
  by (auto simp: clean_ready_def ready_to_disconnect_def)

text \<open>It depends on no more than the connections, their goroutines and the configuration.\<close>

lemma clean_ready_cong:
  assumes "conn (w_state w') = conn (w_state w)" and "w_remotes w' = w_remotes w"
    and "BastionConns (w_config w') = BastionConns (w_config w)"
  shows "clean_ready w' = clean_ready w"
  using assms by (simp add: clean_ready_iff own_channels_def all_safe_def n_remotes_def)

lemma removed_none: "removed (\<lambda>_. False) w w"
  by (simp add: removed_def)

lemma removed_trans:
  assumes "removed D w w1" and "removed D1 w1 w2"
  shows "removed (\<lambda>g. D g \<or> D1 g) w w2"
proof -
  have "was_connected w1 g \<longleftrightarrow> \<not> D g \<and> was_connected w g" for g
    using assms(1) by (simp add: was_connected_def removed_def)
  then show ?thesis
    using assms by (auto simp: removed_def)
qed

text \<open>Disconnecting a host ends one goroutine of its own channel.\<close>

lemma exec_disconnectHost:
  assumes "\<not> mute e" and "clean_ready w" and "connection w h = Some ci"
  shows "\<exists>w'. (\<forall>k. exec (disconnectHost e h k) w = exec (k None) w') \<and> clean_ready w' \<and>
    targets (w_state w') = targets (w_state w) \<and> connection w' = (connection w)(h := None) \<and> w_wg w' = w_wg w \<and>
    w_next w' = w_next w"
proof -
  have n: "1 \<le> n_listeners (reqChan ci) (w_remotes w)"
    using assms(2,3) by (auto simp: clean_ready_iff n_remotes_def)
  obtain w1 where run: "\<And>p. exec (clean_times e (reqChan ci) 1 p) w = exec p w1" and k: "keeps w w1"
    and sub: "set (w_remotes w1) \<subseteq> set (w_remotes w)"
    and fewer: "\<And>d. n_listeners d (w_remotes w1) = n_listeners d (w_remotes w) - (if d = reqChan ci then 1 else 0)"
    using exec_clean_times [OF assms(1) n] assms(2) unfolding clean_ready_iff all_safe_def by blast
  let ?w' = "upd_state (\<lambda>s. s\<lparr>conn := gdel h (conn s)\<rparr>) w1"
  have step: "exec (disconnectHost e h k) w = exec (k None) ?w'" for k
  proof -
    have "exec (send_cleanup e (reqChan ci) (\<lambda>_. DeleteConnInfo h (k None))) w = exec (DeleteConnInfo h (k None)) w1"
      using run [of "DeleteConnInfo h (k None)"] by simp
    then show ?thesis
      using assms(3) by (simp add: disconnectHost_def api_simps)
  qed
  have c: "connection ?w' = (connection w)(h := None)" and t: "targets (w_state ?w') = targets (w_state w)"
    and wg: "w_wg ?w' = w_wg w" "w_next ?w' = w_next w"
    using k by (simp_all add: keeps_def go_map_simps fun_eq_iff)
  have cfg: "w_config ?w' = w_config w"
    using k by (simp add: keeps_def)
  have "all_safe ?w'"
    using assms(2) sub by (auto simp: clean_ready_iff all_safe_def)
  moreover have "gwf (conn (w_state ?w'))"
    using assms(2) k by (simp add: clean_ready_iff keeps_def gwf_gdel)
  moreover have "own_channels ?w'"
    using assms(2) unfolding clean_ready_iff own_channels_def c by (auto split: if_splits)
  moreover have "\<forall>h ci. connection ?w' h = Some ci \<longrightarrow> n_listeners (reqChan ci) (w_remotes ?w') = n_remotes (w_config w) ci"
    unfolding c
  proof (intro allI impI)
    fix g cj
    assume "((connection w)(h := None)) g = Some cj"
    then have g: "g \<noteq> h" "connection w g = Some cj"
      by (auto split: if_splits)
    then have "reqChan cj \<noteq> reqChan ci"
      using assms(2,3) unfolding clean_ready_iff own_channels_def by blast
    then show "n_listeners (reqChan cj) (w_remotes ?w') = n_remotes (w_config w) cj"
      using assms(2) g fewer by (simp add: clean_ready_iff)
  qed
  moreover have "1 \<le> BastionConns (w_config ?w')"
    using assms(2) cfg by (simp add: clean_ready_iff)
  ultimately have "clean_ready ?w'"
    unfolding clean_ready_iff cfg by blast
  then show ?thesis
    using step c t wg by blast
qed

lemma exec_clean_host:
  assumes "\<not> mute e" and "clean_ready w" and "host w h = Some hi"
  shows "\<exists>w'. (\<forall>p. exec (clean_host e h hi p) w = exec p w') \<and> clean_ready w' \<and> removed (\<lambda>g. g = h) w w'"
proof (cases "connectedOK hi")
  case False
  let ?w' = "upd_state (\<lambda>s. s\<lparr>targets := gdel h (targets s)\<rparr>) w"
  have "exec (clean_host e h hi p) w = exec p ?w'" for p
    using False by (simp add: clean_host_def api_simps)
  moreover have "clean_ready ?w'" "removed (\<lambda>g. g = h) w ?w'"
    using assms(2,3) False by (simp_all add: clean_ready_iff all_safe_def own_channels_def removed_def
        was_connected_def go_map_simps)
  ultimately show ?thesis by blast
next
  case True
  have "\<exists>w1. (\<forall>p. exec (disconnectHost e h (\<lambda>err. warn e ''commands.go'' 250 ''disconnectHost(): '' err p)) w = exec p w1) \<and>
      clean_ready w1 \<and> targets (w_state w1) = targets (w_state w) \<and> connection w1 = (connection w)(h := None) \<and>
      w_wg w1 = w_wg w \<and> w_next w1 = w_next w"
  proof (cases "connection w h")
    case None
    let ?w1 = "warn_log e ''commands.go'' 250 ''disconnectHost(): '' (Some (no_conn_error h)) w"
    show ?thesis
      using None assms(1,2)
      by (intro exI [of _ ?w1]) (auto simp: disconnectHost_def api_simps clean_ready_iff all_safe_def
          own_channels_def)
  next
    case (Some ci)
    obtain w1 where "\<forall>k. exec (disconnectHost e h k) w = exec (k None) w1" "clean_ready w1"
      "targets (w_state w1) = targets (w_state w)" "connection w1 = (connection w)(h := None)" "w_wg w1 = w_wg w" "w_next w1 = w_next w"
      using exec_disconnectHost [OF assms(1,2) Some] by blast
    then show ?thesis
      by (intro exI [of _ w1]) (simp add: warn_def fun_eq_iff)
  qed
  then obtain w1 where w1: "\<And>p. exec (disconnectHost e h (\<lambda>err. warn e ''commands.go'' 250 ''disconnectHost(): '' err p)) w = exec p w1"
      "clean_ready w1" "targets (w_state w1) = targets (w_state w)" "connection w1 = (connection w)(h := None)"
      "w_wg w1 = w_wg w" "w_next w1 = w_next w"
    by blast
  let ?w' = "upd_state (\<lambda>s. s\<lparr>targets := gdel h (targets s)\<rparr>) w1"
  have "exec (clean_host e h hi p) w = exec p ?w'" for p
    using True w1(1) by (simp add: clean_host_def api_simps)
  moreover have "clean_ready ?w'"
    using w1(2) by (simp add: clean_ready_iff all_safe_def own_channels_def)
  moreover have "removed (\<lambda>g. g = h) w ?w'"
    using w1(3-6) assms(3) True by (simp add: removed_def was_connected_def go_map_simps)
  ultimately show ?thesis by blast
qed

lemma exec_clean_hosts:
  assumes "\<not> mute e" and "clean_ready w"
  shows "\<exists>w' n. (\<forall>k. exec (clean_hosts e wg hs i k) w = exec (k n) w') \<and> clean_ready w' \<and>
    removed (\<lambda>g. g \<in> set hs \<and> is_failed w g) w w'"
  using assms(2)
proof (induction hs arbitrary: w i)
  case Nil
  then show ?case
    using removed_none by (intro exI [of _ w] exI [of _ i]) simp
next
  case (Cons h hs)
  have step: ?case if run: "\<And>k. exec (clean_hosts e wg (h # hs) i k) w = exec (clean_hosts e wg hs j k) w1"
    and w1: "clean_ready w1" "removed (\<lambda>g. g = h \<and> is_failed w g) w w1" for j w1
  proof -
    obtain w' n where w': "\<And>k. exec (clean_hosts e wg hs j k) w1 = exec (k n) w'" "clean_ready w'"
        "removed (\<lambda>g. g \<in> set hs \<and> is_failed w1 g) w1 w'"
      using Cons.IH [OF w1(1)] by blast
    have "is_failed w1 g \<longleftrightarrow> is_failed w g \<and> g \<noteq> h" for g
      using w1(2) by (auto simp: is_failed_def removed_def)
    then have "(\<lambda>g. (g = h \<and> is_failed w g) \<or> (g \<in> set hs \<and> is_failed w1 g)) =
        (\<lambda>g. g \<in> set (h # hs) \<and> is_failed w g)"
      by auto
    then have "removed (\<lambda>g. g \<in> set (h # hs) \<and> is_failed w g) w w'"
      using removed_trans [OF w1(2) w'(3)] by simp
    then show ?thesis
      using run w'(1,2) by (intro exI [of _ w'] exI [of _ n] conjI allI) simp_all
  qed
  show ?case
  proof (cases "host w h")
    case None
    let ?w1 = "warn_log e ''commands.go'' 239 ''GetHostInfo(): '' (Some (no_host_error h)) w"
    have "\<And>k. exec (clean_hosts e wg (h # hs) i k) w = exec (clean_hosts e wg hs i k) ?w1"
      using None assms(1) by (simp add: api_simps)
    moreover have "clean_ready ?w1" "removed (\<lambda>g. g = h \<and> is_failed w g) w ?w1"
      using Cons.prems None by (auto simp: clean_ready_iff all_safe_def own_channels_def removed_def is_failed_def)
    ultimately show ?thesis by (rule step)
  next
    case (Some hi)
    show ?thesis
    proof (cases "failed_target hi")
      case False
      have "\<And>k. exec (clean_hosts e wg (h # hs) i k) w = exec (clean_hosts e wg hs i k) w"
        using Some False by (simp add: api_simps)
      moreover have "removed (\<lambda>g. g = h \<and> is_failed w g) w w"
        using Some False by (auto simp: removed_def is_failed_def)
      ultimately show ?thesis
        using Cons.prems by (intro step)
    next
      case True
      let ?w0 = "w\<lparr>w_wg := (w_wg w)(wg := w_wg w wg + 1)\<rparr>"
      have "clean_ready ?w0" "host ?w0 h = Some hi"
        using Cons.prems Some by (simp_all add: clean_ready_iff all_safe_def own_channels_def)
      from exec_clean_host [OF assms(1) this] obtain w1 where
        w1: "\<And>p. exec (clean_host e h hi p) ?w0 = exec p w1" "clean_ready w1" "removed (\<lambda>g. g = h) ?w0 w1"
        by blast
      let ?w2 = "w1\<lparr>w_wg := (w_wg w1)(wg := w_wg w1 wg - 1)\<rparr>"
      have "\<And>k. exec (clean_hosts e wg (h # hs) i k) w = exec (clean_hosts e wg hs (Suc i) k) ?w2"
        using Some True w1(1) by (simp add: api_simps)
      moreover have "clean_ready ?w2"
        using w1(2) by (simp add: clean_ready_iff all_safe_def own_channels_def)
      moreover have "removed (\<lambda>g. g = h \<and> is_failed w g) w ?w2"
        using w1(3) Some True by (auto simp: removed_def is_failed_def was_connected_def)
      ultimately show ?thesis by (rule step)
    qed
  qed
qed

lemma exec_clean:
  assumes "\<not> mute e" and "clean_ready w" and "w_wg w (w_next w) = 0"
  shows "\<exists>w'. (\<forall>k. exec (clean e args k) w = exec (k None) w') \<and> clean_ready w' \<and>
    w_wg w' = w_wg w \<and> w_next w \<le> w_next w' \<and>
    (\<forall>h. host w' h = (case host w h of None \<Rightarrow> None
       | Some hi \<Rightarrow> if connectedOK hi \<and> (runOK hi \<or> \<not> runOnce hi) then Some hi else None)) \<and>
    (\<forall>h. connection w' h = (case host w h of None \<Rightarrow> connection w h
       | Some hi \<Rightarrow> if connectedOK hi \<and> \<not> runOK hi \<and> runOnce hi then None else connection w h))"
proof -
  let ?hk = "grange (c_nums (now_choice w)) (targets (w_state w))"
  let ?w1 = "ask XNow ((tick w)\<lparr>w_next := Suc (w_next w)\<rparr>)"
  have "clean_ready ?w1"
    using assms(2) by (simp add: clean_ready_iff all_safe_def own_channels_def)
  from exec_clean_hosts [OF assms(1) this] obtain w2 n where
    w2: "\<And>k. exec (clean_hosts e (w_next w) ?hk 0 k) ?w1 = exec (k n) w2"
    and ready: "clean_ready w2" and rem: "removed (\<lambda>g. g \<in> set ?hk \<and> is_failed ?w1 g) ?w1 w2"
    by blast
  let ?w3 = "put_log (o_stdOut e) (munge e (''Cleaned out '' @ digits n @ '' targets in '' @
    elapsed_text (now_choice w2) (now_choice ((tick w)\<lparr>w_next := Suc (w_next w)\<rparr>)) @ ''s.'' @ [newline])) (ask XNow w2)"
  have "w_wg w2 = w_wg w"
    using rem by (simp add: removed_def)
  then have "exec (clean e args k) w = exec (k None) ?w3" for k
    using w2 assms(1,3) by (simp add: clean_def api_simps)
  moreover have "g \<in> set ?hk \<and> is_failed ?w1 g \<longleftrightarrow> is_failed w g" for g
    by (auto simp: is_failed_def grange_def go_map_simps)
  then have "\<forall>g. host ?w3 g = (if is_failed w g then None else host w g)"
    "\<forall>g. connection ?w3 g = (if is_failed w g \<and> was_connected w g then None else connection w g)"
    "w_wg ?w3 = w_wg w" "w_next w \<le> w_next ?w3"
    using rem by (auto simp: removed_def was_connected_def)
  moreover have "clean_ready ?w3"
    using ready clean_ready_cong [of ?w3 w2] by simp
  ultimately show ?thesis
    by (intro exI [of _ ?w3]) (auto simp: removed_def is_failed_def was_connected_def failed_target_def split: option.split)
qed

text \<open>
  C6. \<open>clean\<close> keeps exactly the good targets: afterwards a host is a target if it was one, is
  connected, and has not failed its last command; every other target is gone, and its connection
  with it if it was connected. All other entries and connections are unchanged, and the command
  returns without an error. (Connections have their own channels with a goroutine whose cleanup does
  not panic, and the run is the schedule of \<open>exec\<close>.)
\<close>

theorem clean_keeps_good_targets:
  assumes "\<not> mute e" and "clean_ready w" and "w_wg w (w_next w) = 0"
  shows "\<exists>w'. (\<forall>k. exec (clean e args k) w = exec (k None) w') \<and>
    (\<forall>h. host w' h = (case host w h of None \<Rightarrow> None
       | Some hi \<Rightarrow> if connectedOK hi \<and> (runOK hi \<or> \<not> runOnce hi) then Some hi else None)) \<and>
    (\<forall>h. connection w' h = (case host w h of None \<Rightarrow> connection w h
       | Some hi \<Rightarrow> if connectedOK hi \<and> \<not> runOK hi \<and> runOnce hi then None else connection w h))"
  using exec_clean [OF assms] by blast

text \<open>The sample target after a command that failed, with its connection and the one of its proxy.\<close>

theorem clean_keeps_good_targets_witness:
  "\<exists>w'. exec (clean quiet [] (\<lambda>_. Halt)) (upd_state (\<lambda>s. s\<lparr>targets :=
       [(''a'', sample_target\<lparr>runOnce := True\<rparr>), (''p'', sample_target)]\<rparr>) two_connections) = Finished w' \<and>
     host w' ''a'' = None \<and> connection w' ''a'' = None \<and> host w' ''p'' = Some sample_target \<and>
     connection w' ''p'' \<noteq> None"
proof -
  let ?w = "upd_state (\<lambda>s. s\<lparr>targets := [(''a'', sample_target\<lparr>runOnce := True\<rparr>), (''p'', sample_target)]\<rparr>) two_connections"
  have conns: "connection ?w = connection two_connections"
    by (rule ext) simp
  have ready: "clean_ready ?w"
    using ready_two clean_ready_cong [of ?w two_connections]
    by (simp add: clean_ready_def two_connections_def DefaultConfig_def BastionConnects_def)
  have wg: "w_wg ?w (w_next ?w) = 0" and hosts: "host ?w ''a'' = Some (sample_target\<lparr>runOnce := True\<rparr>)" "host ?w ''p'' = Some sample_target"
    by (simp_all add: two_connections_def glook_def)
  from clean_keeps_good_targets [OF not_mute_quiet ready wg, of "[]"] obtain w' where
    "\<And>k. exec (clean quiet [] k) ?w = exec (k None) w'"
    and h: "\<And>h. host w' h = (case host ?w h of None \<Rightarrow> None
       | Some hi \<Rightarrow> if connectedOK hi \<and> (runOK hi \<or> \<not> runOnce hi) then Some hi else None)"
    and c: "\<And>h. connection w' h = (case host ?w h of None \<Rightarrow> connection ?w h
       | Some hi \<Rightarrow> if connectedOK hi \<and> \<not> runOK hi \<and> runOnce hi then None else connection ?w h)"
    by blast
  moreover have "connectedOK sample_target" "\<not> runOK sample_target" "\<not> runOnce sample_target"
    by (simp_all add: sample_target_def zero_HostInfo_def)
  moreover have "connection ?w ''p'' \<noteq> None"
    unfolding conns connection_two by simp
  ultimately show ?thesis
    using hosts by (intro exI [of _ w']) simp
qed

subsection \<open>run\<close>

text \<open>
  Without a running proxy, one host whose command prints \<open>out\<close>; \<open>quietly\<close> says whether the flag \<open>-q\<close>
  was given.
\<close>

definition run_flags :: "bool \<Rightarrow> string \<Rightarrow> parsed" where
  "run_flags quietly cmd = \<lparr>pf_text = [], pf_err = None,
     pf_value = (\<lambda>n. VBool (n = ''quiet'' \<and> quietly)), pf_args = [cmd]\<rparr>"

definition printing_host :: "string \<Rightarrow> world" where
  "printing_host out = sample_world\<lparr>w_choices := (\<lambda>_. zero_choice\<lparr>c_out := out\<rparr>)\<rparr>"

lemma printing_host_sel [simp]:
  "w_choices (printing_host out) = (\<lambda>_. zero_choice\<lparr>c_out := out\<rparr>)"
  "w_config (printing_host out) = DefaultConfig ''/root'' ''me''"
  "w_remotes (printing_host out) = [(3, sample_remote ''a'' 11 False), (2, sample_remote ''p'' 12 True)]"
  "w_next (printing_host out) = 0" "w_wg (printing_host out) = (\<lambda>_. 0)" "w_tick (printing_host out) = 0"
  "targets (w_state (printing_host out)) = [(''a'', sample_target)]"
  "PTR (w_state (printing_host out)) = []" "runWaiters (w_state (printing_host out)) = []"
  "conn (w_state (printing_host out)) = [(''p'', zero_ConnInfo\<lparr>ci_hostName := ''p'', isProxy := True,
     isDirect := True, reqChan := 2\<rparr>), (''a'', zero_ConnInfo\<lparr>ci_hostName := ''a'', reqChan := 3\<rparr>)]"
  by (simp_all add: printing_host_def)

lemma run_flags_sel [simp]:
  "pf_text (run_flags b cmd) = []" "pf_err (run_flags b cmd) = None" "pf_args (run_flags b cmd) = [cmd]"
  "as_bool (pf_value (run_flags b cmd) ''quiet'') = b" "\<not> as_bool (pf_value (run_flags b cmd) ''background'')"
  by (simp_all add: run_flags_def)

lemmas run_defs = runEverywhere_def run_host_def send_run_def runCmd_def run_worker_def open_spool_def
  run_session_def redirect_def write_exit_code_def host_done_def Let_def api_simps c_err_def
  now_choice_def zero_choice_def DefaultConfig_def DefaultConcurrency_def grange_def gkeys_def
  glook_def find_sample sample_remote_def zero_ConnInfo_def exit_code_def


definition sample_ext :: "parsed \<Rightarrow> Server list \<Rightarrow> int ext" where
  "sample_ext r servers = \<lparr>x_floats = sample_floats, x_parse = (\<lambda>f args. r), x_decode = (\<lambda>_. Inr servers)\<rparr>"


subsection \<open>target\<close>

text \<open>What the external command did: its standard output, its standard error, and its exit.\<close>

definition ran_fine :: "world \<Rightarrow> bool" where
  "ran_fine w \<longleftrightarrow> (\<forall>i < 5. c_ok (nth_choice w i))"


definition printed_servers :: "Server list" where
  "printed_servers = [\<lparr>s_Name = ''a'', s_Chain = ''b a''\<rparr>]"


subsection \<open>The interpreter\<close>

text \<open>A command hands nothing fatal to its continuation, and depends on no more of it than that.\<close>

lemma with_flags_cong:
  assumes "\<And>err. k (Some (Failure err)) = k' (Some (Failure err))" and "k (Some ErrHelp) = k' (Some ErrHelp)"
    and "\<forall>f args. \<forall>m. pf_err (x_parse x f args) \<noteq> Some (CmdErr True m)"
    and "\<And>m. k (Some (CmdErr False m)) = k' (Some (CmdErr False m))"
    and "\<And>v rest. body v rest = body' v rest"
  shows "with_flags x e name fs args k body = with_flags x e name fs args k' body'"
proof -
  have "k (Some err) = k' (Some err)" if "pf_err (x_parse x f args) = Some err" for f err
  proof (cases err)
    case (CmdErr fatal m)
    with that assms(3,4) show ?thesis by (cases fatal) auto
  qed (simp_all add: assms)
  then show ?thesis
    using assms(1,5) by (auto simp: with_flags_def Let_def split: sum.split option.split)
qed

lemma conclude_more:
  "conclude e cmd k None = conclude e cmd (\<lambda>_. k True) None"
  "conclude e cmd k (Some (Failure m)) = conclude e cmd (\<lambda>_. k True) (Some (Failure m))"
  "conclude e cmd k (Some ErrHelp) = conclude e cmd (\<lambda>_. k True) (Some ErrHelp)"
  "conclude e cmd k (Some (CmdErr False m)) = conclude e cmd (\<lambda>_. k True) (Some (CmdErr False m))"
  by (simp_all add: conclude_def)

lemma target_cong:
  assumes "k None = k' None" and "\<And>m. k (Some (Failure m)) = k' (Some (Failure m))"
  shows "target x e args k = target x e args k'"
proof -
  have "target_failed e s k = target_failed e s k'" "target_loaded e k = target_loaded e k'" for s
    using assms by (auto simp: target_failed_def target_loaded_def fun_eq_iff split: option.split)
  then show ?thesis
    using assms by (simp add: target_def cong: option.case_cong if_cong)
qed

lemma spooldir_cong:
  assumes "k None = k' None" and "\<And>m. k (Some (Failure m)) = k' (Some (Failure m))"
  shows "spooldir e args k = spooldir e args k'" "spool e args k = spool e args k'" "tee e args k = tee e args k'"
  using assms by (simp_all add: spooldir_def spool_def tee_def cong: list.case_cong if_cong)

lemma plain_cong:
  assumes "k None = k' None"
  shows "state e args k = state e args k'" "clear e args k = clear e args k'" "clean e args k = clean e args k'"
    "abort args k = abort args k'" "disco e args k = disco e args k'" "help_cmd e args k = help_cmd e args k'"
  using assms by (simp_all add: state_def clear_def clean_def abort_def disco_def help_cmd_def cong: if_cong)

lemma runCliCmd_more:
  assumes "\<forall>f args m. pf_err (x_parse x f args) \<noteq> Some (CmdErr True m)"
  shows "(cmd \<noteq> ''quit'' \<and> cmd \<noteq> ''exit'' \<longrightarrow> runCliCmd x e cmd args k = runCliCmd x e cmd args (\<lambda>_. k True)) \<and>
    runCliCmd x e ''quit'' args k = Out e (''quit: byte!'' @ [newline, newline]) (k False) \<and>
    runCliCmd x e ''exit'' args k = Out e (''exit: byte!'' @ [newline, newline]) (k False)"
proof (intro conjI impI)
  let ?k = "conclude e cmd k" and ?k' = "conclude e cmd (\<lambda>_. k True)"
  have run: "runCliCmd x e cmd args k = (case glook (commands x e) cmd of
        None \<Rightarrow> Out e (''Unknown command: '' @ [CHR 0x27] @ cmd @ [CHR 0x27] @ ''.'' @ [newline]) (k True)
      | Some f \<Rightarrow> f args (conclude e cmd k))" for k
    by (simp add: runCliCmd_def)
  note flags = with_flags_cong [of ?k ?k', OF conclude_more(2,3) assms conclude_more(4)]
  assume "cmd \<noteq> ''quit'' \<and> cmd \<noteq> ''exit''"
  then have "f args ?k = f args ?k'" if "glook (commands x e) cmd = Some f" for f
  proof -
    have same: "?k None = ?k' None" "\<And>m. ?k (Some (Failure m)) = ?k' (Some (Failure m))"
      by (rule conclude_more)+
    have "run x e args ?k = run x e args ?k'" "connect x e args ?k = connect x e args ?k'"
      "summary x e args ?k = summary x e args ?k'" "quant x e args ?k = quant x e args ?k'"
      unfolding run_def connect_def summary_def quant_def
      by (rule arg_cong [where f = GetCfg], rule ext, rule flags | rule flags | simp add: same Let_def split_beta cong: sum.case_cong if_cong)+
    then show ?thesis
      using that target_cong [of ?k ?k', OF same] spooldir_cong [of ?k ?k', OF same] plain_cong [of ?k ?k', OF same(1)]
        \<open>cmd \<noteq> ''quit'' \<and> cmd \<noteq> ''exit''\<close>
      by (auto simp: commands_def glook_def split: if_splits)
  qed
  then show "runCliCmd x e cmd args k = runCliCmd x e cmd args (\<lambda>_. k True)"
    by (simp add: run split: option.split)
qed (simp_all add: runCliCmd_def commands_def glook_def quit_def newCmdErr_def conclude_def)

text \<open>
  C20. Only \<open>quit\<close> and \<open>exit\<close> end a session: any other command, known or not, whatever its arguments
  and whatever goes wrong, goes on to read the next line if it returns at all; those two always end
  it, after printing their farewell as an error. (The flag package returns no fatal command error of
  this program.)
\<close>

theorem only_quit_ends_the_session:
  assumes "\<forall>f args m. pf_err (x_parse x f args) \<noteq> Some (CmdErr True m)"
  shows "(cmd \<noteq> ''quit'' \<and> cmd \<noteq> ''exit'' \<longrightarrow> runCliCmd x e cmd args k = runCliCmd x e cmd args (\<lambda>_. k True)) \<and>
    runCliCmd x e ''quit'' args k = Out e (''quit: byte!'' @ [newline, newline]) (k False) \<and>
    runCliCmd x e ''exit'' args k = Out e (''exit: byte!'' @ [newline, newline]) (k False)"
  using runCliCmd_more [OF assms] .

theorem only_quit_ends_the_session_witness:
  "runCliCmd (sample_ext (run_flags False []) []) quiet ''help'' [] (\<lambda>more. if more then Halt else Hang) =
   runCliCmd (sample_ext (run_flags False []) []) quiet ''help'' [] (\<lambda>_. Halt)"
  using only_quit_ends_the_session [of "sample_ext (run_flags False []) []" "''help''" quiet "[]"
      "\<lambda>more. if more then Halt else Hang"]
  by (simp add: sample_ext_def)

text \<open>
  A line of blanks crashes the program. A CLI session that reads a line with nothing but white
  space in it, like an \<open>exec\<close> request with such a command (both run the line by the same steps),
  takes the first of no words: the index is out of range, whatever the state of the program.
\<close>

theorem blank_line_panics:
  assumes "\<not> mute e" and "c_out (now_choice w) \<noteq> []" and "\<forall>c \<in> set (c_out (now_choice w)). is_space c"
  shows "\<exists>w'. exec (cli x (Suc n) e ch useReadline p) w = Crashed index_panic w' \<and>
    exec (run_line x e (c_out (now_choice w)) k) w = Crashed index_panic w"
proof -
  have "GoStrings.fields (c_out (now_choice w)) = []"
    using assms(3) by (simp add: fields_empty_iff)
  then show ?thesis
    using assms(1,2) by (simp add: cli_def run_line_def api_simps)
qed

theorem blank_line_panics_witness:
  "\<exists>w'. exec (cli (sample_ext (run_flags False []) []) 1 quiet 3 True Halt)
     (scripted (\<lambda>_. zero_choice\<lparr>c_out := '' ''\<rparr>)) = Crashed index_panic w'"
  using blank_line_panics [OF not_mute_quiet, of "scripted (\<lambda>_. zero_choice\<lparr>c_out := '' ''\<rparr>)"
    "sample_ext (run_flags False []) []" 0 3 True Halt]
  by (simp add: now_choice_def is_space_def)

text \<open>
  C22. The loop of the CLI never notices the end of its input: when every read comes back empty with
  an error, as it does once the client is gone, it has not returned after any number of reads, and
  it has made that many of them.
\<close>

theorem cli_never_ends_on_eof:
  assumes "\<not> mute e" and "\<forall>i. c_out (w_choices w i) = [] \<and> \<not> c_ok (w_choices w i)"
  shows "\<exists>w'. exec (cli x n e ch useReadline p) w = Stuck w' \<and> w_tick w' = w_tick w + n \<and>
    w_calls w' = w_calls w @ replicate n (XReadLine ch useReadline)"
  unfolding cli_def using assms(2)
proof (induction n arbitrary: w)
  case (Suc n)
  let ?w1 = "warn_log e ''commands.go'' 518 ''readline.Readline(): '' (c_err (now_choice w)) (ask (XReadLine ch useReadline) w)"
  have "c_out (now_choice w) = []"
    using Suc.prems by (simp add: now_choice_def)
  moreover have "\<forall>i. c_out (w_choices ?w1 i) = [] \<and> \<not> c_ok (w_choices ?w1 i)"
    using Suc.prems by simp
  ultimately show ?case
    using Suc.IH [of ?w1] assms(1) by (simp add: exec_warn replicate_app_Cons_same)
qed simp

theorem cli_never_ends_on_eof_witness:
  "\<exists>w'. exec (cli (sample_ext (run_flags False []) []) 9 quiet 3 True Halt)
     (scripted (\<lambda>_. zero_choice\<lparr>c_ok := False, c_str := ''EOF''\<rparr>)) = Stuck w' \<and> w_tick w' = 9"
  using cli_never_ends_on_eof [OF not_mute_quiet, of "scripted (\<lambda>_. zero_choice\<lparr>c_ok := False, c_str := ''EOF''\<rparr>)"
    "sample_ext (run_flags False []) []" 9 3 True Halt]
  by (simp add: zero_choice_def) blast



end
