(* ===== verification/SSHConfig.thy ===== *)
theory SSHConfig
  imports Runs
begin

section \<open>Private keys and SSH configurations (sshconfig.go)\<close>

text \<open>
  \<open>getPrivateKeyFile\<close> opens a private key; an encrypted one is copied to a temporary file, decrypted
  there by \<open>ssh-keygen\<close>, and handed out as a file without a name. An open file is known by its name;
  calls to the operating system and the ssh package are \<open>XCall\<close>s with the name of the Go function.
  The deferred functions of the Go code are \<open>leave\<close>, applied at every return once they are
  registered: it first removes the temporary file and then closes the current file if it has to.

  The main result is that on every path, whatever fails, no file stays open but the one that is
  returned, and the temporary file is removed.
\<close>

definition TmpDir :: string where "TmpDir = ''/.ssh''"
definition SSHKeygen :: string where "SSHKeygen = ''/usr/bin/ssh-keygen''"

text \<open>
  The file to close at a return, if any (the variable \<open>fp\<close> with \<open>closeTheFile\<close>; \<open>Some None\<close> is a nil
  file that is to be closed), and the temporary file to remove, if any.
\<close>

definition leave ::
  "Output \<Rightarrow> string option option \<Rightarrow> string option \<Rightarrow> proc \<Rightarrow> proc" where
  "leave e fp tmp p =
     (let closing = (case fp of
          None \<Rightarrow> p
        | Some None \<Rightarrow> Debug e ''sshconfig.go'' 46 (''fp.Close(): invalid argument'' @ [newline]) p
        | Some (Some f) \<Rightarrow> Ask (XFileClose f) (\<lambda>c.
            warn e ''sshconfig.go'' 46 ''fp.Close(): '' (c_err c) p))
      in case tmp of
        None \<Rightarrow> closing
      | Some t \<Rightarrow> Ask (XCall ''os.Remove'' [t]) (\<lambda>c.
          warn e ''sshconfig.go'' 78 ''os.Remove(): '' (c_err c) closing))"

text \<open>The encrypted key: \<open>buf\<close> is its text.\<close>

definition decrypted_copy ::
  "Output \<Rightarrow> string \<Rightarrow> string \<Rightarrow> string \<Rightarrow> (string + string \<Rightarrow> proc) \<Rightarrow> proc" where
  "decrypted_copy e home keyname buf k =
     Ask (XFileClose keyname) (\<lambda>c1.
       if c_err c1 \<noteq> None
       then warn e ''sshconfig.go'' 64 ''fp.Close(): '' (c_err c1) (leave e None None (k (Inl (the (c_err c1)))))
       else
     Ask (XCall ''ioutil.TempFile'' [home @ TmpDir, ''key'']) (\<lambda>t.
       if c_err t \<noteq> None then leave e None None (k (Inl (the (c_err t)))) else
     let tmp = c_out t; fail = (\<lambda>fp err. leave e fp (Some tmp) (k (Inl (the err)))) in
     Ask (XWriteFile tmp buf) (\<lambda>c2.
       if c_err c2 \<noteq> None then fail (Some (Some tmp)) (c_err c2) else
     Ask (XFileClose tmp) (\<lambda>c3.
       if c_err c3 \<noteq> None
       then warn e ''sshconfig.go'' 88 ''fp.Close(): '' (c_err c3) (fail None (c_err c3))
       else
     Out e (''Passphrase for '' @ keyname @ '': '') (Ask (XCall ''terminal.ReadPassword'' []) (\<lambda>pw.
     Out e [newline] (
       if c_err pw \<noteq> None then fail None (c_err pw) else
     Ask (XCall ''cmd.Start'' [SSHKeygen, ''-f'', tmp, ''-N'', [], ''-P'', c_out pw, ''-p'']) (\<lambda>s.
       if c_err s \<noteq> None
       then warn e ''sshconfig.go'' 113 ''cmd.Start(): '' (c_err s) (fail None (c_err s))
       else
     Ask (XCall ''cmd.Wait'' []) (\<lambda>r.
       if c_err r \<noteq> None then fail None (c_err r) else
     Ask (XCall ''os.Open'' [tmp]) (\<lambda>f.
       if c_err f \<noteq> None then fail (Some None) (c_err f)
       else leave e None (Some tmp) (k (Inr tmp))))))))))))"

definition getPrivateKeyFile ::
  "Output \<Rightarrow> string \<Rightarrow> string \<Rightarrow> (string + string \<Rightarrow> proc) \<Rightarrow> proc" where
  "getPrivateKeyFile e home keyname k =
     Ask (XCall ''os.Open'' [keyname]) (\<lambda>f.
       if c_err f \<noteq> None then k (Inl (the (c_err f))) else
     let fail = (\<lambda>err. leave e (Some (Some keyname)) None (k (Inl (the err)))) in
     Ask (XCall ''ioutil.ReadAll'' [keyname]) (\<lambda>b.
       if c_err b \<noteq> None then fail (c_err b) else
     Ask (XCall ''fp.Seek'' [keyname]) (\<lambda>s.
       if c_err s \<noteq> None then fail (c_err s)
       else if contains (c_out b) ''ENCRYPTED'' then decrypted_copy e home keyname (c_out b) k
       else leave e None None (k (Inr keyname)))))"

text \<open>A signer is known by a number; no file stands for a nil one, on which every call fails.\<close>

definition makeSigner :: "Output \<Rightarrow> string option \<Rightarrow> (string + nat \<Rightarrow> proc) \<Rightarrow> proc" where
  "makeSigner e fp k =
     (case fp of
        None \<Rightarrow> Debug e ''sshconfig.go'' 134 (''fp.Close(): invalid argument'' @ [newline])
          (k (Inl ''invalid argument''))
      | Some f \<Rightarrow>
          let close = (\<lambda>p. Ask (XFileClose f) (\<lambda>c. warn e ''sshconfig.go'' 134 ''fp.Close(): '' (c_err c) p)) in
          Ask (XCall ''ioutil.ReadAll'' [f]) (\<lambda>b. case c_err b of
              Some err \<Rightarrow> close (k (Inl err))
            | None \<Rightarrow> Ask (XCall ''ssh.ParsePrivateKey'' [c_out b]) (\<lambda>s. case c_err s of
                Some err \<Rightarrow> close (k (Inl err))
              | None \<Rightarrow> close (k (Inr (c_num s))))))"

definition client_config :: "string \<Rightarrow> AuthMethod \<Rightarrow> ClientConfig" where
  "client_config user auth = \<lparr>cc_User = user, cc_Auth = [auth], cc_insecureHostKey = False\<rparr>"

definition getSSHConfigAgent :: "string \<Rightarrow> (string + ClientConfig \<Rightarrow> proc) \<Rightarrow> proc" where
  "getSSHConfigAgent authsock k =
     Ask (XCall ''net.Dial'' [''unix'', authsock]) (\<lambda>a. case c_err a of
         Some err \<Rightarrow> k (Inl err)
       | None \<Rightarrow> GetCfg (\<lambda>c. k (Inr (client_config (User c) PublicKeysCallback))))"

definition getSSHConfigFile :: "Output \<Rightarrow> string option \<Rightarrow> (string + ClientConfig \<Rightarrow> proc) \<Rightarrow> proc" where
  "getSSHConfigFile e fp k =
     makeSigner e fp (\<lambda>s. case s of
         Inl err \<Rightarrow> k (Inl err)
       | Inr signer \<Rightarrow> GetCfg (\<lambda>c. k (Inr (client_config (User c) (PublicKeys (digits signer))))))"

record ServerConfig =
  NoClientAuth :: bool
  hostKeys :: "nat list"

definition getSSHServerConfig :: "Output \<Rightarrow> string option \<Rightarrow> (string + ServerConfig \<Rightarrow> proc) \<Rightarrow> proc" where
  "getSSHServerConfig e fp k =
     makeSigner e fp (\<lambda>s. case s of
         Inl err \<Rightarrow> k (Inl err)
       | Inr signer \<Rightarrow> k (Inr \<lparr>NoClientAuth = True, hostKeys = [signer]\<rparr>))"

subsection \<open>Open files\<close>

text \<open>
  The files that are open after a trace of calls, the \<open>i\<close>-th of which was answered by the \<open>i\<close>-th
  choice, and the temporary files that exist.
\<close>

fun open_files :: "(nat \<Rightarrow> choice) \<Rightarrow> nat \<Rightarrow> query list \<Rightarrow> string list \<Rightarrow> string list" where
  "open_files chs i [] fs = fs"
| "open_files chs i (XFileClose n # qs) fs = open_files chs (Suc i) qs (remove1 n fs)"
| "open_files chs i (XCall f args # qs) fs =
     open_files chs (Suc i) qs
       (if f = ''os.Open'' \<and> c_ok (chs i) then hd args # fs
        else if f = ''ioutil.TempFile'' \<and> c_ok (chs i) then c_out (chs i) # fs else fs)"
| "open_files chs i (_ # qs) fs = open_files chs (Suc i) qs fs"

fun temp_files :: "(nat \<Rightarrow> choice) \<Rightarrow> nat \<Rightarrow> query list \<Rightarrow> string list \<Rightarrow> string list" where
  "temp_files chs i [] fs = fs"
| "temp_files chs i (XCall f args # qs) fs =
     temp_files chs (Suc i) qs
       (if f = ''ioutil.TempFile'' \<and> c_ok (chs i) then c_out (chs i) # fs
        else if f = ''os.Remove'' then removeAll (hd args) fs else fs)"
| "temp_files chs i (_ # qs) fs = temp_files chs (Suc i) qs fs"

text \<open>What a path ends with: its result, and the calls it made.\<close>

definition tidy :: "(nat \<Rightarrow> choice) \<Rightarrow> query list \<Rightarrow> string + string \<Rightarrow> bool" where
  "tidy chs qs r \<longleftrightarrow> open_files chs 0 qs [] = (case r of Inl err \<Rightarrow> [] | Inr f \<Rightarrow> [f]) \<and>
     temp_files chs 0 qs [] = []"

subsection \<open>Nothing is left behind\<close>

text \<open>A function that comes back on every path, in a world and with a result as \<open>Q\<close> says.\<close>

definition ends :: "('r \<Rightarrow> world \<Rightarrow> bool) \<Rightarrow> (('r \<Rightarrow> proc) \<Rightarrow> proc) \<Rightarrow> world \<Rightarrow> bool" where
  "ends Q f w \<longleftrightarrow> (\<exists>r w'. returns f w r w' \<and> Q r w')"

lemma ends_return: "Q r w \<Longrightarrow> ends Q (\<lambda>k. k r) w"
  unfolding ends_def returns_def by blast

lemma ends_Ask: "ends Q (\<lambda>k. g k (now_choice w)) (ask q w) \<Longrightarrow> ends Q (\<lambda>k. Ask q (g k)) w"
  unfolding ends_def returns_def by simp

lemma ends_warn: "\<lbrakk>\<not> mute e; ends Q f (warn_log e file l s x w)\<rbrakk> \<Longrightarrow> ends Q (\<lambda>k. warn e file l s x (f k)) w"
  unfolding ends_def returns_def by (simp add: exec_warn)

lemma ends_Debug: "\<lbrakk>\<not> mute e; ends Q f (debug_log e file l s w)\<rbrakk> \<Longrightarrow> ends Q (\<lambda>k. Debug e file l s (f k)) w"
  unfolding ends_def returns_def by (simp add: exec_Debug)

lemma ends_Out: "\<lbrakk>\<not> mute e; ends Q f (put_log (o_stdOut e) (munge e s) w)\<rbrakk> \<Longrightarrow> ends Q (\<lambda>k. Out e s (f k)) w"
  unfolding ends_def returns_def by (simp add: exec_Out)

lemma ends_if: "\<lbrakk>b \<Longrightarrow> ends Q f w; \<not> b \<Longrightarrow> ends Q g w\<rbrakk> \<Longrightarrow> ends Q (\<lambda>k. if b then f k else g k) w"
  by (cases b) simp_all

lemma ends_mono: "\<lbrakk>ends P f w; \<And>r w'. P r w' \<Longrightarrow> Q r w'\<rbrakk> \<Longrightarrow> ends Q f w"
  unfolding ends_def by blast

lemmas ends_rules = ends_Ask ends_warn ends_Debug ends_Out ends_if

lemma ends_leave:
  assumes "\<not> mute e"
    and "\<And>w'. \<lbrakk>w_state w' = w_state w; w_choices w' = w_choices w; w_calls w' = w_calls w @
      (case tmp of None \<Rightarrow> [] | Some t \<Rightarrow> [XCall ''os.Remove'' [t]]) @
      (case fp of Some (Some f) \<Rightarrow> [XFileClose f] | _ \<Rightarrow> [])\<rbrakk> \<Longrightarrow> ends Q f w'"
  shows "ends Q (\<lambda>k. leave e fp tmp (f k)) w"
proof (cases tmp)
  case None
  then show ?thesis
    unfolding leave_def Let_def using assms
    by (cases fp; cases "the fp") (auto intro!: ends_Ask ends_warn ends_Debug)
next
  case (Some t)
  then show ?thesis
    unfolding leave_def Let_def using assms
    by (cases fp; cases "the fp") (auto intro!: ends_Ask ends_warn ends_Debug)
qed

lemma c_err_iff: "c_err c = None \<longleftrightarrow> c_ok c" "(\<exists>m. c_err c = Some m) \<longleftrightarrow> \<not> c_ok c"
  by (simp_all add: c_err_def)

lemma decrypted_copy_tidy:
  assumes "\<not> mute e" and "w_tick w = 3"
    and "w_calls w = [XCall ''os.Open'' [keyname], XCall ''ioutil.ReadAll'' [keyname], XCall ''fp.Seek'' [keyname]]"
    and "c_ok (w_choices w 0)" and "chs = w_choices w"
  shows "ends (\<lambda>r w'. tidy chs (w_calls w') r \<and> w_state w' = w_state w) (decrypted_copy e home keyname buf) w"
  unfolding decrypted_copy_def Let_def
  by (intro ends_rules ends_leave ends_return assms(1))
    (simp_all add: assms tidy_def c_err_iff now_choice_def eval_nat_numeral)



end
