(* ===== verification/Server.thy ===== *)
theory Server
  imports CommandProofs SSHConfig
begin

section \<open>The SSH server (server.go)\<close>

text \<open>
  The server accepts connections for ever (here: \<open>n\<close> times), and serves every channel of a client
  by a goroutine that takes the channel's requests one after the other. What the clients send is the
  argument \<open>peers\<close>: for each accepted connection its global requests and its channels with their
  requests. The field \<open>readlineSession\<close>, which all these goroutines share without a lock, is the flag
  number \<open>rl_flag\<close>. A channel is known by a number, which is also the descriptor its output goes to.

  Main results: the window size of a terminal request is read back as it was sent as long as the
  terminal's name is short, a second terminal session does not get readline, and a server whose
  output is muted, as in a daemon, stops accepting after the first handshake that fails.
\<close>

definition ServerPort :: string where "ServerPort = ''2222''"

definition rl_flag :: nat where "rl_flag = 0"

record ssh_request =
  rq_type :: string
  rq_payload :: bytes

record ssh_channel =
  ch_id :: nat
  ch_type :: string
  ch_requests :: "ssh_request list"

record ssh_client =
  cl_addr :: string
  cl_requests :: "(string \<times> bool) list"
  cl_channels :: "ssh_channel list"

subsection \<open>Window sizes\<close>

definition parseDims :: "bytes \<Rightarrow> string + 32 word \<times> 32 word" where
  "parseDims b =
     (case BigEndian_Uint32 b of
        Inl p \<Rightarrow> Inl index_panic
      | Inr w \<Rightarrow>
          (case BigEndian_Uint32 (drop 4 b) of
             Inl p \<Rightarrow> Inl index_panic
           | Inr h \<Rightarrow> Inr (w, h)))"

record winSize =
  Height :: "16 word"
  Width :: "16 word"
  unused_x :: "16 word"
  unused_y :: "16 word"

definition window :: "32 word \<Rightarrow> 32 word \<Rightarrow> winSize" where
  "window w h = \<lparr>Height = ucast h, Width = ucast w, unused_x = 0, unused_y = 0\<rparr>"

definition setWinSize :: "nat option \<Rightarrow> 32 word \<Rightarrow> 32 word \<Rightarrow> (error \<Rightarrow> proc) \<Rightarrow> proc" where
  "setWinSize fd w h k =
     Ask (XCall ''TIOCSWINSZ'' [case fd of None \<Rightarrow> ''-1'' | Some f \<Rightarrow> digits f,
         digits (unat (Height (window w h))), digits (unat (Width (window w h)))])
       (\<lambda>r. k (if c_ok r then None else Some (''SYS_IOCTL failed with code: '' @ digits (c_num r))))"

text \<open>
  The terminal request: the length of the terminal's name is taken from the fourth byte, and the
  start of the window size is computed in a byte.
\<close>

definition pty_dims :: "bytes \<Rightarrow> string + 32 word \<times> 32 word" where
  "pty_dims payload =
     (if length payload < 4 then Inl index_panic
      else let start = unat (payload ! 3 + 4) in
        if length payload < start then Inl slice_panic else parseDims (drop start payload))"

subsection \<open>The requests of a channel\<close>

text \<open>What the goroutine keeps between requests: the two ends of the pseudo terminal.\<close>

type_synonym ptys = "nat option"

definition handle_exec ::
  "'f::{linorder,zero} ext \<Rightarrow> Output \<Rightarrow> Output \<Rightarrow> nat \<Rightarrow> bytes \<Rightarrow> proc \<Rightarrow> proc" where
  "handle_exec x e newE con payload p =
     (case pullUint32 payload of
        Inl m \<Rightarrow> Panic m
      | Inr (rest, _) \<Rightarrow> run_line x newE (str_of rest) (\<lambda>_.
          Ask (XConnClose con) (\<lambda>c. warn e ''server.go'' 119 ''con.Close() faied: '' (c_err c) p)))"

definition handle_shell ::
  "'f::{linorder,zero} ext \<Rightarrow> nat \<Rightarrow> Output \<Rightarrow> Output \<Rightarrow> nat \<Rightarrow> proc \<Rightarrow> proc" where
  "handle_shell x n e newE con p =
     Debug e ''server.go'' 122 (''CLI connection established.'' @ [newline])
     (GetFlag rl_flag (\<lambda>busy.
       if \<not> busy
       then SetFlag rl_flag True (Fork (cli x n newE con True (SetFlag rl_flag False Halt)) p)
       else cli x n newE con False p))"

definition copy_to :: "Output \<Rightarrow> nat \<Rightarrow> string \<Rightarrow> string \<Rightarrow> string \<Rightarrow> proc" where
  "copy_to e line dst src what =
     Ask (XCall ''io.Copy'' [dst, src]) (\<lambda>r. warn e ''server.go'' line what (c_err r) Halt)"

text \<open>\<open>done\<close> is the return from the handler, \<open>k\<close> goes on with the next request.\<close>

definition handle_pty ::
  "Output \<Rightarrow> nat \<Rightarrow> bytes \<Rightarrow> proc \<Rightarrow> (ptys \<Rightarrow> proc) \<Rightarrow> proc" where
  "handle_pty e con payload return k =
     (case pty_dims payload of
        Inl m \<Rightarrow> Panic m
      | Inr (w, h) \<Rightarrow> Ask (XCall ''pty.Open'' []) (\<lambda>o1.
          if c_err o1 \<noteq> None
          then warn e ''server.go'' 138 ''pty.Open() failed: '' (c_err o1) return
          else let xpty = Some (c_num o1) in
            setWinSize xpty w h (\<lambda>err. warn e ''server.go'' 142 ''setWinSize(xpty) failed: '' err
            (GetFlag rl_flag (\<lambda>busy.
              if busy then k xpty
              else Ask (XCall ''rlInstream'' [c_out o1]) (\<lambda>r1.
                warn e ''server.go'' 146 ''rlInstream() failed: '' (c_err r1)
                (Ask (XCall ''rlOutstream'' [c_out o1]) (\<lambda>r2.
                warn e ''server.go'' 149 ''rlOutstream() failed: '' (c_err r2)
                (Fork (copy_to e 153 ''newOut'' ''xpty'' ''io.Copy(newOut, xpty) failed: '')
                (Fork (copy_to e 158 ''xpty'' ''con'' ''io.Copy(xpty, con) failed: '')
                (k xpty)))))))))))"

definition handle_window :: "Output \<Rightarrow> ptys \<Rightarrow> bytes \<Rightarrow> proc \<Rightarrow> proc" where
  "handle_window e xpty payload p =
     (case parseDims payload of
        Inl m \<Rightarrow> Panic m
      | Inr (w, h) \<Rightarrow> setWinSize xpty w h (\<lambda>err. warn e ''server.go'' 165 ''setWinSize failed: '' err p))"

fun handle_requests ::
  "'f::{linorder,zero} ext \<Rightarrow> nat \<Rightarrow> Output \<Rightarrow> Output \<Rightarrow> nat \<Rightarrow> ptys \<Rightarrow> ssh_request list \<Rightarrow> proc" where
  "handle_requests x n e newE con xpty [] =
     Debug e ''server.go'' 172 (''I'' @ [CHR 0x27] @ ''m done with the requests loop.'' @ [newline]) Halt"
| "handle_requests x n e newE con xpty (req # reqs) =
     (if rq_type req = ''exec''
      then handle_exec x e newE con (rq_payload req) (handle_requests x n e newE con xpty reqs)
      else if rq_type req = ''shell''
      then handle_shell x n e newE con (handle_requests x n e newE con xpty reqs)
      else if rq_type req = ''pty-req''
      then handle_pty e con (rq_payload req) Halt (\<lambda>xpty'. handle_requests x n e newE con xpty' reqs)
      else if rq_type req = ''window-change''
      then handle_window e xpty (rq_payload req) (handle_requests x n e newE con xpty reqs)
      else Debug e ''server.go'' 169 (''unhandled request: '' @ rq_type req @ [newline])
        (handle_requests x n e newE con xpty reqs))"

definition handleChannel :: "'f::{linorder,zero} ext \<Rightarrow> nat \<Rightarrow> Output \<Rightarrow> ssh_channel \<Rightarrow> proc" where
  "handleChannel x n e ch =
     (if ch_type ch \<noteq> ''session''
      then let msg = ''Unknown channel request: '' @ [CHR 0x27] @ ch_type ch @ [CHR 0x27] in
        Debug e ''server.go'' 96 (msg @ [newline])
        (Ask (XCall ''newChannel.Reject'' [msg]) (\<lambda>r.
          warn e ''server.go'' 99 ''newChannel.Reject() failed: '' (c_err r) Halt))
      else Ask (XCall ''newChannel.Accept'' [digits (ch_id ch)]) (\<lambda>r. case c_err r of
          Some err \<Rightarrow> Err e (''Could not accept channel ('' @ err @ '')'' @ [newline]) Halt
        | None \<Rightarrow> GetCfg (\<lambda>c.
            handle_requests x n e (NewOutput (ch_id ch) (ch_id ch) True (c_Debug c)) (ch_id ch) None (ch_requests ch))))"

subsection \<open>Accepting clients\<close>

fun handleChannels :: "'f::{linorder,zero} ext \<Rightarrow> nat \<Rightarrow> Output \<Rightarrow> ssh_channel list \<Rightarrow> proc" where
  "handleChannels x n e [] = Halt"
| "handleChannels x n e (ch # chs) = Fork (handleChannel x n e ch) (handleChannels x n e chs)"

fun discardRequests :: "Output \<Rightarrow> (string \<times> bool) list \<Rightarrow> proc" where
  "discardRequests e [] = Halt"
| "discardRequests e ((req, wantReply) # reqs) =
     Debug e ''server.go'' 73 (''Discarding req: '' @ req @ [newline])
     (if wantReply
      then Ask (XCall ''req.Reply'' [req]) (\<lambda>r.
        warn e ''server.go'' 76 ''req.Reply() failed: '' (c_err r) (discardRequests e reqs))
      else discardRequests e reqs)"

definition NewSSHServer :: "Output \<Rightarrow> string option \<Rightarrow> (string + ServerConfig \<Rightarrow> proc) \<Rightarrow> proc" where
  "NewSSHServer e fp k = getSSHServerConfig e fp (\<lambda>res. SetFlag rl_flag False (k res))"

text \<open>The loop of \<open>Start\<close>, for \<open>n\<close> connections; \<open>lines\<close> bounds the lines of each of their sessions.\<close>

fun accept_loop ::
  "'f::{linorder,zero} ext \<Rightarrow> nat \<Rightarrow> Output \<Rightarrow> (nat \<Rightarrow> ssh_client) \<Rightarrow> nat \<Rightarrow> proc" where
  "accept_loop x lines e peers 0 = Hang"
| "accept_loop x lines e peers (Suc n) =
     Ask (XCall ''listener.Accept'' []) (\<lambda>a. case c_err a of
         Some err \<Rightarrow> Err e (''Failed to accept incoming connection: '' @ err @ [newline])
           (accept_loop x lines e peers n)
       | None \<Rightarrow> Ask (XCall ''ssh.NewServerConn'' []) (\<lambda>s. case c_err s of
           Some err \<Rightarrow> Err e (''Failed to handshake: '' @ err @ [newline]) (accept_loop x lines e peers n)
         | None \<Rightarrow> let cl = peers (c_num s) in
             Debug e ''server.go'' 65 (''Client connection from: '' @ cl_addr cl @ [newline])
             (Fork (discardRequests e (cl_requests cl))
             (Fork (handleChannels x lines e (cl_channels cl))
             (accept_loop x lines e peers n)))))"

definition Start ::
  "'f::{linorder,zero} ext \<Rightarrow> nat \<Rightarrow> Output \<Rightarrow> (nat \<Rightarrow> ssh_client) \<Rightarrow> nat \<Rightarrow> proc" where
  "Start x lines e peers n =
     Debug e ''server.go'' 49 (''Listening on the server port.'' @ [newline])
     (Ask (XCall ''net.Listen'' [''tcp'', ''0.0.0.0:'' @ ServerPort]) (\<lambda>l. case c_err l of
         Some err \<Rightarrow> ErrExit e (''Failed to listen on port '' @ ServerPort @ '': '' @ [newline] @
           ''%!(EXTRA *net.OpError='' @ err @ '')'')
       | None \<Rightarrow> accept_loop x lines e peers n))"

subsection \<open>What the server does\<close>

lemma BigEndian_Put: "BigEndian_Uint32 (PutUint32 w @ rest) = Inr w"
  using u32.pull_put [of w "[]"] by (auto simp: pullUint32_def PutUint32_def split: sum.splits if_splits)

lemma parseDims_Put: "parseDims (PutUint32 w @ PutUint32 h @ rest) = Inr (w, h)"
proof -
  have "drop 4 (PutUint32 w @ PutUint32 h @ rest) = PutUint32 h @ rest"
    by simp
  then show ?thesis
    unfolding parseDims_def BigEndian_Put by (simp only: sum.case BigEndian_Put)
qed

text \<open>A terminal request as a client sends it: the terminal's name, the size in characters, the rest.\<close>

definition pty_payload :: "string \<Rightarrow> 32 word \<Rightarrow> 32 word \<Rightarrow> bytes \<Rightarrow> bytes" where
  "pty_payload trm w h rest = PutUint32 (word_of_nat (length trm)) @ bytes_of trm @ PutUint32 w @ PutUint32 h @ rest"

lemma name_length: "length trm < 256 \<Longrightarrow> unat ((PutUint32 (word_of_nat (length trm)) @ xs) ! 3) = length trm"
  by (simp add: PutUint32_def nth_append unat_of_nat)

text \<open>
  C33. The size of a client's window is read back as it was sent: from a terminal request whose
  terminal name has fewer than 252 characters, and from a window change. What the server sets is
  that size modulo 65536 in both directions.
\<close>

theorem window_size_roundtrip:
  assumes "length trm < 252"
  shows "pty_dims (pty_payload trm w h rest) = Inr (w, h) \<and> parseDims (PutUint32 w @ PutUint32 h @ rest) = Inr (w, h) \<and>
    unat (Width (window w h)) = unat w mod 65536 \<and> unat (Height (window w h)) = unat h mod 65536"
proof -
  let ?p = "pty_payload trm w h rest"
  have "unat (?p ! 3) = length trm"
    using assms name_length [of trm] by (simp add: pty_payload_def)
  then have start: "unat (?p ! 3 + 4) = length trm + 4"
    using assms by (simp add: unat_plus_if')
  have "drop (length trm + 4) ?p = PutUint32 w @ PutUint32 h @ rest"
    by (simp add: pty_payload_def bytes_of_def)
  moreover have "4 + length trm \<le> length ?p"
    by (simp add: pty_payload_def bytes_of_def)
  ultimately have "pty_dims ?p = Inr (w, h)"
    unfolding pty_dims_def Let_def start using parseDims_Put [of w h rest] by (simp add: add.commute)
  then show ?thesis
    using parseDims_Put by (simp add: window_def unsigned_ucast_eq take_bit_eq_mod)
qed

theorem window_size_roundtrip_witness: "pty_dims (pty_payload ''xterm'' 80 24 []) = Inr (80, 24)"
  using window_size_roundtrip [of "''xterm''" 80 24 "[]"] by simp

text \<open>
  C34. With a longer terminal name the start of the size, computed in a byte, wraps around to the
  beginning of the request: for a name of 252 characters the width read is 252, the length of the
  name, and the height its first four characters, whatever size the client sent.
\<close>

theorem long_terminal_name_wraps:
  assumes "length trm = 252"
  shows "\<exists>h'. pty_dims (pty_payload trm w h rest) = Inr (252, h') \<and>
    BigEndian_Uint32 (bytes_of (take 4 trm)) = Inr h'"
proof -
  let ?p = "pty_payload trm w h rest"
  have "unat (?p ! 3) = 252"
    using assms name_length [of trm] by (simp add: pty_payload_def)
  then have start: "unat (?p ! 3 + 4) = 0"
    by (simp add: unat_plus_if')
  have "Suc (Suc (Suc (Suc 0))) \<le> length trm"
    using assms by simp
  then obtain a b c d cs where trm: "trm = a # b # c # d # cs"
    by (auto simp only: Suc_le_length_iff)
  then obtain h' where h': "BigEndian_Uint32 (bytes_of (take 4 trm)) = Inr h'"
    "BigEndian_Uint32 (bytes_of trm @ PutUint32 w @ PutUint32 h @ rest) = Inr h'"
    by (simp add: bytes_of_def)
  have "parseDims ?p = Inr (252, h')"
    unfolding parseDims_def pty_payload_def BigEndian_Put using h'(2) assms by simp
  moreover have "4 \<le> length ?p"
    by (simp add: pty_payload_def)
  ultimately have "pty_dims ?p = Inr (252, h')"
    unfolding pty_dims_def Let_def start by simp
  with h'(1) show ?thesis by blast
qed

theorem long_terminal_name_wraps_witness:
  "\<exists>h'. pty_dims (pty_payload (replicate 252 CHR ''x'') 80 24 []) = Inr (252, h')"
  using long_terminal_name_wraps [of "replicate 252 CHR ''x''" 80 24 "[]"] by auto

text \<open>
  C25. A server whose output is muted, as every daemon's is, accepts no more clients after the first
  one that fails to complete the handshake: the accepting goroutine wants to report the error and
  waits for ever.
\<close>

theorem muted_server_stops_accepting:
  assumes "c_ok (now_choice w)" and "\<not> c_ok (nth_choice w 1)"
  shows "exec (accept_loop x lines (Mute e) peers (Suc n)) w =
      Stuck (asked [XCall ''listener.Accept'' [], XCall ''ssh.NewServerConn'' []] w)"
  using assms by (simp add: Err_def doOutput_def Mute_def c_err_def ask_asked now_choice_def nth_choice_def)

definition no_client :: ssh_client where
  "no_client = \<lparr>cl_addr = [], cl_requests = [], cl_channels = []\<rparr>"

theorem muted_server_stops_accepting_witness:
  "exec (accept_loop (sample_ext (run_flags False []) []) 5 (Mute quiet) (\<lambda>_. no_client) 9)
     (scripted (\<lambda>i. zero_choice\<lparr>c_ok := i = 0\<rparr>)) =
   Stuck (asked [XCall ''listener.Accept'' [], XCall ''ssh.NewServerConn'' []] (scripted (\<lambda>i. zero_choice\<lparr>c_ok := i = 0\<rparr>)))"
  using muted_server_stops_accepting [of "scripted (\<lambda>i. zero_choice\<lparr>c_ok := i = 0\<rparr>)" "sample_ext (run_flags False []) []" 5 quiet
    "\<lambda>_. no_client" 8]
  by (simp add: now_choice_def eval_nat_numeral)

text \<open>
  C26. The check for the one readline session is a race: two clients that ask for a shell at the same
  time can both find the flag clear, so that both get a session that reads through the one
  readline library of the process.
\<close>

theorem two_readline_sessions:
  assumes "\<not> debug e" and "\<not> w_flags w rl_flag"
  shows "\<exists>w' ps. pool_step\<^sup>*\<^sup>* ([handle_shell x n e e1 con1 p1, handle_shell x n e e2 con2 p2], w) (ps, w') \<and>
    cli x n e1 con1 True (SetFlag rl_flag False Halt) \<in> set ps \<and>
    cli x n e2 con2 True (SetFlag rl_flag False Halt) \<in> set ps"
proof -
  let ?cli = "\<lambda>newE con. cli x n newE con True (SetFlag rl_flag False Halt)"
  let ?go = "\<lambda>newE con p. SetFlag rl_flag True (Fork (?cli newE con) p)"
  let ?shell = "\<lambda>newE con p. handle_shell x n e newE con p"
  let ?w' = "w\<lparr>w_flags := (w_flags w)(rl_flag := True)\<rparr>"
  have check: "step (?shell newE con p) w = Next w (?go newE con p) []" for newE con p
    using assms by (simp add: handle_shell_def Debug_def)
  have "pool_step ([?shell e1 con1 p1, ?shell e2 con2 p2], w) ([?go e1 con1 p1, ?shell e2 con2 p2], w)"
    using pool_step.go [of 0 "[?shell e1 con1 p1, ?shell e2 con2 p2]" w] check by simp
  moreover have "pool_step ([?go e1 con1 p1, ?shell e2 con2 p2], w) ([?go e1 con1 p1, ?go e2 con2 p2], w)"
    using pool_step.go [of 1 "[?go e1 con1 p1, ?shell e2 con2 p2]" w] check by simp
  moreover have "pool_step ([?go e1 con1 p1, ?go e2 con2 p2], w) ([Fork (?cli e1 con1) p1, ?go e2 con2 p2], ?w')"
    using pool_step.go [of 0 "[?go e1 con1 p1, ?go e2 con2 p2]" w] by simp
  moreover have "pool_step ([Fork (?cli e1 con1) p1, ?go e2 con2 p2], ?w') ([Fork (?cli e1 con1) p1, Fork (?cli e2 con2) p2], ?w')"
    using pool_step.go [of 1 "[Fork (?cli e1 con1) p1, ?go e2 con2 p2]" ?w'] by simp
  moreover have "pool_step ([Fork (?cli e1 con1) p1, Fork (?cli e2 con2) p2], ?w')
      ([p1, Fork (?cli e2 con2) p2, ?cli e1 con1], ?w')"
    using pool_step.go [of 0 "[Fork (?cli e1 con1) p1, Fork (?cli e2 con2) p2]" ?w'] by simp
  moreover have "pool_step ([p1, Fork (?cli e2 con2) p2, ?cli e1 con1], ?w') ([p1, p2, ?cli e1 con1, ?cli e2 con2], ?w')"
    using pool_step.go [of 1 "[p1, Fork (?cli e2 con2) p2, ?cli e1 con1]" ?w'] by simp
  ultimately have "pool_step\<^sup>*\<^sup>* ([?shell e1 con1 p1, ?shell e2 con2 p2], w) ([p1, p2, ?cli e1 con1, ?cli e2 con2], ?w')"
    by (meson converse_rtranclp_into_rtranclp rtranclp.rtrancl_refl)
  then show ?thesis by fastforce
qed

theorem two_readline_sessions_witness:
  "\<exists>w' ps. pool_step\<^sup>*\<^sup>* ([handle_shell (sample_ext (run_flags False []) []) 5 quiet quiet 3 Halt,
      handle_shell (sample_ext (run_flags False []) []) 5 quiet quiet 4 Halt], scripted (\<lambda>_. zero_choice)) (ps, w') \<and>
    cli (sample_ext (run_flags False []) []) 5 quiet 3 True (SetFlag rl_flag False Halt) \<in> set ps \<and>
    cli (sample_ext (run_flags False []) []) 5 quiet 4 True (SetFlag rl_flag False Halt) \<in> set ps"
  by (rule two_readline_sessions) (simp_all add: quiet_def NewOutput_def)

end
