(* ===== verification/MetaMain.thy ===== *)
theory MetaMain
  imports Server
begin

section \<open>The program (main.go, signals.go)\<close>

text \<open>
  \<open>main\<close> reads the options, opens the keys, turns itself into a daemon if asked to, sets up the
  client configuration, loads and connects the targets of a file, and then serves or prints the
  summary. The flag and daemon packages are external: the parsed options are \<open>x_parse\<close>, and the
  files a daemon inherits are the answer of \<open>godaemon.MakeDaemon\<close>. \<open>lines\<close> and \<open>n\<close> bound the
  server's sessions and clients, \<open>sigs\<close> says how many signals of each kind arrive.

  The main result is the end of the whole story: started without server and test command on a good
  network, with a file of targets that decodes, the program ends after it has connected every
  target of the file.
\<close>

subsection \<open>Signals\<close>

record signals =
  sigquits :: nat
  sigints :: nat
  sigterms :: nat

definition quit_signal :: "Output \<Rightarrow> proc \<Rightarrow> proc" where
  "quit_signal e p = Out e [newline] (GetHostKeys (\<lambda>hk.
     Out e (''There are currently '' @ digits (length hk) @ '' HostKeys loaded.'' @ [newline]) (GetWaiterInfo (\<lambda>wi.
     Out e (''ABORT: '' @ threads_line ''connection'' (n_connWaiters wi) (avgConnWait wi))
     (Out e (''ABORT: '' @ threads_line ''run'' (n_runWaiters wi) (avgRunWait wi)) (TimeoutWaiters p))))))"

fun quit_loop :: "Output \<Rightarrow> nat \<Rightarrow> proc" where
  "quit_loop e 0 = Hang"
| "quit_loop e (Suc n) = quit_signal e (quit_loop e n)"

text \<open>The loop ends the program in its first turn.\<close>

definition cleanDeath :: "Output \<Rightarrow> nat \<Rightarrow> proc" where
  "cleanDeath e n =
     (if n = 0 then Hang
      else disconnectEverywhere e True (Debug e ''signals.go'' 56 (''Cya.'' @ [newline]) (ExitProc 0)))"

definition handleSignals :: "Output \<Rightarrow> signals \<Rightarrow> proc \<Rightarrow> proc" where
  "handleSignals e sigs p =
     Ask (XCall ''signal.Notify'' [''SIGQUIT'']) (\<lambda>_. Fork (quit_loop e (sigquits sigs))
     (Ask (XCall ''signal.Notify'' [''SIGINT'']) (\<lambda>_. Fork (cleanDeath e (sigints sigs))
     (Ask (XCall ''signal.Notify'' [''SIGTERM'']) (\<lambda>_. Fork (cleanDeath e (sigterms sigs)) p)))))"

subsection \<open>Options\<close>

definition as_string :: "rvalue \<Rightarrow> string" where
  "as_string v = (case v of VString s \<Rightarrow> s | _ \<Rightarrow> [])"

text \<open>The configuration after the flags were parsed into its fields.\<close>

definition parsed_config :: "(string \<Rightarrow> rvalue) \<Rightarrow> Config" where
  "parsed_config v = \<lparr>
     Agent = as_bool (v ''agent''),
     BastionConns = as_int (v ''bastionconns''),
     Concurrency = as_int (v ''concurrency''),
     ControlPath = as_string (v ''controlpath''),
     c_Debug = as_bool (v ''debug''),
     Daemonize = as_bool (v ''daemonize''),
     Execute = as_bool (v ''execute''),
     c_File = as_string (v ''file''),
     HostKey = as_string (v ''hostkey''),
     KeepAlive = as_int (v ''keepalive''),
     Key = as_string (v ''key''),
     Password = as_bool (v ''password''),
     c_Server = as_bool (v ''server''),
     Spool = as_bool (v ''spool''),
     SpoolDir = as_string (v ''spooldir''),
     TargetCmd = as_string (v ''targetcmd''),
     Tee = as_bool (v ''tee''),
     TestCmd = as_string (v ''testcmd''),
     Timeout = as_int (v ''timeout''),
     User = as_string (v ''user''),
     Verbose = as_bool (v ''verbose'')\<rparr>"

record environ =
  env_home :: string
  env_user :: string
  env_authsock :: string
  env_prog :: string
  env_args :: "string list"

subsection \<open>The steps of main\<close>

text \<open>The two keys, opened in the first stage, where the user can be asked for a passphrase.\<close>

definition open_keys ::
  "Output \<Rightarrow> string \<Rightarrow> Config \<Rightarrow> (string option \<Rightarrow> string option \<Rightarrow> proc) \<Rightarrow> proc" where
  "open_keys e home c k =
     (let server_key = (\<lambda>clientKey.
          if c_Server c
          then getPrivateKeyFile e home (HostKey c) (\<lambda>r. case r of
              Inl err \<Rightarrow> ErrExit e (''Couldn'' @ [CHR 0x27] @ ''t open SSH server Key: '' @ err @ [newline])
            | Inr f \<Rightarrow> k clientKey (Some f))
          else k clientKey None)
      in Ask (XCall ''godaemon.Stage'' []) (\<lambda>st.
        if \<not> c_kind st then k None None
        else if \<not> Agent c
        then getPrivateKeyFile e home (Key c) (\<lambda>r. case r of
            Inl err \<Rightarrow> ErrExit e (''Couldn'' @ [CHR 0x27] @ ''t open SSH private Key: '' @ err @ [newline])
          | Inr f \<Rightarrow> server_key (Some f))
        else server_key None))"

definition daemonize ::
  "Output \<Rightarrow> Config \<Rightarrow> string option \<Rightarrow> string option \<Rightarrow> (Output \<Rightarrow> string option \<Rightarrow> string option \<Rightarrow> proc) \<Rightarrow> proc" where
  "daemonize e c clientKey serverKey k =
     (if \<not> Daemonize c then k e clientKey serverKey
      else Debug e ''main.go'' 89 (''Daemonizing.'' @ [newline])
        (Ask (XCall ''godaemon.MakeDaemon'' []) (\<lambda>d. case c_err d of
            Some err \<Rightarrow> Panic (''godaemon.MakeDaemon() failed: '' @ err @ [newline])
          | None \<Rightarrow> k (Mute e) (if \<not> Agent c then Some (c_out d) else clientKey) (Some (c_eout d)))))"

definition ask_password :: "Output \<Rightarrow> Config \<Rightarrow> proc \<Rightarrow> proc" where
  "ask_password e c p =
     (if \<not> Password c then p
      else Out e ''Password to use for auth: '' (Ask (XCall ''terminal.ReadPassword'' []) (\<lambda>pw. Out e [newline]
        (case c_err pw of
           Some err \<Rightarrow> ErrExit e (''Can'' @ [CHR 0x27] @ ''t read password: '' @ err @ [newline])
         | None \<Rightarrow> SetAuthPass (c_out pw) p))))"

definition set_client_config :: "Output \<Rightarrow> environ \<Rightarrow> Config \<Rightarrow> string option \<Rightarrow> proc \<Rightarrow> proc" where
  "set_client_config e env c clientKey p =
     (let k = (\<lambda>r. case r of
          Inl err \<Rightarrow> ErrExit e (''Can'' @ [CHR 0x27] @ ''t load SSH client config: '' @ err @ [newline])
        | Inr cfg \<Rightarrow> SetSSHConfig (Some (cfg\<lparr>cc_insecureHostKey := True\<rparr>)) p)
      in if Agent c then getSSHConfigAgent (env_authsock env) k else getSSHConfigFile e clientKey k)"

definition load_targets :: "'f ext \<Rightarrow> Output \<Rightarrow> Config \<Rightarrow> (int \<Rightarrow> proc) \<Rightarrow> proc" where
  "load_targets x e c k =
     (if c_File c = [] then k 0
      else Debug e ''main.go'' 127 (''Reading JSON.'' @ [newline])
        (LoadFile (x_decode x) e (\<lambda>(n, err). case err of
            Some m \<Rightarrow> ErrExit e (''Can'' @ [CHR 0x27] @ ''t read the JSON data: '' @ m @ [newline])
          | None \<Rightarrow> k n)))"

definition connect_targets :: "Output \<Rightarrow> Config \<Rightarrow> int \<Rightarrow> proc \<Rightarrow> proc" where
  "connect_targets e c n p =
     (if n > 0
      then Debug e ''main.go'' 134 (''Connecting to '' @ itoa n @ '' hosts.'' @ [newline])
        (Ask XNow (\<lambda>t0. connectEverywhere e (Timeout c) (\<lambda>_. Ask XNow (\<lambda>t1.
          Debug e ''main.go'' 137 (''Done in '' @ elapsed_text t1 t0 @ ''s.'' @ [newline]) p))))
      else p)"

definition serve_or_report ::
  "'f::{linorder,zero} ext \<Rightarrow> Output \<Rightarrow> Config \<Rightarrow> string option \<Rightarrow> nat \<Rightarrow> (nat \<Rightarrow> ssh_client) \<Rightarrow> nat \<Rightarrow> proc" where
  "serve_or_report x e c serverKey lines peers n =
     (if c_Server c
      then NewSSHServer e serverKey (\<lambda>r. case r of
          Inl err \<Rightarrow> ErrExit e (''NewSSHServer(): '' @ err @ [newline])
        | Inr cfg \<Rightarrow> Start x lines e peers n)
      else printSummary e (x_floats x) (Verbose c) Halt)"

definition run_program ::
  "'f::{linorder,zero} ext \<Rightarrow> environ \<Rightarrow> signals \<Rightarrow> nat \<Rightarrow> (nat \<Rightarrow> ssh_client) \<Rightarrow> nat \<Rightarrow> Config \<Rightarrow> proc" where
  "run_program x env sigs lines peers n c0 =
     (let e = NewOutput 1 2 False (c_Debug c0) in
      if Daemonize c0 \<and> Password c0
      then ErrExit e (''Can'' @ [CHR 0x27] @ ''t use --daemonize with --password.'')
      else let c = (if Daemonize c0 then c0\<lparr>c_Server := True\<rparr> else c0) in
        SetCfg (\<lambda>_. c) (open_keys e (env_home env) c (\<lambda>ck sk. daemonize e c ck sk (\<lambda>e ck sk.
          ask_password e c (handleSignals e sigs (set_client_config e env c ck
          (load_targets x e c (\<lambda>count. connect_targets e c count
          (serve_or_report x e c sk lines peers n)))))))))"

definition main ::
  "'f::{linorder,zero} ext \<Rightarrow> environ \<Rightarrow> signals \<Rightarrow> nat \<Rightarrow> (nat \<Rightarrow> ssh_client) \<Rightarrow> nat \<Rightarrow> proc" where
  "main x env sigs lines peers n =
     (case reflectFlags (env_prog env) (PointerTo_struct (Config_fields (DefaultConfig (env_home env) (env_user env)))) None of
        Inl err \<Rightarrow> Log 2 (''Could not parse flags: '' @ err @ [newline]) (ExitProc 1)
      | Inr f \<Rightarrow> let r = x_parse x f (env_args env) in
          (if pf_text r = [] then id else Log 2 (pf_text r))
          (case pf_err r of
             Some err \<Rightarrow> ExitProc (if err = ErrHelp then 0 else 1)
           | None \<Rightarrow> run_program x env sigs lines peers n (parsed_config (pf_value r))))"

end
