(* ===== verification/MainProofs.thy ===== *)
theory MainProofs
  imports MetaMain
begin

section \<open>What the program does from start to end\<close>

text \<open>
  The steps of \<open>main\<close> on a good network: the keys open, the client configuration is built, the file
  is loaded, its targets are connected and the summary is printed. Each step is a function that
  \<open>ends\<close> in a world that differs from the one before only in what the step is for; most of them only
  talk to the user and the system (\<open>chat\<close>).
\<close>

subsection \<open>Steps that only talk\<close>

definition chat :: "world \<Rightarrow> world \<Rightarrow> bool" where
  "chat w w' \<longleftrightarrow> w_state w' = w_state w \<and> w_config w' = w_config w \<and> w_remotes w' = w_remotes w \<and>
     w_next w' = w_next w \<and> w_sem w' = w_sem w \<and> w_wg w' = w_wg w \<and> w_choices w' = w_choices w \<and>
     w_flags w' = w_flags w"

lemma chat_refl [simp]: "chat w w"
  by (simp add: chat_def)

lemma chat_trans [trans]: "\<lbrakk>chat w w1; chat w1 w2\<rbrakk> \<Longrightarrow> chat w w2"
  by (simp add: chat_def)

lemma chat_sel:
  assumes "chat w w'"
  shows "w_state w' = w_state w" "w_config w' = w_config w" "w_remotes w' = w_remotes w" "w_next w' = w_next w"
    "w_sem w' = w_sem w" "w_wg w' = w_wg w" "w_choices w' = w_choices w" "w_flags w' = w_flags w"
  using assms by (simp_all add: chat_def)

lemma chat_step [simp]:
  "chat w0 (ask q w) = chat w0 w" "chat w0 (put_log fd s w) = chat w0 w"
  "chat w0 (debug_log e f l s w) = chat w0 w" "chat w0 (warn_log e f l s x w) = chat w0 w"
  "chat w0 (tick w) = chat w0 w" "chat (ask q w) w0 = chat w w0" "chat (put_log fd s w) w0 = chat w w0"
  "chat (debug_log e f l s w) w0 = chat w w0" "chat (warn_log e f l s x w) w0 = chat w w0"
  "chat (tick w) w0 = chat w w0"
  by (simp_all add: chat_def ask_def tick_def)

lemma chat_keeps:
  assumes "chat w w'"
  shows "good_net w' = good_net w" "fit w' = fit w" "plain_targets w' = plain_targets w" "host w' = host w"
    "connection w' = connection w" "listened w' = listened w"
  using good_net_cong [of w' w]
  by (simp_all add: chat_sel [OF assms] fit_def listened_def plain_targets_def plain_chain_def chain_of_def ptr_def)

text \<open>A step of the main goroutine that goes on with \<open>p\<close>.\<close>

definition passes :: "(proc \<Rightarrow> proc) \<Rightarrow> world \<Rightarrow> world \<Rightarrow> bool" where
  "passes f w w' \<longleftrightarrow> (\<forall>p. exec (f p) w = exec p w')"

definition chats :: "(proc \<Rightarrow> proc) \<Rightarrow> bool" where
  "chats f \<longleftrightarrow> (\<forall>w. \<exists>w'. passes f w w' \<and> chat w w')"

lemma chats_id: "chats (\<lambda>p. p)" "chats id"
  unfolding chats_def passes_def by (auto intro: exI chat_refl)

lemma chats_comp: "\<lbrakk>chats f; chats g\<rbrakk> \<Longrightarrow> chats (\<lambda>p. f (g p))"
  unfolding chats_def passes_def by (metis chat_trans)

lemma chats_Out: "\<lbrakk>\<not> mute e; chats g\<rbrakk> \<Longrightarrow> chats (\<lambda>p. Out e s (g p))"
  by (rule chats_comp) (auto simp: chats_def passes_def exec_Out)

lemma chats_Debug: "\<lbrakk>\<not> mute e; chats g\<rbrakk> \<Longrightarrow> chats (\<lambda>p. Debug e f l s (g p))"
  by (rule chats_comp) (auto simp: chats_def passes_def exec_Debug)

lemma chats_Ask: "(\<And>c. chats (\<lambda>p. g c p)) \<Longrightarrow> chats (\<lambda>p. Ask q (\<lambda>c. g c p))"
  unfolding chats_def passes_def
proof
  fix w
  assume g: "\<And>c. \<forall>w. \<exists>w'. (\<forall>p. exec (g c p) w = exec p w') \<and> chat w w'"
  obtain w' where "\<forall>p. exec (g (now_choice w) p) (ask q w) = exec p w'" "chat (ask q w) w'"
    using g by blast
  then show "\<exists>w'. (\<forall>p. exec (Ask q (\<lambda>c. g c p)) w = exec p w') \<and> chat w w'"
    by auto
qed

lemma chats_GetCfg: "(\<And>c. chats (\<lambda>p. g c p)) \<Longrightarrow> chats (\<lambda>p. GetCfg (\<lambda>c. g c p))"
  unfolding chats_def passes_def by (metis exec.simps(8))

lemma chats_if: "\<lbrakk>b \<Longrightarrow> chats f; \<not> b \<Longrightarrow> chats g\<rbrakk> \<Longrightarrow> chats (\<lambda>p. if b then f p else g p)"
  by (cases b) simp_all

lemma chats_cond: "\<lbrakk>b \<Longrightarrow> chats (\<lambda>p. f (h p)); \<not> b \<Longrightarrow> chats (\<lambda>p. g (h p))\<rbrakk> \<Longrightarrow> chats (\<lambda>p. (if b then f else g) (h p))"
  by (cases b) simp_all

lemma chats_out_lines: "\<lbrakk>\<not> mute e; chats g\<rbrakk> \<Longrightarrow> chats (\<lambda>p. out_lines e ls (g p))"
  by (induction ls) (simp_all add: chats_Out)

lemma chats_outputErrors: "\<lbrakk>\<not> mute e; chats g\<rbrakk> \<Longrightarrow> chats (\<lambda>p. outputErrors e m eh v (g p))"
  unfolding outputErrors_def by (intro chats_Ask chats_out_lines)

lemma chats_fastSlow: "\<lbrakk>\<not> mute e; s \<noteq> []; chats g\<rbrakk> \<Longrightarrow> chats (\<lambda>p. fastSlow e q what s tm (g p))"
  unfolding fastSlow_def Let_def by (simp add: chats_Out)

lemma chats_print_tally:
  assumes "\<not> mute e"
  shows "chats (print_tally e q verbose n t)"
  unfolding print_tally_def Let_def id_def
  by (intro chats_Out chats_cond chats_if chats_outputErrors chats_GetCfg chats_out_lines chats_fastSlow chats_id assms)

lemma printSummary_chats:
  assumes "\<not> mute e"
  shows "chats (printSummary e q verbose)"
  unfolding chats_def passes_def
proof
  fix w
  let ?hk = "grange (c_nums (now_choice w)) (targets (w_state w))"
  obtain w1 where run: "\<And>k. exec (tally_hosts e q ?hk zero_tally k) (tick w) =
      exec (k (tally_all q (entries (tick w) ?hk) zero_tally)) w1" and log: "only_log (tick w) w1"
    using exec_tally_hosts [OF assms] by blast
  obtain w2 where "\<And>p. exec (print_tally e q verbose (int (length ?hk)) (tally_all q (entries (tick w) ?hk) zero_tally) p) w1 =
      exec p w2" "chat w1 w2"
    using chats_print_tally [OF assms] unfolding chats_def passes_def by blast
  moreover have "chat w w1"
    using log by (auto simp: chat_def only_log_def tick_def)
  ultimately show "\<exists>w'. (\<forall>p. exec (printSummary e q verbose p) w = exec p w') \<and> chat w w'"
    using run by (intro exI [of _ w2]) (auto simp: printSummary_def exec_GetHostKeys intro: chat_trans)
qed

subsection \<open>Opening the keys and building the configuration\<close>

lemma ends_leave_chat:
  assumes "\<not> mute e" and "\<And>w'. chat w w' \<Longrightarrow> ends Q f w'"
  shows "ends Q (\<lambda>k. leave e fp tmp (f k)) w"
  unfolding leave_def Let_def using assms
  by (cases tmp; cases fp; cases "the fp") (auto intro!: ends_Ask ends_warn ends_Debug)

lemma getPrivateKeyFile_good:
  assumes "\<not> mute e" and "good_net w"
  shows "ends (\<lambda>r w'. (\<exists>f. r = Inr f) \<and> chat w w') (getPrivateKeyFile e home keyname) w"
  unfolding getPrivateKeyFile_def decrypted_copy_def Let_def
  by (intro ends_rules ends_leave_chat ends_return assms(1)) (simp_all add: assms(2))

lemma makeSigner_good:
  assumes "\<not> mute e" and "good_net w"
  shows "ends (\<lambda>r w'. (\<exists>n. r = Inr n) \<and> chat w w') (makeSigner e (Some f)) w"
proof -
  have "c_err (now_choice w) = None" "c_err (w_choices w (Suc (w_tick w))) = None"
    "c_err (w_choices w (Suc (Suc (w_tick w)))) = None"
    using assms(2) by simp_all
  then show ?thesis
    unfolding ends_def returns_def makeSigner_def Let_def
    by (simp add: api_simps assms(1)) (rule exI, rule exI, rule conjI, rule allI, rule refl, simp)
qed

lemma open_keys_good:
  assumes "\<not> mute e" and "good_net w" and "\<not> c_Server c" and "Agent c \<or> c_kind (now_choice w)"
  shows "\<exists>ck w'. (\<forall>k. exec (open_keys e home c k) w = exec (k ck None) w') \<and> chat w w' \<and> (Agent c \<or> ck \<noteq> None)"
proof -
  let ?w1 = "ask (XCall ''godaemon.Stage'' []) w"
  show ?thesis
  proof (cases "Agent c")
    case True
    then have "exec (open_keys e home c k) w = exec (k None None) ?w1" for k
      using assms(3) by (simp add: open_keys_def)
    then show ?thesis
      using True by (intro exI [of _ None] exI [of _ ?w1]) simp
  next
    case False
    obtain f w2 where w2: "\<And>k. exec (getPrivateKeyFile e home (Key c) k) ?w1 = exec (k (Inr f)) w2" "chat ?w1 w2"
      using getPrivateKeyFile_good [OF assms(1), of ?w1 home "Key c"] assms(2) unfolding ends_def returns_def by auto
    have "exec (open_keys e home c k) w = exec (k (Some f) None) w2" for k
      using False assms(3,4) w2(1) by (simp add: open_keys_def Let_def)
    then show ?thesis
      using w2(2) by (intro exI [of _ "Some f"] exI [of _ w2]) simp
  qed
qed

lemma set_client_config_good:
  assumes "\<not> mute e" and "good_net w" and "Agent c \<or> ck \<noteq> None"
  shows "\<exists>cfg w'. passes (set_client_config e env c ck) w (upd_state (\<lambda>s. s\<lparr>sshConfig := Some cfg\<rparr>) w') \<and> chat w w'"
proof (cases "Agent c")
  case True
  let ?w1 = "ask (XCall ''net.Dial'' [''unix'', env_authsock env]) w"
  have "passes (set_client_config e env c ck) w (upd_state (\<lambda>s. s\<lparr>sshConfig :=
      Some ((client_config (User (w_config w)) PublicKeysCallback)\<lparr>cc_insecureHostKey := True\<rparr>)\<rparr>) ?w1)"
    using True assms(2) by (simp add: passes_def set_client_config_def getSSHConfigAgent_def Let_def api_simps)
  then show ?thesis
    by (intro exI conjI) (assumption, simp)
next
  case False
  then obtain f where f: "ck = Some f"
    using assms(3) by auto
  obtain n w2 where w2: "\<And>k. exec (makeSigner e (Some f) k) w = exec (k (Inr n)) w2" "chat w w2"
    using makeSigner_good [OF assms(1,2), of f] unfolding ends_def returns_def by auto
  have "passes (set_client_config e env c ck) w (upd_state (\<lambda>s. s\<lparr>sshConfig :=
      Some ((client_config (User (w_config w2)) (PublicKeys (digits n)))\<lparr>cc_insecureHostKey := True\<rparr>)\<rparr>) w2)"
    using False w2(1) by (simp add: passes_def set_client_config_def getSSHConfigFile_def f Let_def api_simps)
  then show ?thesis
    using w2(2) by (intro exI conjI)
qed

definition no_signals :: signals where
  "no_signals = \<lparr>sigquits = 0, sigints = 0, sigterms = 0\<rparr>"

lemma handleSignals_chats: "chats (handleSignals e no_signals)"
  unfolding chats_def passes_def
proof
  fix w
  let ?w' = "ask (XCall ''signal.Notify'' [''SIGTERM'']) (ask (XCall ''signal.Notify'' [''SIGINT''])
    (ask (XCall ''signal.Notify'' [''SIGQUIT'']) w))"
  show "\<exists>w'. (\<forall>p. exec (handleSignals e no_signals p) w = exec p w') \<and> chat w w'"
    by (intro exI [of _ ?w']) (simp add: handleSignals_def no_signals_def cleanDeath_def)
qed

subsection \<open>Loading the file\<close>

text \<open>What loading leaves alone: everything but the targets and the name of the empty address.\<close>

definition load_frame :: "world \<Rightarrow> world \<Rightarrow> bool" where
  "load_frame w w' \<longleftrightarrow> conn (w_state w') = conn (w_state w) \<and> sshConfig (w_state w') = sshConfig (w_state w) \<and>
     (\<forall>h. h \<noteq> [] \<longrightarrow> ptr w' h = ptr w h) \<and> w_config w' = w_config w \<and> w_remotes w' = w_remotes w \<and>
     w_next w' = w_next w \<and> w_sem w' = w_sem w \<and> w_wg w' = w_wg w \<and> w_choices w' = w_choices w"

lemma load_frame_trans: "\<lbrakk>load_frame w w1; load_frame w1 w2\<rbrakk> \<Longrightarrow> load_frame w w2"
  by (simp add: load_frame_def)

lemma load_frame_put: "load_frame w (put_host (server_host srv) w)"
  by (simp add: load_frame_def put_host_def ptr_def go_map_simps server_host_def zero_HostInfo_def)

lemma load_frame_chat: "chat w w' \<Longrightarrow> load_frame w w'"
  by (simp add: load_frame_def chat_def ptr_def)

lemma load_servers_frame:
  assumes "\<not> mute e"
  shows "ends (\<lambda>r. load_frame w) (load_servers e servers n) w"
proof (induction servers arbitrary: n w)
  case Nil
  show ?case
    unfolding load_servers.simps by (rule ends_return) (simp add: load_frame_chat)
next
  case (Cons srv rest)
  have step: ?case if "\<And>k. exec (load_servers e (srv # rest) n k) w = exec (load_servers e rest m k) w1"
    and "load_frame w w1" for m w1
  proof -
    obtain r w2 where "returns (load_servers e rest m) w1 r w2" "load_frame w1 w2"
      using Cons.IH [of w1 m] unfolding ends_def by blast
    with that show ?thesis
      unfolding ends_def returns_def using load_frame_trans [of w w1 w2] by auto
  qed
  show ?case
  proof (cases "host w (s_Name srv)")
    case None
    then have "exec (load_servers e (srv # rest) n k) w =
        exec (load_servers e rest (n + 1) k) (put_host (server_host srv) w)" for k
      by (simp add: api_simps put_host_def)
    then show ?thesis
      using load_frame_put by (rule step)
  next
    case (Some hi)
    let ?w1 = "debug_log e ''json.go'' 60 (''Duplicate HostInfo entry for: '' @ s_Name srv @ [newline]) w"
    have "exec (load_servers e (srv # rest) n k) w = exec (load_servers e rest n k) ?w1" for k
      using Some assms by (simp add: api_simps)
    moreover have "load_frame w ?w1"
      by (simp add: load_frame_chat)
    ultimately show ?thesis
      by (rule step)
  qed
qed

lemma load_servers_good:
  assumes "\<not> mute e"
  shows "\<exists>w'. returns (load_servers e servers n) w (n + int (card (new_names servers (host w)))) w' \<and>
    host w' = load_spec servers (host w) \<and> load_frame w w'"
proof -
  obtain w1 where w1: "returns (load_servers e servers n) w (n + int (card (new_names servers (host w)))) w1"
      "host w1 = load_spec servers (host w)"
  proof -
    obtain w1 where "\<forall>k. exec (load_servers e servers n k) w = exec (k (n + int (card (new_names servers (host w))))) w1"
        "host w1 = load_spec servers (host w)"
      using hosts.run_load_servers [OF assms, of servers n w] by blast
    then show ?thesis
      using that [of w1] by (simp add: returns_def)
  qed
  obtain r w2 where "returns (load_servers e servers n) w r w2" "load_frame w w2"
    using load_servers_frame [OF assms] unfolding ends_def by blast
  with w1 show ?thesis
    using returns_det [OF w1(1)] by blast
qed

subsection \<open>The whole run\<close>

text \<open>A server of the file whose chain ends in the server itself and has no empty link.\<close>

definition plain_server :: "Server \<Rightarrow> bool" where
  "plain_server srv \<longleftrightarrow> last (split_on (CHR '' '') (s_Chain srv)) = s_Name srv \<and>
     [] \<notin> set (split_on (CHR '' '') (s_Chain srv))"

lemma loaded_plain:
  assumes "load_frame w w'" and "host w' = load_spec servers (host w)" and "\<forall>srv \<in> set servers. plain_server srv"
    and "targets (w_state w) = []" and "PTR (w_state w) = []"
  shows "plain_targets w'"
  unfolding plain_targets_def
proof (intro allI impI)
  fix h ch
  assume "chain_of w' h = Some ch"
  then obtain srv where srv: "find (\<lambda>srv. s_Name srv = h) servers = Some srv" "ch = split_on (CHR '' '') (s_Chain srv)"
    using assms(2,4) by (auto simp: chain_of_def load_spec_def go_map_simps)
  then have "srv \<in> set servers" "s_Name srv = h"
    by (auto simp: find_Some_iff)
  then have "last ch = h" "[] \<notin> set ch"
    using assms(3) srv(2) by (auto simp: plain_server_def)
  moreover have "ptr w' l = l" if "l \<noteq> []" for l
    using assms(1,5) that by (simp add: load_frame_def ptr_def glook_def)
  moreover have "\<forall>l \<in> set ch. CHR '' '' \<notin> set l" "ch \<noteq> []"
    using split_on_no_sep srv(2) by auto
  ultimately show "plain_chain w' h ch"
    unfolding plain_chain_def by metis
qed

lemma connect_targets_good:
  assumes "\<not> mute e" and "fit w" and "plain_targets w" and "\<not> Execute (w_config w)"
    and "Agent (w_config w) \<or> 1 \<le> Concurrency (w_config w)" and "n > 0"
  shows "\<exists>w'. passes (connect_targets e c n) w w' \<and> listened w' \<and> (\<forall>h. host w h \<noteq> None \<longrightarrow> connection w' h \<noteq> None)"
proof -
  define w1 where "w1 = ask XNow (debug_log e ''main.go'' 134 (''Connecting to '' @ itoa n @ '' hosts.'' @ [newline]) w)"
  let ?t0 = "now_choice (debug_log e ''main.go'' 134 (''Connecting to '' @ itoa n @ '' hosts.'' @ [newline]) w)"
  let ?tail = "\<lambda>p. Ask XNow (\<lambda>t1. Debug e ''main.go'' 137 (''Done in '' @ elapsed_text t1 ?t0 @ ''s.'' @ [newline]) p)"
  have chat: "chat w w1" by (simp add: w1_def)
  obtain m w2 where run: "\<And>k. exec (connectEverywhere e (Timeout c) k) w1 = exec (k m) w2"
      and w2: "listened w2" "\<And>h. host w1 h \<noteq> None \<Longrightarrow> connection w2 h \<noteq> None"
    using exec_connectEverywhere [OF assms(1), of w1 "Timeout c"] assms(2-5)
    unfolding returns_def chat_keeps [OF chat] chat_sel [OF chat] by blast
  have "chats ?tail"
    by (intro chats_Ask chats_Debug chats_id assms(1))
  then obtain w3 where w3: "\<And>p. exec (?tail p) w2 = exec p w3" "chat w2 w3"
    unfolding chats_def passes_def by blast
  have "exec (connect_targets e c n p) w = exec (connectEverywhere e (Timeout c) (\<lambda>_. ?tail p)) w1" for p
    using assms(6) unfolding connect_targets_def w1_def by (simp only: if_True exec_Debug [OF assms(1)] exec.simps)
  then have "passes (connect_targets e c n) w w3"
    by (simp only: passes_def run w3(1) simp_thms)
  moreover have "listened w3" "\<And>h. host w h \<noteq> None \<Longrightarrow> connection w3 h \<noteq> None"
    using w2 unfolding chat_keeps [OF w3(2)] chat_keeps [OF chat] by blast+
  ultimately show ?thesis by blast
qed

lemma finish_run:
  assumes "\<not> mute e" and "fit w" and "plain_targets w" and "\<not> Execute (w_config w)"
    and "Agent (w_config w) \<or> 1 \<le> Concurrency (w_config w)" and "\<not> c_Server c" and "n > 0"
  shows "\<exists>w'. exec (connect_targets e c n (serve_or_report x e c sk lines peers m)) w = Finished w' \<and>
    listened w' \<and> (\<forall>h. host w h \<noteq> None \<longrightarrow> connection w' h \<noteq> None)"
proof -
  obtain w1 where w1: "passes (connect_targets e c n) w w1" "listened w1" "\<And>h. host w h \<noteq> None \<Longrightarrow> connection w1 h \<noteq> None"
    using connect_targets_good [OF assms(1-5,7), of c] by blast
  obtain w2 where w2: "passes (printSummary e (x_floats x) (Verbose c)) w1 w2" "chat w1 w2"
    using printSummary_chats [OF assms(1), of "x_floats x" "Verbose c"] unfolding chats_def by blast
  have "exec (connect_targets e c n (serve_or_report x e c sk lines peers m)) w = Finished w2"
    using w1(1) w2(1) assms(6) by (simp add: passes_def serve_or_report_def)
  then show ?thesis
    using w1(2,3) unfolding chat_keeps [OF w2(2), symmetric] by blast
qed

lemma load_targets_good:
  assumes "\<not> mute e" and "good_net w" and "c_File c \<noteq> []" and "\<forall>b. x_decode x b = Inr servers"
  shows "\<exists>w' n. returns (load_targets x e c) w n w' \<and> load_frame w w' \<and> host w' = load_spec servers (host w) \<and>
    n = int (card (new_names servers (host w)))"
proof -
  let ?w1 = "ask (XReadFile (c_File (w_config w))) (debug_log e ''main.go'' 127 (''Reading JSON.'' @ [newline]) w)"
  have chat: "chat w ?w1" by simp
  obtain w2 where w2: "returns (load_servers e servers 0) ?w1 (0 + int (card (new_names servers (host ?w1)))) w2"
      "host w2 = load_spec servers (host ?w1)" "load_frame ?w1 w2"
    using load_servers_good [OF assms(1)] by blast
  have "returns (load_targets x e c) w (int (card (new_names servers (host w)))) w2"
    using assms w2(1) by (simp add: returns_def load_targets_def LoadFile_def LoadBlob_def exec_Debug)
  moreover have "load_frame w w2"
    using load_frame_trans [OF load_frame_chat [OF chat] w2(3)] .
  ultimately show ?thesis
    using w2(2) by (intro exI [of _ w2]) simp
qed

lemma new_names_pos: "servers \<noteq> [] \<Longrightarrow> 0 < int (card (new_names servers Map.empty))"
  by (cases servers) (auto simp: new_names_def card_gt_0_iff)

lemma run_program_good:
  assumes cfg: "\<not> Daemonize c" "\<not> Password c" "\<not> c_Server c" "\<not> Execute c" "c_File c \<noteq> []"
      "1 \<le> BastionConns c" "Agent c \<or> 1 \<le> Concurrency c"
    and w: "good_net w" "Agent c \<or> c_kind (now_choice w)" "w_state w = NewState" "w_remotes w = []" "w_wg w = (\<lambda>_. 0)"
    and dec: "\<forall>b. x_decode x b = Inr servers" "\<forall>srv \<in> set servers. plain_server srv" "servers \<noteq> []"
  shows "\<exists>w'. exec (run_program x env no_signals lines peers n c) w = Finished w' \<and>
    listened w' \<and> (\<forall>srv \<in> set servers. connection w' (s_Name srv) \<noteq> None)"
proof -
  define e where "e = NewOutput 1 2 False (c_Debug c)"
  have e: "\<not> mute e"
    by (simp add: e_def NewOutput_def)
  define w1 where "w1 = w\<lparr>w_config := c\<rparr>"
  have net: "good_net w1" "Agent c \<or> c_kind (now_choice w1)"
    using w(1,2) good_net_cong [of w1 w] by (simp_all add: w1_def now_choice_def)
  from open_keys_good [OF e net(1) cfg(3) net(2), of "env_home env"] obtain ck w2 where
    w2: "\<forall>k. exec (open_keys e (env_home env) c k) w1 = exec (k ck None) w2" "chat w1 w2" "Agent c \<or> ck \<noteq> None"
    by (elim exE conjE)
  obtain w3 where w3: "\<And>p. exec (handleSignals e no_signals p) w2 = exec p w3" "chat w2 w3"
    using handleSignals_chats [of e] unfolding chats_def passes_def by blast
  note chat13 = chat_trans [OF w2(2) w3(2)]
  have "good_net w3"
    using net(1) chat_keeps(1) [OF chat13] by simp
  then obtain sc w4 where w4: "\<And>p. exec (set_client_config e env c ck p) w3 =
      exec p (upd_state (\<lambda>s. s\<lparr>sshConfig := Some sc\<rparr>) w4)" "chat w3 w4"
    using set_client_config_good [OF e _ w2(3), of w3 env] unfolding passes_def by blast
  note chat14 = chat_trans [OF chat13 w4(2)]
  define w5 where "w5 = upd_state (\<lambda>s. s\<lparr>sshConfig := Some sc\<rparr>) w4"
  have w5: "w_state w5 = NewState\<lparr>sshConfig := Some sc\<rparr>" "w_config w5 = c" "w_remotes w5 = []" "w_wg w5 = (\<lambda>_. 0)"
    "w_choices w5 = w_choices w"
    using w chat_sel [OF chat14] by (simp_all add: w5_def w1_def)
  have empty: "host w5 = Map.empty" "connection w5 = Map.empty" "targets (w_state w5) = []" "PTR (w_state w5) = []"
    by (simp_all add: w5(1) NewState_def go_map_simps fun_eq_iff)
  have "good_net w5"
    using w(1) good_net_cong [OF w5(5)] by simp
  then obtain w6 where w6: "returns (load_targets x e c) w5 (int (card (new_names servers Map.empty))) w6"
      "load_frame w5 w6" "host w6 = load_spec servers (host w5)"
    using load_targets_good [OF e _ cfg(5) dec(1), of w5] unfolding empty(1) by auto
  have plain: "plain_targets w6"
    using loaded_plain [OF w6(2,3) dec(2) empty(3,4)] .
  have "w_choices w6 = w_choices w" "w_wg w6 = (\<lambda>_. 0)" "sshConfig (w_state w6) = Some sc" "w_config w6 = c"
    "connection w6 = Map.empty"
    using w6(2) w5 empty(2) by (simp_all add: load_frame_def)
  then have "fit w6" "w_config w6 = c"
    using w(1) cfg(6) good_net_cong [of w6 w] by (simp_all add: fit_def listened_def)
  with finish_run [OF e _ plain, of c "int (card (new_names servers Map.empty))" x None lines peers n]
  obtain w7 where w7: "exec (connect_targets e c (int (card (new_names servers Map.empty)))
        (serve_or_report x e c None lines peers n)) w6 = Finished w7" "listened w7"
      "\<And>h. host w6 h \<noteq> None \<Longrightarrow> connection w7 h \<noteq> None"
    using cfg new_names_pos [OF dec(3)] by blast
  have "exec (run_program x env no_signals lines peers n c) w =
      exec (open_keys e (env_home env) c (\<lambda>ck sk. daemonize e c ck sk (\<lambda>e ck sk.
          ask_password e c (handleSignals e no_signals (set_client_config e env c ck
          (load_targets x e c (\<lambda>count. connect_targets e c count
          (serve_or_report x e c sk lines peers n)))))))) w1"
    using cfg(1) unfolding run_program_def e_def w1_def Let_def by (simp only: simp_thms if_False exec.simps)
  also have "\<dots> = exec (load_targets x e c (\<lambda>count. connect_targets e c count
          (serve_or_report x e c None lines peers n))) w5"
    using cfg(1,2) by (simp only: w2(1) [rule_format] daemonize_def ask_password_def if_True if_False simp_thms w3(1) w4(1) w5_def)
  also have "\<dots> = Finished w7"
    using w7(1) w6(1) by (simp only: returns_def)
  finally have "exec (run_program x env no_signals lines peers n c) w = Finished w7" .
  moreover have "connection w7 (s_Name srv) \<noteq> None" if "srv \<in> set servers" for srv
    using that by (intro w7(3)) (auto simp: w6(3) empty(1) load_spec_def find_None_iff)
  ultimately show ?thesis
    using w7(2) by blast
qed


text \<open>The options of the witness: the agent's keys, and a file with two servers, one behind the other.\<close>

definition sample_options :: "string \<Rightarrow> rvalue" where
  "sample_options n =
     (if n \<in> {''agent''} then VBool True
      else if n \<in> {''bastionconns'', ''concurrency'', ''timeout''} then VInt 2
      else if n = ''file'' then VString ''hosts.json'' else VOther)"

definition file_servers :: "Server list" where
  "file_servers = [\<lparr>s_Name = ''b'', s_Chain = ''b''\<rparr>, \<lparr>s_Name = ''a'', s_Chain = ''b a''\<rparr>]"

definition sample_env :: environ where
  "sample_env = \<lparr>env_home = ''/root'', env_user = ''me'', env_authsock = ''/tmp/agent'', env_prog = ''metassh'',
     env_args = [''-a'', ''-f'', ''hosts.json'']\<rparr>"

definition sample_parsed :: parsed where
  "sample_parsed = \<lparr>pf_text = [], pf_err = None, pf_value = sample_options, pf_args = []\<rparr>"


subsection \<open>Daemons\<close>


definition agent_config :: "bool \<Rightarrow> Config" where
  "agent_config daemon = (DefaultConfig ''/root'' ''me'')\<lparr>Agent := True, Daemonize := daemon\<rparr>"


text \<open>
  The options \<open>--daemonize\<close> and \<open>--password\<close> exclude each other: the program says so and exits with 1
  before it asks the system for anything.
\<close>

theorem daemon_forbids_password:
  assumes "Daemonize c" and "Password c"
  shows "exec (run_program x env sigs lines peers n c) w =
    Quit 1 (put_log 2 (''Can'' @ [CHR 0x27] @ ''t use --daemonize with --password.'') w)"
  using assms by (simp add: run_program_def NewOutput_def ErrExit_def doOutput_def munge_def)

theorem daemon_forbids_password_witness:
  "exec (run_program (sample_ext sample_parsed []) sample_env no_signals 0 (\<lambda>_. no_client) 0
      ((agent_config True)\<lparr>Password := True\<rparr>)) (scripted (\<lambda>_. zero_choice)) =
    Quit 1 (put_log 2 (''Can'' @ [CHR 0x27] @ ''t use --daemonize with --password.'') (scripted (\<lambda>_. zero_choice)))"
  by (rule daemon_forbids_password) (simp_all add: agent_config_def)

subsection \<open>Signals\<close>



end
