(* ===== verification/Manager.thy ===== *)
theory Manager
  imports MainProofs
begin

section \<open>The CLI as a target manager\<close>

text \<open>
  What a user of the CLI has to know: there are targets, each with what is known of it, and some
  hosts are connected. \<open>manager\<close> says what each command does to that, and the theorem of this
  theory is that the program refines it: every session of the listed commands, in any order and
  with any arguments, changes the view of the world as the manager says. The commands that make
  targets and connections or run something (\<open>target\<close>, \<open>connect\<close>, \<open>run\<close>) depend on other hosts and have
  their own theorems.
\<close>

type_synonym view = "(string \<Rightarrow> HostInfo option) \<times> string set"

definition view_of :: "world \<Rightarrow> view" where
  "view_of w = (host w, dom (connection w))"

definition good_target :: "HostInfo \<Rightarrow> bool" where
  "good_target hi \<longleftrightarrow> connectedOK hi \<and> (runOK hi \<or> \<not> runOnce hi)"

fun manager :: "string \<Rightarrow> view \<Rightarrow> view" where
  "manager cmd (ts, cs) =
     (if cmd = ''clear'' then (Map.empty, {})
      else if cmd = ''disco'' then (ts, {})
      else if cmd = ''clean''
      then (\<lambda>h. case ts h of None \<Rightarrow> None | Some hi \<Rightarrow> if good_target hi then Some hi else None,
            {h \<in> cs. \<forall>hi. ts h = Some hi \<longrightarrow> good_target hi \<or> \<not> connectedOK hi})
      else (ts, cs))"

subsection \<open>What a session relies on and keeps\<close>

definition in_order :: "world \<Rightarrow> bool" where
  "in_order w \<longleftrightarrow> clean_ready w \<and> (\<forall>i \<ge> w_next w. w_wg w i = 0)"

text \<open>Worlds that look the same to the user and are as much in order.\<close>

definition alike :: "world \<Rightarrow> world \<Rightarrow> bool" where
  "alike w w' \<longleftrightarrow> view_of w' = view_of w \<and> (in_order w \<longrightarrow> in_order w')"

lemma alike_refl [simp]: "alike w w"
  by (simp add: alike_def)

lemma alike_trans: "\<lbrakk>alike w w1; alike w1 w2\<rbrakk> \<Longrightarrow> alike w w2"
  by (simp add: alike_def)

lemma alikeI:
  assumes "w_state w' = w_state w" and "w_remotes w' = w_remotes w" and "w_wg w' = w_wg w" and "w_next w' = w_next w"
    and "BastionConns (w_config w') = BastionConns (w_config w)"
  shows "alike w w'"
  using assms clean_ready_cong [of w' w] by (simp add: alike_def view_of_def in_order_def)

lemma chat_alike: "chat w w' \<Longrightarrow> alike w w'"
  by (rule alikeI) (simp_all add: chat_def)

lemma alike_tick: "alike w (tick w)" "alike w (ask q w)" "alike w (put_log fd s w)" "alike w (warn_log e f l s x w)"
  by (simp_all add: chat_alike)

text \<open>Commands that only report, or change how the program reports.\<close>

definition reports :: "((cmd_err option \<Rightarrow> proc) \<Rightarrow> proc) \<Rightarrow> bool" where
  "reports f \<longleftrightarrow> (\<forall>w. ends (\<lambda>r. alike w) f w)"

lemma reports_step:
  assumes "\<And>w k. exec (f k) w = exec (g (c w) k) (v w)" and "\<And>w. alike w (v w)" and "\<And>x. reports (g x)"
  shows "reports f"
  unfolding reports_def
proof
  fix w
  obtain r w2 where "returns (g (c w)) (v w) r w2" "alike (v w) w2"
    using assms(3) unfolding reports_def ends_def by blast
  then have "returns f w r w2" "alike w w2"
    using assms(1) alike_trans [OF assms(2)] by (simp_all add: returns_def)
  then show "ends (\<lambda>r. alike w) f w"
    unfolding ends_def by blast
qed

lemma reports_return: "reports (\<lambda>k. k r)"
  unfolding reports_def by (intro allI ends_return) simp

lemma reports_Ask: "(\<And>c. reports (g c)) \<Longrightarrow> reports (\<lambda>k. Ask q (\<lambda>c. g c k))"
  by (rule reports_step [where c = now_choice and v = "ask q" and g = g]) (simp_all add: alike_tick)

lemma reports_GetCfg: "(\<And>c. reports (g c)) \<Longrightarrow> reports (\<lambda>k. GetCfg (\<lambda>c. g c k))"
  by (rule reports_step [where c = w_config and v = id and g = g]) simp_all

lemma reports_Out: "\<lbrakk>\<not> mute e; reports g\<rbrakk> \<Longrightarrow> reports (\<lambda>k. Out e s (g k))"
  by (rule reports_step [where v = "put_log (o_stdOut e) (munge e s)" and g = "\<lambda>_. g" and c = id])
    (simp_all add: alike_tick exec_Out)

lemma reports_Log: "reports g \<Longrightarrow> reports (\<lambda>k. Log fd s (g k))"
  by (rule reports_step [where v = "put_log fd s" and g = "\<lambda>_. g" and c = id]) (simp_all add: alike_tick)

lemma reports_warn: "\<lbrakk>\<not> mute e; reports g\<rbrakk> \<Longrightarrow> reports (\<lambda>k. warn e f l s x (g k))"
  by (rule reports_step [where v = "warn_log e f l s x" and g = "\<lambda>_. g" and c = id])
    (simp_all add: alike_tick exec_warn)

lemma reports_SetCfg:
  "\<lbrakk>\<And>c. BastionConns (h c) = BastionConns c; reports g\<rbrakk> \<Longrightarrow> reports (\<lambda>k. SetCfg h (g k))"
  by (rule reports_step [where v = "\<lambda>w. w\<lparr>w_config := h (w_config w)\<rparr>" and g = "\<lambda>_. g" and c = id])
    (simp_all add: alikeI)

lemma reports_chats:
  assumes "chats f" and "reports g"
  shows "reports (\<lambda>k. f (g k))"
proof -
  obtain v where v: "\<forall>w. passes f w (v w) \<and> chat w (v w)"
    using choice [OF assms(1) [unfolded chats_def]] by blast
  show ?thesis
  proof (rule reports_step [where v = v and g = "\<lambda>_. g" and c = id])
    show "exec (f (g k)) w = exec (g k) (v w)" for w k
      using v unfolding passes_def by blast
    show "alike w (v w)" for w
      using v chat_alike by blast
  qed (rule assms(2))
qed

lemma reports_if: "\<lbrakk>b \<Longrightarrow> reports f; \<not> b \<Longrightarrow> reports g\<rbrakk> \<Longrightarrow> reports (\<lambda>k. if b then f k else g k)"
  by (cases b) simp_all

lemma reports_TimeoutWaiters: "reports g \<Longrightarrow> reports (\<lambda>k. TimeoutWaiters (g k))"
  by (rule reports_step [where v = tick and g = "\<lambda>_. g" and c = id]) (simp_all add: alike_tick api_simps)

lemma reports_GetWaiterInfo: "(\<And>wi. reports (g wi)) \<Longrightarrow> reports (\<lambda>k. GetWaiterInfo (\<lambda>wi. g wi k))"
  by (rule reports_step [where v = tick and g = g and
      c = "\<lambda>w. waiter_info (c_time (now_choice w)) (c_nums (now_choice w)) (w_state w)"]) (simp_all add: alike_tick api_simps)

lemma reports_GetHostKeys: "(\<And>hk. reports (g hk)) \<Longrightarrow> reports (\<lambda>k. GetHostKeys (\<lambda>hk. g hk k))"
  by (rule reports_step [where v = tick and g = g and
      c = "\<lambda>w. grange (c_nums (now_choice w)) (targets (w_state w))"]) (simp_all add: alike_tick api_simps)

lemma reports_GetHostInfo: "(\<And>r. reports (g r)) \<Longrightarrow> reports (\<lambda>k. GetHostInfo h (\<lambda>r. g r k))"
  by (rule reports_step [where v = id and g = g and
      c = "\<lambda>w. case host w h of None \<Rightarrow> Inl (no_host_error h) | Some hi \<Rightarrow> Inr hi"]) (simp_all add: api_simps)

lemma reports_option: "\<lbrakk>reports f; \<And>x. reports (g x)\<rbrakk> \<Longrightarrow> reports (\<lambda>k. case y of None \<Rightarrow> f k | Some x \<Rightarrow> g x k)"
  by (cases y) simp_all

lemma reports_sum: "\<lbrakk>\<And>x. reports (f x); \<And>x. reports (g x)\<rbrakk> \<Longrightarrow> reports (\<lambda>k. case y of Inl x \<Rightarrow> f x k | Inr x \<Rightarrow> g x k)"
  by (cases y) simp_all

lemmas reports_rules = reports_option reports_sum reports_return reports_Ask reports_GetCfg reports_Out reports_Log reports_SetCfg reports_if
  reports_TimeoutWaiters reports_GetWaiterInfo reports_GetHostKeys

lemma reports_out_lines: "\<lbrakk>\<not> mute e; reports g\<rbrakk> \<Longrightarrow> reports (\<lambda>k. out_lines e ls (g k))"
  by (rule reports_chats [of "out_lines e ls"]) (use chats_out_lines [OF _ chats_id(1)] in simp)

text \<open>The commands that report.\<close>

lemma reports_tee: "\<not> mute e \<Longrightarrow> reports (tee e args)"
  unfolding tee_def by (intro reports_rules) simp_all

lemma reports_spooldir: "\<not> mute e \<Longrightarrow> reports (spooldir e args)"
  unfolding spooldir_def writable_def Let_def by (cases args) (auto intro!: reports_rules)

lemma reports_spool: "\<not> mute e \<Longrightarrow> reports (spool e args)"
  unfolding spool_def writable_def by (intro reports_rules) simp_all

lemma reports_state: "\<not> mute e \<Longrightarrow> reports (state e args)"
  unfolding state_def state_lines_def by (intro reports_rules reports_out_lines)

lemma reports_help: "\<not> mute e \<Longrightarrow> reports (help_cmd e args)"
  unfolding help_cmd_def Let_def by (intro reports_rules reports_out_lines)

lemma reports_abort: "reports (abort args)"
  unfolding abort_def by (intro reports_rules)

lemma reports_quit: "reports (quit args)"
  unfolding quit_def by (rule reports_return)

lemma reports_with_flags:
  assumes "\<And>v rest. reports (body v rest)"
  shows "reports (\<lambda>k. with_flags x e name fs args k (\<lambda>v rest. body v rest k))"
proof (cases "reflectFlags name (PointerTo_struct fs) (Some (o_stdOut e))")
  case (Inr f)
  show ?thesis
    unfolding with_flags_def write_out_def Let_def Inr sum.case
    by (rule reports_if; (rule reports_Log)?; rule reports_option; rule assms reports_return)
qed (simp add: with_flags_def reports_return)

lemma reports_summary: "\<not> mute e \<Longrightarrow> reports (summary x e args)"
  unfolding summary_def
  by (rule reports_with_flags, rule reports_chats [OF printSummary_chats reports_return])

lemma reports_quant_fill:
  assumes "\<not> mute e" and "\<And>qr qc. reports (k qr qc)"
  shows "reports (\<lambda>c. quant_fill e q hs qr qc (\<lambda>qr qc. k qr qc c))"
proof (induction hs arbitrary: qr qc)
  case (Cons h hs)
  show ?case
    unfolding quant_fill.simps
    by (intro reports_GetHostInfo reports_sum reports_warn assms(1) Cons.IH)
qed (simp add: assms(2))

lemma reports_quant_pick:
  assumes "\<not> mute e" and "\<And>cs rs. reports (k cs rs)"
  shows "reports (\<lambda>c. quant_pick e q start end qr qc hs cs rs (\<lambda>cs rs. k cs rs c))"
proof (induction hs arbitrary: cs rs)
  case (Cons h hs)
  show ?case
    unfolding quant_pick.simps Let_def
    by (intro reports_GetHostInfo reports_sum reports_warn assms(1) Cons.IH)
qed (simp add: assms(2))

lemma reports_outputResults: "\<lbrakk>\<not> mute e; reports g\<rbrakk> \<Longrightarrow> reports (\<lambda>k. outputResults e q m what (g k))"
  unfolding outputResults_def by (intro reports_rules reports_out_lines)

lemma split_reports: "reports (f (fst p) (snd p)) \<Longrightarrow> reports (\<lambda>k. case p of (a, b) \<Rightarrow> f a b k)"
  by (cases p) simp

lemma reports_quant:
  assumes "\<not> mute e"
  shows "reports (quant x e args)"
proof -
  have tail: "reports (\<lambda>k. (if a then outputResults e q cs ''Connect'' else id)
      ((if b then outputResults e q rs ''Run'' else id) (k None)))" for a b q cs rs
    using assms by (cases a; cases b) (simp_all add: reports_outputResults reports_return)
  show ?thesis
    unfolding quant_def Let_def
    by (intro reports_with_flags reports_if reports_sum reports_return split_reports reports_GetHostKeys
        reports_quant_fill [OF assms] reports_quant_pick [OF assms] tail)
qed

subsection \<open>Refinement\<close>

text \<open>A command that changes the view, and leaves everything in order.\<close>

definition refines :: "((cmd_err option \<Rightarrow> proc) \<Rightarrow> proc) \<Rightarrow> (view \<Rightarrow> view) \<Rightarrow> bool" where
  "refines f g \<longleftrightarrow> (\<forall>w. in_order w \<longrightarrow> ends (\<lambda>r w'. in_order w' \<and> view_of w' = g (view_of w)) f w)"

lemma reports_refines: "reports f \<Longrightarrow> refines f id"
  unfolding reports_def refines_def ends_def alike_def by fastforce

lemma disconnect_all:
  assumes "\<not> mute e" and "in_order w"
  shows "\<exists>w'. (\<forall>p. exec (disconnectEverywhere e True p) w = exec p w') \<and> in_order w' \<and> view_of w' = (host w, {})"
proof -
  have ready: "ready_to_disconnect w" "1 \<le> BastionConns (w_config w)"
    using assms(2) by (simp_all add: in_order_def clean_ready_def)
  obtain w1 w2 w3 cs1 cs2 cs3 where run: "\<forall>p. exec (disconnectEverywhere e True p) w = exec p w3"
    and three: "three_sweeps w w1 w2 w3 cs1 cs2 cs3"
    using disconnect_sweeps [OF assms(1) ready(1)] by blast
  have none: "connection w3 = Map.empty"
    using sweeps_empty [OF three] by (rule ext)
  have same: "targets (w_state w3) = targets (w_state w)" "w_wg w3 = w_wg w" "w_next w3 = w_next w"
      "w_config w3 = w_config w" "set (w_remotes w3) \<subseteq> set (w_remotes w)"
    using three by (auto simp: three_sweeps_def swept_def)
  have "gwf (conn (w_state w3))"
    using three ready(1) by (auto simp: three_sweeps_def swept_def ready_to_disconnect_def)
  moreover have "all_safe w3"
    using ready(1) same(5) by (auto simp: ready_to_disconnect_def all_safe_def)
  ultimately have "in_order w3"
    using assms(2) same ready(2) by (simp add: in_order_def clean_ready_iff own_channels_def none)
  then show ?thesis
    using run same(1) none by (intro exI [of _ w3]) (simp add: view_of_def)
qed

lemma refines_disco: "\<not> mute e \<Longrightarrow> refines (disco e args) (\<lambda>(ts, cs). (ts, {}))"
  unfolding refines_def ends_def returns_def disco_def
proof (intro allI impI)
  fix w
  assume "\<not> mute e" and "in_order w"
  then obtain w' where "\<forall>p. exec (disconnectEverywhere e True p) w = exec p w'" "in_order w'" "view_of w' = (host w, {})"
    using disconnect_all by blast
  then show "\<exists>r w'. (\<forall>k. exec (disconnectEverywhere e True (k None)) w = exec (k r) w') \<and>
      in_order w' \<and> view_of w' = (case view_of w of (ts, cs) \<Rightarrow> (ts, {}))"
    by (intro exI [of _ None] exI [of _ w']) (simp add: view_of_def)
qed

lemma refines_clear: "\<not> mute e \<Longrightarrow> refines (clear e args) (\<lambda>v. (Map.empty, {}))"
  unfolding refines_def ends_def returns_def
proof (intro allI impI)
  fix w
  assume e: "\<not> mute e" and "in_order w"
  then obtain w1 where w1: "\<forall>p. exec (disconnectEverywhere e True p) w = exec p w1" "in_order w1" "view_of w1 = (host w, {})"
    using disconnect_all by blast
  let ?w2 = "upd_state (\<lambda>s. s\<lparr>targets := []\<rparr>) w1"
  let ?w3 = "put_log (o_stdOut e) (munge e (''Targets cleared.'' @ [newline])) ?w2"
  have "exec (clear e args k) w = exec (k None) ?w3" for k
    using w1(1) e by (simp add: clear_def api_simps)
  moreover have "clean_ready ?w2 = clean_ready w1"
    by (rule clean_ready_cong) simp_all
  then have "in_order ?w2" "view_of ?w2 = (Map.empty, {})"
    using w1(2,3) by (simp_all add: in_order_def view_of_def go_map_simps fun_eq_iff)
  moreover have "alike ?w2 ?w3"
    by (rule alike_tick)
  ultimately show "\<exists>r w'. (\<forall>k. exec (clear e args k) w = exec (k r) w') \<and> in_order w' \<and> view_of w' = (Map.empty, {})"
    by (intro exI [of _ None] exI [of _ ?w3]) (simp add: alike_def)
qed

lemma refines_clean: "\<not> mute e \<Longrightarrow> refines (clean e args) (manager ''clean'')"
  unfolding refines_def ends_def returns_def
proof (intro allI impI)
  fix w
  assume e: "\<not> mute e" and w: "in_order w"
  then obtain w' where w': "\<forall>k. exec (clean e args k) w = exec (k None) w'" "clean_ready w'" "w_wg w' = w_wg w"
      "w_next w \<le> w_next w'"
    and h: "\<forall>h. host w' h = (case host w h of None \<Rightarrow> None
       | Some hi \<Rightarrow> if connectedOK hi \<and> (runOK hi \<or> \<not> runOnce hi) then Some hi else None)"
    and c: "\<forall>h. connection w' h = (case host w h of None \<Rightarrow> connection w h
       | Some hi \<Rightarrow> if connectedOK hi \<and> \<not> runOK hi \<and> runOnce hi then None else connection w h)"
    using exec_clean [of e w args] unfolding in_order_def by blast
  have "in_order w'"
    using w w' by (simp add: in_order_def)
  moreover have "host w' = (\<lambda>h. case host w h of None \<Rightarrow> None | Some hi \<Rightarrow> if good_target hi then Some hi else None)"
    using h by (auto simp: good_target_def fun_eq_iff split: option.split)
  moreover have "dom (connection w') = {h \<in> dom (connection w). \<forall>hi. host w h = Some hi \<longrightarrow> good_target hi \<or> \<not> connectedOK hi}"
    using c by (auto simp: good_target_def dom_def split: option.splits if_splits)
  ultimately show "\<exists>r w'. (\<forall>k. exec (clean e args k) w = exec (k r) w') \<and> in_order w' \<and> view_of w' = manager ''clean'' (view_of w)"
    using w'(1) by (intro exI [of _ None] exI [of _ w']) (simp add: view_of_def)
qed

definition managed :: "string \<Rightarrow> bool" where
  "managed cmd \<longleftrightarrow> cmd \<notin> {''target'', ''connect'', ''run''}"

lemma managed_refines:
  assumes "\<not> mute e" and "managed cmd" and "glook (commands x e) cmd = Some f"
  shows "refines (f args) (manager cmd)"
proof -
  have id: "manager cmd = id" if "cmd \<notin> {''clear'', ''disco'', ''clean''}"
    using that by (auto simp: fun_eq_iff)
  have m: "manager ''clear'' = (\<lambda>v. (Map.empty, {}))" "manager ''disco'' = (\<lambda>(ts, cs). (ts, {}))"
    by (auto simp: fun_eq_iff)
  note reps = reports_tee reports_spooldir reports_spool reports_state reports_help reports_abort reports_quit
    reports_summary reports_quant
  show ?thesis
    using assms id m refines_disco refines_clear refines_clean reps [THEN reports_refines]
    by (auto simp: commands_def glook_def managed_def split: if_splits)
qed

text \<open>What \<open>runCliCmd\<close> hands on after a command has returned, and a whole session.\<close>

lemma exec_conclude:
  assumes "\<not> mute e"
  shows "\<exists>b w'. (\<forall>k. exec (conclude e cmd k r) w = exec (k b) w') \<and> alike w w'"
proof (cases r)
  case None
  then show ?thesis
    by (intro exI [of _ True] exI [of _ w]) (simp add: conclude_def)
next
  case (Some err)
  let ?w' = "if err \<noteq> ErrHelp then put_log (o_stdOut e) (munge e (cmd @ '': '' @ cmd_text err @ [newline])) w else w"
  show ?thesis
    using Some assms
    by (intro exI [of _ "\<not> Fatal err"] exI [of _ ?w']) (simp add: conclude_def exec_Out alike_tick)
qed

definition ends_session :: "string \<Rightarrow> bool" where
  "ends_session cmd \<longleftrightarrow> cmd \<in> {''quit'', ''exit''}"

lemma exec_runCliCmd:
  assumes "\<not> mute e" and "managed cmd" and "in_order w" and "\<forall>f args m. pf_err (x_parse x f args) \<noteq> Some (CmdErr True m)"
  shows "\<exists>w'. (\<forall>k. exec (runCliCmd x e cmd args k) w = exec (k (\<not> ends_session cmd)) w') \<and>
    in_order w' \<and> view_of w' = manager cmd (view_of w)"
proof -
  have "\<exists>b w'. (\<forall>k. exec (runCliCmd x e cmd args k) w = exec (k b) w') \<and> in_order w' \<and> view_of w' = manager cmd (view_of w)"
  proof (cases "glook (commands x e) cmd")
    case None
    then have "manager cmd v = v" for v
      by (cases v) (auto simp: commands_def glook_def split: if_splits)
    moreover let ?w' = "put_log (o_stdOut e) (munge e (''Unknown command: '' @ [CHR 0x27] @ cmd @ [CHR 0x27] @ ''.'' @ [newline])) w"
    have "alike w ?w'"
      by (rule alike_tick)
    ultimately show ?thesis
      using None assms(1,3) by (intro exI [of _ True] exI [of _ ?w']) (simp add: runCliCmd_def exec_Out alike_def)
  next
    case (Some f)
    obtain r w1 where w1: "\<And>k. exec (f args k) w = exec (k r) w1" "in_order w1" "view_of w1 = manager cmd (view_of w)"
      using managed_refines [OF assms(1,2) Some, of args] assms(3) unfolding refines_def ends_def returns_def by blast
    obtain b w2 where "\<forall>k. exec (conclude e cmd k r) w1 = exec (k b) w2" "alike w1 w2"
      using exec_conclude [OF assms(1)] by blast
    then show ?thesis
      using w1 Some by (intro exI [of _ b] exI [of _ w2]) (simp add: runCliCmd_def alike_def)
  qed
  then obtain b w' where w': "\<And>k. exec (runCliCmd x e cmd args k) w = exec (k b) w'" "in_order w'"
      "view_of w' = manager cmd (view_of w)"
    by blast
  have "exec (runCliCmd x e cmd args k) w = exec (k (\<not> ends_session cmd)) w'" for k
  proof (cases "ends_session cmd")
    case False
    then have "runCliCmd x e cmd args k = runCliCmd x e cmd args (\<lambda>_. k True)"
      using runCliCmd_more [OF assms(4), of cmd e args k] unfolding ends_session_def by blast
    also have "exec \<dots> w = exec (k True) w'"
      by (rule w'(1))
    finally show ?thesis
      using False by simp
  next
    case True
    then obtain msg where quit: "\<And>k. runCliCmd x e cmd args k = Out e msg (k False)"
      using runCliCmd_more [OF assms(4), of cmd e args] unfolding ends_session_def by blast
    have "returns (runCliCmd x e cmd args) w False (put_log (o_stdOut e) (munge e msg) w)"
      unfolding returns_def quit by (simp add: exec_Out [OF assms(1)])
    moreover have "returns (runCliCmd x e cmd args) w b w'"
      using w'(1) by (simp add: returns_def)
    ultimately have "b = False"
      using returns_det [of _ w b w' False] by metis
    then show ?thesis
      using w'(1) True by simp
  qed
  with w'(2,3) show ?thesis by blast
qed

text \<open>The lines of a session, run one after the other until one ends it, by the program and by the manager.\<close>

fun session :: "'f::{linorder,zero} ext \<Rightarrow> Output \<Rightarrow> (string \<times> string list) list \<Rightarrow> proc \<Rightarrow> proc" where
  "session x e [] p = p"
| "session x e ((cmd, args) # cs) p = runCliCmd x e cmd args (\<lambda>more. if more then session x e cs p else p)"

fun manager_session :: "string list \<Rightarrow> view \<Rightarrow> view" where
  "manager_session [] v = v"
| "manager_session (cmd # cs) v = (if ends_session cmd then v else manager_session cs (manager cmd v))"



end
