(* ===== verification/Spec2Isabelle.thy ===== *)
theory Spec2Isabelle
  imports Json Waiter Serializer Sortmap Manager
begin

text \<open>
  A verification development for metassh, a program that keeps SSH connections to many hosts,
  directly or through chains of bastions, runs commands on all of them at once, and is driven by a
  CLI that is itself reached over SSH.

  \<^bold>\<open>The program.\<close> All state lives in one goroutine, the serializer of \<^verbatim>\<open>state.go\<close>, which answers one
  message at a time. Each connection has a goroutine (\<^verbatim>\<open>remotehost.go\<close>) that listens on the
  connection's channel; a bastion has several on one channel. Connecting (\<^verbatim>\<open>connect.go\<close>, \<^verbatim>\<open>resolve.go\<close>,
  \<^verbatim>\<open>proxy.go\<close>), running (\<^verbatim>\<open>run.go\<close>) and disconnecting send messages to these channels and record what
  happened in the state. The commands (\<^verbatim>\<open>commands.go\<close>) call these; the server (\<^verbatim>\<open>server.go\<close>) and
  \<^verbatim>\<open>main.go\<close> call the commands. In server mode each connection also serves OpenSSH's control protocol
  on a socket (\<^verbatim>\<open>controlmux.go\<close>). All printing goes through an output with a goroutine of its own
  (\<^verbatim>\<open>output.go\<close>).

  \<^bold>\<open>Theories.\<close>
  \<^item> \<open>Prelude\<close>: Go's maps (association lists, whose order when ranged over the environment chooses),
    machine integers, errors, and the locales for maps and for transition systems with an invariant.
  \<^item> \<open>GoStrings\<close>: the functions of \<^verbatim>\<open>strings\<close>; \<open>Sortmap\<close>: \<^verbatim>\<open>sortmap.go\<close>; \<open>Config\<close>: \<^verbatim>\<open>config.go\<close>.
  \<^item> \<open>Store\<close>: the state, its messages and one turn of the serializer (\<open>handle\<close>), type safety, the
    invariant of the targets, and the independence of hosts; \<open>Serializer\<close>: the serializer as a step
    relation with the blocking sends of \<open>TimeoutWaiters\<close>; \<open>Waiter\<close>: the select between a worker, a
    timer and an abort as a step relation, with its clean-up goroutines.
  \<^item> \<open>Proc\<close>: goroutines as a datatype of effects, the world they act on, their steps, the interleaving
    of any number of them, and \<open>exec\<close>, which runs a goroutine and its children; what \<open>exec\<close> computes is
    one of the schedules. \<open>OutputIO\<close>: \<^verbatim>\<open>output.go\<close>; \<open>StateApi\<close>: the methods of the state as effects,
    and the locale \<open>host_table\<close>; \<open>Runs\<close>: functions that return.
  \<^item> \<open>MuxWire\<close> and \<open>MuxServer\<close>: the messages and the server of \<^verbatim>\<open>controlmux.go\<close>; \<open>RemoteHost\<close>:
    \<^verbatim>\<open>remotehost.go\<close> and disconnecting (\<^verbatim>\<open>connect.go\<close>); \<open>Effects\<close>, \<open>Sessions\<close>: \<^verbatim>\<open>run.go\<close>; \<open>Connect\<close>,
    \<open>Reach\<close>: \<^verbatim>\<open>connect.go\<close>, \<^verbatim>\<open>resolve.go\<close>, \<^verbatim>\<open>proxy.go\<close>; \<open>Json\<close>: \<^verbatim>\<open>json.go\<close>.
  \<^item> \<open>Summary\<close>: \<^verbatim>\<open>summary.go\<close>; \<open>Commands\<close>, \<open>CommandProofs\<close>: \<^verbatim>\<open>commands.go\<close>; \<open>SSHConfig\<close>: \<^verbatim>\<open>sshconfig.go\<close>;
    \<open>Server\<close>: \<^verbatim>\<open>server.go\<close>; \<open>MetaMain\<close>, \<open>MainProofs\<close>: \<^verbatim>\<open>main.go\<close> and \<^verbatim>\<open>signals.go\<close>; \<open>Manager\<close>: an abstract
    target manager that the CLI refines.

  \<^bold>\<open>Functions and effects.\<close> A Go function becomes a function of the same name that takes its
  continuation, so that early returns, loops and deferred functions keep their place. A function
  that returns is one that hands its result to every continuation (\<open>returns\<close>, \<open>ends\<close>); panics, exits
  and goroutines that block for ever are the other outcomes of \<open>exec\<close>. The environment (clocks,
  network, files, the order in which maps are ranged over, which listener takes a message, whether a
  timer wins) is the sequence of choices of the world: a theorem about all worlds is one about all
  environments. Theorems that speak of a run of several goroutines are about the schedule of \<open>exec\<close>;
  the theories \<open>Store\<close>, \<open>Serializer\<close> and \<open>Waiter\<close> speak of all interleavings.

  \<^bold>\<open>What is shown.\<close> End to end, \<open>main\<close> connects every server of its file and ends by itself; the CLI
  refines the target manager; disconnecting, and an interrupt, end all connections in an order in
  which no host loses its proxy; a run covers every connected host; connecting succeeds whenever the
  network does; \<open>clean\<close> and \<open>target\<close> change exactly the targets they should; private keys leave no
  file behind; the summary's counts are exact; the serializer is type safe and keeps its invariants;
  a waiting request is answered once and waiting ends; messages and sizes are read back as they
  were sent. A second group shows where the code does not do what it means to: deadlocks by repeated
  aborts and by muted outputs, panics on short messages and without a server, errors that are lost,
  and hosts that are reported wrongly.

  \<^bold>\<open>Bounds.\<close> The loops that may not end take a number of turns: lines of a CLI session, clients of
  the server, keep-alives, signals, messages of a control connection. A loop whose turns are used up
  blocks (\<open>Hang\<close>), so a theorem that a function returns says that the bound was enough, and theorems
  about loops that never end hold for every bound.

  \<^bold>\<open>Not modelled.\<close> \<^verbatim>\<open>readline.go\<close> is a binding to a C library: its functions are calls. The packages
  \<^verbatim>\<open>ssh\<close>, \<^verbatim>\<open>pflag\<close>, \<^verbatim>\<open>quantile\<close>, \<^verbatim>\<open>godaemon\<close>, \<^verbatim>\<open>pty\<close> and the JSON decoder are parameters or calls, whose
  answers the theorems quantify over; only documented behaviour of them is assumed, where it is
  named. Pauses, the capacity of slices and addresses are not modelled; floating-point numbers are
  a linearly ordered type. Of the formats without arguments, the forms \<^verbatim>\<open>%*\<close> and \<^verbatim>\<open>%[n]\<close> are treated as
  plain verbs. \<open>MakeDaemon\<close>'s answer is that of the process in which it returns.
\<close>

end
